(* ===== verification/Prelude.thy ===== *)
theory Prelude
  imports Main "HOL-Library.Finite_Map" "HOL-Library.Char_ord" "HOL-Library.List_Lexorder"
begin

text \<open>
  The shared base of the development: the types every component uses for Go values, the parts of
  the Go standard library the operator relies on for text (\<^verbatim>\<open>fmt\<close> verbs, \<^verbatim>\<open>strings.Join\<close>,
  \<^verbatim>\<open>strings.HasPrefix\<close>), and the generic lemmas on lists, finite maps and error results that the
  component theories use.

  Go strings are byte strings, so a string is a list of characters with codes below 256.  A Go
  map with string keys is a finite map; the nil map and the empty map are the same value, as are
  the nil slice and the empty slice.  A pointer that may be nil is an option.  The 32 and 64 bit
  integers of the source are only compared and printed, never added or multiplied, so they are
  unbounded integers here.
\<close>

section \<open>Types of Go values\<close>

type_synonym str_map = "(string, string) fmap"
type_synonym bytes = "char list"

text \<open>Kubernetes structures that the operator only copies from the spec into a manifest.\<close>

datatype opaque = Opaque string

section \<open>Collections\<close>

named_theorems result_simps \<open>equations that evaluate error results\<close>
named_theorems naming \<open>injectivity and distinctness of generated names\<close>

section \<open>Text\<close>

text \<open>The decimal rendering of \<^verbatim>\<open>%d\<close>.\<close>

definition digit :: "nat \<Rightarrow> char" where
  "digit n = char_of (48 + n)"

fun decimal :: "nat \<Rightarrow> string" where
  "decimal n = (if n < 10 then [digit n] else decimal (n div 10) @ [digit (n mod 10)])"

declare decimal.simps [simp del]

definition itoa :: "int \<Rightarrow> string" where
  "itoa i = (if i < 0 then CHR ''-'' # decimal (nat (- i)) else decimal (nat i))"

fun stringsJoin :: "string list \<Rightarrow> string \<Rightarrow> string" where
  "stringsJoin [] sep = []"
| "stringsJoin [x] sep = x"
| "stringsJoin (x # y # ys) sep = x @ sep @ stringsJoin (y # ys) sep"

definition hasPrefix :: "string \<Rightarrow> string \<Rightarrow> bool" where
  "hasPrefix s p \<longleftrightarrow> take (length p) s = p"

lemma hasPrefix_iff: "hasPrefix s p \<longleftrightarrow> (\<exists>t. s = p @ t)"
  unfolding hasPrefix_def by (metis append_eq_conv_conj append_take_drop_id)

subsection \<open>Decimal text determines the number\<close>

definition undecimal :: "string \<Rightarrow> nat" where
  "undecimal cs = foldl (\<lambda>a c. 10 * a + (of_char c - 48)) 0 cs"

lemma undigit: "n < 10 \<Longrightarrow> of_char (digit n) - 48 = n"
  by (simp add: digit_def)

lemma undecimal_decimal [simp]: "undecimal (decimal n) = n"
proof (induction n rule: decimal.induct)
  case (1 n)
  show ?case
  proof (cases "n < 10")
    case True
    then show ?thesis by (simp add: decimal.simps [of n] undecimal_def undigit)
  next
    case False
    then have "undecimal (decimal n) = 10 * undecimal (decimal (n div 10)) + n mod 10"
      by (simp add: decimal.simps [of n] undecimal_def undigit)
    with False "1.IH" show ?thesis by simp
  qed
qed

lemma decimal_inject [simp, naming]: "decimal m = decimal n \<longleftrightarrow> m = n"
  by (metis undecimal_decimal)

lemma decimal_not_Nil [simp]: "decimal n \<noteq> []"
  by (subst decimal.simps) simp

section \<open>Finite maps\<close>

text \<open>\<^verbatim>\<open>maps.Copy\<close> into a fresh map, twice: the second map wins.\<close>

definition mergeStringMaps :: "str_map \<Rightarrow> str_map \<Rightarrow> str_map" where
  "mergeStringMaps base extra = fmadd base extra"

lemma fmlookup_merge [simp]:
  "fmlookup (mergeStringMaps base extra) k =
     (case fmlookup extra k of Some v \<Rightarrow> Some v | None \<Rightarrow> fmlookup base k)"
  by (auto simp: mergeStringMaps_def fmdom'_notI split: option.splits)

lemma merge_empty [simp]: "mergeStringMaps fmempty m = m" "mergeStringMaps m fmempty = m"
  by (simp_all add: mergeStringMaps_def)

lemma merge_absorb [simp]: "mergeStringMaps (mergeStringMaps m n) n = mergeStringMaps m n"
  by (rule fmap_ext) (simp split: option.splits)

section \<open>Error results\<close>

definition isOk :: "'e + 'a \<Rightarrow> bool" where
  "isOk r \<longleftrightarrow> (case r of Inl _ \<Rightarrow> False | Inr _ \<Rightarrow> True)"

lemma isOk_simps [simp, result_simps]: "isOk (Inr x) = True" "isOk (Inl e) = False"
  by (simp_all add: isOk_def)

lemma isOk_iff: "isOk r \<longleftrightarrow> (\<exists>x. r = Inr x)"
  by (cases r) simp_all

section \<open>Sequencing calls that may fail\<close>

text \<open>
  A call that returns a value or an error and changes a state, followed by code that runs only when
  there was no error: the \<^verbatim>\<open>if err != nil { return err }\<close> of the source.
\<close>

definition andThen :: "('e + 'a) \<times> 's \<Rightarrow> ('a \<Rightarrow> 's \<Rightarrow> ('e + 'b) \<times> 's) \<Rightarrow> ('e + 'b) \<times> 's" where
  "andThen rs f = (case rs of (Inl e, s) \<Rightarrow> (Inl e, s) | (Inr x, s) \<Rightarrow> f x s)"

lemma andThen_simps [simp, result_simps]:
  "andThen (Inl e, s) f = (Inl e, s)" "andThen (Inr x, s) f = f x s"
  by (simp_all add: andThen_def)

lemma andThen_Inr: "andThen rs f = (Inr y, s') \<longleftrightarrow> (\<exists>x s. rs = (Inr x, s) \<and> f x s = (Inr y, s'))"
  by (auto simp: andThen_def split: prod.splits sum.splits)

lemma andThen_inv:
  assumes "\<And>x s'. rs = (Inr x, s') \<Longrightarrow> P (snd (f x s'))" and "\<And>e s'. rs = (Inl e, s') \<Longrightarrow> P s'"
  shows "P (snd (andThen rs f))"
  using assms by (auto simp: andThen_def split: prod.splits sum.splits)

text \<open>
  The same for a call that returns only an error: \<^verbatim>\<open>if err := f(); err != nil { return handle(err) }\<close>.
\<close>

definition orFail :: "'e option \<times> 's \<Rightarrow> ('e \<Rightarrow> 's \<Rightarrow> 'r) \<Rightarrow> ('s \<Rightarrow> 'r) \<Rightarrow> 'r" where
  "orFail rs handle rest = (case rs of (Some e, s) \<Rightarrow> handle e s | (None, s) \<Rightarrow> rest s)"

lemma orFail_simps [simp, result_simps]:
  "orFail (Some e, s) handle rest = handle e s" "orFail (None, s) handle rest = rest s"
  by (simp_all add: orFail_def)

lemma orFail_rule:
  assumes "\<And>e s. rs = (Some e, s) \<Longrightarrow> P (handle e s)" and "\<And>s. rs = (None, s) \<Longrightarrow> P (rest s)"
  shows "P (orFail rs handle rest)"
  using assms by (auto simp: orFail_def split: prod.splits option.splits)

lemma orFail_cases:
  assumes "orFail rs handle rest = x"
  obtains (failed) e s where "rs = (Some e, s)" "handle e s = x" | (passed) s where "rs = (None, s)" "rest s = x"
  using assms by (auto simp: orFail_def split: prod.splits option.splits)

end
