(* ===== verification/AgentTypes.thy ===== *)
theory AgentTypes
  imports Prelude
begin

text \<open>
  The custom resource of the operator, \<^verbatim>\<open>src/api/v1/hermesagent_types.go\<close>: one record per Go
  struct, one field per Go field and in the same order.  A field is named by an abbreviation of its
  struct followed by the Go name.  String types with a fixed set of documented values (pull
  policies, access modes, service types, update strategies) stay strings, as in the source.  The
  \<^verbatim>\<open>corev1\<close> and \<^verbatim>\<open>metav1\<close> structures the custom resource embeds come first, with the fields the
  operator reads; the others are carried along as opaque values.
\<close>

section \<open>Kubernetes structures embedded in the custom resource\<close>

record localObjectReference =
  lorName :: string

record keySelector =
  ksName :: string
  ksKey :: string
  ksOptional :: "bool option"

record envVarSource =
  esConfigMapKeyRef :: "keySelector option"
  esSecretKeyRef :: "keySelector option"
  esOther :: "opaque option"

record envVar =
  evName :: string
  evValue :: string
  evValueFrom :: "envVarSource option"

record envSourceRef =
  erName :: string
  erOptional :: "bool option"

record envFromSource =
  efPrefix :: string
  efConfigMapRef :: "envSourceRef option"
  efSecretRef :: "envSourceRef option"

record labelSelector =
  lsMatchLabels :: str_map
  lsMatchExpressions :: "opaque list"

record ownerReference =
  orAPIVersion :: string
  orKind :: string
  orName :: string
  orUID :: string
  orController :: "bool option"

record objectMeta =
  omName :: string
  omNamespace :: string
  omUID :: string
  omGeneration :: int
  omLabels :: str_map
  omAnnotations :: str_map
  omOwnerReferences :: "ownerReference list"

type_synonym timestamp = int

record condition =
  cdType :: string
  cdStatus :: string
  cdObservedGeneration :: int
  cdLastTransitionTime :: timestamp
  cdReason :: string
  cdMessage :: string

section \<open>The HermesAgent spec\<close>

definition DefaultHermesAgentImageRepository :: string where
  "DefaultHermesAgentImageRepository = ''ghcr.io/xmbshwll/hermes-agent-docker''"

definition DefaultHermesAgentImageTag :: string where
  "DefaultHermesAgentImageTag = ''v2026.3.30''"

record hermesAgentImageSpec =
  imRepository :: string
  imTag :: string
  imPullPolicy :: string

record hermesAgentConfigSource =
  csRaw :: string
  csConfigMapRef :: "keySelector option"
  csSecretRef :: "keySelector option"

record hermesAgentFileProjectionItem =
  piKey :: string
  piPath :: string
  piMode :: "int option"

record hermesAgentFileMountSpec =
  fmMountPath :: string
  fmConfigMapRef :: "localObjectReference option"
  fmSecretRef :: "localObjectReference option"
  fmItems :: "hermesAgentFileProjectionItem list"
  fmDefaultMode :: "int option"

record hermesAgentPersistenceSpec =
  pvEnabled :: "bool option"
  pvSize :: string
  pvStorageClassName :: "string option"
  pvAccessModes :: "string list"

record hermesAgentStorageSpec =
  stPersistence :: hermesAgentPersistenceSpec

record hermesAgentTerminalSpec =
  tmBackend :: string

record hermesAgentProbeSpec =
  prEnabled :: "bool option"
  prInitialDelaySeconds :: int
  prPeriodSeconds :: int
  prTimeoutSeconds :: int
  prFailureThreshold :: int

record hermesAgentProbesSpec =
  pbStartup :: hermesAgentProbeSpec
  pbReadiness :: hermesAgentProbeSpec
  pbLiveness :: hermesAgentProbeSpec
  pbRequireConnectedPlatform :: bool

record hermesAgentRollingUpdateStrategySpec =
  ruPartition :: "int option"

record hermesAgentUpdateStrategySpec =
  usType :: string
  usRollingUpdate :: "hermesAgentRollingUpdateStrategySpec option"

record hermesAgentServiceSpec =
  svEnabled :: bool
  svAnnotations :: str_map
  svType :: string
  svPort :: int
  svTargetPort :: int

record hermesAgentNetworkPolicyPeer =
  npCIDR :: string
  npExcept :: "string list"
  npNamespaceSelector :: "labelSelector option"
  npPodSelector :: "labelSelector option"

record hermesAgentNetworkPolicySpec =
  nwEnabled :: "bool option"
  nwDestinations :: "hermesAgentNetworkPolicyPeer list"
  nwAdditionalTCPPorts :: "int list"
  nwAdditionalUDPPorts :: "int list"

record hermesAgentSpec =
  spImage :: hermesAgentImageSpec
  spMode :: string
  spConfig :: hermesAgentConfigSource
  spGatewayConfig :: hermesAgentConfigSource
  spEnv :: "envVar list"
  spEnvFrom :: "envFromSource list"
  spSecretRefs :: "localObjectReference list"
  spFileMounts :: "hermesAgentFileMountSpec list"
  spImagePullSecrets :: "localObjectReference list"
  spPodLabels :: str_map
  spPodAnnotations :: str_map
  spServiceAccountName :: string
  spAutomountServiceAccountToken :: "bool option"
  spNodeSelector :: str_map
  spTolerations :: "opaque list"
  spAffinity :: "opaque option"
  spTopologySpreadConstraints :: "opaque list"
  spTerminationGracePeriodSeconds :: "int option"
  spReplicas :: int
  spUpdateStrategy :: hermesAgentUpdateStrategySpec
  spStorage :: hermesAgentStorageSpec
  spTerminal :: hermesAgentTerminalSpec
  spResources :: opaque
  spProbes :: hermesAgentProbesSpec
  spService :: hermesAgentServiceSpec
  spNetworkPolicy :: hermesAgentNetworkPolicySpec

section \<open>The HermesAgent status and object\<close>

record hermesAgentStatus =
  saPhase :: string
  saObservedGeneration :: int
  saImage :: string
  saConfigHash :: string
  saReadyReplicas :: int
  saPersistenceBound :: bool
  saPersistentVolumeClaimName :: string
  saPersistentVolumeClaimDriftedFields :: "string list"
  saPersistentVolumeClaimRemediation :: string
  saServiceName :: string
  saLastReconcileTime :: "timestamp option"
  saConditions :: "condition list"

record hermesAgent =
  haMeta :: objectMeta
  haSpec :: hermesAgentSpec
  haStatus :: hermesAgentStatus

abbreviation agentName :: "hermesAgent \<Rightarrow> string" where
  "agentName agent \<equiv> omName (haMeta agent)"

abbreviation agentNamespace :: "hermesAgent \<Rightarrow> string" where
  "agentNamespace agent \<equiv> omNamespace (haMeta agent)"

section \<open>Zero values\<close>

text \<open>The zero values of the Go structs, from which concrete objects are built.\<close>

definition noConfigSource :: hermesAgentConfigSource where
  "noConfigSource = \<lparr>csRaw = [], csConfigMapRef = None, csSecretRef = None\<rparr>"

definition noProbe :: hermesAgentProbeSpec where
  "noProbe = \<lparr>prEnabled = None, prInitialDelaySeconds = 0, prPeriodSeconds = 0,
     prTimeoutSeconds = 0, prFailureThreshold = 0\<rparr>"

definition zeroMeta :: objectMeta where
  "zeroMeta = \<lparr>omName = [], omNamespace = [], omUID = [], omGeneration = 0, omLabels = fmempty,
     omAnnotations = fmempty, omOwnerReferences = []\<rparr>"

definition zeroSpec :: hermesAgentSpec where
  "zeroSpec = \<lparr>spImage = \<lparr>imRepository = [], imTag = [], imPullPolicy = []\<rparr>, spMode = [],
     spConfig = noConfigSource, spGatewayConfig = noConfigSource, spEnv = [], spEnvFrom = [],
     spSecretRefs = [], spFileMounts = [], spImagePullSecrets = [], spPodLabels = fmempty,
     spPodAnnotations = fmempty, spServiceAccountName = [], spAutomountServiceAccountToken = None,
     spNodeSelector = fmempty, spTolerations = [], spAffinity = None,
     spTopologySpreadConstraints = [], spTerminationGracePeriodSeconds = None, spReplicas = 0,
     spUpdateStrategy = \<lparr>usType = [], usRollingUpdate = None\<rparr>,
     spStorage = \<lparr>stPersistence = \<lparr>pvEnabled = None, pvSize = [], pvStorageClassName = None,
       pvAccessModes = []\<rparr>\<rparr>,
     spTerminal = \<lparr>tmBackend = []\<rparr>, spResources = Opaque [],
     spProbes = \<lparr>pbStartup = noProbe, pbReadiness = noProbe, pbLiveness = noProbe,
       pbRequireConnectedPlatform = False\<rparr>,
     spService = \<lparr>svEnabled = False, svAnnotations = fmempty, svType = [], svPort = 0,
       svTargetPort = 0\<rparr>,
     spNetworkPolicy = \<lparr>nwEnabled = None, nwDestinations = [], nwAdditionalTCPPorts = [],
       nwAdditionalUDPPorts = []\<rparr>\<rparr>"

definition zeroStatus :: hermesAgentStatus where
  "zeroStatus = \<lparr>saPhase = [], saObservedGeneration = 0, saImage = [], saConfigHash = [],
     saReadyReplicas = 0, saPersistenceBound = False, saPersistentVolumeClaimName = [],
     saPersistentVolumeClaimDriftedFields = [], saPersistentVolumeClaimRemediation = [],
     saServiceName = [], saLastReconcileTime = None, saConditions = []\<rparr>"

definition zeroAgent :: hermesAgent where
  "zeroAgent = \<lparr>haMeta = zeroMeta, haSpec = zeroSpec, haStatus = zeroStatus\<rparr>"

lemmas zero_defs = noConfigSource_def noProbe_def zeroMeta_def zeroSpec_def zeroStatus_def zeroAgent_def

end
