(* ===== verification/KubeObjects.thy ===== *)
theory KubeObjects
  imports AgentTypes
begin

text \<open>
  The Kubernetes manifests the operator reads and writes, as records with the fields that
  \<^verbatim>\<open>src/internal/controller\<close> sets or reads.  Unions of which one member is set (a volume source)
  are datatypes.  A storage quantity is its numeric value.
\<close>

section \<open>Configuration and storage objects\<close>

type_synonym quantity = int

record configMap =
  cmMeta :: objectMeta
  cmData :: str_map
  cmBinaryData :: "(string, bytes) fmap"

record secret =
  seMeta :: objectMeta
  seData :: "(string, bytes) fmap"

record persistentVolumeClaimSpec =
  pcAccessModes :: "string list"
  pcRequests :: "(string, quantity) fmap"
  pcStorageClassName :: "string option"

record persistentVolumeClaim =
  pcMeta :: objectMeta
  pcSpec :: persistentVolumeClaimSpec
  pcPhase :: string

section \<open>Services, disruption budgets and network policies\<close>

datatype intOrString = FromInt32 int | FromString string

record servicePort =
  poPort :: int
  poTargetPort :: intOrString
  poProtocol :: string
  poNodePort :: int

record service =
  srvMeta :: objectMeta
  srvType :: string
  srvSelector :: str_map
  srvPorts :: "servicePort list"

record podDisruptionBudget =
  pdMeta :: objectMeta
  pdSelector :: "labelSelector option"
  pdMaxUnavailable :: "intOrString option"

record ipBlock =
  ibCIDR :: string
  ibExcept :: "string list"

record networkPolicyPeer =
  peIPBlock :: "ipBlock option"
  peNamespaceSelector :: "labelSelector option"
  pePodSelector :: "labelSelector option"

record networkPolicyPort =
  ppProtocol :: "string option"
  ppPort :: "intOrString option"

record networkPolicyEgressRule =
  egTo :: "networkPolicyPeer list"
  egPorts :: "networkPolicyPort list"

record networkPolicySpec =
  nyPodSelector :: labelSelector
  nyPolicyTypes :: "string list"
  nyEgress :: "networkPolicyEgressRule list"

record networkPolicy =
  nyMeta :: objectMeta
  nySpec :: networkPolicySpec

section \<open>Pods and StatefulSets\<close>

record keyToPath =
  kpKey :: string
  kpPath :: string
  kpMode :: "int option"

datatype volumeSource =
    ConfigMapVolume string "keyToPath list" "int option"
  | SecretVolume string "keyToPath list" "int option"
  | PersistentVolumeClaimVolume string
  | EmptyDirVolume

record volume =
  voName :: string
  voSource :: volumeSource

record volumeMount =
  vmName :: string
  vmMountPath :: string
  vmSubPath :: string
  vmReadOnly :: bool

record containerPort =
  ctName :: string
  ctContainerPort :: int
  ctProtocol :: string

record probe =
  pkExecCommand :: "string list"
  pkInitialDelaySeconds :: int
  pkPeriodSeconds :: int
  pkTimeoutSeconds :: int
  pkFailureThreshold :: int

record podSecurityContext =
  pxRunAsNonRoot :: "bool option"
  pxRunAsUser :: "int option"
  pxRunAsGroup :: "int option"
  pxFSGroup :: "int option"
  pxSeccompProfile :: "string option"

record securityContext =
  cxAllowPrivilegeEscalation :: "bool option"
  cxReadOnlyRootFilesystem :: "bool option"
  cxCapabilitiesDrop :: "string list"

record container =
  coName :: string
  coImage :: string
  coImagePullPolicy :: string
  coArgs :: "string list"
  coEnv :: "envVar list"
  coEnvFrom :: "envFromSource list"
  coPorts :: "containerPort list"
  coVolumeMounts :: "volumeMount list"
  coResources :: opaque
  coSecurityContext :: securityContext
  coStartupProbe :: "probe option"
  coReadinessProbe :: "probe option"
  coLivenessProbe :: "probe option"

record podSpec =
  psSecurityContext :: podSecurityContext
  psImagePullSecrets :: "localObjectReference list"
  psServiceAccountName :: string
  psAutomountServiceAccountToken :: "bool option"
  psNodeSelector :: str_map
  psTolerations :: "opaque list"
  psAffinity :: "opaque option"
  psTopologySpreadConstraints :: "opaque list"
  psTerminationGracePeriodSeconds :: "int option"
  psContainers :: "container list"
  psVolumes :: "volume list"

record podTemplate =
  ptLabels :: str_map
  ptAnnotations :: str_map
  ptSpec :: podSpec

record statefulSetUpdateStrategy =
  ustType :: string
  ustRollingUpdate :: "int option option"

record statefulSetSpec =
  sfReplicas :: "int option"
  sfServiceName :: string
  sfUpdateStrategy :: statefulSetUpdateStrategy
  sfSelector :: labelSelector
  sfTemplate :: podTemplate

record statefulSet =
  sfMeta :: objectMeta
  sfSpec :: statefulSetSpec
  sfReadyReplicas :: int
  sfObservedGeneration :: int

end
