(* ===== verification/Base64.thy ===== *)
theory Base64
  imports Prelude
begin

text \<open>
  Go's \<^verbatim>\<open>base64.StdEncoding\<close>, which the operator uses to fold Secret and binary ConfigMap data
  into the configuration hash and to read a Secret-backed \<^verbatim>\<open>config.yaml\<close> back out of a snapshot.
  Encoding pads with \<^verbatim>\<open>=\<close>; decoding skips carriage returns and newlines, requires padding and
  ignores the unused trailing bits, as the library's non-strict decoder does.
\<close>

section \<open>The alphabet\<close>

definition alphabet :: "nat \<Rightarrow> char" where
  "alphabet i =
     (if i < 26 then char_of (65 + i) else if i < 52 then char_of (71 + i)
      else if i < 62 then char_of (i - 4) else if i = 62 then CHR ''+'' else CHR ''/'')"

definition unalphabet :: "char \<Rightarrow> nat option" where
  "unalphabet c =
     (let n = of_char c :: nat
      in if 65 \<le> n \<and> n \<le> 90 then Some (n - 65) else if 97 \<le> n \<and> n \<le> 122 then Some (n - 71)
         else if 48 \<le> n \<and> n \<le> 57 then Some (n + 4) else if c = CHR ''+'' then Some 62
         else if c = CHR ''/'' then Some 63 else None)"

section \<open>Encoding and decoding\<close>

definition quad :: "nat \<Rightarrow> string" where
  "quad n = [alphabet (n div 262144), alphabet (n div 4096 mod 64), alphabet (n div 64 mod 64),
     alphabet (n mod 64)]"

fun encodeToString :: "bytes \<Rightarrow> string" where
  "encodeToString [] = []"
| "encodeToString [a] = take 2 (quad (65536 * of_char a)) @ ''==''"
| "encodeToString [a, b] = take 3 (quad (65536 * of_char a + 256 * of_char b)) @ ''=''"
| "encodeToString (a # b # c # cs) =
     quad (65536 * of_char a + 256 * of_char b + of_char c) @ encodeToString cs"

fun decodeQuads :: "string \<Rightarrow> bytes option" where
  "decodeQuads [] = Some []"
| "decodeQuads (w # x # y # z # rest) =
     (case (unalphabet w, unalphabet x) of
        (Some i, Some j) \<Rightarrow>
          (if y = CHR ''='' then
             (if z = CHR ''='' \<and> rest = [] then Some [char_of ((262144 * i + 4096 * j) div 65536)] else None)
           else
             (case unalphabet y of
                None \<Rightarrow> None
              | Some k \<Rightarrow>
                  (if z = CHR ''='' then
                     (if rest = [] then
                        (let n = 262144 * i + 4096 * j + 64 * k
                         in Some [char_of (n div 65536), char_of (n div 256 mod 256)])
                      else None)
                   else
                     (case unalphabet z of
                        None \<Rightarrow> None
                      | Some l \<Rightarrow>
                          (case decodeQuads rest of
                             None \<Rightarrow> None
                           | Some bs \<Rightarrow>
                               (let n = 262144 * i + 4096 * j + 64 * k + l
                                in Some (char_of (n div 65536) # char_of (n div 256 mod 256)
                                     # char_of (n mod 256) # bs)))))))
      | _ \<Rightarrow> None)"
| "decodeQuads _ = None"

definition decodeString :: "string \<Rightarrow> bytes option" where
  "decodeString s = decodeQuads (filter (\<lambda>c. c \<noteq> CHR 0x0A \<and> c \<noteq> CHR 0x0D) s)"

section \<open>Round trip\<close>

lemma char_code_eq: "c = d \<longleftrightarrow> of_char c = (of_char d :: nat)"
  by simp

lemma alphabet_code:
  "i < 64 \<Longrightarrow> of_char (alphabet i) =
     (if i < 26 then 65 + i else if i < 52 then 71 + i else if i < 62 then i - 4
      else if i = 62 then 43 else (47 :: nat))"
  by (auto simp: alphabet_def)

lemma alphabet_special:
  "i < 64 \<Longrightarrow> alphabet i = CHR ''+'' \<longleftrightarrow> i = 62" "i < 64 \<Longrightarrow> alphabet i = CHR ''/'' \<longleftrightarrow> i = 63"
  by (simp_all only: char_code_eq alphabet_code) auto

lemma unalphabet_alphabet [simp]: "i < 64 \<Longrightarrow> unalphabet (alphabet i) = Some i"
  by (auto simp: unalphabet_def alphabet_code alphabet_special Let_def)

lemma alphabet_printable [simp]:
  assumes "i < 64"
  shows "alphabet i \<noteq> CHR ''=''" "alphabet i \<noteq> CHR 0x0A" "alphabet i \<noteq> CHR 0x0D"
  using assms by (simp_all only: char_code_eq alphabet_code) auto

lemma quad_bounds [simp]:
  "n < 16777216 \<Longrightarrow> n div 262144 < (64 :: nat)" "n div 4096 mod 64 < (64 :: nat)"
  "n div 64 mod 64 < (64 :: nat)" "n mod 64 < (64 :: nat)"
  by auto

lemma quad_sum:
  fixes n :: nat
  shows "n = 64 * q + r \<Longrightarrow> q = 64 * q' + r' \<Longrightarrow> q' = 64 * q'' + r'' \<Longrightarrow>
    262144 * q'' + 4096 * r'' + 64 * r' + r = n"
  by simp

lemma quad_value:
  fixes n :: nat
  shows "262144 * (n div 262144) + 4096 * (n div 4096 mod 64) + 64 * (n div 64 mod 64) + n mod 64 = n"
proof -
  have div: "n div 4096 = n div 64 div 64" "n div 262144 = n div 64 div 64 div 64"
    by (simp_all flip: div_mult2_eq)
  show ?thesis
    unfolding div by (rule quad_sum [OF mult_div_mod_eq [symmetric] mult_div_mod_eq [symmetric]
      mult_div_mod_eq [symmetric]])
qed

lemma bytes_of_value:
  fixes a b c :: nat
  assumes "b < 256" and "c < 256"
  shows "(65536 * a + 256 * b + c) div 65536 = a" "(65536 * a + 256 * b + c) div 256 mod 256 = b"
    "(65536 * a + 256 * b + c) mod 256 = c"
proof -
  have "(65536 * a + 256 * b + c) div 256 = 256 * a + b" using assms by auto
  moreover have "(65536 * a + 256 * b + c) div 65536 = (65536 * a + 256 * b + c) div 256 div 256"
    by (simp flip: div_mult2_eq)
  ultimately show "(65536 * a + 256 * b + c) div 65536 = a"
    "(65536 * a + 256 * b + c) div 256 mod 256 = b" "(65536 * a + 256 * b + c) mod 256 = c"
    using assms mod_mult_self3 [of "256 * a + b" 256 c] by (auto simp: algebra_simps)
qed

text \<open>One padded or full group of four characters, for any group value below \<open>2^24\<close>.\<close>

lemma decode_group3:
  "n < 16777216 \<Longrightarrow> decodeQuads (quad n @ s) =
     map_option (\<lambda>bs. char_of (n div 65536) # char_of (n div 256 mod 256) # char_of (n mod 256) # bs)
       (decodeQuads s)"
  by (simp add: quad_def quad_value Let_def split: option.splits)

lemma decode_group2:
  "n < 16777216 \<Longrightarrow> n mod 64 = 0 \<Longrightarrow>
     decodeQuads (take 3 (quad n) @ ''='') = Some [char_of (n div 65536), char_of (n div 256 mod 256)]"
  using quad_value [of n] by (simp add: quad_def Let_def)

lemma decode_group1:
  "n < 16777216 \<Longrightarrow> n mod 64 = 0 \<Longrightarrow> n div 64 mod 64 = 0 \<Longrightarrow>
     decodeQuads (take 2 (quad n) @ ''=='') = Some [char_of (n div 65536)]"
  using quad_value [of n] by (simp add: quad_def)

lemma group_bound: "65536 * of_char (a :: char) + 256 * of_char (b :: char) + of_char (c :: char) < (16777216 :: nat)"
  using nat_of_char_less_256 [of a] nat_of_char_less_256 [of b] nat_of_char_less_256 [of c] by linarith

lemma group_bytes:
  "(65536 * of_char a + 256 * of_char b + of_char c) div 65536 = (of_char (a :: char) :: nat)"
  "(65536 * of_char a + 256 * of_char b + of_char c) div 256 mod 256 = (of_char (b :: char) :: nat)"
  "(65536 * of_char a + 256 * of_char b + of_char c) mod 256 = (of_char (c :: char) :: nat)"
  by (rule bytes_of_value; rule nat_of_char_less_256)+

theorem decode_encode: "decodeQuads (encodeToString bs) = Some bs"
proof (induction bs rule: encodeToString.induct)
  case (2 a)
  have "65536 * of_char a < (16777216 :: nat)" "65536 * of_char a div 65536 = (of_char a :: nat)"
    using nat_of_char_less_256 [of a] by simp_all
  then show ?case
    using decode_group1 [of "65536 * of_char a"] by (simp add: mod_mult_eq)
next
  case (3 a b)
  have "65536 * of_char a + 256 * of_char b < (16777216 :: nat)"
    using nat_of_char_less_256 [of a] nat_of_char_less_256 [of b] by linarith
  moreover have "(65536 * of_char a + 256 * of_char b) mod 64 = (0 :: nat)" by presburger
  moreover have "(65536 * of_char a + 256 * of_char b) div 65536 = (of_char a :: nat)"
    "(65536 * of_char a + 256 * of_char b) div 256 mod 256 = (of_char b :: nat)"
    using bytes_of_value [of "of_char b" 0 "of_char a"] by simp_all
  ultimately show ?case
    using decode_group2 [of "65536 * of_char a + 256 * of_char b"] by simp
next
  case (4 a b c cs)
  then show ?case
    using group_bytes [of a b c] by (simp only: encodeToString.simps decode_group3 [OF group_bound]) simp
qed simp

lemma quad_printable:
  "n < 16777216 \<Longrightarrow> list_all (\<lambda>c. c \<noteq> CHR 0x0A \<and> c \<noteq> CHR 0x0D) (quad n)"
  by (simp add: quad_def)

lemma encode_printable: "list_all (\<lambda>c. c \<noteq> CHR 0x0A \<and> c \<noteq> CHR 0x0D) (encodeToString bs)"
proof (induction bs rule: encodeToString.induct)
  case (2 a)
  have "65536 * of_char a < (16777216 :: nat)"
    using nat_of_char_less_256 [of a] by simp
  from quad_printable [OF this] show ?case by (auto simp: list_all_iff dest: in_set_takeD)
next
  case (3 a b)
  have "65536 * of_char a + 256 * of_char b < (16777216 :: nat)"
    using nat_of_char_less_256 [of a] nat_of_char_less_256 [of b] by linarith
  from quad_printable [OF this] show ?case by (auto simp: list_all_iff dest: in_set_takeD)
next
  case (4 a b c cs)
  with quad_printable [OF group_bound [of a b c]] show ?case by simp
qed simp

lemma decodeString_encode [simp]: "decodeString (encodeToString bs) = Some bs"
proof -
  have "filter (\<lambda>c. c \<noteq> CHR 0x0A \<and> c \<noteq> CHR 0x0D) (encodeToString bs) = encodeToString bs"
    using encode_printable [of bs] by (intro filter_True) (simp add: list_all_iff)
  then show ?thesis by (simp only: decodeString_def decode_encode)
qed

lemma encodeToString_inject [simp]: "encodeToString a = encodeToString b \<longleftrightarrow> a = b"
  by (metis decode_encode option.inject)

end
