(* ===== verification/Snapshots.thy ===== *)
theory Snapshots
  imports KubeObjects Base64
begin

text \<open>
  Snapshots of the ConfigMaps and Secrets a HermesAgent refers to
  (\<^verbatim>\<open>src/internal/controller/hermesagent_resources.go\<close>) and the messages about missing ones
  (\<^verbatim>\<open>missingReferenceMessages\<close> of \<^verbatim>\<open>hermesagent_controller.go\<close>).  A snapshot records whether the
  object and the selected keys exist and the selected data, encoded in base64 where it is binary; it
  becomes part of the configuration hash.
\<close>

section \<open>Snapshot records\<close>

record referencedObjectSnapshot =
  roKind :: string
  roName :: string
  roKey :: string
  roOptional :: bool
  roPresent :: bool
  roKeyFound :: bool
  roMissingKeys :: "string list"
  roData :: str_map

record referencedInputState =
  riFileRefs :: "referencedObjectSnapshot list"
  riFileMountRefs :: "referencedObjectSnapshot list"
  riEnvValueRefs :: "referencedObjectSnapshot list"
  riEnvFrom :: "referencedObjectSnapshot list"
  riSecretRefs :: "referencedObjectSnapshot list"

definition emptyInputs :: referencedInputState where
  "emptyInputs = \<lparr>riFileRefs = [], riFileMountRefs = [], riEnvValueRefs = [], riEnvFrom = [],
     riSecretRefs = []\<rparr>"

definition optionalValue :: "bool option \<Rightarrow> bool" where
  "optionalValue value = (case value of None \<Rightarrow> False | Some b \<Rightarrow> b)"

section \<open>Reading objects\<close>

definition configMapFileValue :: "configMap \<Rightarrow> string \<Rightarrow> string option" where
  "configMapFileValue cm key =
     (case fmlookup (cmData cm) key of
        Some value \<Rightarrow> Some value
      | None \<Rightarrow> map_option encodeToString (fmlookup (cmBinaryData cm) key))"

definition secretFileValue :: "secret \<Rightarrow> string \<Rightarrow> string option" where
  "secretFileValue se key = map_option encodeToString (fmlookup (seData se) key)"

definition copyStringMap :: "str_map \<Rightarrow> str_map" where
  "copyStringMap values = (if values = fmempty then fmempty else values)"

definition encodeSecretData :: "(string, bytes) fmap \<Rightarrow> str_map" where
  "encodeSecretData values = (if values = fmempty then fmempty else fmmap encodeToString values)"

definition copyConfigMapData :: "configMap \<Rightarrow> str_map" where
  "copyConfigMapData cm =
     (let values = copyStringMap (cmData cm)
      in if cmBinaryData cm = fmempty then values
         else fmadd values (fmmap encodeToString (cmBinaryData cm)))"

section \<open>Making snapshots\<close>

definition blankSnapshot :: "string \<Rightarrow> string \<Rightarrow> string \<Rightarrow> bool \<Rightarrow> bool \<Rightarrow> referencedObjectSnapshot" where
  "blankSnapshot kind name key opt present =
     \<lparr>roKind = kind, roName = name, roKey = key, roOptional = opt, roPresent = present,
      roKeyFound = False, roMissingKeys = [], roData = fmempty\<rparr>"

definition keySnapshot ::
  "string \<Rightarrow> string \<Rightarrow> string \<Rightarrow> bool \<Rightarrow> ('o \<Rightarrow> string \<Rightarrow> string option) \<Rightarrow> 'o option \<Rightarrow> referencedObjectSnapshot" where
  "keySnapshot kind name key opt value obj =
     (let snapshot = blankSnapshot kind name key opt (obj \<noteq> None)
      in case obj of
           None \<Rightarrow> snapshot
         | Some ob \<Rightarrow>
             (case value ob key of
                None \<Rightarrow> snapshot
              | Some v \<Rightarrow> snapshot\<lparr>roKeyFound := True, roData := fmupd key v fmempty\<rparr>))"

definition newConfigMapKeySnapshot ::
  "string \<Rightarrow> string \<Rightarrow> bool \<Rightarrow> configMap option \<Rightarrow> referencedObjectSnapshot" where
  "newConfigMapKeySnapshot name key opt cm = keySnapshot ''ConfigMap'' name key opt configMapFileValue cm"

definition newConfigMapFileSnapshot :: "string \<Rightarrow> string \<Rightarrow> configMap option \<Rightarrow> referencedObjectSnapshot" where
  "newConfigMapFileSnapshot name key cm = keySnapshot ''ConfigMap'' name key False configMapFileValue cm"

definition newSecretKeySnapshot ::
  "string \<Rightarrow> string \<Rightarrow> bool \<Rightarrow> secret option \<Rightarrow> referencedObjectSnapshot" where
  "newSecretKeySnapshot name key opt se = keySnapshot ''Secret'' name key opt secretFileValue se"

definition newSecretFileSnapshot :: "string \<Rightarrow> string \<Rightarrow> secret option \<Rightarrow> referencedObjectSnapshot" where
  "newSecretFileSnapshot name key se = newSecretKeySnapshot name key False se"

definition newConfigMapEnvFromSnapshot :: "string \<Rightarrow> bool \<Rightarrow> configMap option \<Rightarrow> referencedObjectSnapshot" where
  "newConfigMapEnvFromSnapshot name opt cm =
     (let snapshot = blankSnapshot ''ConfigMap'' name [] opt (cm \<noteq> None)
      in case cm of None \<Rightarrow> snapshot | Some c \<Rightarrow> snapshot\<lparr>roData := copyConfigMapData c\<rparr>)"

definition newSecretSnapshot :: "string \<Rightarrow> bool \<Rightarrow> secret option \<Rightarrow> referencedObjectSnapshot" where
  "newSecretSnapshot name opt se =
     (let snapshot = blankSnapshot ''Secret'' name [] opt (se \<noteq> None)
      in case se of None \<Rightarrow> snapshot | Some s \<Rightarrow> snapshot\<lparr>roData := encodeSecretData (seData s)\<rparr>)"

text \<open>The loop over the selected items of a file mount.\<close>

fun projectItems ::
  "(string \<Rightarrow> string option) \<Rightarrow> hermesAgentFileProjectionItem list \<Rightarrow> referencedObjectSnapshot \<Rightarrow> referencedObjectSnapshot" where
  "projectItems value [] snapshot = snapshot"
| "projectItems value (item # items) snapshot =
     (case value (piKey item) of
        None \<Rightarrow>
          projectItems value items
            (snapshot\<lparr>roKeyFound := False, roMissingKeys := roMissingKeys snapshot @ [piKey item]\<rparr>)
      | Some v \<Rightarrow>
          projectItems value items (snapshot\<lparr>roData := fmupd (piKey item) v (roData snapshot)\<rparr>))"

definition projectionSnapshot ::
  "string \<Rightarrow> string \<Rightarrow> hermesAgentFileProjectionItem list \<Rightarrow> ('o \<Rightarrow> string \<Rightarrow> string option) \<Rightarrow> ('o \<Rightarrow> str_map) \<Rightarrow> 'o option \<Rightarrow> referencedObjectSnapshot" where
  "projectionSnapshot kind name items value whole obj =
     (let snapshot = blankSnapshot kind name [] False (obj \<noteq> None)
      in case obj of
           None \<Rightarrow> snapshot
         | Some ob \<Rightarrow>
             (if items = [] then snapshot\<lparr>roData := whole ob\<rparr>
              else projectItems (value ob) items (snapshot\<lparr>roKeyFound := True\<rparr>)))"

definition newConfigMapProjectionSnapshot ::
  "string \<Rightarrow> hermesAgentFileProjectionItem list \<Rightarrow> configMap option \<Rightarrow> referencedObjectSnapshot" where
  "newConfigMapProjectionSnapshot name items cm =
     projectionSnapshot ''ConfigMap'' name items configMapFileValue copyConfigMapData cm"

definition newSecretProjectionSnapshot ::
  "string \<Rightarrow> hermesAgentFileProjectionItem list \<Rightarrow> secret option \<Rightarrow> referencedObjectSnapshot" where
  "newSecretProjectionSnapshot name items se =
     projectionSnapshot ''Secret'' name items secretFileValue (\<lambda>s. encodeSecretData (seData s)) se"

section \<open>Missing references\<close>

definition missingKeyMessage :: "referencedObjectSnapshot \<Rightarrow> string \<Rightarrow> string" where
  "missingKeyMessage s key = roKind s @ '' '' @ roName s @ '' is missing key '' @ key"

definition appendMessages :: "referencedObjectSnapshot \<Rightarrow> string list" where
  "appendMessages s =
     (if roOptional s \<and> \<not> roPresent s then []
      else if roPresent s \<and> roKeyFound s then []
      else if \<not> roPresent s then [roKind s @ '' '' @ roName s @ '' was not found'']
      else if roOptional s \<and> roKey s \<noteq> [] \<and> \<not> roKeyFound s then []
      else (if roKey s \<noteq> [] \<and> \<not> roKeyFound s then [missingKeyMessage s (roKey s)] else [])
             @ map (missingKeyMessage s) (roMissingKeys s))"

definition missingReferenceMessages :: "referencedInputState \<Rightarrow> string list" where
  "missingReferenceMessages ri =
     concat (map appendMessages (riFileRefs ri)) @ concat (map appendMessages (riFileMountRefs ri)) @
     concat (map appendMessages (riEnvValueRefs ri)) @ concat (map appendMessages (riEnvFrom ri)) @
     concat (map appendMessages (riSecretRefs ri))"

definition joinMessages :: "string list \<Rightarrow> string" where
  "joinMessages messages = stringsJoin messages ''; ''"

section \<open>What a snapshot records\<close>

lemma projectItems_frame [simp]:
  "roKind (projectItems value items s) = roKind s" "roName (projectItems value items s) = roName s"
  "roKey (projectItems value items s) = roKey s" "roOptional (projectItems value items s) = roOptional s"
  "roPresent (projectItems value items s) = roPresent s"
  by (induction items arbitrary: s) (simp_all split: option.splits)

lemma projectItems_keys [simp]:
  "roKeyFound (projectItems value items s) \<longleftrightarrow>
     roKeyFound s \<and> list_all (\<lambda>i. value (piKey i) \<noteq> None) items"
  "roMissingKeys (projectItems value items s) =
     roMissingKeys s @ filter (\<lambda>k. value k = None) (map piKey items)"
  by (induction items arbitrary: s) (auto split: option.splits)

lemma projectItems_data [simp]:
  "fmlookup (roData (projectItems value items s)) k =
     (if k \<in> piKey ` set items \<and> value k \<noteq> None then value k else fmlookup (roData s) k)"
  by (induction items arbitrary: s) (auto split: option.splits)

lemma projectItems_cong:
  "list_all (\<lambda>i. value (piKey i) = value' (piKey i)) items \<Longrightarrow>
     projectItems value items s = projectItems value' items s"
  by (induction items arbitrary: s) (auto split: option.splits)

subsection \<open>The interface of a referenced kind of object\<close>

text \<open>
  ConfigMaps and Secrets are read through the same three operations: a kind name, the encoded value
  stored under a key, and the whole encoded data.  The laws say that the value of a key is read
  faithfully: \<open>raw\<close> is what the object stores under the key and determines the encoded value, and
  the whole data holds the value of every key of a well-formed object.
\<close>

locale referenced_kind =
  fixes wf :: "'o \<Rightarrow> bool"
    and raw :: "'o \<Rightarrow> string \<Rightarrow> 'v option"
    and encode :: "'v \<Rightarrow> string"
    and getValue :: "'o \<Rightarrow> string \<Rightarrow> string option"
    and whole :: "'o \<Rightarrow> str_map"
  assumes value_raw: "getValue ob key = map_option encode (raw ob key)"
    and whole_value: "wf ob \<Longrightarrow> fmlookup (whole ob) key = getValue ob key"
begin

lemma key_messages:
  "key \<noteq> [] \<Longrightarrow> appendMessages (keySnapshot kind name key opt getValue obj) = [] \<longleftrightarrow>
     opt \<or> (case obj of None \<Rightarrow> False | Some ob \<Rightarrow> raw ob key \<noteq> None)"
  by (auto simp: keySnapshot_def blankSnapshot_def appendMessages_def value_raw Let_def
      split: option.splits)

lemma projection_messages:
  "appendMessages (projectionSnapshot kind name items getValue whole obj) = [] \<longleftrightarrow>
     (case obj of None \<Rightarrow> False | Some ob \<Rightarrow> list_all (\<lambda>i. raw ob (piKey i) \<noteq> None) items)"
  by (auto simp: projectionSnapshot_def blankSnapshot_def appendMessages_def value_raw Let_def
      filter_empty_conv list_all_iff split: option.splits if_splits)

lemma projection_data:
  "items \<noteq> [] \<Longrightarrow>
     fmlookup (roData (projectionSnapshot kind name items getValue whole (Some ob))) key =
       (if key \<in> piKey ` set items then getValue ob key else None)"
  by (auto simp: projectionSnapshot_def blankSnapshot_def Let_def)

lemma projection_eq_iff:
  assumes "items \<noteq> []"
  shows "projectionSnapshot kind name items getValue whole (Some ob) =
           projectionSnapshot kind name items getValue whole (Some ob') \<longleftrightarrow>
         list_all (\<lambda>i. getValue ob (piKey i) = getValue ob' (piKey i)) items" (is "?l = ?r \<longleftrightarrow> _")
proof
  assume eq: "?l = ?r"
  have "getValue ob key = getValue ob' key" if "key \<in> piKey ` set items" for key
    using projection_data [OF assms, of kind name ob key] projection_data [OF assms, of kind name ob' key]
      that eq by simp
  then show "list_all (\<lambda>i. getValue ob (piKey i) = getValue ob' (piKey i)) items"
    by (simp add: list_all_iff)
next
  assume "list_all (\<lambda>i. getValue ob (piKey i) = getValue ob' (piKey i)) items"
  then show "?l = ?r"
    using assms by (simp add: projectionSnapshot_def projectItems_cong [of "getValue ob"])
qed

lemma whole_projection_eq:
  "wf ob \<Longrightarrow> wf ob' \<Longrightarrow>
     projectionSnapshot kind name [] getValue whole (Some ob) =
       projectionSnapshot kind name [] getValue whole (Some ob') \<longleftrightarrow> (\<forall>key. getValue ob key = getValue ob' key)"
  by (auto simp: projectionSnapshot_def blankSnapshot_def simp flip: whole_value intro: fmap_ext)

lemma key_eq_iff:
  "keySnapshot kind name key opt getValue (Some ob) = keySnapshot kind name key opt getValue (Some ob')
     \<longleftrightarrow> getValue ob key = getValue ob' key"
proof
  assume "keySnapshot kind name key opt getValue (Some ob) = keySnapshot kind name key opt getValue (Some ob')"
  then have "fmlookup (roData (keySnapshot kind name key opt getValue (Some ob))) key =
      fmlookup (roData (keySnapshot kind name key opt getValue (Some ob'))) key" by simp
  then show "getValue ob key = getValue ob' key"
    by (simp add: keySnapshot_def blankSnapshot_def Let_def split: option.splits)
qed (simp add: keySnapshot_def)

end

text \<open>
  What a ConfigMap stores under a key is a text or binary data; a Secret stores bytes, and their
  encoding is injective.
\<close>

datatype configMapValue = TextValue string | BinaryValue bytes

definition configMapRaw :: "configMap \<Rightarrow> string \<Rightarrow> configMapValue option" where
  "configMapRaw cm key =
     (case fmlookup (cmData cm) key of
        Some v \<Rightarrow> Some (TextValue v)
      | None \<Rightarrow> map_option BinaryValue (fmlookup (cmBinaryData cm) key))"

fun encodeConfigMapValue :: "configMapValue \<Rightarrow> string" where
  "encodeConfigMapValue (TextValue v) = v"
| "encodeConfigMapValue (BinaryValue bs) = encodeToString bs"

definition disjointKeys :: "configMap \<Rightarrow> bool" where
  "disjointKeys cm \<longleftrightarrow> fmdom (cmData cm) |\<inter>| fmdom (cmBinaryData cm) = {||}"

lemma disjointKeysD:
  "disjointKeys cm \<Longrightarrow> fmlookup (cmBinaryData cm) key = Some v \<Longrightarrow> fmlookup (cmData cm) key = None"
  unfolding disjointKeys_def by (metis finterI fempty_iff fmdomI fmdom_notD)

interpretation configMaps: referenced_kind disjointKeys configMapRaw encodeConfigMapValue
  configMapFileValue copyConfigMapData
proof
  show "configMapFileValue cm key = map_option encodeConfigMapValue (configMapRaw cm key)" for cm key
    by (simp add: configMapFileValue_def configMapRaw_def option.map_comp comp_def split: option.splits)
  show "disjointKeys cm \<Longrightarrow> fmlookup (copyConfigMapData cm) key = configMapFileValue cm key" for cm key
    by (cases "fmlookup (cmBinaryData cm) key")
      (auto simp: copyConfigMapData_def copyStringMap_def configMapFileValue_def Let_def fmdomI
        dest: disjointKeysD split: option.splits)
qed

interpretation secrets: referenced_kind "\<lambda>_. True" "\<lambda>se. fmlookup (seData se)" encodeToString
  secretFileValue "\<lambda>se. encodeSecretData (seData se)"
  by unfold_locales (simp_all add: secretFileValue_def encodeSecretData_def)

lemma secretFileValue_eq [simp]:
  "secretFileValue se key = secretFileValue se' key' \<longleftrightarrow>
     fmlookup (seData se) key = fmlookup (seData se') key'"
  by (cases "fmlookup (seData se) key"; cases "fmlookup (seData se') key'")
    (simp_all add: secretFileValue_def)

lemma secret_projection_iff:
  "newSecretProjectionSnapshot name items (Some se) = newSecretProjectionSnapshot name items (Some se') \<longleftrightarrow>
     (if items = [] then seData se = seData se'
      else list_all (\<lambda>i. fmlookup (seData se) (piKey i) = fmlookup (seData se') (piKey i)) items)"
proof (cases "items = []")
  case True
  have "newSecretProjectionSnapshot name [] (Some se) = newSecretProjectionSnapshot name [] (Some se') \<longleftrightarrow>
      (\<forall>key. secretFileValue se key = secretFileValue se' key)"
    unfolding newSecretProjectionSnapshot_def by (rule secrets.whole_projection_eq) simp_all
  with True show ?thesis by (auto intro: fmap_ext)
next
  case False
  then show ?thesis
    unfolding newSecretProjectionSnapshot_def by (simp add: secrets.projection_eq_iff)
qed

section \<open>Properties\<close>

text \<open>\<^bold>\<open>C35.\<close> The snapshot of a mounted Secret is exactly as fine as what the pod sees: two versions of a Secret
  have the same snapshot when the selected keys, or all keys when nothing is selected, hold the same
  bytes, and different ones otherwise.  So the configuration payload changes when and only when the
  mounted files change.\<close>

theorem secret_projection_exact:
  "newSecretProjectionSnapshot name items (Some se) = newSecretProjectionSnapshot name items (Some se') \<longleftrightarrow>
     (if items = [] then seData se = seData se'
      else list_all (\<lambda>i. fmlookup (seData se) (piKey i) = fmlookup (seData se') (piKey i)) items)"
  by (rule secret_projection_iff)

text \<open>
  A ConfigMap snapshot does not tell text from binary data: a text entry with the base64 form of some bytes
  and a binary entry with these bytes give the same snapshot, though the mounted files differ.
\<close>

lemma text_and_binary_collide:
  "newConfigMapFileSnapshot name key (Some \<lparr>cmMeta = m, cmData = fmupd key (encodeToString bs) fmempty, cmBinaryData = fmempty\<rparr>) =
   newConfigMapFileSnapshot name key (Some \<lparr>cmMeta = m, cmData = fmempty, cmBinaryData = fmupd key bs fmempty\<rparr>)"
  by (simp add: newConfigMapFileSnapshot_def keySnapshot_def configMapFileValue_def)

end
