(* ===== verification/GoPath.thy ===== *)
theory GoPath
  imports Prelude
begin

text \<open>
  Go's package \<^verbatim>\<open>path\<close> on byte strings, as far as the operator uses it: \<^verbatim>\<open>path.IsAbs\<close>,
  \<^verbatim>\<open>path.Clean\<close> and \<^verbatim>\<open>path.Join\<close>.  \<^verbatim>\<open>path.Clean\<close> is the library's single pass over the bytes: the
  rest of the input, the output written so far and the length \<open>dotdot\<close> of the output below which a
  \<^verbatim>\<open>..\<close> may not backtrack.  The lemmas relate it to the segments between slashes.
\<close>

section \<open>The library functions\<close>

definition isAbs :: "string \<Rightarrow> bool" where
  "isAbs p \<longleftrightarrow> (case p of [] \<Rightarrow> False | c # _ \<Rightarrow> c = CHR ''/'')"

text \<open>Dropping the last output element: back to the previous slash, not below \<open>dotdot\<close>.\<close>

fun backtrack :: "nat \<Rightarrow> nat \<Rightarrow> string \<Rightarrow> nat" where
  "backtrack 0 dotdot out = 0"
| "backtrack (Suc w) dotdot out =
     (if w > dotdot \<and> out ! w \<noteq> CHR ''/'' then backtrack w dotdot out else w)"

declare backtrack.simps [simp del]

function cleanLoop :: "bool \<Rightarrow> string \<Rightarrow> string \<Rightarrow> nat \<Rightarrow> string" where
  "cleanLoop rooted [] out dotdot = out"
| "cleanLoop rooted (c # cs) out dotdot =
     (if c = CHR ''/'' then cleanLoop rooted cs out dotdot
      else if c = CHR ''.'' \<and> (cs = [] \<or> hd cs = CHR ''/'') then cleanLoop rooted cs out dotdot
      else if c = CHR ''.'' \<and> hd cs = CHR ''.'' \<and> (tl cs = [] \<or> hd (tl cs) = CHR ''/'') then
        (if length out > dotdot then
           cleanLoop rooted (tl cs) (take (backtrack (length out) dotdot out) out) dotdot
         else if \<not> rooted then
           (let out' = (if out \<noteq> [] then out @ ''/'' else out) @ ''..''
            in cleanLoop rooted (tl cs) out' (length out'))
         else cleanLoop rooted (tl cs) out dotdot)
      else
        (let out' = (if (rooted \<and> length out \<noteq> 1) \<or> (\<not> rooted \<and> out \<noteq> []) then out @ ''/'' else out)
         in cleanLoop rooted (dropWhile (\<lambda>x. x \<noteq> CHR ''/'') (c # cs))
              (out' @ takeWhile (\<lambda>x. x \<noteq> CHR ''/'') (c # cs)) dotdot))"
  by pat_completeness auto

termination
  by (relation "measure (\<lambda>(rooted, p, out, dotdot). length p)")
    (auto simp: le_imp_less_Suc length_dropWhile_le)

definition pathClean :: "string \<Rightarrow> string" where
  "pathClean p =
     (if p = [] then ''.''
      else
        (let out = (if isAbs p then cleanLoop True (tl p) ''/'' 1 else cleanLoop False p [] 0)
         in if out = [] then ''.'' else out))"

text \<open>\<^verbatim>\<open>path.Join\<close>: empty elements are ignored, the rest is joined and cleaned.\<close>

definition pathJoin :: "string list \<Rightarrow> string" where
  "pathJoin es =
     (let ne = filter (\<lambda>e. e \<noteq> []) es
      in if ne = [] then [] else pathClean (stringsJoin ne ''/''))"

section \<open>A segment-wise reference definition\<close>

text \<open>
  The reference keeps a stack of path elements: empty elements and \<^verbatim>\<open>.\<close> are dropped, \<^verbatim>\<open>..\<close> removes
  the last proper element, stays at the front of a relative path and vanishes at the root.
\<close>

abbreviation notSlash :: "char \<Rightarrow> bool" where
  "notSlash c \<equiv> c \<noteq> CHR ''/''"

fun segments :: "string \<Rightarrow> string list" where
  "segments [] = [[]]"
| "segments (c # cs) =
     (if c = CHR ''/'' then [] # segments cs
      else (case segments cs of [] \<Rightarrow> [[c]] | s # ss \<Rightarrow> (c # s) # ss))"

definition normalSegment :: "string \<Rightarrow> bool" where
  "normalSegment s \<longleftrightarrow> s \<noteq> [] \<and> s \<noteq> ''.'' \<and> s \<noteq> ''..'' \<and> list_all notSlash s"

definition pushSegment :: "bool \<Rightarrow> string \<Rightarrow> string list \<Rightarrow> string list" where
  "pushSegment rooted s st =
     (if s = [] \<or> s = ''.'' then st
      else if s = ''..'' then
        (if st \<noteq> [] \<and> last st \<noteq> ''..'' then butlast st else if rooted then st else st @ [''..''])
      else st @ [s])"

definition showStack :: "bool \<Rightarrow> string list \<Rightarrow> string" where
  "showStack rooted st = (if rooted then ''/'' else []) @ stringsJoin st ''/''"

definition cleanRef :: "string \<Rightarrow> string" where
  "cleanRef p =
     (let out = showStack (isAbs p) (fold (pushSegment (isAbs p)) (segments p) [])
      in if out = [] then ''.'' else out)"

subsection \<open>Segments\<close>

lemma segments_not_Nil [simp]: "segments p \<noteq> []"
  by (induction p) (auto split: list.splits)

lemma segments_noslash: "s \<in> set (segments p) \<Longrightarrow> list_all notSlash s"
  by (induction p arbitrary: s) (auto split: list.splits if_splits)

lemma segments_single: "list_all notSlash s \<Longrightarrow> segments s = [s]"
  by (induction s) auto

lemma segments_append_slash:
  "list_all notSlash s \<Longrightarrow> segments (s @ CHR ''/'' # p) = s # segments p"
  by (induction s) auto

lemma segments_take_drop:
  "segments p = takeWhile notSlash p #
     (case dropWhile notSlash p of [] \<Rightarrow> [] | _ # q \<Rightarrow> segments q)"
  by (induction p) (auto split: list.splits)

lemma stringsJoin_segments: "stringsJoin (segments p) ''/'' = p"
proof (induction p)
  case (Cons c cs)
  then show ?case
    by (cases "segments cs" rule: list.exhaust; cases "tl (segments cs)") auto
qed simp

lemma segments_stringsJoin:
  "st \<noteq> [] \<Longrightarrow> list_all (list_all notSlash) st \<Longrightarrow> segments (stringsJoin st ''/'') = st"
proof (induction st rule: list_nonempty_induct)
  case (cons x xs)
  then show ?case by (cases xs) (auto simp: segments_append_slash)
qed (simp add: segments_single)

lemma stringsJoin_snoc:
  "stringsJoin (st @ [x]) sep = (if st = [] then x else stringsJoin st sep @ sep @ x)"
  by (induction st sep rule: stringsJoin.induct) auto

lemma stringsJoin_eq_Nil:
  "list_all (\<lambda>s. s \<noteq> []) st \<Longrightarrow> stringsJoin st sep = [] \<longleftrightarrow> st = []"
  by (induction st sep rule: stringsJoin.induct) auto

subsection \<open>The byte loop computes the reference\<close>

definition floorLength :: "bool \<Rightarrow> nat \<Rightarrow> nat" where
  "floorLength rooted n = length (showStack rooted (replicate n ''..''))"

lemma backtrack_stops:
  assumes "\<And>i. m < i \<Longrightarrow> i \<le> m + k \<Longrightarrow> out ! i \<noteq> CHR ''/'' \<and> d < i"
    and "out ! m = CHR ''/'' \<or> m \<le> d"
  shows "backtrack (Suc (m + k)) d out = m"
  using assms by (induction k) (auto simp: backtrack.simps)

lemma normalSegment_noslash: "normalSegment s \<Longrightarrow> list_all notSlash s"
  by (simp add: normalSegment_def)

lemma normalSegment_nonempty: "normalSegment s \<Longrightarrow> s \<noteq> []"
  by (simp add: normalSegment_def)

lemma backtrack_segment:
  assumes "normalSegment x" and "d \<le> length a"
  shows "backtrack (length (a @ CHR ''/'' # x)) d (a @ CHR ''/'' # x) = length a"
proof -
  have "list_all notSlash x" using assms(1) by (rule normalSegment_noslash)
  then have "backtrack (Suc (length a + length x)) d (a @ CHR ''/'' # x) = length a"
    using assms(2) by (intro backtrack_stops) (auto simp: nth_append nth_Cons' list_all_length)
  then show ?thesis by simp
qed

lemma backtrack_first:
  assumes "normalSegment x"
  shows "backtrack (length (a @ x)) (length a) (a @ x) = length a"
proof -
  have x: "list_all notSlash x" "x \<noteq> []"
    using assms by (simp_all add: normalSegment_noslash normalSegment_nonempty)
  then have "backtrack (Suc (length a + (length x - 1))) (length a) (a @ x) = length a"
    by (intro backtrack_stops) (auto simp: nth_append list_all_length)
  moreover have "Suc (length a + (length x - 1)) = length (a @ x)" using x(2) by simp
  ultimately show ?thesis by metis
qed

lemma showStack_snoc:
  "showStack rooted (st @ [x]) =
     showStack rooted st @ (if st = [] then [] else ''/'') @ x"
  by (simp add: showStack_def stringsJoin_snoc)

lemma length_showStack_mono: "length (showStack rooted st) \<le> length (showStack rooted (st @ ns))"
proof (induction ns rule: rev_induct)
  case (snoc x ns)
  then show ?case by (auto simp: showStack_snoc simp flip: append_assoc)
qed simp

lemma floorLength_less:
  assumes "list_all normalSegment ns"
  shows "floorLength rooted n < length (showStack rooted (replicate n ''..'' @ ns)) \<longleftrightarrow> ns \<noteq> []"
proof (cases ns rule: rev_cases)
  case (snoc ys y)
  with assms have "y \<noteq> []" by (simp add: normalSegment_nonempty)
  moreover have "length (showStack rooted (replicate n ''..'')) \<le>
      length (showStack rooted (replicate n ''..'' @ ys))"
    by (rule length_showStack_mono)
  ultimately show ?thesis
    using snoc by (simp add: floorLength_def showStack_snoc flip: append_assoc)
qed (simp add: floorLength_def)

lemma backtrack_showStack:
  assumes "normalSegment x"
  shows "take (backtrack (length (showStack rooted (replicate n ''..'' @ ys @ [x]))) (floorLength rooted n)
            (showStack rooted (replicate n ''..'' @ ys @ [x])))
          (showStack rooted (replicate n ''..'' @ ys @ [x]))
       = showStack rooted (replicate n ''..'' @ ys)"
proof (cases "replicate n ''..'' @ ys = []")
  case True
  then have "floorLength rooted n = length (showStack rooted [])"
    by (simp add: floorLength_def)
  then have "backtrack (length (showStack rooted [] @ x)) (floorLength rooted n) (showStack rooted [] @ x)
    = length (showStack rooted [])"
    by (simp only: backtrack_first [OF assms])
  moreover have "showStack rooted (replicate n ''..'' @ ys @ [x]) = showStack rooted [] @ x"
    using True showStack_snoc [of rooted "[]" x] by auto
  ultimately show ?thesis using True by simp
next
  case False
  have "floorLength rooted n \<le> length (showStack rooted (replicate n ''..'' @ ys))"
    unfolding floorLength_def by (rule length_showStack_mono)
  then have "backtrack (length (showStack rooted (replicate n ''..'' @ ys) @ CHR ''/'' # x))
      (floorLength rooted n) (showStack rooted (replicate n ''..'' @ ys) @ CHR ''/'' # x)
    = length (showStack rooted (replicate n ''..'' @ ys))"
    by (rule backtrack_segment [OF assms])
  moreover have "showStack rooted (replicate n ''..'' @ ys @ [x]) =
      showStack rooted (replicate n ''..'' @ ys) @ CHR ''/'' # x"
    using False showStack_snoc [of rooted "replicate n ''..'' @ ys" x] by auto
  ultimately show ?thesis by simp
qed

lemma pushSegment_Nil [simp]: "pushSegment rooted [] st = st"
  by (simp add: pushSegment_def)

lemma fold_segments:
  "fold (pushSegment rooted) (segments p) st =
     fold (pushSegment rooted) (segments (dropWhile notSlash p))
       (pushSegment rooted (takeWhile notSlash p) st)"
proof (cases "dropWhile notSlash p")
  case Nil
  then have "segments p = [takeWhile notSlash p]"
    using segments_take_drop [of p] by (simp only: list.case)
  then show ?thesis by (simp only: Nil segments.simps fold_simps pushSegment_Nil)
next
  case (Cons c q)
  then have "c = CHR ''/''" using hd_dropWhile [of notSlash p] by simp
  moreover have "segments p = takeWhile notSlash p # segments q"
    using segments_take_drop [of p] Cons by (simp only: list.case)
  ultimately show ?thesis
    by (simp only: Cons segments.simps fold_simps pushSegment_Nil if_True refl)
qed

lemma showStack_push:
  "list_all normalSegment ns \<Longrightarrow> (rooted \<longrightarrow> n = 0) \<Longrightarrow>
   (if (rooted \<and> length (showStack rooted (replicate n ''..'' @ ns)) \<noteq> 1) \<or>
       (\<not> rooted \<and> showStack rooted (replicate n ''..'' @ ns) \<noteq> [])
    then showStack rooted (replicate n ''..'' @ ns) @ ''/''
    else showStack rooted (replicate n ''..'' @ ns)) @ x
   = showStack rooted (replicate n ''..'' @ ns @ [x])"
proof -
  assume ns: "list_all normalSegment ns" and root: "rooted \<longrightarrow> n = 0"
  let ?st = "replicate n ''..'' @ ns"
  have ne: "list_all (\<lambda>s. s \<noteq> []) ?st"
    using ns by (auto simp: list_all_iff dest: normalSegment_nonempty)
  have "(rooted \<and> length (showStack rooted ?st) \<noteq> 1) \<or> (\<not> rooted \<and> showStack rooted ?st \<noteq> [])
      \<longleftrightarrow> ?st \<noteq> []"
    using stringsJoin_eq_Nil [OF ne, of "''/''"]
    by (cases rooted) (simp_all add: showStack_def del: append_is_Nil_conv)
  then show ?thesis
    using showStack_snoc [of rooted ?st x] by (simp only: append_assoc split: if_split) simp
qed

lemma takeWhile_default:
  assumes "c \<noteq> CHR ''/''" and "\<not> (c = CHR ''.'' \<and> (cs = [] \<or> hd cs = CHR ''/''))"
    and "\<not> (c = CHR ''.'' \<and> hd cs = CHR ''.'' \<and> (tl cs = [] \<or> hd (tl cs) = CHR ''/''))"
  shows "normalSegment (takeWhile notSlash (c # cs))"
proof -
  have "list_all notSlash (takeWhile notSlash (c # cs))"
    by (auto simp: list_all_iff dest: set_takeWhileD)
  with assms show ?thesis
    by (cases cs; cases "tl cs") (auto simp: normalSegment_def split: if_splits)
qed

lemma cleanLoop_default:
  assumes "c \<noteq> CHR ''/''" and "\<not> (c = CHR ''.'' \<and> (cs = [] \<or> hd cs = CHR ''/''))"
    and "\<not> (c = CHR ''.'' \<and> hd cs = CHR ''.'' \<and> (tl cs = [] \<or> hd (tl cs) = CHR ''/''))"
  shows "cleanLoop rooted (c # cs) out d =
    cleanLoop rooted (dropWhile notSlash (c # cs))
      ((if (rooted \<and> length out \<noteq> 1) \<or> (\<not> rooted \<and> out \<noteq> []) then out @ ''/'' else out)
        @ takeWhile notSlash (c # cs)) d"
  by (subst cleanLoop.simps(2)) (simp only: assms if_False Let_def)

lemma pushSegment_normal: "normalSegment x \<Longrightarrow> pushSegment rooted x st = st @ [x]"
  by (simp add: pushSegment_def normalSegment_def)

lemma last_normal_not_dotdot: "list_all normalSegment ns \<Longrightarrow> ns \<noteq> [] \<Longrightarrow> last ns \<noteq> ''..''"
  by (cases ns rule: rev_cases) (auto simp: normalSegment_def)

text \<open>
  One step of the loop at \<^verbatim>\<open>..\<close> shows the stack after the push: it removes the last proper element, grows the
  front of a relative path, or does nothing at the root.
\<close>

lemma cleanLoop_dotdot:
  assumes "list_all normalSegment ns" and "rooted \<longrightarrow> n = 0" and "rest = [] \<or> hd rest = CHR ''/''"
  obtains n' ns' where "list_all normalSegment ns'" "rooted \<longrightarrow> n' = 0"
    "pushSegment rooted ''..'' (replicate n ''..'' @ ns) = replicate n' ''..'' @ ns'"
    "cleanLoop rooted (''..'' @ rest) (showStack rooted (replicate n ''..'' @ ns)) (floorLength rooted n) =
       cleanLoop rooted rest (showStack rooted (replicate n' ''..'' @ ns')) (floorLength rooted n')"
proof -
  let ?st = "replicate n ''..'' @ ns"
  let ?out = "showStack rooted ?st" and ?fl = "floorLength rooted n"
  have loop: "cleanLoop rooted (''..'' @ rest) ?out ?fl =
      (if ?fl < length ?out then cleanLoop rooted rest (take (backtrack (length ?out) ?fl ?out) ?out) ?fl
       else if \<not> rooted then
         (let out' = (if ?out \<noteq> [] then ?out @ ''/'' else ?out) @ ''..''
          in cleanLoop rooted rest out' (length out'))
       else cleanLoop rooted rest ?out ?fl)"
    using assms(3) by auto
  show thesis
  proof (cases ns rule: rev_cases)
    case (snoc ys y)
    then have "?fl < length ?out" using floorLength_less [OF assms(1)] by simp
    moreover have "pushSegment rooted ''..'' ?st = replicate n ''..'' @ ys"
      using snoc assms(1) by (auto simp: pushSegment_def normalSegment_def butlast_append)
    moreover have "take (backtrack (length ?out) ?fl ?out) ?out = showStack rooted (replicate n ''..'' @ ys)"
      using snoc assms(1) backtrack_showStack [of y rooted n ys] by simp
    ultimately show thesis using assms(1,2) snoc loop by (intro that [of ys n]) simp_all
  next
    case Nil
    then have floor: "\<not> ?fl < length ?out" using floorLength_less [OF assms(1)] by simp
    show thesis
    proof (cases rooted)
      case True
      with Nil assms floor loop show thesis by (intro that [of ns n]) (simp_all add: pushSegment_def)
    next
      case False
      have out': "(if ?out \<noteq> [] then ?out @ ''/'' else ?out) @ ''..'' = showStack rooted (replicate (Suc n) ''..'')"
        using showStack_push [OF assms(1,2), of "''..''"] False Nil by (simp add: replicate_append_same)
      have "pushSegment rooted ''..'' ?st = replicate (Suc n) ''..'' @ []"
        using False Nil by (cases n) (simp_all add: pushSegment_def replicate_append_same)
      moreover have "cleanLoop rooted (''..'' @ rest) ?out ?fl =
          cleanLoop rooted rest (showStack rooted (replicate (Suc n) ''..'' @ [])) (floorLength rooted (Suc n))"
        unfolding loop Let_def out' floorLength_def [of rooted "Suc n"] append_Nil2
        using floor False by (simp only: if_False not_False_eq_True if_True)
      ultimately show thesis using False by (intro that [of "[]" "Suc n"]) simp_all
    qed
  qed
qed

lemma cleanLoop_cases:
  assumes "p = c # cs"
  obtains (slash) "c = CHR ''/''"
    | (dot) "c = CHR ''.''" "cs = [] \<or> hd cs = CHR ''/''"
    | (dotdot) rest where "p = ''..'' @ rest" "rest = [] \<or> hd rest = CHR ''/''"
    | (default) "c \<noteq> CHR ''/''" "\<not> (c = CHR ''.'' \<and> (cs = [] \<or> hd cs = CHR ''/''))"
        "\<not> (c = CHR ''.'' \<and> hd cs = CHR ''.'' \<and> (tl cs = [] \<or> hd (tl cs) = CHR ''/''))"
  using assms by (cases cs) auto

lemma cleanLoop_showStack:
  assumes "list_all normalSegment ns" and "rooted \<longrightarrow> n = 0"
  shows "cleanLoop rooted p (showStack rooted (replicate n ''..'' @ ns)) (floorLength rooted n) =
           showStack rooted (fold (pushSegment rooted) (segments p) (replicate n ''..'' @ ns))"
  using assms
proof (induction "length p" arbitrary: p n ns rule: less_induct)
  case less
  let ?st = "replicate n ''..'' @ ns"
  let ?out = "showStack rooted ?st" and ?fl = "floorLength rooted n"
  show ?case
  proof (cases p)
    case (Cons c cs)
    from Cons show ?thesis
    proof (cases rule: cleanLoop_cases)
      case slash
      then show ?thesis using less Cons by simp
    next
      case dot
      then have "takeWhile notSlash p = ''.''" "dropWhile notSlash p = cs" using Cons by (cases cs; simp)+
      then have "fold (pushSegment rooted) (segments p) ?st = fold (pushSegment rooted) (segments cs) ?st"
        by (subst fold_segments) (simp add: pushSegment_def)
      with dot less Cons show ?thesis by simp
    next
      case (dotdot rest)
      have "takeWhile notSlash p = ''..''" and "dropWhile notSlash p = rest" using dotdot by (cases rest; force)+
      then have fold: "fold (pushSegment rooted) (segments p) ?st =
          fold (pushSegment rooted) (segments rest) (pushSegment rooted ''..'' ?st)"
        by (subst fold_segments) (simp only:)
      obtain n' ns' where step: "list_all normalSegment ns'" "rooted \<longrightarrow> n' = 0"
        "pushSegment rooted ''..'' ?st = replicate n' ''..'' @ ns'"
        "cleanLoop rooted p ?out ?fl = cleanLoop rooted rest (showStack rooted (replicate n' ''..'' @ ns')) (floorLength rooted n')"
        unfolding dotdot(1) by (rule cleanLoop_dotdot [OF less.prems dotdot(2)])
      show ?thesis unfolding fold step(3,4) by (rule less.hyps [OF _ step(1,2)]) (simp add: dotdot(1))
    next
      case default
      let ?w = "takeWhile notSlash p" and ?q = "dropWhile notSlash p"
      have w: "normalSegment ?w" using takeWhile_default [OF default] Cons by simp
      then have "length ?q < length p" using Cons default(1) by (simp add: le_imp_less_Suc length_dropWhile_le)
      moreover have "cleanLoop rooted p ?out ?fl = cleanLoop rooted ?q (showStack rooted (replicate n ''..'' @ ns @ [?w])) ?fl"
        unfolding Cons cleanLoop_default [OF default] showStack_push [OF less.prems] ..
      ultimately show ?thesis
        using less.hyps [of ?q "ns @ [?w]" n] less.prems w by (subst fold_segments) (simp add: pushSegment_normal)
    qed
  qed simp
qed

theorem pathClean_ref: "pathClean p = cleanRef p"
proof (cases p)
  case Nil
  then show ?thesis by (simp add: pathClean_def cleanRef_def isAbs_def showStack_def)
next
  case (Cons c cs)
  have rel: "cleanLoop False p [] 0 = showStack False (fold (pushSegment False) (segments p) [])"
    using cleanLoop_showStack [of "[]" False 0 p] by (simp add: showStack_def floorLength_def)
  have abs: "cleanLoop True cs ''/'' 1 = showStack True (fold (pushSegment True) (segments cs) [])"
    using cleanLoop_showStack [of "[]" True 0 cs] by (simp add: showStack_def floorLength_def)
  show ?thesis
  proof (cases "isAbs p")
    case True
    then have "p = CHR ''/'' # cs" using Cons by (simp add: isAbs_def)
    then show ?thesis using True abs by (simp add: pathClean_def cleanRef_def)
  next
    case False
    then show ?thesis using Cons rel by (simp only: pathClean_def cleanRef_def list.distinct if_False)
  qed
qed

subsection \<open>Clean relative paths\<close>

lemma fold_push_shape:
  assumes "list_all (list_all notSlash) ss" and "list_all normalSegment ns"
  shows "\<exists>m ns'. fold (pushSegment False) ss (replicate n ''..'' @ ns) = replicate m ''..'' @ ns' \<and>
           list_all normalSegment ns'"
  using assms
proof (induction ss arbitrary: n ns)
  case Nil
  then show ?case by auto
next
  case (Cons s ss)
  consider "s = [] \<or> s = ''.''" | "s = ''..''" "ns = []" | "s = ''..''" "ns \<noteq> []" | "normalSegment s"
    using Cons.prems by (auto simp: normalSegment_def)
  then show ?case
  proof cases
    case 1
    then show ?thesis using Cons by (auto simp: pushSegment_def)
  next
    case 2
    then have "pushSegment False s (replicate n ''..'' @ ns) = replicate (Suc n) ''..'' @ []"
      by (cases n) (simp_all add: pushSegment_def replicate_append_same)
    then show ?thesis using Cons.IH [of "[]" "Suc n"] Cons.prems by (simp del: replicate.simps append_Nil2)
  next
    case 3
    then have "pushSegment False s (replicate n ''..'' @ ns) = replicate n ''..'' @ butlast ns"
      using Cons.prems(2) by (simp add: pushSegment_def butlast_append last_normal_not_dotdot)
    moreover have "list_all normalSegment (butlast ns)"
      using Cons.prems(2) by (auto simp: list_all_iff dest: in_set_butlastD)
    ultimately show ?thesis using Cons by simp
  next
    case 4
    then show ?thesis using Cons.IH [of "ns @ [s]" n] Cons.prems by (simp add: pushSegment_normal)
  qed
qed

lemma fold_push_normal:
  "list_all normalSegment ss \<Longrightarrow> fold (pushSegment rooted) ss st = st @ ss"
  by (induction ss arbitrary: st) (simp_all add: pushSegment_normal)

lemma clean_normal:
  assumes "list_all normalSegment (segments p)"
  shows "pathClean p = p"
proof -
  have "\<not> isAbs p" and "p \<noteq> []"
    using assms by (cases p; auto simp: isAbs_def normalSegment_def split: if_splits)+
  then show ?thesis
    using assms by (simp add: pathClean_ref cleanRef_def fold_push_normal showStack_def stringsJoin_segments)
qed

text \<open>The paths that \<^verbatim>\<open>path.Clean\<close> leaves alone, apart from absolute ones and leading \<^verbatim>\<open>..\<close>.\<close>

lemma clean_fixpoint_segments:
  assumes "\<not> isAbs p" and "pathClean p = p" and "p \<noteq> ''.''" and "p \<noteq> ''..''"
    and "\<not> hasPrefix p ''../''"
  shows "list_all normalSegment (segments p)"
proof -
  obtain m ns where st: "fold (pushSegment False) (segments p) [] = replicate m ''..'' @ ns"
    and ns: "list_all normalSegment ns"
    using fold_push_shape [of "segments p" "[]" 0] segments_noslash
    by (auto simp: list_all_iff)
  have p: "p = stringsJoin (replicate m ''..'' @ ns) ''/''"
    using assms st by (simp add: pathClean_ref cleanRef_def showStack_def Let_def split: if_splits)
  have "m = 0"
  proof (cases m)
    case (Suc k)
    then show ?thesis using p assms(4,5) by (cases "replicate k ''..'' @ ns") (auto simp: hasPrefix_iff)
  qed simp
  moreover have "p \<noteq> []" using assms(2) by (auto simp: pathClean_def)
  ultimately have "p = stringsJoin ns ''/''" and "ns \<noteq> []" using p by auto
  moreover have "list_all (list_all notSlash) ns"
    using ns by (rule list.pred_mono_strong) (rule normalSegment_noslash)
  ultimately have "segments p = ns" using segments_stringsJoin by blast
  with ns show ?thesis by simp
qed

end
