(* ===== verification/Sha256.thy ===== *)
theory Sha256
  imports Prelude "HOL-Library.Word"
begin

unbundle bit_operations_syntax

text \<open>
  Go's \<^verbatim>\<open>crypto/sha256.Sum256\<close> (FIPS 180-4) on byte strings and \<^verbatim>\<open>encoding/hex.EncodeToString\<close>,
  which together turn the serialised configuration inputs into the value of the
  \<^verbatim>\<open>hermes.nous.ai/config-hash\<close> annotation.
\<close>

section \<open>SHA-256\<close>

type_synonym word32 = "32 word"

definition roundConstants :: "word32 list" where
  "roundConstants =
    [0x428A2F98, 0x71374491, 0xB5C0FBCF, 0xE9B5DBA5, 0x3956C25B, 0x59F111F1,
     0x923F82A4, 0xAB1C5ED5, 0xD807AA98, 0x12835B01, 0x243185BE, 0x550C7DC3,
     0x72BE5D74, 0x80DEB1FE, 0x9BDC06A7, 0xC19BF174, 0xE49B69C1, 0xEFBE4786,
     0x0FC19DC6, 0x240CA1CC, 0x2DE92C6F, 0x4A7484AA, 0x5CB0A9DC, 0x76F988DA,
     0x983E5152, 0xA831C66D, 0xB00327C8, 0xBF597FC7, 0xC6E00BF3, 0xD5A79147,
     0x06CA6351, 0x14292967, 0x27B70A85, 0x2E1B2138, 0x4D2C6DFC, 0x53380D13,
     0x650A7354, 0x766A0ABB, 0x81C2C92E, 0x92722C85, 0xA2BFE8A1, 0xA81A664B,
     0xC24B8B70, 0xC76C51A3, 0xD192E819, 0xD6990624, 0xF40E3585, 0x106AA070,
     0x19A4C116, 0x1E376C08, 0x2748774C, 0x34B0BCB5, 0x391C0CB3, 0x4ED8AA4A,
     0x5B9CCA4F, 0x682E6FF3, 0x748F82EE, 0x78A5636F, 0x84C87814, 0x8CC70208,
     0x90BEFFFA, 0xA4506CEB, 0xBEF9A3F7, 0xC67178F2]"

definition initialState :: "word32 list" where
  "initialState =
    [0x6A09E667, 0xBB67AE85, 0x3C6EF372, 0xA54FF53A, 0x510E527F, 0x9B05688C,
     0x1F83D9AB, 0x5BE0CD19]"

definition bigSigma0 :: "word32 \<Rightarrow> word32" where
  "bigSigma0 x = word_rotr 2 x XOR word_rotr 13 x XOR word_rotr 22 x"

definition bigSigma1 :: "word32 \<Rightarrow> word32" where
  "bigSigma1 x = word_rotr 6 x XOR word_rotr 11 x XOR word_rotr 25 x"

definition smallSigma0 :: "word32 \<Rightarrow> word32" where
  "smallSigma0 x = word_rotr 7 x XOR word_rotr 18 x XOR drop_bit 3 x"

definition smallSigma1 :: "word32 \<Rightarrow> word32" where
  "smallSigma1 x = word_rotr 17 x XOR word_rotr 19 x XOR drop_bit 10 x"

text \<open>The message schedule grows from the 16 words of a block, newest word first.\<close>

fun extendSchedule :: "nat \<Rightarrow> word32 list \<Rightarrow> word32 list" where
  "extendSchedule 0 ws = ws"
| "extendSchedule (Suc n) ws =
     extendSchedule n ((smallSigma1 (ws ! 1) + ws ! 6 + smallSigma0 (ws ! 14) + ws ! 15) # ws)"

definition messageSchedule :: "word32 list \<Rightarrow> word32 list" where
  "messageSchedule block = rev (extendSchedule 48 (rev block))"

fun sha256Round :: "word32 list \<Rightarrow> word32 \<times> word32 \<Rightarrow> word32 list" where
  "sha256Round [a, b, c, d, e, f, g, h] (k, w) =
     (let t1 = h + bigSigma1 e + ((e AND f) XOR (NOT e AND g)) + k + w;
          t2 = bigSigma0 a + ((a AND b) XOR (a AND c) XOR (b AND c))
      in [t1 + t2, a, b, c, d + t1, e, f, g])"
| "sha256Round st _ = st"

definition compressBlock :: "word32 list \<Rightarrow> word32 list \<Rightarrow> word32 list" where
  "compressBlock st block =
     map2 (+) st (foldl sha256Round st (zip roundConstants (messageSchedule block)))"

section \<open>Padding and output\<close>

definition byteWord :: "char \<Rightarrow> word32" where
  "byteWord c = of_nat (of_char c)"

fun wordsOfBytes :: "bytes \<Rightarrow> word32 list" where
  "wordsOfBytes (a # b # c # d # rest) =
     (push_bit 24 (byteWord a) OR push_bit 16 (byteWord b) OR push_bit 8 (byteWord c) OR byteWord d)
       # wordsOfBytes rest"
| "wordsOfBytes _ = []"

fun bigEndian :: "nat \<Rightarrow> nat \<Rightarrow> bytes" where
  "bigEndian 0 n = []"
| "bigEndian (Suc k) n = bigEndian k (n div 256) @ [char_of (n mod 256)]"

definition padMessage :: "bytes \<Rightarrow> bytes" where
  "padMessage m =
     m @ char_of (128 :: nat) # replicate ((119 - length m mod 64) mod 64) (char_of (0 :: nat))
       @ bigEndian 8 (8 * length m)"

fun blocksOf :: "nat \<Rightarrow> 'a list \<Rightarrow> 'a list list" where
  "blocksOf n [] = []"
| "blocksOf n (x # xs) = take (Suc n) (x # xs) # blocksOf n (drop n xs)"

definition sha256Sum256 :: "bytes \<Rightarrow> bytes" where
  "sha256Sum256 m =
     concat (map (\<lambda>w. bigEndian 4 (unat w))
       (foldl compressBlock initialState (blocksOf 15 (wordsOfBytes (padMessage m)))))"

definition hexDigit :: "nat \<Rightarrow> char" where
  "hexDigit n = (if n < 10 then char_of (48 + n) else char_of (87 + n))"

definition hexEncodeToString :: "bytes \<Rightarrow> string" where
  "hexEncodeToString bs =
     concat (map (\<lambda>c. [hexDigit (of_char c div 16), hexDigit (of_char c mod 16)]) bs)"

section \<open>Shape of the output\<close>

lemma length_sha256Round: "length (sha256Round st kw) = length st"
  by (induction st kw rule: sha256Round.induct) (simp_all add: Let_def)

lemma length_foldl_round: "length (foldl sha256Round st kws) = length st"
  by (induction kws arbitrary: st) (simp_all add: length_sha256Round)

lemma length_compressBlock: "length (compressBlock st block) = length st"
  by (simp add: compressBlock_def length_foldl_round)

lemma length_foldl_compress: "length (foldl compressBlock st bs) = length st"
  by (induction bs arbitrary: st) (simp_all add: length_compressBlock)

lemma length_bigEndian: "length (bigEndian k n) = k"
  by (induction k arbitrary: n) simp_all

lemma length_concat_words: "length (concat (map (\<lambda>w. bigEndian 4 (unat w)) ws)) = 4 * length ws"
  by (induction ws) (simp_all add: length_bigEndian)

lemma length_sha256: "length (sha256Sum256 m) = 32"
  by (simp add: sha256Sum256_def length_concat_words length_foldl_compress initialState_def)

lemma length_hex: "length (hexEncodeToString bs) = 2 * length bs"
  by (induction bs) (simp_all add: hexEncodeToString_def)

lemma hexDigit_code: "n < 16 \<Longrightarrow> of_char (hexDigit n) = (if n < 10 then 48 + n else 87 + (n :: nat))"
  by (simp add: hexDigit_def)

text \<open>Lower case hexadecimal digits, and only those.\<close>

definition isHexDigit :: "char \<Rightarrow> bool" where
  "isHexDigit c \<longleftrightarrow> (let n = of_char c :: nat in (48 \<le> n \<and> n \<le> 57) \<or> (97 \<le> n \<and> n \<le> 102))"

lemma isHexDigit_hexDigit: "n < 16 \<Longrightarrow> isHexDigit (hexDigit n)"
  by (simp add: isHexDigit_def hexDigit_code)

lemma hex_digits: "list_all isHexDigit (hexEncodeToString bs)"
proof (induction bs)
  case (Cons c bs)
  have "of_char c div 16 < (16 :: nat)" using nat_of_char_less_256 [of c] by linarith
  with Cons show ?case by (simp add: hexEncodeToString_def isHexDigit_hexDigit)
qed (simp add: hexEncodeToString_def)

end
