(* ===== verification/GoErrors.thy ===== *)
theory GoErrors
  imports Prelude
begin

text \<open>
  Go error values: texts made with \<^verbatim>\<open>errors.New\<close> or \<^verbatim>\<open>fmt.Errorf\<close>, errors that wrap another one,
  errors of the Kubernetes API with the reason the operator tests for, and the operator's own
  \<^verbatim>\<open>persistentVolumeClaimSpecDriftError\<close> of \<^verbatim>\<open>src/internal/controller/hermesagent_controller.go\<close>.
  A function that returns only an error has an optional error as its result, \<^verbatim>\<open>None\<close> for nil.
\<close>

section \<open>Error values\<close>

record persistentVolumeClaimSpecDriftError =
  deName :: string
  deFields :: "string list"
  deRemediation :: string

datatype apiReason = NotFound | OtherReason

datatype goError =
    TextError string
  | WrapError string goError
  | APIError apiReason string
  | DriftError persistentVolumeClaimSpecDriftError

definition driftErrorText :: "persistentVolumeClaimSpecDriftError \<Rightarrow> string" where
  "driftErrorText e =
     ''PersistentVolumeClaim '' @ deName e @
     '' must be recreated to apply immutable storage changes: '' @
     stringsJoin (deFields e) '', '' @ ''. '' @ deRemediation e"

fun errorText :: "goError \<Rightarrow> string" where
  "errorText (TextError m) = m"
| "errorText (WrapError m _) = m"
| "errorText (APIError _ m) = m"
| "errorText (DriftError e) = driftErrorText e"

text \<open>\<^verbatim>\<open>apierrors.IsNotFound\<close> and \<^verbatim>\<open>errors.As\<close> look through wrapped errors.\<close>

fun isNotFound :: "goError \<Rightarrow> bool" where
  "isNotFound (APIError r _) = (r = NotFound)"
| "isNotFound (WrapError _ e) = isNotFound e"
| "isNotFound _ = False"

fun asDriftError :: "goError \<Rightarrow> persistentVolumeClaimSpecDriftError option" where
  "asDriftError (DriftError e) = Some e"
| "asDriftError (WrapError _ e) = asDriftError e"
| "asDriftError _ = None"

lemma drift_is_found: "asDriftError e \<noteq> None \<Longrightarrow> \<not> isNotFound e"
  by (induction e) auto

end
