(* ===== verification/ConfigPlan.thy ===== *)
theory ConfigPlan
  imports Snapshots GoPath Sha256 GoErrors
begin

text \<open>
  The configuration plan of \<^verbatim>\<open>src/internal/controller/hermesagent_resources.go\<close>: the controller's
  own validation of file mounts, the resolution of \<^verbatim>\<open>config.yaml\<close> and \<^verbatim>\<open>gateway.json\<close> to exactly one
  source, and the configuration hash over the plan and the referenced inputs.  The serialisation
  \<^verbatim>\<open>json.Marshal\<close> of the hash payload depends on the JSON tags and marshallers of third-party
  Kubernetes types, so it is a parameter.
\<close>

section \<open>Constants\<close>

definition hermesHomePath :: string where "hermesHomePath = ''/data/hermes''"
definition hermesDataPath :: string where "hermesDataPath = ''/data/hermes''"
definition hermesSecretBasePath :: string where "hermesSecretBasePath = ''/var/run/hermes/secrets''"
definition configHashAnnotation :: string where "configHashAnnotation = ''hermes.nous.ai/config-hash''"

section \<open>Plans\<close>

record resolvedConfigFile =
  rfID :: string
  rfFileName :: string
  rfConfigMapName :: string
  rfSecretName :: string
  rfSourceKey :: string
  rfMountPath :: string
  rfGenerated :: bool
  rfContent :: string

record configPlan =
  cpFiles :: "resolvedConfigFile list"
  cpHash :: string

section \<open>File mount validation\<close>

definition validateFileMountItemPath :: "string \<Rightarrow> goError option" where
  "validateFileMountItemPath p =
     (if isAbs p then Some (TextError ''must be relative'')
      else
        (let clean = pathClean p
         in if clean = ''.'' \<or> clean \<noteq> p \<or> clean = ''..'' \<or> hasPrefix clean ''../''
            then Some (TextError ''must not contain '.' or '..' path segments'') else None))"

definition validateFileModeValue :: "int option \<Rightarrow> string \<Rightarrow> goError option" where
  "validateFileModeValue mode fieldName =
     (case mode of
        None \<Rightarrow> None
      | Some m \<Rightarrow>
          (if m < 0 \<or> m > 511 then Some (TextError (fieldName @ '' must be between 0 and 0777'')) else None))"

definition mountField :: "nat \<Rightarrow> string" where
  "mountField i = ''spec.fileMounts['' @ decimal i @ '']''"

definition itemField :: "nat \<Rightarrow> nat \<Rightarrow> string" where
  "itemField i j = mountField i @ ''.items['' @ decimal j @ '']''"

text \<open>The inner loop over the items of mount \<open>i\<close>; the maps hold the first index of every key and path.\<close>

fun validateItemsFrom ::
  "nat \<Rightarrow> nat \<Rightarrow> (string, nat) fmap \<Rightarrow> (string, nat) fmap \<Rightarrow> hermesAgentFileProjectionItem list \<Rightarrow> goError option" where
  "validateItemsFrom i j seenKeys seenPaths [] = None"
| "validateItemsFrom i j seenKeys seenPaths (item # items) =
     (if piKey item = [] then Some (TextError (itemField i j @ ''.key is required''))
      else case fmlookup seenKeys (piKey item) of
        Some previous \<Rightarrow>
          Some (TextError (itemField i j @ ''.key duplicates '' @ itemField i previous @ ''.key''))
      | None \<Rightarrow>
          (let seenKeys' = fmupd (piKey item) j seenKeys
           in if piPath item = [] then Some (TextError (itemField i j @ ''.path is required''))
              else case validateFileMountItemPath (piPath item) of
                Some err \<Rightarrow> Some (TextError (itemField i j @ ''.path '' @ errorText err))
              | None \<Rightarrow>
                  (case fmlookup seenPaths (piPath item) of
                     Some previous \<Rightarrow>
                       Some (TextError (itemField i j @ ''.path duplicates '' @ itemField i previous @ ''.path''))
                   | None \<Rightarrow>
                       (let seenPaths' = fmupd (piPath item) j seenPaths
                        in case validateFileModeValue (piMode item) (itemField i j @ ''.mode'') of
                             Some err \<Rightarrow> Some err
                           | None \<Rightarrow> validateItemsFrom i (Suc j) seenKeys' seenPaths' items))))"

fun validateMountsFrom ::
  "nat \<Rightarrow> (string, nat) fmap \<Rightarrow> hermesAgentFileMountSpec list \<Rightarrow> goError option" where
  "validateMountsFrom i seen [] = None"
| "validateMountsFrom i seen (m # ms) =
     (if fmConfigMapRef m \<noteq> None \<and> fmSecretRef m \<noteq> None then
        Some (TextError (mountField i @ '' cannot set both configMapRef and secretRef''))
      else if fmConfigMapRef m = None \<and> fmSecretRef m = None then
        Some (TextError (mountField i @ '' must set exactly one of configMapRef or secretRef''))
      else if fmMountPath m = [] then Some (TextError (mountField i @ ''.mountPath is required''))
      else if \<not> isAbs (fmMountPath m) then Some (TextError (mountField i @ ''.mountPath must be absolute''))
      else case fmlookup seen (fmMountPath m) of
        Some previous \<Rightarrow>
          Some (TextError (mountField i @ ''.mountPath duplicates '' @ mountField previous @ ''.mountPath''))
      | None \<Rightarrow>
          (let seen' = fmupd (fmMountPath m) i seen
           in if (case fmConfigMapRef m of Some r \<Rightarrow> lorName r = [] | None \<Rightarrow> False) then
                Some (TextError (mountField i @ ''.configMapRef.name is required''))
              else if (case fmSecretRef m of Some r \<Rightarrow> lorName r = [] | None \<Rightarrow> False) then
                Some (TextError (mountField i @ ''.secretRef.name is required''))
              else case validateFileModeValue (fmDefaultMode m) (mountField i @ ''.defaultMode'') of
                Some err \<Rightarrow> Some err
              | None \<Rightarrow>
                  (case validateItemsFrom i 0 fmempty fmempty (fmItems m) of
                     Some err \<Rightarrow> Some err
                   | None \<Rightarrow> validateMountsFrom (Suc i) seen' ms)))"

definition validateFileMountSpecs :: "hermesAgentFileMountSpec list \<Rightarrow> goError option" where
  "validateFileMountSpecs mounts = validateMountsFrom 0 fmempty mounts"

section \<open>Resolving a configuration file\<close>

definition generatedConfigMapName :: "string \<Rightarrow> string \<Rightarrow> string" where
  "generatedConfigMapName resourceName cid = resourceName @ ''-'' @ cid"

definition sourceFieldName :: "string \<Rightarrow> string" where
  "sourceFieldName cid = (if cid = ''config'' then ''config'' else ''gatewayConfig'')"

definition sourceCount :: "hermesAgentConfigSource \<Rightarrow> nat" where
  "sourceCount s =
     length (filter id [csRaw s \<noteq> [], csConfigMapRef s \<noteq> None, csSecretRef s \<noteq> None])"

definition resolveConfigFile ::
  "hermesAgent \<Rightarrow> string \<Rightarrow> string \<Rightarrow> hermesAgentConfigSource \<Rightarrow> goError + resolvedConfigFile option" where
  "resolveConfigFile agent cid fileName source =
     (if sourceCount source > 1 then
        Inl (TextError (''spec.'' @ sourceFieldName cid @ '' must set exactly one of raw, configMapRef, or secretRef''))
      else if sourceCount source = 0 then Inr None
      else
        (let file = \<lparr>rfID = cid, rfFileName = fileName, rfConfigMapName = [], rfSecretName = [],
                     rfSourceKey = [], rfMountPath = pathJoin [hermesHomePath, fileName],
                     rfGenerated = False, rfContent = []\<rparr>
         in if csRaw source \<noteq> [] then
              Inr (Some (file\<lparr>rfGenerated := True, rfContent := csRaw source,
                rfConfigMapName := generatedConfigMapName (agentName agent) cid, rfSourceKey := fileName\<rparr>))
            else case csConfigMapRef source of
              Some ref \<Rightarrow>
                (if ksName ref = [] \<or> ksKey ref = [] then
                   Inl (TextError (''spec.'' @ sourceFieldName cid @ ''.configMapRef requires both name and key''))
                 else Inr (Some (file\<lparr>rfConfigMapName := ksName ref, rfSourceKey := ksKey ref\<rparr>)))
            | None \<Rightarrow>
                (case csSecretRef source of
                   Some ref \<Rightarrow>
                     (if ksName ref = [] \<or> ksKey ref = [] then
                        Inl (TextError (''spec.'' @ sourceFieldName cid @ ''.secretRef requires both name and key''))
                      else Inr (Some (file\<lparr>rfSecretName := ksName ref, rfSourceKey := ksKey ref\<rparr>)))
                 | None \<Rightarrow> Inr None)))"

section \<open>The configuration hash\<close>

record hashPayload =
  hpFiles :: "resolvedConfigFile list"
  hpEnv :: "envVar list"
  hpEnvFrom :: "envFromSource list"
  hpSecretRefs :: "localObjectReference list"
  hpFileMounts :: "hermesAgentFileMountSpec list"
  hpReferencedInputs :: referencedInputState

type_synonym marshaller = "hashPayload \<Rightarrow> bytes"

definition configHashPayload :: "hermesAgent \<Rightarrow> resolvedConfigFile list \<Rightarrow> referencedInputState \<Rightarrow> hashPayload" where
  "configHashPayload agent files ri =
     \<lparr>hpFiles = files, hpEnv = spEnv (haSpec agent), hpEnvFrom = spEnvFrom (haSpec agent),
      hpSecretRefs = spSecretRefs (haSpec agent), hpFileMounts = spFileMounts (haSpec agent),
      hpReferencedInputs = ri\<rparr>"

definition computeConfigHash ::
  "marshaller \<Rightarrow> hermesAgent \<Rightarrow> resolvedConfigFile list \<Rightarrow> referencedInputState \<Rightarrow> string" where
  "computeConfigHash marshal agent files ri =
     hexEncodeToString (sha256Sum256 (marshal (configHashPayload agent files ri)))"

section \<open>The plan\<close>

definition buildConfigPlanWithReferences ::
  "marshaller \<Rightarrow> hermesAgent \<Rightarrow> referencedInputState \<Rightarrow> goError + configPlan" where
  "buildConfigPlanWithReferences marshal agent ri =
     (case validateFileMountSpecs (spFileMounts (haSpec agent)) of
        Some err \<Rightarrow> Inl err
      | None \<Rightarrow>
          (case resolveConfigFile agent ''config'' ''config.yaml'' (spConfig (haSpec agent)) of
             Inl err \<Rightarrow> Inl err
           | Inr configFile \<Rightarrow>
               (case resolveConfigFile agent ''gateway-config'' ''gateway.json'' (spGatewayConfig (haSpec agent)) of
                  Inl err \<Rightarrow> Inl err
                | Inr gatewayFile \<Rightarrow>
                    (let files = (case configFile of None \<Rightarrow> [] | Some f \<Rightarrow> [f])
                           @ (case gatewayFile of None \<Rightarrow> [] | Some f \<Rightarrow> [f])
                     in Inr \<lparr>cpFiles = files, cpHash = computeConfigHash marshal agent files ri\<rparr>))))"

definition buildConfigPlan :: "marshaller \<Rightarrow> hermesAgent \<Rightarrow> goError + configPlan" where
  "buildConfigPlan marshal agent = buildConfigPlanWithReferences marshal agent emptyInputs"

text \<open>The number of generated ConfigMaps that a reconcile logs.\<close>

primrec countGeneratedFiles :: "resolvedConfigFile list \<Rightarrow> nat" where
  "countGeneratedFiles [] = 0"
| "countGeneratedFiles (f # fs) = (if rfGenerated f then Suc (countGeneratedFiles fs) else countGeneratedFiles fs)"

section \<open>What the validation accepts\<close>

text \<open>
  The declarative reading of a valid file mount list: absolute and distinct mount paths, exactly one
  named source, permission bits, and items with distinct keys and distinct relative paths whose
  segments are proper names.
\<close>

definition wfMode :: "int option \<Rightarrow> bool" where
  "wfMode mode \<longleftrightarrow> (case mode of None \<Rightarrow> True | Some m \<Rightarrow> 0 \<le> m \<and> m \<le> 511)"

definition wfItem :: "hermesAgentFileProjectionItem \<Rightarrow> bool" where
  "wfItem item \<longleftrightarrow> piKey item \<noteq> [] \<and> list_all normalSegment (segments (piPath item)) \<and> wfMode (piMode item)"

definition wfItems :: "hermesAgentFileProjectionItem list \<Rightarrow> bool" where
  "wfItems items \<longleftrightarrow> list_all wfItem items \<and> distinct (map piKey items) \<and> distinct (map piPath items)"

definition namedRef :: "localObjectReference option \<Rightarrow> bool" where
  "namedRef ref \<longleftrightarrow> (case ref of None \<Rightarrow> False | Some r \<Rightarrow> lorName r \<noteq> [])"

definition wfFileMount :: "hermesAgentFileMountSpec \<Rightarrow> bool" where
  "wfFileMount m \<longleftrightarrow>
     (namedRef (fmConfigMapRef m) \<and> fmSecretRef m = None \<or> fmConfigMapRef m = None \<and> namedRef (fmSecretRef m)) \<and>
     isAbs (fmMountPath m) \<and> wfMode (fmDefaultMode m) \<and> wfItems (fmItems m)"

definition wfFileMounts :: "hermesAgentFileMountSpec list \<Rightarrow> bool" where
  "wfFileMounts ms \<longleftrightarrow> list_all wfFileMount ms \<and> distinct (map fmMountPath ms)"

definition wfConfigSource :: "hermesAgentConfigSource \<Rightarrow> bool" where
  "wfConfigSource s \<longleftrightarrow> sourceCount s \<le> 1 \<and>
     list_all (\<lambda>ref. case ref of None \<Rightarrow> True | Some r \<Rightarrow> ksName r \<noteq> [] \<and> ksKey r \<noteq> [])
       [csConfigMapRef s, csSecretRef s]"

lemma segments_of_special:
  "segments [] = [[]]" "segments ''.'' = [''.'']" "segments ''..'' = [''..'']"
  by simp_all

lemma segments_of_prefix: "hasPrefix p ''../'' \<Longrightarrow> \<exists>ss. segments p = ''..'' # ss"
  using segments_append_slash [of "''..''"] by (auto simp: hasPrefix_iff)

lemma segments_of_abs: "isAbs p \<Longrightarrow> \<exists>ss. segments p = [] # ss"
  by (cases p) (simp_all add: isAbs_def)

lemma not_normal_special [simp]: "\<not> normalSegment []" "\<not> normalSegment ''.''" "\<not> normalSegment ''..''"
  by (simp_all add: normalSegment_def)

lemma validateFileMountItemPath_iff:
  "validateFileMountItemPath p = None \<longleftrightarrow> list_all normalSegment (segments p)"
proof
  assume "validateFileMountItemPath p = None"
  then show "list_all normalSegment (segments p)"
    by (intro clean_fixpoint_segments) (auto simp: validateFileMountItemPath_def Let_def split: if_splits)
next
  assume ok: "list_all normalSegment (segments p)"
  then have "\<not> isAbs p" and "\<not> hasPrefix p ''../''" and "p \<noteq> ''.''" and "p \<noteq> ''..''"
    using segments_of_abs segments_of_prefix by force+
  with clean_normal [OF ok] show "validateFileMountItemPath p = None"
    by (simp add: validateFileMountItemPath_def)
qed

lemma validateFileModeValue_iff [simp]: "validateFileModeValue mode f = None \<longleftrightarrow> wfMode mode"
  by (auto simp: validateFileModeValue_def wfMode_def split: option.splits)

lemma rejected [dest]:
  "validateFileModeValue mode f = Some e \<Longrightarrow> \<not> wfMode mode"
  "validateFileMountItemPath p = Some e \<Longrightarrow> \<not> list_all normalSegment (segments p)"
  using validateFileModeValue_iff validateFileMountItemPath_iff by (metis option.distinct(1))+

lemma wfItem_nonempty: "wfItem item \<Longrightarrow> piKey item \<noteq> [] \<and> piPath item \<noteq> []"
  by (auto simp: wfItem_def)

lemma validateItemsFrom_iff:
  "validateItemsFrom i j seenKeys seenPaths items = None \<longleftrightarrow>
     wfItems items \<and> (\<forall>item \<in> set items. fmlookup seenKeys (piKey item) = None \<and>
       fmlookup seenPaths (piPath item) = None)"
proof (induction items arbitrary: j seenKeys seenPaths)
  case (Cons item items)
  have "validateItemsFrom i j seenKeys seenPaths (item # items) = None \<longleftrightarrow>
      wfItem item \<and> fmlookup seenKeys (piKey item) = None \<and> fmlookup seenPaths (piPath item) = None \<and>
      validateItemsFrom i (Suc j) (fmupd (piKey item) j seenKeys) (fmupd (piPath item) j seenPaths) items = None"
    by (auto simp: wfItem_def validateFileMountItemPath_iff Let_def split: option.splits)
  then show ?case
    unfolding Cons.IH by (auto simp: wfItems_def)
qed (simp add: wfItems_def)

lemma rejected_items [dest]: "validateItemsFrom i j fmempty fmempty items = Some e \<Longrightarrow> \<not> wfItems items"
  using validateItemsFrom_iff [of i j fmempty fmempty items] by auto

lemma validateMountsFrom_iff:
  "validateMountsFrom i seen ms = None \<longleftrightarrow>
     wfFileMounts ms \<and> (\<forall>m \<in> set ms. fmlookup seen (fmMountPath m) = None)"
proof (induction ms arbitrary: i seen)
  case (Cons m ms)
  have "validateMountsFrom i seen (m # ms) = None \<longleftrightarrow>
      wfFileMount m \<and> fmlookup seen (fmMountPath m) = None \<and>
      validateMountsFrom (Suc i) (fmupd (fmMountPath m) i seen) ms = None"
    by (auto simp: wfFileMount_def namedRef_def validateItemsFrom_iff isAbs_def Let_def
        split: option.splits)
  then show ?case
    unfolding Cons.IH by (auto simp: wfFileMounts_def)
qed (simp add: wfFileMounts_def)

lemma validateFileMountSpecs_iff: "validateFileMountSpecs ms = None \<longleftrightarrow> wfFileMounts ms"
  by (simp add: validateFileMountSpecs_def validateMountsFrom_iff)

lemma sourceCount_cases:
  "sourceCount s = (if csRaw s \<noteq> [] then 1 else 0) + (if csConfigMapRef s \<noteq> None then 1 else 0) +
     (if csSecretRef s \<noteq> None then 1 else 0)"
  by (simp add: sourceCount_def)

lemma resolveConfigFile_ok: "isOk (resolveConfigFile agent cid fileName s) \<longleftrightarrow> wfConfigSource s"
  by (auto simp: resolveConfigFile_def wfConfigSource_def sourceCount_cases Let_def split: option.splits)

lemma buildConfigPlan_ok:
  "isOk (buildConfigPlanWithReferences marshal agent ri) \<longleftrightarrow>
     wfFileMounts (spFileMounts (haSpec agent)) \<and> wfConfigSource (spConfig (haSpec agent)) \<and>
     wfConfigSource (spGatewayConfig (haSpec agent))"
  unfolding buildConfigPlanWithReferences_def
  using resolveConfigFile_ok [of agent "''config''" "''config.yaml''" "spConfig (haSpec agent)"]
    resolveConfigFile_ok [of agent "''gateway-config''" "''gateway.json''" "spGatewayConfig (haSpec agent)"]
    validateFileMountSpecs_iff [of "spFileMounts (haSpec agent)"]
  by (auto simp: Let_def split: option.splits sum.splits)

text \<open>The files of a plan that are generated are those given inline.\<close>

lemma resolved_generated:
  "resolveConfigFile agent cid name source = Inr (Some f) \<Longrightarrow> rfGenerated f \<longleftrightarrow> csRaw source \<noteq> []"
  "resolveConfigFile agent cid name source = Inr None \<Longrightarrow> csRaw source = []"
  by (auto simp: resolveConfigFile_def sourceCount_def Let_def split: if_splits option.splits)

lemma count_generated:
  assumes "buildConfigPlanWithReferences marshal agent ri = Inr plan"
  shows "countGeneratedFiles (cpFiles plan) =
    length (filter (\<lambda>s. csRaw s \<noteq> []) [spConfig (haSpec agent), spGatewayConfig (haSpec agent)])"
  using assms by (auto simp: buildConfigPlanWithReferences_def Let_def resolved_generated split: option.splits sum.splits)

subsection \<open>The contract of a file mount validator\<close>

text \<open>
  The controller and the admission webhook each have a validator of their own.  Both promise the
  same: they accept exactly the well-formed mount lists.
\<close>

locale mount_validator =
  fixes accepts :: "hermesAgentFileMountSpec list \<Rightarrow> bool"
  assumes accepts_iff: "accepts ms \<longleftrightarrow> wfFileMounts ms"
begin

lemma accepted_distinct: "accepts ms \<Longrightarrow> distinct (map fmMountPath ms)"
  by (simp add: accepts_iff wfFileMounts_def)

lemma accepted_mount: "accepts ms \<Longrightarrow> m \<in> set ms \<Longrightarrow> wfFileMount m"
  by (simp add: accepts_iff wfFileMounts_def list_all_iff)

lemma accepted_item:
  "accepts ms \<Longrightarrow> m \<in> set ms \<Longrightarrow> item \<in> set (fmItems m) \<Longrightarrow>
     list_all normalSegment (segments (piPath item))"
  by (auto dest!: accepted_mount simp: wfFileMount_def wfItems_def list_all_iff wfItem_def)

lemma accepted_sublist: "accepts (ms @ ns) \<Longrightarrow> accepts ms \<and> accepts ns"
  by (simp add: accepts_iff wfFileMounts_def)

end

interpretation controllerMounts: mount_validator "\<lambda>ms. validateFileMountSpecs ms = None"
  by unfold_locales (rule validateFileMountSpecs_iff)

section \<open>Properties\<close>

text \<open>\<^bold>\<open>C21.\<close> A plan can be built exactly for the well-formed specs, whatever the referenced inputs
  hold: the second planning step of a reconcile cannot fail after the first one has succeeded.\<close>

theorem plan_exists_iff_wellformed:
  "(\<exists>plan. buildConfigPlanWithReferences marshal agent ri = Inr plan) \<longleftrightarrow>
     wfFileMounts (spFileMounts (haSpec agent)) \<and> wfConfigSource (spConfig (haSpec agent)) \<and>
     wfConfigSource (spGatewayConfig (haSpec agent))"
  using buildConfigPlan_ok by (simp add: isOk_iff)

text \<open>\<^bold>\<open>C23.\<close> The configuration hash of every plan is 64 lower case hexadecimal digits.\<close>

theorem plan_hash_shape:
  assumes "buildConfigPlanWithReferences marshal agent ri = Inr plan"
  shows "length (cpHash plan) = 64 \<and> list_all isHexDigit (cpHash plan)"
  using assms
  by (auto simp: buildConfigPlanWithReferences_def computeConfigHash_def length_hex length_sha256
      hex_digits Let_def split: option.splits sum.splits)

theorem plan_hash_shape_witness:
  "\<exists>plan. buildConfigPlan (\<lambda>_. []) zeroAgent = Inr plan \<and> length (cpHash plan) = 64 \<and> list_all isHexDigit (cpHash plan)"
proof -
  have "isOk (buildConfigPlan (\<lambda>_. []) zeroAgent)"
    by (simp add: buildConfigPlan_def buildConfigPlan_ok wfFileMounts_def wfConfigSource_def sourceCount_cases zero_defs)
  then obtain plan where "buildConfigPlan (\<lambda>_. []) zeroAgent = Inr plan" by (auto simp: isOk_iff)
  with plan_hash_shape [of "\<lambda>_. []" zeroAgent emptyInputs plan] show ?thesis by (simp add: buildConfigPlan_def)
qed

text \<open>
  The names of generated ConfigMaps are not injective: the gateway file of one agent and the configuration
  file of an agent whose name ends in \<^verbatim>\<open>-gateway\<close> get the same one.
\<close>

lemma generated_names_collide:
  "generatedConfigMapName name ''gateway-config'' = generatedConfigMapName (name @ ''-gateway'') ''config''"
  by (simp add: generatedConfigMapName_def)

end
