(* ===== verification/GoNetip.thy ===== *)
theory GoNetip
  imports GoErrors
begin

text \<open>
  \<^verbatim>\<open>netip.ParsePrefix\<close> of the Go standard library, which the validating webhook calls for CIDR blocks:
  dotted IPv4 addresses, IPv6 addresses with \<^verbatim>\<open>::\<close>, an embedded IPv4 tail and a zone, and the prefix
  length.  A byte of an address is a number below 256.  Error texts quote the input with
  \<^verbatim>\<open>strconv.Quote\<close>, which depends on Unicode tables and is a parameter.
\<close>

section \<open>Addresses\<close>

datatype addr = V4 "nat list" | V6 "nat list" string

type_synonym quoter = "string \<Rightarrow> string"

definition addrError :: "quoter \<Rightarrow> string \<Rightarrow> string \<Rightarrow> string \<Rightarrow> goError" where
  "addrError q input msg at = TextError (''ParseAddr('' @ q input @ ''): '' @ msg @
     (if at = [] then [] else '' (at '' @ q at @ '')''))"

definition isDigit :: "char \<Rightarrow> bool" where
  "isDigit c \<longleftrightarrow> (48 :: nat) \<le> of_char c \<and> of_char c \<le> (57 :: nat)"

definition digitValue :: "char \<Rightarrow> nat" where
  "digitValue c = of_char c - 48"

text \<open>The loop of \<^verbatim>\<open>parseIPv4Fields\<close>: the rest of the text, the previous byte, the current octet and its length, the octets so far.\<close>

fun parseIPv4Loop ::
  "(string \<Rightarrow> string \<Rightarrow> goError) \<Rightarrow> char option \<Rightarrow> nat \<Rightarrow> nat \<Rightarrow> nat list \<Rightarrow> string \<Rightarrow> goError + nat list" where
  "parseIPv4Loop err prev val digLen octets [] =
     (if length octets < 3 then Inl (err ''IPv4 address too short'' []) else Inr (octets @ [val]))"
| "parseIPv4Loop err prev val digLen octets (c # cs) =
     (if isDigit c then
        (if digLen = 1 \<and> val = 0 then Inl (err ''IPv4 field has octet with leading zero'' [])
         else if val * 10 + digitValue c > 255 then Inl (err ''IPv4 field has value >255'' [])
         else parseIPv4Loop err (Some c) (val * 10 + digitValue c) (Suc digLen) octets cs)
      else if c = CHR ''.'' then
        (if prev = None \<or> cs = [] \<or> prev = Some (CHR ''.'') then
           Inl (err ''IPv4 field must have at least one digit'' (c # cs))
         else if length octets = 3 then Inl (err ''IPv4 address too long'' [])
         else parseIPv4Loop err (Some c) 0 0 (octets @ [val]) cs)
      else Inl (err ''unexpected character'' (c # cs)))"

definition parseIPv4Fields :: "(string \<Rightarrow> string \<Rightarrow> goError) \<Rightarrow> string \<Rightarrow> goError + nat list" where
  "parseIPv4Fields err s = parseIPv4Loop err None 0 0 [] s"

definition hexValue :: "char \<Rightarrow> nat option" where
  "hexValue c =
     (let n = of_char c in
      if 48 \<le> n \<and> n \<le> 57 then Some (n - 48)
      else if 97 \<le> n \<and> n \<le> 102 then Some (n - 87)
      else if 65 \<le> n \<and> n \<le> 70 then Some (n - 55) else None)"

text \<open>The inner loop of \<^verbatim>\<open>parseIPv6\<close>: the number of hex digits, their value and the rest.\<close>

fun scanHex ::
  "(string \<Rightarrow> string \<Rightarrow> goError) \<Rightarrow> string \<Rightarrow> nat \<Rightarrow> nat \<Rightarrow> string \<Rightarrow> goError + nat \<times> nat \<times> string" where
  "scanHex err s off acc [] = Inr (off, acc, [])"
| "scanHex err s off acc (c # cs) =
     (case hexValue c of
        None \<Rightarrow> Inr (off, acc, c # cs)
      | Some v \<Rightarrow>
          (if off > 3 then Inl (err ''each group must have 4 or fewer digits'' s)
           else if acc * 16 + v > 65535 then Inl (err ''IPv6 field has value >=2^16'' s)
           else scanHex err s (Suc off) (acc * 16 + v) cs))"

text \<open>The outer loop: the position of \<^verbatim>\<open>::\<close>, the bytes so far, whose number is the index, and the rest.\<close>

function parseIPv6Loop ::
  "(string \<Rightarrow> string \<Rightarrow> goError) \<Rightarrow> nat option \<Rightarrow> nat list \<Rightarrow> string \<Rightarrow> goError + nat option \<times> nat list \<times> string" where
  "parseIPv6Loop err ellipsis ip s =
     (if length ip \<ge> 16 then Inr (ellipsis, ip, s)
      else case scanHex err s 0 0 s of
        Inl e \<Rightarrow> Inl e
      | Inr (off, acc, rest) \<Rightarrow>
          (if off = 0 then Inl (err ''each colon-separated field must have at least one digit'' s)
           else if rest \<noteq> [] \<and> hd rest = CHR ''.'' then
             (if ellipsis = None \<and> length ip \<noteq> 12 then
                Inl (err ''embedded IPv4 address must replace the final 2 fields of the address'' s)
              else if length ip + 4 > 16 then
                Inl (err ''too many hex fields to fit an embedded IPv4 at the end of the address'' s)
              else case parseIPv4Fields err s of Inl e \<Rightarrow> Inl e | Inr octets \<Rightarrow> Inr (ellipsis, ip @ octets, []))
           else
             (let ip = ip @ [acc div 256, acc mod 256] in
              if rest = [] then Inr (ellipsis, ip, [])
              else if hd rest \<noteq> CHR '':'' then Inl (err ''unexpected character, want colon'' rest)
              else if tl rest = [] then Inl (err ''colon must be followed by more characters'' rest)
              else if hd (tl rest) = CHR '':'' then
                (if ellipsis \<noteq> None then Inl (err ''multiple :: in address'' (tl rest))
                 else if tl (tl rest) = [] then Inr (Some (length ip), ip, [])
                 else parseIPv6Loop err (Some (length ip)) ip (tl (tl rest)))
              else parseIPv6Loop err ellipsis ip (tl rest))))"
  by pat_completeness auto

termination by (relation "measure (\<lambda>(err, ellipsis, ip, s). 16 - length ip)") auto

declare parseIPv6Loop.simps [simp del]

definition parseIPv6 :: "quoter \<Rightarrow> string \<Rightarrow> goError + addr" where
  "parseIPv6 q input =
     (let err = addrError q input;
          s = takeWhile (\<lambda>c. c \<noteq> CHR ''%'') input;
          rest = dropWhile (\<lambda>c. c \<noteq> CHR ''%'') input;
          zone = tl rest
      in if rest \<noteq> [] \<and> zone = [] then Inl (err ''zone must be a non-empty string'' [])
         else if s = ''::'' then Inr (V6 (replicate 16 0) zone)
         else case (if hasPrefix s ''::'' then parseIPv6Loop err (Some 0) [] (drop 2 s) else parseIPv6Loop err None [] s) of
           Inl e \<Rightarrow> Inl e
         | Inr (ellipsis, ip, s) \<Rightarrow>
             (if s \<noteq> [] then Inl (err ''trailing garbage after address'' s)
              else if length ip < 16 then
                (case ellipsis of
                   None \<Rightarrow> Inl (err ''address string too short'' [])
                 | Some n \<Rightarrow> Inr (V6 (take n ip @ replicate (16 - length ip) 0 @ drop n ip) zone))
              else if ellipsis \<noteq> None then Inl (err ''the :: must expand to at least one field of zeros'' [])
              else Inr (V6 ip zone)))"

text \<open>\<^verbatim>\<open>ParseAddr\<close>: the first of the three separators decides.\<close>

fun parseAddrFrom :: "quoter \<Rightarrow> string \<Rightarrow> string \<Rightarrow> goError + addr" where
  "parseAddrFrom q input [] = Inl (addrError q input ''unable to parse IP'' [])"
| "parseAddrFrom q input (c # cs) =
     (if c = CHR ''.'' then
        (case parseIPv4Fields (addrError q input) input of Inl e \<Rightarrow> Inl e | Inr octets \<Rightarrow> Inr (V4 octets))
      else if c = CHR '':'' then parseIPv6 q input
      else if c = CHR ''%'' then Inl (addrError q input ''missing IPv6 address'' [])
      else parseAddrFrom q input cs)"

definition ParseAddr :: "quoter \<Rightarrow> string \<Rightarrow> goError + addr" where
  "ParseAddr q s = parseAddrFrom q s s"

section \<open>Prefixes\<close>

text \<open>\<^verbatim>\<open>strconv.Atoi\<close> on text without a sign: 64-bit overflow is an error.\<close>

definition atoi :: "string \<Rightarrow> nat option" where
  "atoi s = (if s = [] \<or> \<not> list_all isDigit s \<or> undecimal s \<ge> 2 ^ 63 then None else Some (undecimal s))"

definition prefixError :: "quoter \<Rightarrow> string \<Rightarrow> string \<Rightarrow> goError" where
  "prefixError q input msg = TextError (''netip.ParsePrefix('' @ q input @ ''): '' @ msg)"

definition zoned :: "addr \<Rightarrow> bool" where
  "zoned ip = (case ip of V4 _ \<Rightarrow> False | V6 _ zone \<Rightarrow> zone \<noteq> [])"

definition maxBits :: "addr \<Rightarrow> nat" where
  "maxBits ip = (case ip of V4 _ \<Rightarrow> 32 | V6 _ _ \<Rightarrow> 128)"

text \<open>The text before and after the last slash.\<close>

definition beforeSlash :: "string \<Rightarrow> string" where
  "beforeSlash s = rev (tl (dropWhile (\<lambda>c. c \<noteq> CHR ''/'') (rev s)))"

definition afterSlash :: "string \<Rightarrow> string" where
  "afterSlash s = rev (takeWhile (\<lambda>c. c \<noteq> CHR ''/'') (rev s))"

definition ParsePrefix :: "quoter \<Rightarrow> string \<Rightarrow> goError + addr \<times> nat" where
  "ParsePrefix q s =
     (if CHR ''/'' \<notin> set s then Inl (prefixError q s (''no '' @ [CHR 0x27, CHR ''/'', CHR 0x27]))
      else case ParseAddr q (beforeSlash s) of
        Inl e \<Rightarrow> Inl (prefixError q s (errorText e))
      | Inr ip \<Rightarrow>
          (let bitsStr = afterSlash s in
           if zoned ip then Inl (prefixError q s ''IPv6 zones cannot be present in a prefix'')
           else if length bitsStr > 1 \<and> \<not> (isDigit (hd bitsStr) \<and> hd bitsStr \<noteq> CHR ''0'') then
             Inl (prefixError q s (''bad bits after slash: '' @ q bitsStr))
           else case atoi bitsStr of
             None \<Rightarrow> Inl (prefixError q s (''bad bits after slash: '' @ q bitsStr))
           | Some bits \<Rightarrow>
               (if bits > maxBits ip then Inl (prefixError q s ''prefix length out of range'') else Inr (ip, bits))))"

section \<open>What is accepted is in range\<close>

lemma parseIPv4Loop_bytes:
  "parseIPv4Loop err prev val digLen octets s = Inr bs \<Longrightarrow> val < 256 \<Longrightarrow> list_all (\<lambda>b. b < 256) octets \<Longrightarrow>
     length octets \<le> 3 \<Longrightarrow> length bs = 4 \<and> list_all (\<lambda>b. b < 256) bs"
proof (induction s arbitrary: prev val digLen octets)
  case (Cons c cs)
  from Cons.prems Cons.IH [of "Some c" "val * 10 + digitValue c" "Suc digLen" octets]
    Cons.IH [of "Some c" 0 0 "octets @ [val]"]
  show ?case by (auto split: if_splits)
qed (auto split: if_splits)

lemma parseIPv4Fields_bytes:
  "parseIPv4Fields err s = Inr bs \<Longrightarrow> length bs = 4 \<and> list_all (\<lambda>b. b < 256) bs"
  unfolding parseIPv4Fields_def by (erule parseIPv4Loop_bytes) simp_all

lemma scanHex_bound: "scanHex err s off acc t = Inr (off', acc', rest) \<Longrightarrow> acc \<le> 65535 \<Longrightarrow> acc' \<le> 65535"
  by (induction err s off acc t rule: scanHex.induct) (auto split: option.splits if_splits)

text \<open>The position of \<^verbatim>\<open>::\<close> is inside the bytes, and there are at most sixteen of them.\<close>

definition v6State :: "nat option \<Rightarrow> nat list \<Rightarrow> bool" where
  "v6State ellipsis ip \<longleftrightarrow> length ip \<le> 16 \<and> even (length ip) \<and> list_all (\<lambda>b. b < 256) ip \<and>
     (case ellipsis of None \<Rightarrow> True | Some n \<Rightarrow> n \<le> length ip)"

lemma v6State_group:
  "v6State ellipsis ip \<Longrightarrow> length ip < 16 \<Longrightarrow> acc \<le> 65535 \<Longrightarrow> v6State ellipsis (ip @ [acc div 256, acc mod 256])"
  by (auto simp: v6State_def split: option.splits)

lemma v6State_ellipsis: "v6State ellipsis ip \<Longrightarrow> v6State (Some (length ip)) ip"
  by (simp add: v6State_def)

lemma parseIPv6Loop_state:
  "parseIPv6Loop err ellipsis ip s = Inr (ellipsis', ip', rest) \<Longrightarrow> v6State ellipsis ip \<Longrightarrow> v6State ellipsis' ip'"
proof (induction err ellipsis ip s rule: parseIPv6Loop.induct)
  case (1 err ellipsis ip s)
  show ?case
  proof (cases "length ip \<ge> 16")
    case True
    with 1(3,4) show ?thesis by (simp add: parseIPv6Loop.simps)
  next
    case False
    obtain off acc t where scan: "scanHex err s 0 0 s = Inr (off, acc, t)" and off: "off \<noteq> 0"
      using 1(3) False by (subst (asm) parseIPv6Loop.simps) (auto split: sum.splits if_splits)
    have group: "v6State ellipsis (ip @ [acc div 256, acc mod 256])"
      using v6State_group [OF 1(4)] False scanHex_bound [OF scan] by simp
    show ?thesis
    proof (cases "t \<noteq> [] \<and> hd t = CHR ''.''")
      case True
      then obtain octets where "parseIPv4Fields err s = Inr octets" "ellipsis' = ellipsis" "ip' = ip @ octets" "length ip + 4 \<le> 16"
        using 1(3) False scan off by (subst (asm) parseIPv6Loop.simps) (auto split: sum.splits if_splits)
      with 1(4) parseIPv4Fields_bytes show ?thesis by (fastforce simp: v6State_def split: option.splits)
    next
      case dot: False
      show ?thesis
        using 1(3) False scan off dot group v6State_ellipsis [OF group]
        by (subst (asm) parseIPv6Loop.simps)
          (auto simp: Let_def split: if_splits intro: 1(1) [OF _ scan refl refl] 1(2) [OF _ scan refl refl])
    qed
  qed
qed

text \<open>A parsed address has its number of bytes.\<close>

definition wfAddr :: "addr \<Rightarrow> bool" where
  "wfAddr ip = (case ip of V4 bs \<Rightarrow> length bs = 4 \<and> list_all (\<lambda>b. b < 256) bs
     | V6 bs zone \<Rightarrow> length bs = 16 \<and> list_all (\<lambda>b. b < 256) bs)"

lemma parseIPv6_wf: "parseIPv6 q s = Inr ip \<Longrightarrow> wfAddr ip"
proof -
  assume parsed: "parseIPv6 q s = Inr ip"
  let ?err = "addrError q s"
  let ?t = "takeWhile (\<lambda>c. c \<noteq> CHR ''%'') s"
  show "wfAddr ip"
  proof (cases "?t = ''::''")
    case True
    with parsed show ?thesis by (auto simp: parseIPv6_def Let_def wfAddr_def list_all_iff split: if_splits)
  next
    case False
    define run where "run = (if hasPrefix ?t ''::'' then parseIPv6Loop ?err (Some 0) [] (drop 2 ?t) else parseIPv6Loop ?err None [] ?t)"
    obtain ellipsis bs rest where run': "run = Inr (ellipsis, bs, rest)"
      using parsed False unfolding parseIPv6_def Let_def run_def [symmetric] by (auto split: sum.splits if_splits)
    have "v6State ellipsis bs"
      using run' unfolding run_def by (auto split: if_splits dest!: parseIPv6Loop_state simp: v6State_def)
    with parsed False run' have "\<exists>n zone. ip = V6 bs zone \<and> length bs = 16 \<or> n \<le> length bs \<and> length bs < 16 \<and>
        ip = V6 (take n bs @ replicate (16 - length bs) 0 @ drop n bs) zone"
      unfolding parseIPv6_def Let_def run_def [symmetric]
      by (auto simp: v6State_def split: if_splits option.splits)
    with \<open>v6State ellipsis bs\<close> show ?thesis
      by (fastforce simp: v6State_def wfAddr_def list_all_iff dest: in_set_takeD in_set_dropD)
  qed
qed

lemma parseAddrFrom_wf: "parseAddrFrom q s t = Inr ip \<Longrightarrow> wfAddr ip"
  by (induction q s t rule: parseAddrFrom.induct)
    (auto split: if_splits sum.splits dest: parseIPv6_wf parseIPv4Fields_bytes simp: wfAddr_def)

lemma ParsePrefix_wf: "ParsePrefix q s = Inr (ip, bits) \<Longrightarrow> wfAddr ip \<and> \<not> zoned ip \<and> bits \<le> maxBits ip"
  unfolding ParsePrefix_def ParseAddr_def Let_def
  by (auto split: if_splits sum.splits option.splits dest: parseAddrFrom_wf)

section \<open>Dotted notation is accepted\<close>

lemma digit_facts [simp]: "n < 10 \<Longrightarrow> isDigit (digit n)" "n < 10 \<Longrightarrow> digitValue (digit n) = n" "n < 10 \<Longrightarrow> digit n \<noteq> CHR ''.''"
  "n < 10 \<Longrightarrow> digit n \<noteq> CHR ''/''" "n < 10 \<Longrightarrow> digit n \<noteq> CHR '':''"  "n < 10 \<Longrightarrow> digit n \<noteq> CHR ''%''"
proof -
  assume n: "n < 10"
  then have code: "of_char (digit n) = 48 + n" by (simp add: digit_def)
  show "isDigit (digit n)" "digitValue (digit n) = n" using n code by (simp_all add: isDigit_def digitValue_def)
  have "digit n = c \<Longrightarrow> of_char c = 48 + n" for c using code by simp
  then show "digit n \<noteq> CHR ''.''" "digit n \<noteq> CHR ''/''" "digit n \<noteq> CHR '':''" "digit n \<noteq> CHR ''%''" using n by fastforce+
qed

lemma decimal_digits: "c \<in> set (decimal n) \<Longrightarrow> \<exists>d < 10. c = digit d"
proof (induction n rule: decimal.induct)
  case (1 n)
  then show ?case by (subst (asm) (2) decimal.simps) (auto split: if_splits intro: exI [of _ "n mod 10"])
qed

lemma decimal_octet:
  assumes "n < 256"
  obtains (one) "n < 10" "decimal n = [digit n]"
  | (two) "10 \<le> n" "decimal n = [digit (n div 10), digit (n mod 10)]" "0 < n div 10" "n div 10 < 10"
  | (three) "100 \<le> n" "decimal n = [digit (n div 10 div 10), digit (n div 10 mod 10), digit (n mod 10)]"
      "0 < n div 10 div 10" "n div 10 div 10 < 10"
proof -
  consider "n < 10" | "10 \<le> n" "n < 100" | "100 \<le> n" by linarith
  then show thesis
  proof cases
    case 1
    then show thesis by (intro one) (simp_all add: decimal.simps [of n])
  next
    case 2
    then have "n div 10 < 10" "0 < n div 10" by simp_all
    with 2 show thesis by (intro two) (simp_all add: decimal.simps [of n] decimal.simps [of "n div 10"])
  next
    case 3
    with assms have "n div 10 div 10 < 10" "0 < n div 10 div 10" "\<not> n div 10 < 10" by simp_all
    with 3 show thesis
      by (intro three) (simp_all add: decimal.simps [of n] decimal.simps [of "n div 10"] decimal.simps [of "n div 10 div 10"])
  qed
qed

lemma parse_octet:
  assumes "n < 256"
  shows "\<exists>d < 10. parseIPv4Loop err prev 0 0 octets (decimal n @ rest) =
    parseIPv4Loop err (Some (digit d)) n (length (decimal n)) octets rest"
  using assms
proof (cases rule: decimal_octet)
  case one
  then show ?thesis using assms by (intro exI [of _ n]) simp
next
  case two
  then show ?thesis using assms by (intro exI [of _ "n mod 10"]) simp
next
  case three
  have "n div 10 div 10 * 10 + n div 10 mod 10 = n div 10" and "n div 10 * 10 + n mod 10 = n" by simp_all
  moreover have "n div 10 \<le> 255" using assms by simp
  ultimately show ?thesis using assms three by (intro exI [of _ "n mod 10"]) simp
qed

definition showIPv4 :: "nat \<Rightarrow> nat \<Rightarrow> nat \<Rightarrow> nat \<Rightarrow> string" where
  "showIPv4 a b c d = decimal a @ ''.'' @ decimal b @ ''.'' @ decimal c @ ''.'' @ decimal d"

lemma parse_dot:
  assumes "n < 256" and "length octets < 3" and "rest \<noteq> []"
  shows "parseIPv4Loop err prev 0 0 octets (decimal n @ CHR ''.'' # rest) =
    parseIPv4Loop err (Some (CHR ''.'')) 0 0 (octets @ [n]) rest"
proof -
  obtain k where "k < 10" "parseIPv4Loop err prev 0 0 octets (decimal n @ CHR ''.'' # rest) =
      parseIPv4Loop err (Some (digit k)) n (length (decimal n)) octets (CHR ''.'' # rest)"
    using parse_octet [OF assms(1)] by blast
  moreover have "\<not> isDigit (CHR ''.'')" by (simp add: isDigit_def)
  ultimately show ?thesis using assms by simp
qed

lemma parse_IPv4:
  assumes "a < 256" "b < 256" "c < 256" "d < 256"
  shows "parseIPv4Fields err (showIPv4 a b c d) = Inr [a, b, c, d]"
proof -
  obtain k where "parseIPv4Loop err (Some (CHR ''.'')) 0 0 [a, b, c] (decimal d @ []) =
      parseIPv4Loop err (Some (digit k)) d (length (decimal d)) [a, b, c] []"
    using parse_octet [OF assms(4)] by blast
  then show ?thesis
    using assms by (simp add: parseIPv4Fields_def showIPv4_def parse_dot)
qed

lemma parseAddrFrom_digits:
  "\<forall>x \<in> set ds. \<exists>k < 10. x = digit k \<Longrightarrow> parseAddrFrom q s (ds @ rest) = parseAddrFrom q s rest"
  by (induction ds) auto

lemma ParseAddr_IPv4:
  assumes "a < 256" "b < 256" "c < 256" "d < 256"
  shows "ParseAddr q (showIPv4 a b c d) = Inr (V4 [a, b, c, d])"
proof -
  have "parseAddrFrom q s (decimal a @ ''.'' @ t) = parseAddrFrom q s (CHR ''.'' # t)" for s t
    using parseAddrFrom_digits [of "decimal a" q s] decimal_digits by auto
  then have "ParseAddr q (showIPv4 a b c d) =
      parseAddrFrom q (showIPv4 a b c d) (CHR ''.'' # decimal b @ ''.'' @ decimal c @ ''.'' @ decimal d)"
    by (simp add: ParseAddr_def showIPv4_def)
  then show ?thesis using parse_IPv4 [OF assms] by simp
qed

lemma slash_split: "CHR ''/'' \<notin> set bits \<Longrightarrow> beforeSlash (t @ CHR ''/'' # bits) = t \<and> afterSlash (t @ CHR ''/'' # bits) = bits"
proof -
  assume "CHR ''/'' \<notin> set bits"
  then have "\<forall>x \<in> set (rev bits). x \<noteq> CHR ''/''" by auto
  then show ?thesis
    by (simp add: beforeSlash_def afterSlash_def takeWhile_append2 dropWhile_append2 del: set_rev)
qed

lemma decimal_no_zero: "length (decimal n) > 1 \<Longrightarrow> isDigit (hd (decimal n)) \<and> hd (decimal n) \<noteq> CHR ''0''"
proof (induction n rule: decimal.induct)
  case (1 n)
  show ?case
  proof (cases "n < 10")
    case True
    with "1.prems" show ?thesis by (simp add: decimal.simps [of n])
  next
    case False
    show ?thesis
    proof (cases "n div 10 < 10")
      case True
      then have "decimal n = [digit (n div 10), digit (n mod 10)]"
        using False by (simp add: decimal.simps [of n] decimal.simps [of "n div 10"])
      moreover have "0 < n div 10" using False by simp
      moreover have "digit (n div 10) \<noteq> CHR ''0''"
      proof
        assume "digit (n div 10) = CHR ''0''"
        then have "digitValue (digit (n div 10)) = digitValue (CHR ''0'')" by simp
        also have "\<dots> = 0" by (simp add: digitValue_def)
        finally show False using True \<open>0 < n div 10\<close> by simp
      qed
      ultimately show ?thesis using True by simp
    next
      case big: False
      then have "length (decimal (n div 10)) > 1"
        by (subst decimal.simps) (auto simp: neq_Nil_conv Suc_le_eq)
      with "1.IH" [OF False] False show ?thesis by (subst (1 2) decimal.simps) simp
    qed
  qed
qed

lemma atoi_decimal: "n < 2 ^ 63 \<Longrightarrow> atoi (decimal n) = Some n"
  using decimal_digits [of _ n] by (fastforce simp: atoi_def list_all_iff)

lemma ParsePrefix_IPv4:
  assumes "a < 256" "b < 256" "c < 256" "d < 256" and "bits \<le> 32"
  shows "ParsePrefix q (showIPv4 a b c d @ ''/'' @ decimal bits) = Inr (V4 [a, b, c, d], bits)"
proof -
  have "CHR ''/'' \<notin> set (decimal bits)" using decimal_digits [of "CHR ''/''" bits] by (metis digit_facts(4))
  then show ?thesis
    using slash_split [of "decimal bits" "showIPv4 a b c d"] ParseAddr_IPv4 [OF assms(1-4)] decimal_no_zero [of bits]
      atoi_decimal [of bits] assms(5)
    by (auto simp: ParsePrefix_def zoned_def maxBits_def Let_def)
qed

end
