(* ===== verification/Admission.thy ===== *)
theory Admission
  imports ConfigPlan GoNetip
begin

text \<open>
  The admission webhooks of \<^verbatim>\<open>src/internal/webhook/v1/hermesagent_webhook.go\<close>: the defaulter, which
  fills in unset fields, and the validator, which collects field errors.  Three functions the
  validator calls are parameters: \<^verbatim>\<open>resource.ParseQuantity\<close> and \<^verbatim>\<open>ValidateLabelSelector\<close>, which live
  outside the repository, and \<^verbatim>\<open>strconv.Quote\<close>, which only shows in error texts.
\<close>

section \<open>Defaulting\<close>

record probeDefaults =
  dfEnabled :: bool
  dfInitialDelaySeconds :: int
  dfPeriodSeconds :: int
  dfTimeoutSeconds :: int
  dfFailureThreshold :: int

definition defaultProbe :: "hermesAgentProbeSpec \<Rightarrow> probeDefaults \<Rightarrow> hermesAgentProbeSpec" where
  "defaultProbe p d =
     \<lparr>prEnabled = (if prEnabled p = None then Some True else prEnabled p),
      prInitialDelaySeconds =
        (if prInitialDelaySeconds p = 0 \<and> dfInitialDelaySeconds d > 0 then dfInitialDelaySeconds d
         else prInitialDelaySeconds p),
      prPeriodSeconds = (if prPeriodSeconds p = 0 then dfPeriodSeconds d else prPeriodSeconds p),
      prTimeoutSeconds = (if prTimeoutSeconds p = 0 then dfTimeoutSeconds d else prTimeoutSeconds p),
      prFailureThreshold = (if prFailureThreshold p = 0 then dfFailureThreshold d else prFailureThreshold p)\<rparr>"

definition defaultImage :: "hermesAgentImageSpec \<Rightarrow> hermesAgentImageSpec" where
  "defaultImage im =
     \<lparr>imRepository = (if imRepository im = [] then DefaultHermesAgentImageRepository else imRepository im),
      imTag = (if imTag im = [] then DefaultHermesAgentImageTag else imTag im),
      imPullPolicy = (if imPullPolicy im = [] then ''IfNotPresent'' else imPullPolicy im)\<rparr>"

definition defaultPersistence :: "hermesAgentPersistenceSpec \<Rightarrow> hermesAgentPersistenceSpec" where
  "defaultPersistence p =
     p\<lparr>pvEnabled := (if pvEnabled p = None then Some True else pvEnabled p),
       pvSize := (if pvSize p = [] then ''10Gi'' else pvSize p),
       pvAccessModes := (if pvAccessModes p = [] then [''ReadWriteOnce''] else pvAccessModes p)\<rparr>"

definition defaultService :: "hermesAgentServiceSpec \<Rightarrow> hermesAgentServiceSpec" where
  "defaultService s =
     s\<lparr>svType := (if svType s = [] then ''ClusterIP'' else svType s),
       svPort := (if svPort s = 0 then 8080 else svPort s)\<rparr>"

definition defaultProbes :: "hermesAgentProbesSpec \<Rightarrow> hermesAgentProbesSpec" where
  "defaultProbes ps =
     ps\<lparr>pbStartup := defaultProbe (pbStartup ps) \<lparr>dfEnabled = True, dfInitialDelaySeconds = 0, dfPeriodSeconds = 10,
          dfTimeoutSeconds = 5, dfFailureThreshold = 18\<rparr>,
        pbReadiness := defaultProbe (pbReadiness ps) \<lparr>dfEnabled = True, dfInitialDelaySeconds = 5, dfPeriodSeconds = 10,
          dfTimeoutSeconds = 5, dfFailureThreshold = 3\<rparr>,
        pbLiveness := defaultProbe (pbLiveness ps) \<lparr>dfEnabled = True, dfInitialDelaySeconds = 15, dfPeriodSeconds = 10,
          dfTimeoutSeconds = 5, dfFailureThreshold = 3\<rparr>\<rparr>"

definition defaultSpec :: "hermesAgentSpec \<Rightarrow> hermesAgentSpec" where
  "defaultSpec sp =
     sp\<lparr>spMode := (if spMode sp = [] then ''gateway'' else spMode sp),
        spImage := defaultImage (spImage sp),
        spStorage := (spStorage sp)\<lparr>stPersistence := defaultPersistence (stPersistence (spStorage sp))\<rparr>,
        spReplicas := (if spReplicas sp = 0 then 1 else spReplicas sp),
        spAutomountServiceAccountToken :=
          (if spAutomountServiceAccountToken sp = None then Some False else spAutomountServiceAccountToken sp),
        spService := defaultService (spService sp),
        spNetworkPolicy := (spNetworkPolicy sp)\<lparr>nwEnabled :=
          (if nwEnabled (spNetworkPolicy sp) = None then Some False else nwEnabled (spNetworkPolicy sp))\<rparr>,
        spUpdateStrategy := (spUpdateStrategy sp)\<lparr>usType :=
          (if usType (spUpdateStrategy sp) = [] then ''RollingUpdate'' else usType (spUpdateStrategy sp))\<rparr>,
        spProbes := defaultProbes (spProbes sp)\<rparr>"

definition Default :: "hermesAgent \<Rightarrow> hermesAgent" where
  "Default obj = obj\<lparr>haSpec := defaultSpec (haSpec obj)\<rparr>"

section \<open>Field errors\<close>

datatype pathElement = Child string | Index nat

type_synonym fieldPath = "pathElement list"

datatype badValue =
    BadConfigSource hermesAgentConfigSource
  | BadEnvFrom envFromSource
  | BadFileMount hermesAgentFileMountSpec
  | BadRollingUpdate hermesAgentRollingUpdateStrategySpec
  | BadPeer hermesAgentNetworkPolicyPeer
  | BadString string
  | BadStrings "string list"
  | BadInt int

datatype fieldError = Invalid fieldPath badValue string | Required fieldPath string

record admissionLib =
  parseQuantity :: "string \<Rightarrow> goError + quantity"
  strconvQuote :: quoter
  validateLabelSelector :: "labelSelector \<Rightarrow> fieldPath \<Rightarrow> fieldError list"

text \<open>\<^verbatim>\<open>append(allErrs, ...)\<close> under a condition.\<close>

definition errorIf :: "bool \<Rightarrow> fieldError \<Rightarrow> fieldError list" where
  "errorIf b e = (if b then [e] else [])"

lemma errorIf_Nil [simp]: "errorIf b e = [] \<longleftrightarrow> \<not> b"
  by (simp add: errorIf_def)

section \<open>Validation\<close>

definition validateConfigSource :: "fieldPath \<Rightarrow> hermesAgentConfigSource \<Rightarrow> fieldError list" where
  "validateConfigSource path source =
     errorIf (sourceCount source > 1)
       (Invalid path (BadConfigSource source) ''raw, configMapRef, and secretRef are mutually exclusive'') @
     (case csConfigMapRef source of
        None \<Rightarrow> []
      | Some ref \<Rightarrow>
          errorIf (ksName ref = [])
            (Required (path @ [Child ''configMapRef'', Child ''name'']) ''name is required when configMapRef is set'') @
          errorIf (ksKey ref = [])
            (Required (path @ [Child ''configMapRef'', Child ''key'']) ''key is required when configMapRef is set'')) @
     (case csSecretRef source of
        None \<Rightarrow> []
      | Some ref \<Rightarrow>
          errorIf (ksName ref = [])
            (Required (path @ [Child ''secretRef'', Child ''name'']) ''name is required when secretRef is set'') @
          errorIf (ksKey ref = [])
            (Required (path @ [Child ''secretRef'', Child ''key'']) ''key is required when secretRef is set''))"

text \<open>A \<^verbatim>\<open>for i, x := range xs\<close> loop that appends the errors of every element.\<close>

definition forIndexed :: "(nat \<Rightarrow> 'a \<Rightarrow> fieldError list) \<Rightarrow> 'a list \<Rightarrow> fieldError list" where
  "forIndexed f xs = concat (map (\<lambda>(i, x). f i x) (enumerate 0 xs))"

definition validateKeyRef :: "fieldPath \<Rightarrow> string \<Rightarrow> keySelector option \<Rightarrow> fieldError list" where
  "validateKeyRef path what ref =
     (case ref of
        None \<Rightarrow> []
      | Some r \<Rightarrow>
          errorIf (ksName r = [])
            (Required (path @ [Child ''valueFrom'', Child what, Child ''name'']) (''name is required when '' @ what @ '' is set'')) @
          errorIf (ksKey r = [])
            (Required (path @ [Child ''valueFrom'', Child what, Child ''key'']) (''key is required when '' @ what @ '' is set'')))"

definition validateEnv :: "fieldPath \<Rightarrow> envVar list \<Rightarrow> fieldError list" where
  "validateEnv path envVars =
     forIndexed (\<lambda>i envVar.
       let envPath = path @ [Index i]
       in errorIf (evName envVar = []) (Required (envPath @ [Child ''name'']) ''name is required'') @
          (case evValueFrom envVar of
             None \<Rightarrow> []
           | Some src \<Rightarrow>
               validateKeyRef envPath ''configMapKeyRef'' (esConfigMapKeyRef src) @
               validateKeyRef envPath ''secretKeyRef'' (esSecretKeyRef src))) envVars"

definition validateEnvFrom :: "fieldPath \<Rightarrow> envFromSource list \<Rightarrow> fieldError list" where
  "validateEnvFrom path sources =
     forIndexed (\<lambda>i source.
       let sourcePath = path @ [Index i];
           hasConfigMap = efConfigMapRef source \<noteq> None;
           hasSecret = efSecretRef source \<noteq> None
       in (if hasConfigMap \<and> hasSecret then
             [Invalid sourcePath (BadEnvFrom source) ''configMapRef and secretRef are mutually exclusive'']
           else if \<not> hasConfigMap \<and> \<not> hasSecret then
             [Invalid sourcePath (BadEnvFrom source) ''either configMapRef or secretRef must be set'']
           else []) @
          errorIf (case efConfigMapRef source of None \<Rightarrow> False | Some r \<Rightarrow> erName r = [])
            (Required (sourcePath @ [Child ''configMapRef'', Child ''name'']) ''name is required when configMapRef is set'') @
          errorIf (case efSecretRef source of None \<Rightarrow> False | Some r \<Rightarrow> erName r = [])
            (Required (sourcePath @ [Child ''secretRef'', Child ''name'']) ''name is required when secretRef is set'')) sources"

definition validateLocalObjectReferences :: "fieldPath \<Rightarrow> localObjectReference list \<Rightarrow> fieldError list" where
  "validateLocalObjectReferences path refs =
     forIndexed (\<lambda>i ref. errorIf (lorName ref = []) (Required (path @ [Index i, Child ''name'']) ''name is required'')) refs"

subsection \<open>File mounts\<close>

definition webhookValidateFileMountItemPath :: "fieldPath \<Rightarrow> string \<Rightarrow> fieldError list" where
  "webhookValidateFileMountItemPath path p =
     (case p of
        [] \<Rightarrow> []
      | c # _ \<Rightarrow>
          (if c = CHR ''/'' then [Invalid path (BadString p) ''path must be relative'']
           else
             (let clean = pathClean p
              in errorIf (clean = ''.'' \<or> clean \<noteq> p \<or> clean = ''..'' \<or> hasPrefix clean ''../'')
                   (Invalid path (BadString p) ''path must not contain '.' or '..' path segments''))))"

definition validateMode :: "fieldPath \<Rightarrow> int option \<Rightarrow> fieldError list" where
  "validateMode path mode =
     (case mode of
        None \<Rightarrow> []
      | Some m \<Rightarrow> errorIf (m < 0 \<or> m > 511) (Invalid path (BadInt m) ''must be between 0 and 0777''))"

text \<open>The inner loop over the items of mount \<open>i\<close> at \<open>mountPath\<close>, with the keys and paths seen so far.\<close>

fun webhookItemsFrom ::
  "fieldPath \<Rightarrow> nat \<Rightarrow> nat \<Rightarrow> (string, nat) fmap \<Rightarrow> (string, nat) fmap \<Rightarrow> hermesAgentFileProjectionItem list \<Rightarrow> fieldError list" where
  "webhookItemsFrom mountPath i j seenKeys seenPaths [] = []"
| "webhookItemsFrom mountPath i j seenKeys seenPaths (item # items) =
     (let itemPath = mountPath @ [Child ''items'', Index j];
          (keyErrs, seenKeys') =
            (if piKey item = [] then ([Required (itemPath @ [Child ''key'']) ''key is required''], seenKeys)
             else case fmlookup seenKeys (piKey item) of
               Some previous \<Rightarrow>
                 ([Invalid (itemPath @ [Child ''key'']) (BadString (piKey item))
                    (''key duplicates fileMounts['' @ decimal i @ ''].items['' @ decimal previous @ ''].key'')], seenKeys)
             | None \<Rightarrow> ([], fmupd (piKey item) j seenKeys));
          (pathErrs, seenPaths') =
            (if piPath item = [] then ([Required (itemPath @ [Child ''path'']) ''path is required''], seenPaths)
             else
               (let shape = webhookValidateFileMountItemPath (itemPath @ [Child ''path'']) (piPath item)
                in case fmlookup seenPaths (piPath item) of
                     Some previous \<Rightarrow>
                       (shape @ [Invalid (itemPath @ [Child ''path'']) (BadString (piPath item))
                          (''path duplicates fileMounts['' @ decimal i @ ''].items['' @ decimal previous @ ''].path'')], seenPaths)
                   | None \<Rightarrow> (shape, fmupd (piPath item) j seenPaths)))
      in keyErrs @ pathErrs @ validateMode (itemPath @ [Child ''mode'']) (piMode item) @
         webhookItemsFrom mountPath i (Suc j) seenKeys' seenPaths' items)"

definition mountSourceErrors :: "fieldPath \<Rightarrow> hermesAgentFileMountSpec \<Rightarrow> fieldError list" where
  "mountSourceErrors mountPath m =
     (if fmConfigMapRef m \<noteq> None \<and> fmSecretRef m \<noteq> None then
        [Invalid mountPath (BadFileMount m) ''configMapRef and secretRef are mutually exclusive'']
      else if fmConfigMapRef m = None \<and> fmSecretRef m = None then
        [Invalid mountPath (BadFileMount m) ''either configMapRef or secretRef must be set'']
      else [])"

definition mountPathErrors ::
  "fieldPath \<Rightarrow> nat \<Rightarrow> (string, nat) fmap \<Rightarrow> string \<Rightarrow> fieldError list \<times> (string, nat) fmap" where
  "mountPathErrors mountPath i seen p =
     (case p of
        [] \<Rightarrow> ([Required (mountPath @ [Child ''mountPath'']) ''mountPath is required''], seen)
      | c # _ \<Rightarrow>
          (let absErrs = errorIf (c \<noteq> CHR ''/'')
                 (Invalid (mountPath @ [Child ''mountPath'']) (BadString p) ''mountPath must be absolute'')
           in case fmlookup seen p of
                Some previous \<Rightarrow>
                  (absErrs @ [Invalid (mountPath @ [Child ''mountPath'']) (BadString p)
                     (''mountPath duplicates fileMounts['' @ decimal previous @ ''].mountPath'')], seen)
              | None \<Rightarrow> (absErrs, fmupd p i seen)))"

definition mountNameErrors :: "fieldPath \<Rightarrow> hermesAgentFileMountSpec \<Rightarrow> fieldError list" where
  "mountNameErrors mountPath m =
     errorIf (case fmConfigMapRef m of None \<Rightarrow> False | Some r \<Rightarrow> lorName r = [])
       (Required (mountPath @ [Child ''configMapRef'', Child ''name'']) ''name is required when configMapRef is set'') @
     errorIf (case fmSecretRef m of None \<Rightarrow> False | Some r \<Rightarrow> lorName r = [])
       (Required (mountPath @ [Child ''secretRef'', Child ''name'']) ''name is required when secretRef is set'')"

fun webhookMountsFrom ::
  "fieldPath \<Rightarrow> nat \<Rightarrow> (string, nat) fmap \<Rightarrow> hermesAgentFileMountSpec list \<Rightarrow> fieldError list" where
  "webhookMountsFrom path i seen [] = []"
| "webhookMountsFrom path i seen (m # ms) =
     (let mountPath = path @ [Index i];
          (pathErrs, seen') = mountPathErrors mountPath i seen (fmMountPath m)
      in mountSourceErrors mountPath m @ pathErrs @ mountNameErrors mountPath m @
         validateMode (mountPath @ [Child ''defaultMode'']) (fmDefaultMode m) @
         webhookItemsFrom mountPath i 0 fmempty fmempty (fmItems m) @
         webhookMountsFrom path (Suc i) seen' ms)"

definition validateFileMounts :: "fieldPath \<Rightarrow> hermesAgentFileMountSpec list \<Rightarrow> fieldError list" where
  "validateFileMounts path mounts = webhookMountsFrom path 0 fmempty mounts"

subsection \<open>Workload, network and storage\<close>

definition validateReplicas :: "fieldPath \<Rightarrow> hermesAgentSpec \<Rightarrow> fieldError list" where
  "validateReplicas path sp =
     (let replicasPath = path @ [Child ''replicas''];
          persistence = pvEnabled (stPersistence (spStorage sp));
          persistenceOn = (persistence = None \<or> persistence = Some True)
      in errorIf (spReplicas sp \<le> 0)
           (Invalid replicasPath (BadInt (spReplicas sp)) ''replicas must be greater than zero'') @
         errorIf (spReplicas sp > 1 \<and> persistenceOn)
           (Invalid replicasPath (BadInt (spReplicas sp))
              ''replicas greater than 1 require spec.storage.persistence.enabled=false because the operator does not manage shared Hermes state''))"

definition validateUpdateStrategy :: "fieldPath \<Rightarrow> hermesAgentUpdateStrategySpec \<Rightarrow> fieldError list" where
  "validateUpdateStrategy path strategy =
     (case usRollingUpdate strategy of
        None \<Rightarrow> []
      | Some ru \<Rightarrow>
          errorIf (usType strategy = ''OnDelete'')
            (Invalid (path @ [Child ''rollingUpdate'']) (BadRollingUpdate ru)
               ''rollingUpdate is only valid when type is RollingUpdate'') @
          (case ruPartition ru of
             None \<Rightarrow> []
           | Some n \<Rightarrow>
               errorIf (n < 0)
                 (Invalid (path @ [Child ''rollingUpdate'', Child ''partition'']) (BadInt n) ''partition must be zero or greater'')))"

definition validateService :: "fieldPath \<Rightarrow> hermesAgentServiceSpec \<Rightarrow> fieldError list" where
  "validateService path sv =
     errorIf (svEnabled sv \<and> svPort sv \<le> 0)
       (Invalid (path @ [Child ''port'']) (BadInt (svPort sv)) ''port must be greater than zero when service is enabled'') @
     errorIf (svTargetPort sv < 0)
       (Invalid (path @ [Child ''targetPort'']) (BadInt (svTargetPort sv))
          (if svEnabled sv then ''targetPort must be greater than zero when service is enabled''
           else ''targetPort must be zero or greater''))"

definition validCIDR :: "admissionLib \<Rightarrow> fieldPath \<Rightarrow> string \<Rightarrow> fieldError list" where
  "validCIDR lib path cidr =
     (case ParsePrefix (strconvQuote lib) cidr of
        Inr _ \<Rightarrow> []
      | Inl err \<Rightarrow> [Invalid path (BadString cidr) (''must be a valid CIDR: '' @ errorText err)])"

definition validateNetworkPolicyDestinations ::
  "admissionLib \<Rightarrow> fieldPath \<Rightarrow> hermesAgentNetworkPolicyPeer list \<Rightarrow> fieldError list" where
  "validateNetworkPolicyDestinations lib path destinations =
     forIndexed (\<lambda>i d.
       let dpath = path @ [Index i];
           hasCIDR = npCIDR d \<noteq> []
       in errorIf (\<not> hasCIDR \<and> npNamespaceSelector d = None \<and> npPodSelector d = None)
            (Invalid dpath (BadPeer d) ''at least one of cidr, namespaceSelector, or podSelector must be set'') @
          (if hasCIDR then validCIDR lib (dpath @ [Child ''cidr'']) (npCIDR d) else []) @
          errorIf (npExcept d \<noteq> [] \<and> \<not> hasCIDR)
            (Invalid (dpath @ [Child ''except'']) (BadStrings (npExcept d)) ''except requires cidr to be set'') @
          forIndexed (\<lambda>k cidr. validCIDR lib (dpath @ [Child ''except'', Index k]) cidr) (npExcept d) @
          (case npNamespaceSelector d of
             None \<Rightarrow> [] | Some s \<Rightarrow> validateLabelSelector lib s (dpath @ [Child ''namespaceSelector''])) @
          (case npPodSelector d of
             None \<Rightarrow> [] | Some s \<Rightarrow> validateLabelSelector lib s (dpath @ [Child ''podSelector'']))) destinations"

definition validateNetworkPolicyPorts :: "fieldPath \<Rightarrow> int list \<Rightarrow> fieldError list" where
  "validateNetworkPolicyPorts path ports =
     forIndexed (\<lambda>i port. errorIf (port \<le> 0 \<or> port > 65535)
       (Invalid (path @ [Index i]) (BadInt port) ''must be between 1 and 65535'')) ports"

definition validateNetworkPolicy ::
  "admissionLib \<Rightarrow> fieldPath \<Rightarrow> hermesAgentNetworkPolicySpec \<Rightarrow> fieldError list" where
  "validateNetworkPolicy lib path np =
     validateNetworkPolicyDestinations lib (path @ [Child ''destinations'']) (nwDestinations np) @
     validateNetworkPolicyPorts (path @ [Child ''additionalTCPPorts'']) (nwAdditionalTCPPorts np) @
     validateNetworkPolicyPorts (path @ [Child ''additionalUDPPorts'']) (nwAdditionalUDPPorts np)"

definition validateStorage :: "admissionLib \<Rightarrow> fieldPath \<Rightarrow> hermesAgentPersistenceSpec \<Rightarrow> fieldError list" where
  "validateStorage lib path p =
     (if pvSize p = [] then []
      else case parseQuantity lib (pvSize p) of
        Inl err \<Rightarrow>
          [Invalid (path @ [Child ''size'']) (BadString (pvSize p)) (''must be a valid Kubernetes quantity: '' @ errorText err)]
      | Inr quantity \<Rightarrow>
          errorIf (sgn quantity \<le> 0) (Invalid (path @ [Child ''size'']) (BadString (pvSize p)) ''must be greater than zero''))"

definition validateProbeSpec :: "fieldPath \<Rightarrow> hermesAgentProbeSpec \<Rightarrow> fieldError list" where
  "validateProbeSpec path p =
     errorIf (prPeriodSeconds p < 0)
       (Invalid (path @ [Child ''periodSeconds'']) (BadInt (prPeriodSeconds p)) ''must be zero or greater'') @
     errorIf (prTimeoutSeconds p < 0)
       (Invalid (path @ [Child ''timeoutSeconds'']) (BadInt (prTimeoutSeconds p)) ''must be zero or greater'') @
     errorIf (prFailureThreshold p < 0)
       (Invalid (path @ [Child ''failureThreshold'']) (BadInt (prFailureThreshold p)) ''must be zero or greater'') @
     errorIf (prInitialDelaySeconds p < 0)
       (Invalid (path @ [Child ''initialDelaySeconds'']) (BadInt (prInitialDelaySeconds p)) ''must be zero or greater'')"

subsection \<open>The validator\<close>

definition validationErrors :: "admissionLib \<Rightarrow> hermesAgent \<Rightarrow> fieldError list" where
  "validationErrors lib obj =
     (let specPath = [Child ''spec'']; sp = haSpec obj
      in validateConfigSource (specPath @ [Child ''config'']) (spConfig sp) @
         validateConfigSource (specPath @ [Child ''gatewayConfig'']) (spGatewayConfig sp) @
         validateEnv (specPath @ [Child ''env'']) (spEnv sp) @
         validateEnvFrom (specPath @ [Child ''envFrom'']) (spEnvFrom sp) @
         validateLocalObjectReferences (specPath @ [Child ''secretRefs'']) (spSecretRefs sp) @
         validateFileMounts (specPath @ [Child ''fileMounts'']) (spFileMounts sp) @
         validateLocalObjectReferences (specPath @ [Child ''imagePullSecrets'']) (spImagePullSecrets sp) @
         validateReplicas specPath sp @
         validateUpdateStrategy (specPath @ [Child ''updateStrategy'']) (spUpdateStrategy sp) @
         validateService (specPath @ [Child ''service'']) (spService sp) @
         validateNetworkPolicy lib (specPath @ [Child ''networkPolicy'']) (spNetworkPolicy sp) @
         validateStorage lib (specPath @ [Child ''storage'', Child ''persistence'']) (stPersistence (spStorage sp)) @
         validateProbeSpec (specPath @ [Child ''probes'', Child ''startup'']) (pbStartup (spProbes sp)) @
         validateProbeSpec (specPath @ [Child ''probes'', Child ''readiness'']) (pbReadiness (spProbes sp)) @
         validateProbeSpec (specPath @ [Child ''probes'', Child ''liveness'']) (pbLiveness (spProbes sp)))"

text \<open>
  The result: nothing, or the API error \<^verbatim>\<open>NewInvalid\<close> with the name of the object and the field errors.
\<close>

datatype admissionError = NewInvalid string "fieldError list"

definition validateHermesAgent :: "admissionLib \<Rightarrow> hermesAgent \<Rightarrow> admissionError option" where
  "validateHermesAgent lib obj =
     (let allErrs = validationErrors lib obj
      in if allErrs = [] then None else Some (NewInvalid (agentName obj) allErrs))"

definition ValidateCreate :: "admissionLib \<Rightarrow> hermesAgent \<Rightarrow> admissionError option" where
  "ValidateCreate lib obj = validateHermesAgent lib obj"

definition ValidateUpdate :: "admissionLib \<Rightarrow> hermesAgent \<Rightarrow> hermesAgent \<Rightarrow> admissionError option" where
  "ValidateUpdate lib oldObj newObj = validateHermesAgent lib newObj"

definition ValidateDelete :: "admissionLib \<Rightarrow> hermesAgent \<Rightarrow> admissionError option" where
  "ValidateDelete lib obj = None"

section \<open>What the validator accepts\<close>

lemma forIndexed_Nil: "forIndexed f xs = [] \<longleftrightarrow> (\<forall>i < length xs. f i (xs ! i) = [])"
  by (simp add: forIndexed_def all_set_conv_all_nth nth_enumerate_eq)

lemma forIndexed_Nil_all: "(\<And>i x. f i x = [] \<longleftrightarrow> P x) \<Longrightarrow> forIndexed f xs = [] \<longleftrightarrow> list_all P xs"
  by (simp add: forIndexed_Nil list_all_length)

lemma validateMode_Nil [simp]: "validateMode path mode = [] \<longleftrightarrow> wfMode mode"
  by (auto simp: validateMode_def wfMode_def split: option.splits)

lemma webhookItemPath_Nil:
  "p \<noteq> [] \<Longrightarrow> webhookValidateFileMountItemPath path p = [] \<longleftrightarrow> list_all normalSegment (segments p)"
  unfolding validateFileMountItemPath_iff [symmetric]
  by (auto simp: webhookValidateFileMountItemPath_def validateFileMountItemPath_def isAbs_def Let_def
      split: list.splits)

lemma webhookItemsFrom_Nil:
  "webhookItemsFrom mountPath i j seenKeys seenPaths items = [] \<longleftrightarrow>
     validateItemsFrom i j seenKeys seenPaths items = None"
proof (induction items arbitrary: j seenKeys seenPaths)
  case (Cons item items)
  show ?case
    using Cons.IH webhookItemPath_Nil [of "piPath item"] validateFileMountItemPath_iff [of "piPath item"]
    by (auto simp: Let_def split: option.splits)
qed simp

lemma mountSource_Nil:
  "mountSourceErrors path m = [] \<and> mountNameErrors path m = [] \<longleftrightarrow>
     namedRef (fmConfigMapRef m) \<and> fmSecretRef m = None \<or> fmConfigMapRef m = None \<and> namedRef (fmSecretRef m)"
  by (cases "fmConfigMapRef m"; cases "fmSecretRef m")
    (simp_all add: mountSourceErrors_def mountNameErrors_def namedRef_def)

lemma mountPath_Nil:
  "fst (mountPathErrors path i seen p) = [] \<longleftrightarrow> isAbs p \<and> fmlookup seen p = None"
  by (auto simp: mountPathErrors_def isAbs_def Let_def split: list.splits option.splits)

lemma mountPath_seen:
  "fst (mountPathErrors path i seen p) = [] \<Longrightarrow> snd (mountPathErrors path i seen p) = fmupd p i seen"
  by (auto simp: mountPathErrors_def Let_def split: list.splits option.splits)

lemma webhookMountsFrom_Nil:
  "webhookMountsFrom path i seen ms = [] \<longleftrightarrow>
     wfFileMounts ms \<and> (\<forall>m \<in> set ms. fmlookup seen (fmMountPath m) = None)"
proof (induction ms arbitrary: i seen)
  case (Cons m ms)
  let ?path = "path @ [Index i]"
  have "webhookMountsFrom path i seen (m # ms) = [] \<longleftrightarrow>
      (mountSourceErrors ?path m = [] \<and> mountNameErrors ?path m = []) \<and>
      fst (mountPathErrors ?path i seen (fmMountPath m)) = [] \<and> wfMode (fmDefaultMode m) \<and>
      wfItems (fmItems m) \<and>
      webhookMountsFrom path (Suc i) (snd (mountPathErrors ?path i seen (fmMountPath m))) ms = []"
    by (auto simp: Let_def webhookItemsFrom_Nil validateItemsFrom_iff split: prod.splits)
  also have "\<dots> \<longleftrightarrow> wfFileMount m \<and> fmlookup seen (fmMountPath m) = None \<and>
      webhookMountsFrom path (Suc i) (fmupd (fmMountPath m) i seen) ms = []"
    unfolding mountSource_Nil wfFileMount_def using mountPath_Nil mountPath_seen by metis
  finally show ?case
    unfolding Cons.IH by (auto simp: wfFileMounts_def)
qed (simp add: wfFileMounts_def)

lemma validateFileMounts_Nil: "validateFileMounts path ms = [] \<longleftrightarrow> wfFileMounts ms"
  by (simp add: validateFileMounts_def webhookMountsFrom_Nil)

interpretation webhookMounts: mount_validator "\<lambda>ms. validateFileMounts path ms = []" for path
  by unfold_locales (rule validateFileMounts_Nil)

lemma validateConfigSource_Nil: "validateConfigSource path s = [] \<longleftrightarrow> wfConfigSource s"
  by (auto simp: validateConfigSource_def wfConfigSource_def split: option.splits)

lemma validateLocalObjectReferences_Nil:
  "validateLocalObjectReferences path refs = [] \<longleftrightarrow> list_all (\<lambda>r. lorName r \<noteq> []) refs"
  unfolding validateLocalObjectReferences_def by (rule forIndexed_Nil_all) simp

lemma validateReplicas_Nil:
  "validateReplicas path sp = [] \<longleftrightarrow>
     spReplicas sp \<ge> 1 \<and> (spReplicas sp = 1 \<or> pvEnabled (stPersistence (spStorage sp)) = Some False)"
  by (auto simp: validateReplicas_def Let_def)

lemma validateNetworkPolicyPorts_Nil:
  "validateNetworkPolicyPorts path ports = [] \<longleftrightarrow> list_all (\<lambda>p. 1 \<le> p \<and> p \<le> 65535) ports"
  unfolding validateNetworkPolicyPorts_def by (rule forIndexed_Nil_all) auto

lemma validateStorage_Nil:
  "validateStorage lib path p = [] \<longleftrightarrow> pvSize p = [] \<or> (\<exists>q > 0. parseQuantity lib (pvSize p) = Inr q)"
  by (auto simp: validateStorage_def not_le sgn_if split: sum.splits if_splits)

lemma validateUpdateStrategy_Nil:
  "validateUpdateStrategy path u = [] \<longleftrightarrow>
     (case usRollingUpdate u of
        None \<Rightarrow> True
      | Some ru \<Rightarrow> usType u \<noteq> ''OnDelete'' \<and> (case ruPartition ru of None \<Rightarrow> True | Some n \<Rightarrow> n \<ge> 0))"
  by (auto simp: validateUpdateStrategy_def split: option.splits)

lemma validateService_Nil:
  "validateService path s = [] \<longleftrightarrow> (svEnabled s \<longrightarrow> svPort s > 0) \<and> svTargetPort s \<ge> 0"
  by (auto simp: validateService_def)

lemma validateProbeSpec_Nil:
  "validateProbeSpec path p = [] \<longleftrightarrow> prPeriodSeconds p \<ge> 0 \<and> prTimeoutSeconds p \<ge> 0 \<and>
     prFailureThreshold p \<ge> 0 \<and> prInitialDelaySeconds p \<ge> 0"
  by (auto simp: validateProbeSpec_def)

lemmas validator_Nil = validateConfigSource_Nil validateFileMounts_Nil validateLocalObjectReferences_Nil
  validateReplicas_Nil validateStorage_Nil validateUpdateStrategy_Nil validateService_Nil validateProbeSpec_Nil

lemma validateHermesAgent_None: "validateHermesAgent lib obj = None \<longleftrightarrow> validationErrors lib obj = []"
  by (simp add: validateHermesAgent_def Let_def)

lemma admittedD:
  assumes "validateHermesAgent lib obj = None"
  shows "wfConfigSource (spConfig (haSpec obj))" "wfConfigSource (spGatewayConfig (haSpec obj))"
    "wfFileMounts (spFileMounts (haSpec obj))" "list_all (\<lambda>r. lorName r \<noteq> []) (spSecretRefs (haSpec obj))"
    "validateEnv [Child ''spec'', Child ''env''] (spEnv (haSpec obj)) = []"
    "validateEnvFrom [Child ''spec'', Child ''envFrom''] (spEnvFrom (haSpec obj)) = []"
    "validateReplicas [Child ''spec''] (haSpec obj) = []"
    "validateService [Child ''spec'', Child ''service''] (spService (haSpec obj)) = []"
    "validateNetworkPolicy lib [Child ''spec'', Child ''networkPolicy''] (spNetworkPolicy (haSpec obj)) = []"
    "validateStorage lib [Child ''spec'', Child ''storage'', Child ''persistence'']
       (stPersistence (spStorage (haSpec obj))) = []"
  using assms
  by (simp_all add: validateHermesAgent_None validationErrors_def Let_def validateConfigSource_Nil
      validateFileMounts_Nil validateLocalObjectReferences_Nil)

section \<open>Properties\<close>

text \<open>A concrete instance of the three library functions, for the witnesses.\<close>

definition sampleLib :: admissionLib where
  "sampleLib =
     \<lparr>parseQuantity = (\<lambda>s. if s = ''10Gi'' then Inr 10737418240 else Inl (TextError ''unable to parse quantity'')),
      strconvQuote = (\<lambda>s. s),
      validateLabelSelector = (\<lambda>s path. [])\<rparr>"

definition sampleMount :: hermesAgentFileMountSpec where
  "sampleMount = \<lparr>fmMountPath = ''/etc/hermes'', fmConfigMapRef = Some \<lparr>lorName = ''shared''\<rparr>, fmSecretRef = None,
     fmItems = [\<lparr>piKey = ''a'', piPath = ''sub/a'', piMode = Some 420\<rparr>], fmDefaultMode = None\<rparr>"

definition sampleAgent :: hermesAgent where
  "sampleAgent = zeroAgent\<lparr>haMeta := zeroMeta\<lparr>omName := ''demo'', omNamespace := ''default'', omUID := ''uid-1''\<rparr>,
     haSpec := defaultSpec (zeroSpec\<lparr>spConfig := noConfigSource\<lparr>csRaw := ''terminal: {}''\<rparr>,
       spFileMounts := [sampleMount]\<rparr>)\<rparr>"

lemma wfItem_sample: "wfFileMounts [sampleMount]"
  by (simp add: sampleMount_def wfFileMounts_def wfFileMount_def namedRef_def isAbs_def wfMode_def wfItems_def
      wfItem_def normalSegment_def)

lemmas validator_defs = validateConfigSource_def validateEnv_def validateEnvFrom_def
  validateLocalObjectReferences_def validateReplicas_def validateUpdateStrategy_def validateService_def
  validateNetworkPolicy_def validateNetworkPolicyDestinations_def validateNetworkPolicyPorts_def
  validateStorage_def validateProbeSpec_def forIndexed_def

lemmas default_defs = defaultSpec_def defaultImage_def defaultPersistence_def defaultService_def
  defaultProbes_def defaultProbe_def

lemma sampleAgent_admitted: "validateHermesAgent sampleLib sampleAgent = None"
  using wfItem_sample
  by (simp add: validateHermesAgent_None validationErrors_def validateFileMounts_Nil sampleAgent_def
      zero_defs default_defs validator_defs sourceCount_def sampleLib_def Let_def)

text \<open>\<^bold>\<open>C18.\<close> The two independent validators of file mounts agree: the webhook reports no field
  error for a list of mounts exactly when the controller's own check accepts it.\<close>

theorem webhook_controller_mounts_agree:
  "validateFileMounts path ms = [] \<longleftrightarrow> validateFileMountSpecs ms = None"
  by (simp add: validateFileMounts_Nil validateFileMountSpecs_iff)

text \<open>\<^bold>\<open>C3.\<close> An object the webhook admits never fails configuration planning in the controller,
  whatever the referenced ConfigMaps and Secrets hold: the \<^verbatim>\<open>InvalidConfig\<close> condition is out of
  reach for admitted objects.\<close>

theorem admitted_plan_exists:
  assumes "validateHermesAgent lib obj = None"
  shows "\<exists>plan. buildConfigPlanWithReferences marshal obj ri = Inr plan"
  using admittedD [OF assms] buildConfigPlan_ok [of marshal obj ri] by (simp add: isOk_iff)

theorem admitted_plan_exists_witness:
  "\<exists>plan. buildConfigPlanWithReferences (\<lambda>_. []) sampleAgent emptyInputs = Inr plan"
  by (rule admitted_plan_exists) (rule sampleAgent_admitted)

text \<open>An admitted object asks for at least one replica, and for more than one only with
  persistence switched off, so no PersistentVolumeClaim is ever shared by several pods.\<close>

lemma admitted_replicas:
  assumes "validateHermesAgent lib obj = None"
  shows "spReplicas (haSpec obj) \<ge> 1 \<and>
    (spReplicas (haSpec obj) = 1 \<or> pvEnabled (stPersistence (spStorage (haSpec obj))) = Some False)"
  using admittedD(7) [OF assms] by (simp add: validateReplicas_Nil)

lemma defaultProbe_idem [simp]: "defaultProbe (defaultProbe p d) d = defaultProbe p d"
  by (simp add: defaultProbe_def)

lemma default_fields:
  "spConfig (defaultSpec sp) = spConfig sp" "spGatewayConfig (defaultSpec sp) = spGatewayConfig sp"
  "spEnv (defaultSpec sp) = spEnv sp" "spEnvFrom (defaultSpec sp) = spEnvFrom sp"
  "spSecretRefs (defaultSpec sp) = spSecretRefs sp" "spFileMounts (defaultSpec sp) = spFileMounts sp"
  "spImagePullSecrets (defaultSpec sp) = spImagePullSecrets sp"
  by (simp_all add: defaultSpec_def)

lemma default_storage:
  "parseQuantity lib ''10Gi'' = Inr q \<Longrightarrow> q > 0 \<Longrightarrow> validateStorage lib path (stPersistence (spStorage sp)) = [] \<Longrightarrow>
     validateStorage lib path (stPersistence (spStorage (defaultSpec sp))) = []"
  by (cases "pvSize (stPersistence (spStorage sp)) = []")
    (auto simp: validateStorage_Nil defaultSpec_def defaultPersistence_def)

lemma default_workload:
  "validateReplicas path sp = [] \<Longrightarrow> validateReplicas path (defaultSpec sp) = []"
  "validateUpdateStrategy path (spUpdateStrategy sp) = [] \<Longrightarrow>
     validateUpdateStrategy path (spUpdateStrategy (defaultSpec sp)) = []"
  "validateService path (spService sp) = [] \<Longrightarrow> validateService path (spService (defaultSpec sp)) = []"
  "validateNetworkPolicy lib path (spNetworkPolicy sp) = [] \<Longrightarrow>
     validateNetworkPolicy lib path (spNetworkPolicy (defaultSpec sp)) = []"
  by (auto simp: validator_Nil validateNetworkPolicy_def defaultSpec_def defaultPersistence_def defaultService_def
      split: option.splits)

lemma default_probe_valid:
  "validateProbeSpec path (pbStartup (spProbes sp)) = [] \<Longrightarrow> validateProbeSpec path (pbStartup (spProbes (defaultSpec sp))) = []"
  "validateProbeSpec path (pbReadiness (spProbes sp)) = [] \<Longrightarrow> validateProbeSpec path (pbReadiness (spProbes (defaultSpec sp))) = []"
  "validateProbeSpec path (pbLiveness (spProbes sp)) = [] \<Longrightarrow> validateProbeSpec path (pbLiveness (spProbes (defaultSpec sp))) = []"
  by (auto simp: validateProbeSpec_Nil defaultSpec_def defaultProbes_def defaultProbe_def)

lemma defaultSpec_idem: "defaultSpec (defaultSpec sp) = defaultSpec sp"
  by (simp add: default_defs)

text \<open>\<^bold>\<open>C22.\<close> Defaulting is idempotent and never spoils an object: what was admissible before the
  defaults are filled in is admissible afterwards, provided the library reads the default storage
  size \<^verbatim>\<open>10Gi\<close> as a positive quantity.\<close>

theorem default_keeps_admission:
  assumes "parseQuantity lib ''10Gi'' = Inr q" and "q > 0"
    and "validateHermesAgent lib obj = None"
  shows "validateHermesAgent lib (Default obj) = None \<and> Default (Default obj) = Default obj"
  using assms(3)
  by (auto simp: validateHermesAgent_None validationErrors_def Let_def Default_def default_fields
      default_storage [OF assms(1,2)] default_workload default_probe_valid defaultSpec_idem)

theorem default_keeps_admission_witness:
  "validateHermesAgent sampleLib (Default sampleAgent) = None \<and>
     Default (Default sampleAgent) = Default sampleAgent"
  by (rule default_keeps_admission [of _ 10737418240])
    (simp_all only: sampleAgent_admitted, simp_all add: sampleLib_def)

section \<open>Admitted network policies\<close>

lemma validCIDR_Nil: "validCIDR lib path cidr = [] \<longleftrightarrow> isOk (ParsePrefix (strconvQuote lib) cidr)"
  by (simp add: validCIDR_def isOk_def split: sum.splits)

lemma forIndexed_Nil_mem: "forIndexed f xs = [] \<Longrightarrow> x \<in> set xs \<Longrightarrow> \<exists>i. f i x = []"
  by (auto simp: forIndexed_Nil in_set_conv_nth)

lemma destination_errors:
  assumes "validateNetworkPolicyDestinations lib path ds = []" and "d \<in> set ds"
  shows "npCIDR d \<noteq> [] \<or> npNamespaceSelector d \<noteq> None \<or> npPodSelector d \<noteq> None"
    and "npExcept d \<noteq> [] \<Longrightarrow> npCIDR d \<noteq> []"
    and "npCIDR d \<noteq> [] \<Longrightarrow> isOk (ParsePrefix (strconvQuote lib) (npCIDR d))"
    and "cidr \<in> set (npExcept d) \<Longrightarrow> isOk (ParsePrefix (strconvQuote lib) cidr)"
proof -
  note f = forIndexed_Nil_mem [OF assms(1) [unfolded validateNetworkPolicyDestinations_def Let_def] assms(2)]
  show "npCIDR d \<noteq> [] \<or> npNamespaceSelector d \<noteq> None \<or> npPodSelector d \<noteq> None" "npExcept d \<noteq> [] \<Longrightarrow> npCIDR d \<noteq> []"
    using f by auto
  show "npCIDR d \<noteq> [] \<Longrightarrow> isOk (ParsePrefix (strconvQuote lib) (npCIDR d))"
    using f by (auto simp: validCIDR_Nil)
  from f obtain i where
    "forIndexed (\<lambda>k cidr. validCIDR lib ((path @ [Index i]) @ [Child ''except'', Index k]) cidr) (npExcept d) = []"
    by (auto simp only: append_is_Nil_conv)
  then show "cidr \<in> set (npExcept d) \<Longrightarrow> isOk (ParsePrefix (strconvQuote lib) cidr)"
    by (auto dest!: forIndexed_Nil_mem simp: validCIDR_Nil)
qed

text \<open>A CIDR block that denotes a network: four or sixteen bytes and a prefix length within them.\<close>

definition wfCIDR :: "quoter \<Rightarrow> string \<Rightarrow> bool" where
  "wfCIDR q cidr \<longleftrightarrow> (case ParsePrefix q cidr of Inl _ \<Rightarrow> False | Inr (ip, bits) \<Rightarrow> wfAddr ip \<and> \<not> zoned ip \<and> bits \<le> maxBits ip)"

lemma wfCIDR_iff: "wfCIDR q cidr \<longleftrightarrow> isOk (ParsePrefix q cidr)"
  using ParsePrefix_wf by (auto simp: wfCIDR_def isOk_def split: sum.splits)

text \<open>\<^bold>\<open>C31.\<close> An admitted network policy is well-formed: every destination names a peer, every CIDR block and
  every exception parses as an address prefix, exceptions stand only beside a CIDR block, and every
  additional port is between 1 and 65535.  That an exception lies inside its block is neither checked by
  the webhook nor claimed here: \<^verbatim>\<open>exception_outside_block_admitted\<close> below admits one that does not.\<close>

theorem admitted_policy_wellformed:
  assumes "validateHermesAgent lib obj = None" and "np = spNetworkPolicy (haSpec obj)"
  shows "(\<forall>d \<in> set (nwDestinations np).
      (npCIDR d \<noteq> [] \<or> npNamespaceSelector d \<noteq> None \<or> npPodSelector d \<noteq> None) \<and>
      (npCIDR d \<noteq> [] \<longrightarrow> wfCIDR (strconvQuote lib) (npCIDR d)) \<and> (npExcept d \<noteq> [] \<longrightarrow> npCIDR d \<noteq> []) \<and>
      list_all (wfCIDR (strconvQuote lib)) (npExcept d)) \<and>
    list_all (\<lambda>port. 1 \<le> port \<and> port \<le> 65535) (nwAdditionalTCPPorts np @ nwAdditionalUDPPorts np)"
proof -
  have policy: "validateNetworkPolicy lib [Child ''spec'', Child ''networkPolicy''] np = []"
    using admittedD(9) [OF assms(1)] assms(2) by simp
  then have "validateNetworkPolicyDestinations lib ([Child ''spec'', Child ''networkPolicy''] @ [Child ''destinations'']) (nwDestinations np) = []"
    and tcp: "validateNetworkPolicyPorts ([Child ''spec'', Child ''networkPolicy''] @ [Child ''additionalTCPPorts'']) (nwAdditionalTCPPorts np) = []"
    and udp: "validateNetworkPolicyPorts ([Child ''spec'', Child ''networkPolicy''] @ [Child ''additionalUDPPorts'']) (nwAdditionalUDPPorts np) = []"
    by (simp_all add: validateNetworkPolicy_def)
  note dest = destination_errors [OF this(1)]
  show ?thesis
    using dest tcp udp unfolding wfCIDR_iff validateNetworkPolicyPorts_Nil list_all_iff set_append by blast
qed

text \<open>\<^bold>\<open>C32.\<close> The webhook accepts every IPv4 block in dotted notation and reads it back as the numbers it was
  printed from.\<close>

theorem dotted_block_roundtrip:
  assumes "a < 256" and "b < 256" and "c < 256" and "d < 256" and "bits \<le> 32"
    and "text = showIPv4 a b c d @ ''/'' @ decimal bits"
  shows "validCIDR lib path text = [] \<and> ParsePrefix (strconvQuote lib) text = Inr (V4 [a, b, c, d], bits)"
  using ParsePrefix_IPv4 [OF assms(1-5)] by (simp add: validCIDR_def assms(6))

theorem dotted_block_roundtrip_witness:
  "validCIDR sampleLib [] (showIPv4 10 0 0 0 @ ''/'' @ decimal 8) = [] \<and>
     ParsePrefix (strconvQuote sampleLib) (showIPv4 10 0 0 0 @ ''/'' @ decimal 8) = Inr (V4 [10, 0, 0, 0], 8)"
  by (rule dotted_block_roundtrip) simp_all

text \<open>The sample agent with a restricted network policy.\<close>

definition restrictedTo :: "string \<Rightarrow> hermesAgent" where
  "restrictedTo exception = sampleAgent\<lparr>haSpec := (haSpec sampleAgent)\<lparr>spNetworkPolicy := \<lparr>nwEnabled = Some True,
     nwDestinations = [\<lparr>npCIDR = showIPv4 10 0 0 0 @ ''/'' @ decimal 8, npExcept = [exception],
       npNamespaceSelector = None, npPodSelector = None\<rparr>],
     nwAdditionalTCPPorts = [5432], nwAdditionalUDPPorts = []\<rparr>\<rparr>\<rparr>"

lemma restrictedTo_admitted:
  assumes "ParsePrefix (strconvQuote sampleLib) exception = Inr p"
  shows "validateHermesAgent sampleLib (restrictedTo exception) = None"
proof -
  have "validCIDR sampleLib path (showIPv4 10 0 0 0 @ ''/'' @ decimal 8) = []" "validCIDR sampleLib path exception = []" for path
    using ParsePrefix_IPv4 [of 10 0 0 0 8] assms by (simp_all add: validCIDR_def)
  then have "validateNetworkPolicy sampleLib path (spNetworkPolicy (haSpec (restrictedTo exception))) = []" for path
    by (simp add: restrictedTo_def validateNetworkPolicy_def validateNetworkPolicyDestinations_def
        validateNetworkPolicyPorts_def forIndexed_def Let_def del: append_Cons append_Nil One_nat_def)
  with sampleAgent_admitted show ?thesis
    unfolding validateHermesAgent_None validationErrors_def Let_def append_is_Nil_conv
    by (simp add: restrictedTo_def validateReplicas_def)
qed

text \<open>
  The block 10.0.0.0/8 with the exception 192.168.0.0/16 passes the webhook, although the API server refuses
  a network policy whose exception lies outside its block.
\<close>

lemma exception_outside_block_admitted:
  "validateHermesAgent sampleLib (restrictedTo (showIPv4 192 168 0 0 @ ''/'' @ decimal 16)) = None"
  by (rule restrictedTo_admitted, rule ParsePrefix_IPv4) simp_all

theorem admitted_policy_wellformed_witness:
  "wfCIDR (strconvQuote sampleLib) (showIPv4 10 0 0 0 @ ''/'' @ decimal 8) \<and>
   wfCIDR (strconvQuote sampleLib) (showIPv4 10 1 0 0 @ ''/'' @ decimal 16)"
proof -
  have "ParsePrefix (strconvQuote sampleLib) (showIPv4 10 1 0 0 @ ''/'' @ decimal 16) = Inr (V4 [10, 1, 0, 0], 16)"
    by (rule ParsePrefix_IPv4) simp_all
  from admitted_policy_wellformed [OF restrictedTo_admitted [OF this] refl] show ?thesis by (simp add: restrictedTo_def)
qed

end
