(* ===== verification/Workload.thy ===== *)
theory Workload
  imports ConfigPlan
begin

text \<open>
  The managed pods of \<^verbatim>\<open>src/internal/controller/hermesagent_resources.go\<close>: the inputs of the pod
  template (environment, volumes and mounts), the exec probes, the security contexts and the
  StatefulSet.  Functions that fill a \<^verbatim>\<open>*podTemplateInputs\<close> take and return the record.
\<close>

section \<open>Defaults and names\<close>

definition desiredReplicas :: "hermesAgent \<Rightarrow> int" where
  "desiredReplicas agent = (if spReplicas (haSpec agent) = 0 then 1 else spReplicas (haSpec agent))"

definition podDisruptionBudgetEnabled :: "hermesAgent \<Rightarrow> bool" where
  "podDisruptionBudgetEnabled agent \<longleftrightarrow> desiredReplicas agent > 1"

definition persistenceEnabled :: "hermesAgent \<Rightarrow> bool" where
  "persistenceEnabled agent =
     (case pvEnabled (stPersistence (spStorage (haSpec agent))) of None \<Rightarrow> True | Some b \<Rightarrow> b)"

definition persistentVolumeClaimName :: "string \<Rightarrow> string" where
  "persistentVolumeClaimName resourceName = resourceName @ ''-data''"

definition serviceEnabled :: "hermesAgent \<Rightarrow> bool" where
  "serviceEnabled agent = svEnabled (spService (haSpec agent))"

definition servicePortOf :: "hermesAgent \<Rightarrow> int" where
  "servicePortOf agent = (if svPort (spService (haSpec agent)) \<le> 0 then 8080 else svPort (spService (haSpec agent)))"

definition serviceTargetPort :: "hermesAgent \<Rightarrow> int" where
  "serviceTargetPort agent =
     (if svTargetPort (spService (haSpec agent)) \<le> 0 then servicePortOf agent
      else svTargetPort (spService (haSpec agent)))"

definition automountServiceAccountToken :: "hermesAgent \<Rightarrow> bool option" where
  "automountServiceAccountToken agent =
     (case spAutomountServiceAccountToken (haSpec agent) of None \<Rightarrow> Some False | Some b \<Rightarrow> Some b)"

definition resourceLabels :: "hermesAgent \<Rightarrow> str_map" where
  "resourceLabels agent =
     fmap_of_list [(''app.kubernetes.io/name'', ''k8s-operator-hermes-agent''),
       (''app.kubernetes.io/managed-by'', ''kustomize''), (''app.kubernetes.io/instance'', agentName agent)]"

definition managedPodLabels :: "hermesAgent \<Rightarrow> str_map" where
  "managedPodLabels agent = mergeStringMaps (spPodLabels (haSpec agent)) (resourceLabels agent)"

definition managedPodAnnotations :: "hermesAgent \<Rightarrow> str_map \<Rightarrow> str_map" where
  "managedPodAnnotations agent inputs = mergeStringMaps (spPodAnnotations (haSpec agent)) inputs"

definition hermesImage :: "hermesAgentImageSpec \<Rightarrow> string" where
  "hermesImage im = (if imTag im = [] then imRepository im else imRepository im @ '':'' @ imTag im)"

definition hermesArgs :: "hermesAgent \<Rightarrow> string list" where
  "hermesArgs agent =
     [''hermes'', if spMode (haSpec agent) = [] then ''gateway'' else spMode (haSpec agent)]"

definition updateStrategyOf :: "hermesAgent \<Rightarrow> statefulSetUpdateStrategy" where
  "updateStrategyOf agent =
     (let u = spUpdateStrategy (haSpec agent);
          strategyType = (if usType u = [] then ''RollingUpdate'' else usType u)
      in if strategyType \<noteq> ''RollingUpdate'' then \<lparr>ustType = strategyType, ustRollingUpdate = None\<rparr>
         else \<lparr>ustType = strategyType,
                ustRollingUpdate =
                  Some (case usRollingUpdate u of None \<Rightarrow> None | Some ru \<Rightarrow> ruPartition ru)\<rparr>)"

section \<open>Pod template inputs\<close>

record podTemplateInputs =
  tiAnnotations :: str_map
  tiEnv :: "envVar list"
  tiEnvFrom :: "envFromSource list"
  tiVolumes :: "volume list"
  tiVolumeMounts :: "volumeMount list"

fun upsertEnvVar :: "envVar list \<Rightarrow> envVar \<Rightarrow> envVar list" where
  "upsertEnvVar [] v = [v]"
| "upsertEnvVar (e # env) v = (if evName e = evName v then v # env else e # upsertEnvVar env v)"

definition configVolumeName :: "string \<Rightarrow> string" where
  "configVolumeName cid = ''hermes-'' @ cid"

definition configFileVolumeSource :: "resolvedConfigFile \<Rightarrow> volumeSource" where
  "configFileVolumeSource f =
     (let items = [\<lparr>kpKey = rfSourceKey f, kpPath = rfFileName f, kpMode = None\<rparr>]
      in if rfSecretName f \<noteq> [] then SecretVolume (rfSecretName f) items None
         else ConfigMapVolume (rfConfigMapName f) items None)"

definition addMount :: "string \<Rightarrow> volumeSource \<Rightarrow> string \<Rightarrow> string \<Rightarrow> podTemplateInputs \<Rightarrow> podTemplateInputs" where
  "addMount name source mountPath subPath ti =
     ti\<lparr>tiVolumes := tiVolumes ti @ [\<lparr>voName = name, voSource = source\<rparr>],
        tiVolumeMounts := tiVolumeMounts ti @
          [\<lparr>vmName = name, vmMountPath = mountPath, vmSubPath = subPath, vmReadOnly = True\<rparr>]\<rparr>"

fun appendConfigFileInputs :: "resolvedConfigFile list \<Rightarrow> podTemplateInputs \<Rightarrow> podTemplateInputs" where
  "appendConfigFileInputs [] ti = ti"
| "appendConfigFileInputs (f # fs) ti =
     appendConfigFileInputs fs
       (addMount (configVolumeName (rfID f)) (configFileVolumeSource f) (rfMountPath f) (rfFileName f) ti)"

fun appendSecretReferencesFrom ::
  "nat \<Rightarrow> localObjectReference list \<Rightarrow> podTemplateInputs \<Rightarrow> podTemplateInputs" where
  "appendSecretReferencesFrom i [] ti = ti"
| "appendSecretReferencesFrom i (r # rs) ti =
     appendSecretReferencesFrom (Suc i) rs
       (if lorName r = [] then ti
        else addMount (''secret-ref-'' @ decimal i) (SecretVolume (lorName r) [] None)
               (pathJoin [hermesSecretBasePath, lorName r]) [] ti)"

definition appendSecretReferenceInputs :: "localObjectReference list \<Rightarrow> podTemplateInputs \<Rightarrow> podTemplateInputs" where
  "appendSecretReferenceInputs secretRefs ti = appendSecretReferencesFrom 0 secretRefs ti"

definition fileMountProjectionItems :: "hermesAgentFileProjectionItem list \<Rightarrow> keyToPath list" where
  "fileMountProjectionItems items = map (\<lambda>i. \<lparr>kpKey = piKey i, kpPath = piPath i, kpMode = piMode i\<rparr>) items"

definition buildFileMountVolumeSource :: "hermesAgentFileMountSpec \<Rightarrow> volumeSource option" where
  "buildFileMountVolumeSource m =
     (let items = fileMountProjectionItems (fmItems m)
      in case fmConfigMapRef m of
           Some r \<Rightarrow>
             (if lorName r \<noteq> [] then Some (ConfigMapVolume (lorName r) items (fmDefaultMode m))
              else case fmSecretRef m of
                Some s \<Rightarrow> (if lorName s \<noteq> [] then Some (SecretVolume (lorName s) items (fmDefaultMode m)) else None)
              | None \<Rightarrow> None)
         | None \<Rightarrow>
             (case fmSecretRef m of
                Some s \<Rightarrow> (if lorName s \<noteq> [] then Some (SecretVolume (lorName s) items (fmDefaultMode m)) else None)
              | None \<Rightarrow> None))"

fun appendFileMountsFrom ::
  "nat \<Rightarrow> hermesAgentFileMountSpec list \<Rightarrow> podTemplateInputs \<Rightarrow> podTemplateInputs" where
  "appendFileMountsFrom i [] ti = ti"
| "appendFileMountsFrom i (m # ms) ti =
     appendFileMountsFrom (Suc i) ms
       (case buildFileMountVolumeSource m of
          None \<Rightarrow> ti
        | Some source \<Rightarrow> addMount (''file-mount-'' @ decimal i) source (fmMountPath m) [] ti)"

definition appendFileMountInputs :: "hermesAgentFileMountSpec list \<Rightarrow> podTemplateInputs \<Rightarrow> podTemplateInputs" where
  "appendFileMountInputs mounts ti = appendFileMountsFrom 0 mounts ti"

definition buildPodTemplateInputs :: "hermesAgent \<Rightarrow> configPlan \<Rightarrow> podTemplateInputs" where
  "buildPodTemplateInputs agent plan =
     (let inputs = \<lparr>tiAnnotations = fmupd configHashAnnotation (cpHash plan) fmempty,
            tiEnv = upsertEnvVar (spEnv (haSpec agent))
              \<lparr>evName = ''HERMES_HOME'', evValue = hermesHomePath, evValueFrom = None\<rparr>,
            tiEnvFrom = spEnvFrom (haSpec agent), tiVolumes = [], tiVolumeMounts = []\<rparr>
      in appendFileMountInputs (spFileMounts (haSpec agent))
           (appendSecretReferenceInputs (spSecretRefs (haSpec agent))
             (appendConfigFileInputs (cpFiles plan) inputs)))"

section \<open>Probes\<close>

record probeConfig =
  pgEnabled :: bool
  pgInitialDelaySeconds :: int
  pgPeriodSeconds :: int
  pgTimeoutSeconds :: int
  pgFailureThreshold :: int

definition startupProbeDefaults :: probeConfig where
  "startupProbeDefaults = \<lparr>pgEnabled = True, pgInitialDelaySeconds = 0, pgPeriodSeconds = 10,
     pgTimeoutSeconds = 5, pgFailureThreshold = 18\<rparr>"

definition readinessProbeDefaults :: probeConfig where
  "readinessProbeDefaults = \<lparr>pgEnabled = True, pgInitialDelaySeconds = 5, pgPeriodSeconds = 10,
     pgTimeoutSeconds = 5, pgFailureThreshold = 3\<rparr>"

definition livenessProbeDefaults :: probeConfig where
  "livenessProbeDefaults = \<lparr>pgEnabled = True, pgInitialDelaySeconds = 15, pgPeriodSeconds = 10,
     pgTimeoutSeconds = 5, pgFailureThreshold = 3\<rparr>"

definition resolveProbeConfig :: "hermesAgentProbeSpec \<Rightarrow> probeConfig \<Rightarrow> probeConfig" where
  "resolveProbeConfig sp defaults =
     \<lparr>pgEnabled = (case prEnabled sp of None \<Rightarrow> pgEnabled defaults | Some b \<Rightarrow> b),
      pgInitialDelaySeconds =
        (if prInitialDelaySeconds sp > 0 then prInitialDelaySeconds sp else pgInitialDelaySeconds defaults),
      pgPeriodSeconds = (if prPeriodSeconds sp > 0 then prPeriodSeconds sp else pgPeriodSeconds defaults),
      pgTimeoutSeconds = (if prTimeoutSeconds sp > 0 then prTimeoutSeconds sp else pgTimeoutSeconds defaults),
      pgFailureThreshold =
        (if prFailureThreshold sp > 0 then prFailureThreshold sp else pgFailureThreshold defaults)\<rparr>"

definition buildExecProbe :: "probeConfig \<Rightarrow> string \<Rightarrow> probe" where
  "buildExecProbe config command =
     \<lparr>pkExecCommand = [''bash'', ''-ec'', command], pkInitialDelaySeconds = pgInitialDelaySeconds config,
      pkPeriodSeconds = pgPeriodSeconds config, pkTimeoutSeconds = pgTimeoutSeconds config,
      pkFailureThreshold = pgFailureThreshold config\<rparr>"

text \<open>
  The shell fragments.  \<^verbatim>\<open>shellQuote\<close> is \<^verbatim>\<open>%q\<close>; the operator only applies it to its two state file
  paths, which are printable ASCII, so only the escapes of the ASCII range are written out.
\<close>

definition doubleQuote :: char where "doubleQuote = CHR 0x22"
definition backslash :: char where "backslash = CHR 0x5C"
definition apostrophe :: char where "apostrophe = CHR 0x27"

definition quoteByte :: "char \<Rightarrow> string" where
  "quoteByte c = (if c = doubleQuote \<or> c = backslash then [backslash, c] else [c])"

definition shellQuote :: "string \<Rightarrow> string" where
  "shellQuote s = doubleQuote # concat (map quoteByte s) @ [doubleQuote]"

definition hermesGatewayPIDPath :: string where
  "hermesGatewayPIDPath = pathJoin [hermesHomePath, ''gateway.pid'']"

definition hermesGatewayStatePath :: string where
  "hermesGatewayStatePath = pathJoin [hermesHomePath, ''gateway_state.json'']"

definition spaces :: string where
  "spaces = ''['' @ ''[:space:]]*''"

definition inApostrophes :: "string \<Rightarrow> string" where
  "inApostrophes s = apostrophe # s @ [apostrophe]"

definition inDoubleQuotes :: "string \<Rightarrow> string" where
  "inDoubleQuotes s = doubleQuote # s @ [doubleQuote]"

definition withoutNewlines :: "string \<Rightarrow> string" where
  "withoutNewlines path = ''tr -d '' @ inApostrophes [backslash, CHR ''n''] @ '' < '' @ path"

definition probeProcessCheck :: string where
  "probeProcessCheck =
     (let pidPath = shellQuote hermesGatewayPIDPath
      in ''test -s '' @ pidPath @ '' && pid=$('' @ withoutNewlines pidPath @ '' | grep -Eo '' @
         inApostrophes (inDoubleQuotes ''pid'' @ spaces @ '':'' @ spaces @ ''[0-9]+'') @
         '' | grep -Eo '' @ inApostrophes ''[0-9]+'' @ '' | head -n1) && [ -n '' @ inDoubleQuotes ''$pid'' @
         '' ] && kill -0 '' @ inDoubleQuotes ''$pid'')"

definition probeGatewayStateCheck :: "string \<Rightarrow> string" where
  "probeGatewayStateCheck expectedState =
     (let statePath = shellQuote hermesGatewayStatePath
      in ''test -s '' @ statePath @ '' && '' @ withoutNewlines statePath @ '' | grep -Eq '' @
         inApostrophes (inDoubleQuotes ''gateway_state'' @ spaces @ '':'' @ spaces @ inDoubleQuotes expectedState))"

definition probeAnyConnectedPlatformConnectedCheck :: string where
  "probeAnyConnectedPlatformConnectedCheck =
     (let statePath = shellQuote hermesGatewayStatePath
      in ''test -s '' @ statePath @ '' && '' @ withoutNewlines statePath @ '' | grep -Eq '' @
         inApostrophes (inDoubleQuotes ''platforms'' @ spaces @ '':'' @ spaces @ [backslash] @ ''{.*'' @
           inDoubleQuotes ''state'' @ spaces @ '':'' @ spaces @ inDoubleQuotes ''connected''))"

fun joinWithAnd :: "string list \<Rightarrow> string" where
  "joinWithAnd [] = ''true''"
| "joinWithAnd (c # cs) = c @ concat (map (\<lambda>check. '' && '' @ check) cs)"

definition probeCommand :: "string list \<Rightarrow> string" where
  "probeCommand checks = ''set -euo pipefail; '' @ joinWithAnd checks"

definition hermesStartupProbe :: "hermesAgent \<Rightarrow> probe option" where
  "hermesStartupProbe agent =
     (let config = resolveProbeConfig (pbStartup (spProbes (haSpec agent))) startupProbeDefaults
      in if \<not> pgEnabled config then None
         else Some (buildExecProbe config (probeCommand
                [''test -s '' @ shellQuote hermesGatewayPIDPath, ''test -s '' @ shellQuote hermesGatewayStatePath])))"

definition hermesReadinessProbe :: "hermesAgent \<Rightarrow> probe option" where
  "hermesReadinessProbe agent =
     (let config = resolveProbeConfig (pbReadiness (spProbes (haSpec agent))) readinessProbeDefaults
      in if \<not> pgEnabled config then None
         else Some (buildExecProbe config (probeCommand
                ([probeProcessCheck, probeGatewayStateCheck ''running''] @
                 (if pbRequireConnectedPlatform (spProbes (haSpec agent))
                  then [probeAnyConnectedPlatformConnectedCheck] else [])))))"

definition hermesLivenessProbe :: "hermesAgent \<Rightarrow> probe option" where
  "hermesLivenessProbe agent =
     (let config = resolveProbeConfig (pbLiveness (spProbes (haSpec agent))) livenessProbeDefaults
      in if \<not> pgEnabled config then None
         else Some (buildExecProbe config (probeCommand
                [probeProcessCheck, ''test -s '' @ shellQuote hermesGatewayStatePath])))"

section \<open>The StatefulSet\<close>

definition hermesPodSecurityContext :: podSecurityContext where
  "hermesPodSecurityContext = \<lparr>pxRunAsNonRoot = Some True, pxRunAsUser = Some 10001, pxRunAsGroup = Some 10001,
     pxFSGroup = Some 10001, pxSeccompProfile = Some ''RuntimeDefault''\<rparr>"

definition hermesContainerSecurityContext :: securityContext where
  "hermesContainerSecurityContext = \<lparr>cxAllowPrivilegeEscalation = Some False,
     cxReadOnlyRootFilesystem = Some True, cxCapabilitiesDrop = [''ALL'']\<rparr>"

definition hermesDataVolume :: "hermesAgent \<Rightarrow> volume" where
  "hermesDataVolume agent =
     \<lparr>voName = ''hermes-data'',
      voSource = (if persistenceEnabled agent
        then PersistentVolumeClaimVolume (persistentVolumeClaimName (agentName agent)) else EmptyDirVolume)\<rparr>"

definition hermesTmpVolume :: volume where
  "hermesTmpVolume = \<lparr>voName = ''tmp'', voSource = EmptyDirVolume\<rparr>"

definition containerPorts :: "hermesAgent \<Rightarrow> containerPort list" where
  "containerPorts agent =
     (if serviceEnabled agent then
        [\<lparr>ctName = ''service'', ctContainerPort = serviceTargetPort agent, ctProtocol = ''TCP''\<rparr>] else [])"

definition hermesContainer :: "hermesAgent \<Rightarrow> podTemplateInputs \<Rightarrow> container" where
  "hermesContainer agent ti =
     \<lparr>coName = ''hermes'', coImage = hermesImage (spImage (haSpec agent)),
      coImagePullPolicy = imPullPolicy (spImage (haSpec agent)), coArgs = hermesArgs agent,
      coEnv = tiEnv ti, coEnvFrom = tiEnvFrom ti, coPorts = containerPorts agent,
      coVolumeMounts = tiVolumeMounts ti @
        [\<lparr>vmName = ''hermes-data'', vmMountPath = hermesDataPath, vmSubPath = [], vmReadOnly = False\<rparr>,
         \<lparr>vmName = ''tmp'', vmMountPath = ''/tmp'', vmSubPath = [], vmReadOnly = False\<rparr>],
      coResources = spResources (haSpec agent), coSecurityContext = hermesContainerSecurityContext,
      coStartupProbe = hermesStartupProbe agent, coReadinessProbe = hermesReadinessProbe agent,
      coLivenessProbe = hermesLivenessProbe agent\<rparr>"

definition hermesPodSpec :: "hermesAgent \<Rightarrow> podTemplateInputs \<Rightarrow> podSpec" where
  "hermesPodSpec agent ti =
     \<lparr>psSecurityContext = hermesPodSecurityContext, psImagePullSecrets = spImagePullSecrets (haSpec agent),
      psServiceAccountName = spServiceAccountName (haSpec agent),
      psAutomountServiceAccountToken = automountServiceAccountToken agent,
      psNodeSelector = spNodeSelector (haSpec agent), psTolerations = spTolerations (haSpec agent),
      psAffinity = spAffinity (haSpec agent),
      psTopologySpreadConstraints = spTopologySpreadConstraints (haSpec agent),
      psTerminationGracePeriodSeconds = spTerminationGracePeriodSeconds (haSpec agent),
      psContainers = [hermesContainer agent ti],
      psVolumes = tiVolumes ti @ [hermesDataVolume agent, hermesTmpVolume]\<rparr>"

definition namedMeta :: "hermesAgent \<Rightarrow> string \<Rightarrow> str_map \<Rightarrow> str_map \<Rightarrow> objectMeta" where
  "namedMeta agent name labels annotations =
     zeroMeta\<lparr>omName := name, omNamespace := agentNamespace agent, omLabels := labels, omAnnotations := annotations\<rparr>"

definition buildStatefulSet :: "hermesAgent \<Rightarrow> podTemplateInputs \<Rightarrow> statefulSet" where
  "buildStatefulSet agent ti =
     \<lparr>sfMeta = namedMeta agent (agentName agent) (resourceLabels agent) fmempty,
      sfSpec = \<lparr>sfReplicas = Some (desiredReplicas agent), sfServiceName = agentName agent,
        sfUpdateStrategy = updateStrategyOf agent,
        sfSelector = \<lparr>lsMatchLabels = resourceLabels agent, lsMatchExpressions = []\<rparr>,
        sfTemplate = \<lparr>ptLabels = managedPodLabels agent,
          ptAnnotations = managedPodAnnotations agent (tiAnnotations ti), ptSpec = hermesPodSpec agent ti\<rparr>\<rparr>,
      sfReadyReplicas = 0, sfObservedGeneration = 0\<rparr>"

section \<open>Volumes and mounts\<close>

text \<open>The volumes and their mounts are added in pairs, so that they have the same names in the same order.\<close>

definition paired :: "podTemplateInputs \<Rightarrow> bool" where
  "paired ti \<longleftrightarrow> map vmName (tiVolumeMounts ti) = map voName (tiVolumes ti)"

lemma addMount_simps [simp]:
  "tiVolumes (addMount n src mp sp ti) = tiVolumes ti @ [\<lparr>voName = n, voSource = src\<rparr>]"
  "tiVolumeMounts (addMount n src mp sp ti) =
     tiVolumeMounts ti @ [\<lparr>vmName = n, vmMountPath = mp, vmSubPath = sp, vmReadOnly = True\<rparr>]"
  "tiAnnotations (addMount n src mp sp ti) = tiAnnotations ti" "tiEnv (addMount n src mp sp ti) = tiEnv ti"
  "tiEnvFrom (addMount n src mp sp ti) = tiEnvFrom ti"
  by (simp_all add: addMount_def)

lemma paired_addMount [simp]: "paired (addMount n src mp sp ti) = paired ti"
  by (auto simp: paired_def)

text \<open>
  The contract of a step that fills the inputs: it keeps annotations and environment and appends pairs
  of a volume and a mount, whose names it knows.
\<close>

locale mount_step =
  fixes step :: "podTemplateInputs \<Rightarrow> podTemplateInputs"
    and new :: "(string \<times> volumeSource \<times> string \<times> string) list"
  assumes volumes: "tiVolumes (step ti) = tiVolumes ti @ map (\<lambda>(n, src, mp, sp). \<lparr>voName = n, voSource = src\<rparr>) new"
    and mounts: "tiVolumeMounts (step ti) = tiVolumeMounts ti @
      map (\<lambda>(n, src, mp, sp). \<lparr>vmName = n, vmMountPath = mp, vmSubPath = sp, vmReadOnly = True\<rparr>) new"
    and others: "tiAnnotations (step ti) = tiAnnotations ti" "tiEnv (step ti) = tiEnv ti" "tiEnvFrom (step ti) = tiEnvFrom ti"
begin

lemma keeps_paired: "paired ti \<Longrightarrow> paired (step ti)"
  by (simp add: paired_def volumes mounts split_beta comp_def)

lemma mounted: "(n, src, mp, sp) \<in> set new \<Longrightarrow> \<lparr>voName = n, voSource = src\<rparr> \<in> set (tiVolumes (step ti)) \<and>
    \<lparr>vmName = n, vmMountPath = mp, vmSubPath = sp, vmReadOnly = True\<rparr> \<in> set (tiVolumeMounts (step ti))"
  by (force simp: volumes mounts)

end

definition configFileMounts :: "resolvedConfigFile list \<Rightarrow> (string \<times> volumeSource \<times> string \<times> string) list" where
  "configFileMounts fs = map (\<lambda>f. (configVolumeName (rfID f), configFileVolumeSource f, rfMountPath f, rfFileName f)) fs"

fun secretMountsFrom :: "nat \<Rightarrow> localObjectReference list \<Rightarrow> (string \<times> volumeSource \<times> string \<times> string) list" where
  "secretMountsFrom i [] = []"
| "secretMountsFrom i (r # rs) =
     (if lorName r = [] then []
      else [(''secret-ref-'' @ decimal i, SecretVolume (lorName r) [] None, pathJoin [hermesSecretBasePath, lorName r], [])]) @
     secretMountsFrom (Suc i) rs"

fun fileMountsFrom :: "nat \<Rightarrow> hermesAgentFileMountSpec list \<Rightarrow> (string \<times> volumeSource \<times> string \<times> string) list" where
  "fileMountsFrom i [] = []"
| "fileMountsFrom i (m # ms) =
     (case buildFileMountVolumeSource m of
        None \<Rightarrow> [] | Some source \<Rightarrow> [(''file-mount-'' @ decimal i, source, fmMountPath m, [])]) @
     fileMountsFrom (Suc i) ms"

interpretation configStep: mount_step "appendConfigFileInputs fs" "configFileMounts fs" for fs
proof
  fix ti
  show "tiVolumes (appendConfigFileInputs fs ti) = tiVolumes ti @ map (\<lambda>(n, src, mp, sp). \<lparr>voName = n, voSource = src\<rparr>) (configFileMounts fs)"
    "tiVolumeMounts (appendConfigFileInputs fs ti) = tiVolumeMounts ti @
      map (\<lambda>(n, src, mp, sp). \<lparr>vmName = n, vmMountPath = mp, vmSubPath = sp, vmReadOnly = True\<rparr>) (configFileMounts fs)"
    "tiAnnotations (appendConfigFileInputs fs ti) = tiAnnotations ti" "tiEnv (appendConfigFileInputs fs ti) = tiEnv ti"
    "tiEnvFrom (appendConfigFileInputs fs ti) = tiEnvFrom ti"
    by (induction fs arbitrary: ti) (simp_all add: configFileMounts_def)
qed

interpretation secretStep: mount_step "appendSecretReferencesFrom i rs" "secretMountsFrom i rs" for i rs
proof
  fix ti
  show "tiVolumes (appendSecretReferencesFrom i rs ti) = tiVolumes ti @ map (\<lambda>(n, src, mp, sp). \<lparr>voName = n, voSource = src\<rparr>) (secretMountsFrom i rs)"
    "tiVolumeMounts (appendSecretReferencesFrom i rs ti) = tiVolumeMounts ti @
      map (\<lambda>(n, src, mp, sp). \<lparr>vmName = n, vmMountPath = mp, vmSubPath = sp, vmReadOnly = True\<rparr>) (secretMountsFrom i rs)"
    "tiAnnotations (appendSecretReferencesFrom i rs ti) = tiAnnotations ti" "tiEnv (appendSecretReferencesFrom i rs ti) = tiEnv ti"
    "tiEnvFrom (appendSecretReferencesFrom i rs ti) = tiEnvFrom ti"
    by (induction rs arbitrary: i ti) simp_all
qed

interpretation fileStep: mount_step "appendFileMountsFrom i ms" "fileMountsFrom i ms" for i ms
proof
  fix ti
  show "tiVolumes (appendFileMountsFrom i ms ti) = tiVolumes ti @ map (\<lambda>(n, src, mp, sp). \<lparr>voName = n, voSource = src\<rparr>) (fileMountsFrom i ms)"
    "tiVolumeMounts (appendFileMountsFrom i ms ti) = tiVolumeMounts ti @
      map (\<lambda>(n, src, mp, sp). \<lparr>vmName = n, vmMountPath = mp, vmSubPath = sp, vmReadOnly = True\<rparr>) (fileMountsFrom i ms)"
    "tiAnnotations (appendFileMountsFrom i ms ti) = tiAnnotations ti" "tiEnv (appendFileMountsFrom i ms ti) = tiEnv ti"
    "tiEnvFrom (appendFileMountsFrom i ms ti) = tiEnvFrom ti"
    by (induction ms arbitrary: i ti) (simp_all split: option.splits)
qed

lemmas step_facts = configStep.volumes configStep.mounts configStep.others secretStep.volumes secretStep.mounts
  secretStep.others fileStep.volumes fileStep.mounts fileStep.others

definition templateMounts :: "hermesAgent \<Rightarrow> configPlan \<Rightarrow> (string \<times> volumeSource \<times> string \<times> string) list" where
  "templateMounts agent plan = configFileMounts (cpFiles plan) @ secretMountsFrom 0 (spSecretRefs (haSpec agent)) @
     fileMountsFrom 0 (spFileMounts (haSpec agent))"

lemma inputs_facts:
  "tiVolumes (buildPodTemplateInputs agent plan) = map (\<lambda>(n, src, mp, sp). \<lparr>voName = n, voSource = src\<rparr>) (templateMounts agent plan)"
  "tiVolumeMounts (buildPodTemplateInputs agent plan) =
     map (\<lambda>(n, src, mp, sp). \<lparr>vmName = n, vmMountPath = mp, vmSubPath = sp, vmReadOnly = True\<rparr>) (templateMounts agent plan)"
  "tiAnnotations (buildPodTemplateInputs agent plan) = fmupd configHashAnnotation (cpHash plan) fmempty"
  "tiEnv (buildPodTemplateInputs agent plan) = upsertEnvVar (spEnv (haSpec agent))
     \<lparr>evName = ''HERMES_HOME'', evValue = hermesHomePath, evValueFrom = None\<rparr>"
  "tiEnvFrom (buildPodTemplateInputs agent plan) = spEnvFrom (haSpec agent)"
  by (simp_all add: buildPodTemplateInputs_def appendSecretReferenceInputs_def appendFileMountInputs_def step_facts
      templateMounts_def)

subsection \<open>Volume names are distinct\<close>

definition indexedName :: "string \<Rightarrow> nat \<Rightarrow> string" where
  "indexedName p i = p @ decimal i"

lemma indexedName_inject [simp]: "indexedName p i = indexedName p j \<longleftrightarrow> i = j"
  by (simp add: indexedName_def)

lemma hd_indexedName [simp]: "hd (indexedName (c # p) i) = c"
  by (simp add: indexedName_def)

lemma mounts_indexed:
  "secretMountsFrom i (r # rs) = (if lorName r = [] then [] else [(indexedName ''secret-ref-'' i,
     SecretVolume (lorName r) [] None, pathJoin [hermesSecretBasePath, lorName r], [])]) @ secretMountsFrom (Suc i) rs"
  "fileMountsFrom i (m # ms) = (case buildFileMountVolumeSource m of None \<Rightarrow> []
     | Some source \<Rightarrow> [(indexedName ''file-mount-'' i, source, fmMountPath m, [])]) @ fileMountsFrom (Suc i) ms"
  by (simp_all add: indexedName_def split: option.splits)

lemma indexed_names:
  "fst ` set (secretMountsFrom i rs) \<subseteq> indexedName ''secret-ref-'' ` {i..}"
  "fst ` set (fileMountsFrom i ms) \<subseteq> indexedName ''file-mount-'' ` {i..}"
proof -
  have up: "indexedName p ` {Suc i..} \<subseteq> indexedName p ` {i..}" for p i by (rule image_mono) auto
  show "fst ` set (secretMountsFrom i rs) \<subseteq> indexedName ''secret-ref-'' ` {i..}"
  proof (induction rs arbitrary: i)
    case (Cons r rs)
    from order_trans [OF Cons.IH [of "Suc i"] up] show ?case by (auto simp: mounts_indexed simp del: secretMountsFrom.simps)
  qed simp
  show "fst ` set (fileMountsFrom i ms) \<subseteq> indexedName ''file-mount-'' ` {i..}"
  proof (induction ms arbitrary: i)
    case (Cons m ms)
    from order_trans [OF Cons.IH [of "Suc i"] up] show ?case
      by (auto simp: mounts_indexed simp del: fileMountsFrom.simps split: option.splits)
  qed simp
qed

lemma indexed_distinct:
  "distinct (map fst (secretMountsFrom i rs))" "distinct (map fst (fileMountsFrom i ms))"
proof -
  have new: "indexedName p i \<notin> A" if "A \<subseteq> indexedName p ` {Suc i..}" for p i A using that by auto
  show "distinct (map fst (secretMountsFrom i rs))"
  proof (induction rs arbitrary: i)
    case (Cons r rs)
    with new [OF indexed_names(1) [of "Suc i" rs]] show ?case by (auto simp: mounts_indexed simp del: secretMountsFrom.simps)
  qed simp
  show "distinct (map fst (fileMountsFrom i ms))"
  proof (induction ms arbitrary: i)
    case (Cons m ms)
    with new [OF indexed_names(2) [of "Suc i" ms]] show ?case
      by (auto simp: mounts_indexed simp del: fileMountsFrom.simps split: option.splits)
  qed simp
qed

lemma resolved_id: "resolveConfigFile agent cid fileName source = Inr (Some f) \<Longrightarrow> rfID f = cid"
  by (auto simp: resolveConfigFile_def Let_def split: if_splits option.splits)

lemma plan_ids:
  assumes "buildConfigPlanWithReferences marshal agent ri = Inr plan"
  shows "map rfID (cpFiles plan) \<in> {[], [''config''], [''gateway-config''], [''config'', ''gateway-config'']}"
proof -
  obtain cf gf where "resolveConfigFile agent ''config'' ''config.yaml'' (spConfig (haSpec agent)) = Inr cf"
    and "resolveConfigFile agent ''gateway-config'' ''gateway.json'' (spGatewayConfig (haSpec agent)) = Inr gf"
    and "cpFiles plan = (case cf of None \<Rightarrow> [] | Some f \<Rightarrow> [f]) @ (case gf of None \<Rightarrow> [] | Some f \<Rightarrow> [f])"
    using assms by (auto simp: buildConfigPlanWithReferences_def Let_def split: option.splits sum.splits)
  then show ?thesis by (cases cf; cases gf) (auto dest: resolved_id)
qed

lemma config_names: "map fst (configFileMounts fs) = map configVolumeName (map rfID fs)"
  by (simp add: configFileMounts_def comp_def)

lemma volume_names_distinct:
  assumes "buildConfigPlanWithReferences marshal agent ri = Inr plan"
  shows "distinct (map fst (templateMounts agent plan) @ [''hermes-data'', ''tmp''])"
proof -
  let ?c = "map fst (configFileMounts (cpFiles plan))"
  let ?s = "map fst (secretMountsFrom 0 (spSecretRefs (haSpec agent)))"
  let ?f = "map fst (fileMountsFrom 0 (spFileMounts (haSpec agent)))"
  have heads: "hd ` set ?s \<subseteq> {CHR ''s''}" "hd ` set ?f \<subseteq> {CHR ''f''}"
    using indexed_names(1) [of 0 "spSecretRefs (haSpec agent)"] indexed_names(2) [of 0 "spFileMounts (haSpec agent)"] by auto
  have c: "?c \<in> {[], [''hermes-config''], [''hermes-gateway-config''], [''hermes-config'', ''hermes-gateway-config'']}"
    using plan_ids [OF assms] unfolding config_names by (auto simp: configVolumeName_def)
  then have hc: "hd ` set ?c \<subseteq> {CHR ''h''}" by auto
  have ht: "hd ` set [''hermes-data'', ''tmp''] \<subseteq> {CHR ''h'', CHR ''t''}" by simp
  have disjoint: "set xs \<inter> set ys = {}" if "hd ` set xs \<subseteq> X" "hd ` set ys \<subseteq> Y" "X \<inter> Y = {}" for xs ys :: "string list" and X Y
    using that by blast
  have "set ?s \<inter> set ?f = {}" by (rule disjoint [OF heads]) simp
  moreover have "set ?c \<inter> set ?s = {}" "set ?c \<inter> set ?f = {}"
    by (rule disjoint [OF hc heads(1)], simp) (rule disjoint [OF hc heads(2)], simp)
  moreover have "set ?s \<inter> set [''hermes-data'', ''tmp''] = {}" "set ?f \<inter> set [''hermes-data'', ''tmp''] = {}"
    by (rule disjoint [OF heads(1) ht], simp) (rule disjoint [OF heads(2) ht], simp)
  moreover have "distinct (?c @ [''hermes-data'', ''tmp''])" using c by auto
  ultimately show ?thesis
    using indexed_distinct(1) [of 0 "spSecretRefs (haSpec agent)"] indexed_distinct(2) [of 0 "spFileMounts (haSpec agent)"]
    unfolding templateMounts_def map_append append_assoc distinct_append set_append by (simp add: Int_Un_distrib)
qed

section \<open>Properties of the workload\<close>

text \<open>The pod of an agent under a plan, and its only container.\<close>

definition podOf :: "hermesAgent \<Rightarrow> configPlan \<Rightarrow> podTemplate" where
  "podOf agent plan = sfTemplate (sfSpec (buildStatefulSet agent (buildPodTemplateInputs agent plan)))"

definition containerOf :: "hermesAgent \<Rightarrow> configPlan \<Rightarrow> container" where
  "containerOf agent plan = hd (psContainers (ptSpec (podOf agent plan)))"

lemma pod_facts:
  "psVolumes (ptSpec (podOf agent plan)) =
     map (\<lambda>(n, src, mp, sp). \<lparr>voName = n, voSource = src\<rparr>) (templateMounts agent plan) @ [hermesDataVolume agent, hermesTmpVolume]"
  "coVolumeMounts (containerOf agent plan) =
     map (\<lambda>(n, src, mp, sp). \<lparr>vmName = n, vmMountPath = mp, vmSubPath = sp, vmReadOnly = True\<rparr>) (templateMounts agent plan) @
     [\<lparr>vmName = ''hermes-data'', vmMountPath = hermesDataPath, vmSubPath = [], vmReadOnly = False\<rparr>,
      \<lparr>vmName = ''tmp'', vmMountPath = ''/tmp'', vmSubPath = [], vmReadOnly = False\<rparr>]"
  by (simp_all add: podOf_def containerOf_def buildStatefulSet_def hermesPodSpec_def hermesContainer_def inputs_facts)

lemma wf_mount_source: "wfFileMount m \<Longrightarrow> buildFileMountVolumeSource m \<noteq> None"
  by (auto simp: wfFileMount_def namedRef_def buildFileMountVolumeSource_def Let_def split: option.splits)

lemma fileMountsFrom_mem:
  "m \<in> set ms \<Longrightarrow> buildFileMountVolumeSource m = Some source \<Longrightarrow> \<exists>n. (n, source, fmMountPath m, []) \<in> set (fileMountsFrom i ms)"
  by (induction ms arbitrary: i) auto

lemma template_mounted:
  assumes "(n, source, mp, sp) \<in> set (templateMounts agent plan)"
  shows "\<lparr>voName = n, voSource = source\<rparr> \<in> set (psVolumes (ptSpec (podOf agent plan)))"
    and "\<lparr>vmName = n, vmMountPath = mp, vmSubPath = sp, vmReadOnly = True\<rparr> \<in> set (coVolumeMounts (containerOf agent plan))"
  using assms by (force simp: pod_facts)+

text \<open>\<^bold>\<open>C27.\<close> The pod template of every plan is well-formed: volume names are distinct, and the container
  mounts exactly the declared volumes, in the same order.\<close>

theorem pod_volumes_wellformed:
  assumes "buildConfigPlanWithReferences marshal agent ri = Inr plan"
  shows "distinct (map voName (psVolumes (ptSpec (podOf agent plan)))) \<and>
    map vmName (coVolumeMounts (containerOf agent plan)) = map voName (psVolumes (ptSpec (podOf agent plan)))"
  using volume_names_distinct [OF assms]
  by (simp add: pod_facts hermesDataVolume_def hermesTmpVolume_def comp_def split_beta)

lemma zero_plan: "\<exists>plan. buildConfigPlanWithReferences (\<lambda>_. []) zeroAgent emptyInputs = Inr plan"
  using buildConfigPlan_ok [of "\<lambda>_. []" zeroAgent emptyInputs]
  by (simp add: isOk_iff wfFileMounts_def wfConfigSource_def sourceCount_cases zero_defs)

theorem pod_volumes_wellformed_witness:
  "\<exists>plan. distinct (map voName (psVolumes (ptSpec (podOf zeroAgent plan)))) \<and>
    map vmName (coVolumeMounts (containerOf zeroAgent plan)) = map voName (psVolumes (ptSpec (podOf zeroAgent plan)))"
  using zero_plan pod_volumes_wellformed by blast

text \<open>\<^bold>\<open>C28.\<close> Every file mount of a valid agent reaches the container: its source is a volume of the pod and is
  mounted read-only at the requested path; so is every resolved configuration file.\<close>

theorem files_are_mounted:
  assumes "buildConfigPlanWithReferences marshal agent ri = Inr plan"
  shows "(\<forall>m \<in> set (spFileMounts (haSpec agent)). \<exists>n source. buildFileMountVolumeSource m = Some source \<and>
      \<lparr>voName = n, voSource = source\<rparr> \<in> set (psVolumes (ptSpec (podOf agent plan))) \<and>
      \<lparr>vmName = n, vmMountPath = fmMountPath m, vmSubPath = [], vmReadOnly = True\<rparr> \<in> set (coVolumeMounts (containerOf agent plan))) \<and>
    (\<forall>f \<in> set (cpFiles plan). \<exists>n.
      \<lparr>voName = n, voSource = configFileVolumeSource f\<rparr> \<in> set (psVolumes (ptSpec (podOf agent plan))) \<and>
      \<lparr>vmName = n, vmMountPath = rfMountPath f, vmSubPath = rfFileName f, vmReadOnly = True\<rparr> \<in> set (coVolumeMounts (containerOf agent plan)))"
proof (intro conjI ballI)
  fix m
  assume m: "m \<in> set (spFileMounts (haSpec agent))"
  have "wfFileMounts (spFileMounts (haSpec agent))" using assms buildConfigPlan_ok [of marshal agent ri] by simp
  with m obtain source where source: "buildFileMountVolumeSource m = Some source"
    using wf_mount_source [of m] by (auto simp: wfFileMounts_def list_all_iff)
  with m obtain n where "(n, source, fmMountPath m, []) \<in> set (templateMounts agent plan)"
    using fileMountsFrom_mem by (fastforce simp: templateMounts_def)
  with source template_mounted [OF this] show "\<exists>n source. buildFileMountVolumeSource m = Some source \<and>
      \<lparr>voName = n, voSource = source\<rparr> \<in> set (psVolumes (ptSpec (podOf agent plan))) \<and>
      \<lparr>vmName = n, vmMountPath = fmMountPath m, vmSubPath = [], vmReadOnly = True\<rparr> \<in> set (coVolumeMounts (containerOf agent plan))"
    by blast
next
  fix f
  assume "f \<in> set (cpFiles plan)"
  then have "(configVolumeName (rfID f), configFileVolumeSource f, rfMountPath f, rfFileName f) \<in> set (templateMounts agent plan)"
    by (simp add: templateMounts_def configFileMounts_def)
  from template_mounted [OF this] show "\<exists>n.
      \<lparr>voName = n, voSource = configFileVolumeSource f\<rparr> \<in> set (psVolumes (ptSpec (podOf agent plan))) \<and>
      \<lparr>vmName = n, vmMountPath = rfMountPath f, vmSubPath = rfFileName f, vmReadOnly = True\<rparr> \<in> set (coVolumeMounts (containerOf agent plan))"
    by blast
qed

text \<open>An agent with one file mount.\<close>

definition mountingAgent :: hermesAgent where
  "mountingAgent = zeroAgent\<lparr>haSpec := zeroSpec\<lparr>spFileMounts := [\<lparr>fmMountPath = ''/etc/hermes'',
     fmConfigMapRef = Some \<lparr>lorName = ''shared''\<rparr>, fmSecretRef = None, fmItems = [], fmDefaultMode = None\<rparr>]\<rparr>\<rparr>"

theorem files_are_mounted_witness:
  "\<exists>plan n. \<lparr>vmName = n, vmMountPath = ''/etc/hermes'', vmSubPath = [], vmReadOnly = True\<rparr> \<in> set (coVolumeMounts (containerOf mountingAgent plan))"
proof -
  have "isOk (buildConfigPlanWithReferences (\<lambda>_. []) mountingAgent emptyInputs)"
    by (simp add: buildConfigPlan_ok wfFileMounts_def wfFileMount_def wfItems_def wfMode_def namedRef_def isAbs_def
        wfConfigSource_def sourceCount_cases mountingAgent_def zero_defs)
  then obtain plan where "buildConfigPlanWithReferences (\<lambda>_. []) mountingAgent emptyInputs = Inr plan" by (auto simp: isOk_iff)
  from files_are_mounted [OF this] show ?thesis by (auto simp: mountingAgent_def)
qed

text \<open>\<^bold>\<open>C29.\<close> A change of the configuration reaches the pods, whatever the user puts on them: the pod template
  carries the hash of the plan under the operator's annotation, and its labels include the selector of
  the StatefulSet, so user labels cannot detach the pods.\<close>

theorem template_carries_hash_and_selector:
  "fmlookup (ptAnnotations (podOf agent plan)) configHashAnnotation = Some (cpHash plan) \<and>
   map_le (fmlookup (lsMatchLabels (sfSelector (sfSpec (buildStatefulSet agent (buildPodTemplateInputs agent plan))))))
     (fmlookup (ptLabels (podOf agent plan)))"
  by (auto simp: podOf_def buildStatefulSet_def managedPodAnnotations_def managedPodLabels_def inputs_facts map_le_def dom_def)

lemma upsert_others: "filter (\<lambda>e. evName e \<noteq> evName v) (upsertEnvVar env v) = filter (\<lambda>e. evName e \<noteq> evName v) env"
  by (induction env) auto

lemma upsert_distinct:
  "distinct (map evName env) \<Longrightarrow> filter (\<lambda>e. evName e = evName v) (upsertEnvVar env v) = [v]"
  by (induction env) (auto simp: filter_empty_conv image_iff)

text \<open>\<^bold>\<open>C30.\<close> The home directory is the operator's: for an environment without duplicate names, the container
  sets \<^verbatim>\<open>HERMES_HOME\<close> once, to the mounted home path, and all other variables are the user's in their order.\<close>

theorem home_is_managed:
  assumes "distinct (map evName (spEnv (haSpec agent)))"
  shows "filter (\<lambda>e. evName e = ''HERMES_HOME'') (coEnv (containerOf agent plan)) =
      [\<lparr>evName = ''HERMES_HOME'', evValue = hermesHomePath, evValueFrom = None\<rparr>] \<and>
    filter (\<lambda>e. evName e \<noteq> ''HERMES_HOME'') (coEnv (containerOf agent plan)) =
      filter (\<lambda>e. evName e \<noteq> ''HERMES_HOME'') (spEnv (haSpec agent))"
  using upsert_distinct [OF assms, of "\<lparr>evName = ''HERMES_HOME'', evValue = hermesHomePath, evValueFrom = None\<rparr>"]
    upsert_others [of "\<lparr>evName = ''HERMES_HOME'', evValue = hermesHomePath, evValueFrom = None\<rparr>" "spEnv (haSpec agent)"]
  by (simp add: containerOf_def podOf_def buildStatefulSet_def hermesPodSpec_def hermesContainer_def inputs_facts)

theorem home_is_managed_witness:
  "filter (\<lambda>e. evName e = ''HERMES_HOME'') (coEnv (containerOf zeroAgent \<lparr>cpFiles = [], cpHash = []\<rparr>)) =
      [\<lparr>evName = ''HERMES_HOME'', evValue = hermesHomePath, evValueFrom = None\<rparr>]"
  using home_is_managed [of zeroAgent "\<lparr>cpFiles = [], cpHash = []\<rparr>"] by (simp add: zero_defs)

text \<open>
  With a duplicate name only the first occurrence is replaced, and the kubelet lets the last one win.
\<close>

lemma duplicate_home_survives:
  "upsertEnvVar [\<lparr>evName = ''HERMES_HOME'', evValue = a, evValueFrom = None\<rparr>, \<lparr>evName = ''HERMES_HOME'', evValue = b, evValueFrom = None\<rparr>]
     \<lparr>evName = ''HERMES_HOME'', evValue = hermesHomePath, evValueFrom = None\<rparr> =
   [\<lparr>evName = ''HERMES_HOME'', evValue = hermesHomePath, evValueFrom = None\<rparr>, \<lparr>evName = ''HERMES_HOME'', evValue = b, evValueFrom = None\<rparr>]"
  by simp

end
