(* ===== verification/Exposure.thy ===== *)
theory Exposure
  imports Workload
begin

text \<open>
  The other manifests of \<^verbatim>\<open>src/internal/controller/hermesagent_resources.go\<close>: the claim for the
  Hermes state, the optional Service, the PodDisruptionBudget and the egress NetworkPolicy with the
  terminal backend it depends on.  \<^verbatim>\<open>resource.ParseQuantity\<close> and the YAML reader are third-party
  code and parameters: a quantity parser and a function that returns the \<^verbatim>\<open>terminal.backend\<close> string
  of a document, or nothing when the document cannot be read.
\<close>

section \<open>Persistent volume claim\<close>

type_synonym quantityParser = "string \<Rightarrow> goError + quantity"

definition persistenceSize :: "hermesAgent \<Rightarrow> string" where
  "persistenceSize agent =
     (let p = stPersistence (spStorage (haSpec agent)) in if pvSize p = [] then ''10Gi'' else pvSize p)"

definition persistenceAccessModes :: "hermesAgent \<Rightarrow> string list" where
  "persistenceAccessModes agent =
     (let p = stPersistence (spStorage (haSpec agent))
      in if pvAccessModes p = [] then [''ReadWriteOnce''] else pvAccessModes p)"

definition buildPersistentVolumeClaim :: "quantityParser \<Rightarrow> hermesAgent \<Rightarrow> goError + persistentVolumeClaim" where
  "buildPersistentVolumeClaim parse agent =
     (case parse (persistenceSize agent) of
        Inl err \<Rightarrow> Inl (WrapError (''parse storage size: '' @ errorText err) err)
      | Inr quantity \<Rightarrow>
          Inr \<lparr>pcMeta = namedMeta agent (persistentVolumeClaimName (agentName agent)) (resourceLabels agent) fmempty,
               pcSpec = \<lparr>pcAccessModes = persistenceAccessModes agent,
                 pcRequests = fmupd ''storage'' quantity fmempty,
                 pcStorageClassName = pvStorageClassName (stPersistence (spStorage (haSpec agent)))\<rparr>,
               pcPhase = []\<rparr>)"

section \<open>Service and disruption budget\<close>

definition serviceType :: "hermesAgent \<Rightarrow> string" where
  "serviceType agent = (if svType (spService (haSpec agent)) = [] then ''ClusterIP'' else svType (spService (haSpec agent)))"

definition buildService :: "hermesAgent \<Rightarrow> service" where
  "buildService agent =
     \<lparr>srvMeta = namedMeta agent (agentName agent) (resourceLabels agent) (svAnnotations (spService (haSpec agent))),
      srvType = serviceType agent, srvSelector = resourceLabels agent,
      srvPorts = [\<lparr>poPort = servicePortOf agent, poTargetPort = FromInt32 (serviceTargetPort agent),
        poProtocol = ''TCP'', poNodePort = 0\<rparr>]\<rparr>"

definition buildPodDisruptionBudget :: "hermesAgent \<Rightarrow> podDisruptionBudget" where
  "buildPodDisruptionBudget agent =
     \<lparr>pdMeta = namedMeta agent (agentName agent) (resourceLabels agent) fmempty,
      pdSelector = Some \<lparr>lsMatchLabels = resourceLabels agent, lsMatchExpressions = []\<rparr>,
      pdMaxUnavailable = Some (FromInt32 1)\<rparr>"

section \<open>Terminal backend\<close>

text \<open>
  \<open>yamlTerminalBackend\<close> stands for \<^verbatim>\<open>yaml.Unmarshal\<close> into the anonymous configuration struct: nothing
  on an error, otherwise the backend field, empty when the document does not set it.
\<close>

type_synonym yamlReader = "string \<Rightarrow> string option"

definition terminalBackendFromConfigContent :: "yamlReader \<Rightarrow> string \<Rightarrow> string option" where
  "terminalBackendFromConfigContent yaml content =
     (case yaml content of None \<Rightarrow> None | Some backend \<Rightarrow> (if backend = [] then None else Some backend))"

fun backendFromSnapshots ::
  "yamlReader \<Rightarrow> string \<Rightarrow> string \<Rightarrow> string \<Rightarrow> referencedObjectSnapshot list \<Rightarrow> string option" where
  "backendFromSnapshots yaml kind name key [] = None"
| "backendFromSnapshots yaml kind name key (s # ss) =
     (if roKind s \<noteq> kind \<or> roName s \<noteq> name \<or> roKey s \<noteq> key then backendFromSnapshots yaml kind name key ss
      else if \<not> roPresent s \<or> \<not> roKeyFound s then None
      else
        (let content = (case fmlookup (roData s) key of None \<Rightarrow> [] | Some v \<Rightarrow> v)
         in if roKind s = ''Secret'' then
              (case decodeString content of
                 None \<Rightarrow> None
               | Some decoded \<Rightarrow> terminalBackendFromConfigContent yaml decoded)
            else terminalBackendFromConfigContent yaml content))"

definition completeRef :: "keySelector option \<Rightarrow> keySelector option" where
  "completeRef ref =
     (case ref of None \<Rightarrow> None | Some r \<Rightarrow> (if ksName r \<noteq> [] \<and> ksKey r \<noteq> [] then Some r else None))"

definition configSourceTerminalBackend ::
  "yamlReader \<Rightarrow> hermesAgentConfigSource \<Rightarrow> referencedInputState \<Rightarrow> string option" where
  "configSourceTerminalBackend yaml source ri =
     (if csRaw source \<noteq> [] then terminalBackendFromConfigContent yaml (csRaw source)
      else case completeRef (csConfigMapRef source) of
        Some r \<Rightarrow> backendFromSnapshots yaml ''ConfigMap'' (ksName r) (ksKey r) (riFileRefs ri)
      | None \<Rightarrow>
          (case completeRef (csSecretRef source) of
             Some r \<Rightarrow> backendFromSnapshots yaml ''Secret'' (ksName r) (ksKey r) (riFileRefs ri)
           | None \<Rightarrow> None))"

definition effectiveTerminalBackend :: "yamlReader \<Rightarrow> hermesAgent \<Rightarrow> referencedInputState \<Rightarrow> string" where
  "effectiveTerminalBackend yaml agent ri =
     (case configSourceTerminalBackend yaml (spConfig (haSpec agent)) ri of
        Some backend \<Rightarrow> backend
      | None \<Rightarrow> tmBackend (spTerminal (haSpec agent)))"

section \<open>Network policy\<close>

definition networkPolicyEnabled :: "hermesAgent \<Rightarrow> bool" where
  "networkPolicyEnabled agent = (case nwEnabled (spNetworkPolicy (haSpec agent)) of None \<Rightarrow> False | Some b \<Rightarrow> b)"

text \<open>The keys of the Go map that \<^verbatim>\<open>networkPolicyPortSet\<close> builds.\<close>

definition networkPolicyPortSet :: "int list \<Rightarrow> int set" where
  "networkPolicyPortSet ports = set ports"

text \<open>The keys of the map \<^verbatim>\<open>unique\<close>, collected without repetition, then sorted.\<close>

definition additionalNetworkPolicyPorts :: "int list \<Rightarrow> int set \<Rightarrow> int list" where
  "additionalNetworkPolicyPorts ports existing = sort (remdups (filter (\<lambda>p. p \<notin> existing) ports))"

definition networkPolicyPorts :: "string \<Rightarrow> int list \<Rightarrow> networkPolicyPort list" where
  "networkPolicyPorts protocol ports =
     map (\<lambda>p. \<lparr>ppProtocol = Some protocol, ppPort = Some (FromInt32 p)\<rparr>) ports"

definition networkPolicyRule :: "networkPolicyPeer list \<Rightarrow> networkPolicyPort list \<Rightarrow> networkPolicyEgressRule" where
  "networkPolicyRule to ports = \<lparr>egTo = to, egPorts = ports\<rparr>"

definition networkPolicyIPBlock :: "hermesAgentNetworkPolicyPeer \<Rightarrow> ipBlock option" where
  "networkPolicyIPBlock peer =
     (if npCIDR peer = [] then None else Some \<lparr>ibCIDR = npCIDR peer, ibExcept = npExcept peer\<rparr>)"

definition networkPolicyPeers :: "hermesAgentNetworkPolicyPeer list \<Rightarrow> networkPolicyPeer list" where
  "networkPolicyPeers peers =
     map (\<lambda>p. \<lparr>peIPBlock = networkPolicyIPBlock p, peNamespaceSelector = npNamespaceSelector p,
       pePodSelector = npPodSelector p\<rparr>) peers"

definition buildNetworkPolicy :: "hermesAgent \<Rightarrow> string \<Rightarrow> networkPolicy" where
  "buildNetworkPolicy agent terminalBackend =
     (let np = spNetworkPolicy (haSpec agent);
          destinations = networkPolicyPeers (nwDestinations np);
          ssh = (terminalBackend = ''ssh'');
          tcpDefaults = networkPolicyPortSet [53, 80, 443] \<union> (if ssh then {22} else {});
          udpDefaults = networkPolicyPortSet [53];
          tcp = additionalNetworkPolicyPorts (nwAdditionalTCPPorts np) tcpDefaults;
          udp = additionalNetworkPolicyPorts (nwAdditionalUDPPorts np) udpDefaults;
          egress =
            [networkPolicyRule [] (networkPolicyPorts ''UDP'' [53] @ networkPolicyPorts ''TCP'' [53]),
             networkPolicyRule destinations (networkPolicyPorts ''TCP'' [80, 443])] @
            (if ssh then [networkPolicyRule destinations (networkPolicyPorts ''TCP'' [22])] else []) @
            (if tcp \<noteq> [] then [networkPolicyRule destinations (networkPolicyPorts ''TCP'' tcp)] else []) @
            (if udp \<noteq> [] then [networkPolicyRule destinations (networkPolicyPorts ''UDP'' udp)] else [])
      in \<lparr>nyMeta = namedMeta agent (agentName agent) (resourceLabels agent) fmempty,
          nySpec = \<lparr>nyPodSelector = \<lparr>lsMatchLabels = resourceLabels agent, lsMatchExpressions = []\<rparr>,
            nyPolicyTypes = [''Egress''], nyEgress = egress\<rparr>\<rparr>)"

section \<open>What a network policy allows\<close>

text \<open>The ports of a policy with their protocols, in the order of the rules.\<close>

definition rulePorts :: "networkPolicyEgressRule \<Rightarrow> (string \<times> int) list" where
  "rulePorts rule = map (\<lambda>p. (case ppProtocol p of None \<Rightarrow> [] | Some proto \<Rightarrow> proto,
     case ppPort p of Some (FromInt32 n) \<Rightarrow> n | _ \<Rightarrow> 0)) (egPorts rule)"

definition allowedPorts :: "networkPolicy \<Rightarrow> (string \<times> int) list" where
  "allowedPorts np = concat (map rulePorts (nyEgress (nySpec np)))"

lemma rulePorts_simps [simp]:
  "rulePorts (networkPolicyRule to (networkPolicyPorts proto ports)) = map (Pair proto) ports"
  "rulePorts (networkPolicyRule to (networkPolicyPorts proto ports @ ps)) =
     map (Pair proto) ports @ rulePorts (networkPolicyRule to ps)"
  by (simp_all add: rulePorts_def networkPolicyRule_def networkPolicyPorts_def)

lemma egTo_rule [simp]: "egTo (networkPolicyRule to ports) = to"
  by (simp add: networkPolicyRule_def)

lemma additional_set [simp]: "set (additionalNetworkPolicyPorts ports existing) = set ports - existing"
  by (auto simp: additionalNetworkPolicyPorts_def)

lemma additional_distinct [simp]: "distinct (additionalNetworkPolicyPorts ports existing)" "sorted (additionalNetworkPolicyPorts ports existing)"
  by (simp_all add: additionalNetworkPolicyPorts_def)

lemma allowedPorts_built:
  "allowedPorts (buildNetworkPolicy agent backend) =
     [(''UDP'', 53), (''TCP'', 53), (''TCP'', 80), (''TCP'', 443)] @ (if backend = ''ssh'' then [(''TCP'', 22)] else []) @
     map (Pair ''TCP'') (additionalNetworkPolicyPorts (nwAdditionalTCPPorts (spNetworkPolicy (haSpec agent)))
       ({53, 80, 443} \<union> (if backend = ''ssh'' then {22} else {}))) @
     map (Pair ''UDP'') (additionalNetworkPolicyPorts (nwAdditionalUDPPorts (spNetworkPolicy (haSpec agent))) {53})"
  by (simp add: allowedPorts_def buildNetworkPolicy_def networkPolicyPortSet_def Let_def)

text \<open>\<^bold>\<open>C33.\<close> The egress policy opens exactly the intended ports, each once: DNS over UDP and TCP, HTTP and HTTPS,
  SSH precisely when the terminal backend is \<^verbatim>\<open>ssh\<close>, and the additional ports of the spec.\<close>

theorem policy_ports_exact:
  "set (allowedPorts (buildNetworkPolicy agent backend)) =
     {(''UDP'', 53), (''TCP'', 53), (''TCP'', 80), (''TCP'', 443)} \<union> (if backend = ''ssh'' then {(''TCP'', 22)} else {}) \<union>
     Pair ''TCP'' ` set (nwAdditionalTCPPorts (spNetworkPolicy (haSpec agent))) \<union>
     Pair ''UDP'' ` set (nwAdditionalUDPPorts (spNetworkPolicy (haSpec agent))) \<and>
   distinct (allowedPorts (buildNetworkPolicy agent backend))"
proof -
  have absorb: "C \<union> f ` (T - D) = C \<union> f ` T" if "f ` D \<subseteq> C" for C :: "(string \<times> int) set" and f :: "int \<Rightarrow> _" and T D
    using that by blast
  let ?tcp = "nwAdditionalTCPPorts (spNetworkPolicy (haSpec agent))" and ?udp = "nwAdditionalUDPPorts (spNetworkPolicy (haSpec agent))"
  let ?ssh = "if backend = ''ssh'' then {22 :: int} else {}"
  let ?base = "{(''UDP'', 53 :: int), (''TCP'', 53), (''TCP'', 80), (''TCP'', 443)} \<union> (if backend = ''ssh'' then {(''TCP'', 22)} else {})"
  have "set (allowedPorts (buildNetworkPolicy agent backend)) =
      (?base \<union> Pair ''TCP'' ` (set ?tcp - ({53, 80, 443} \<union> ?ssh))) \<union> Pair ''UDP'' ` (set ?udp - {53})"
    unfolding allowedPorts_built set_append set_map additional_set by (cases "backend = ''ssh''") (simp_all add: Un_assoc)
  also have "\<dots> = (?base \<union> Pair ''TCP'' ` set ?tcp) \<union> Pair ''UDP'' ` set ?udp"
    by (subst (1 2) absorb) (cases "backend = ''ssh''"; simp)+
  finally have ports: "set (allowedPorts (buildNetworkPolicy agent backend)) =
      (?base \<union> Pair ''TCP'' ` set ?tcp) \<union> Pair ''UDP'' ` set ?udp" .
  have inj: "inj_on (Pair p) A" for p :: string and A :: "int set" by (simp add: inj_on_def)
  have "distinct (allowedPorts (buildNetworkPolicy agent backend))"
    unfolding allowedPorts_built by (cases "backend = ''ssh''") (auto simp: distinct_map inj)
  with ports show ?thesis by simp
qed

text \<open>\<^bold>\<open>C34.\<close> Destinations restrict everything but DNS: when the spec lists destinations, the only rule without a
  peer restriction is the first one, which opens port 53, and every other rule is limited to exactly the
  listed peers.\<close>

theorem only_dns_unrestricted:
  assumes "nwDestinations (spNetworkPolicy (haSpec agent)) \<noteq> []"
  shows "filter (\<lambda>r. egTo r = []) (nyEgress (nySpec (buildNetworkPolicy agent backend))) =
      [networkPolicyRule [] (networkPolicyPorts ''UDP'' [53] @ networkPolicyPorts ''TCP'' [53])] \<and>
    (\<forall>r \<in> set (nyEgress (nySpec (buildNetworkPolicy agent backend))).
       egTo r = [] \<or> egTo r = networkPolicyPeers (nwDestinations (spNetworkPolicy (haSpec agent))))"
proof -
  have "networkPolicyPeers (nwDestinations (spNetworkPolicy (haSpec agent))) \<noteq> []"
    using assms by (simp add: networkPolicyPeers_def)
  then show ?thesis by (auto simp: buildNetworkPolicy_def Let_def)
qed

text \<open>An agent whose egress is limited to one block.\<close>

definition limitedAgent :: hermesAgent where
  "limitedAgent = zeroAgent\<lparr>haSpec := zeroSpec\<lparr>spNetworkPolicy := \<lparr>nwEnabled = Some True,
     nwDestinations = [\<lparr>npCIDR = ''10.0.0.0/8'', npExcept = [], npNamespaceSelector = None, npPodSelector = None\<rparr>],
     nwAdditionalTCPPorts = [], nwAdditionalUDPPorts = []\<rparr>\<rparr>\<rparr>"

theorem only_dns_unrestricted_witness:
  "filter (\<lambda>r. egTo r = []) (nyEgress (nySpec (buildNetworkPolicy limitedAgent ''ssh''))) =
     [networkPolicyRule [] (networkPolicyPorts ''UDP'' [53] @ networkPolicyPorts ''TCP'' [53])]"
  using only_dns_unrestricted [of limitedAgent "''ssh''"] by (simp add: limitedAgent_def)

end
