(* ===== verification/Cluster.thy ===== *)
theory Cluster
  imports Exposure
begin

text \<open>
  The cluster as \<^verbatim>\<open>src/internal/controller/hermesagent_controller.go\<close> sees it: one store per kind of
  object, the log of the events handed to the recorder, and a hidden state of the API server.  The
  controller-runtime client, the owner reference helpers and the condition helpers are third-party
  code and parameters of the model, records of functions.  What the operator relies on is stated in
  the locales \<open>kube_api\<close>, \<open>owner_api\<close> and \<open>condition_api\<close>, each with an interpretation on an in-memory
  API server with injected failures.

  An operation on one kind of object gets the hidden state and the store of that kind and returns
  both.  So a call can fail or succeed for reasons the operator does not see, and a call for one kind
  leaves the stores of the other kinds alone.
\<close>

section \<open>Keys, stores and clients\<close>

type_synonym objectKey = "string \<times> string"

definition keyOf :: "objectMeta \<Rightarrow> objectKey" where
  "keyOf m = (omNamespace m, omName m)"

abbreviation agentKey :: "hermesAgent \<Rightarrow> objectKey" where
  "agentKey agent \<equiv> (agentNamespace agent, agentName agent)"

type_synonym ('w, 'o) store = "'w \<times> (objectKey \<Rightarrow> 'o option)"

record ('w, 'o) resourceAPI =
  apiGet :: "objectKey \<Rightarrow> ('w, 'o) store \<Rightarrow> (goError + 'o) \<times> ('w, 'o) store"
  apiCreateOrUpdate :: "'o \<Rightarrow> ('o \<Rightarrow> goError + 'o) \<Rightarrow> ('w, 'o) store \<Rightarrow> goError option \<times> ('w, 'o) store"
  apiDelete :: "'o \<Rightarrow> ('w, 'o) store \<Rightarrow> goError option \<times> ('w, 'o) store"

text \<open>
  The client for the custom resource itself: reads, lists, and the patch of the status subresource
  (\<open>apiPatchStatus latest base\<close>), which answers with the object as stored.
\<close>

record 'w agentAPI =
  apiGetAgent :: "objectKey \<Rightarrow> ('w, hermesAgent) store \<Rightarrow> (goError + hermesAgent) \<times> ('w, hermesAgent) store"
  apiListAgents :: "string \<Rightarrow> ('w, hermesAgent) store \<Rightarrow> (goError + hermesAgent list) \<times> ('w, hermesAgent) store"
  apiPatchStatus :: "hermesAgent \<Rightarrow> hermesAgent \<Rightarrow> ('w, hermesAgent) store \<Rightarrow> (goError + hermesAgent) \<times> ('w, hermesAgent) store"

record 'w kubeClient =
  clAgents :: "'w agentAPI"
  clConfigMaps :: "('w, configMap) resourceAPI"
  clSecrets :: "('w, secret) resourceAPI"
  clClaims :: "('w, persistentVolumeClaim) resourceAPI"
  clStatefulSets :: "('w, statefulSet) resourceAPI"
  clServices :: "('w, service) resourceAPI"
  clNetworkPolicies :: "('w, networkPolicy) resourceAPI"
  clBudgets :: "('w, podDisruptionBudget) resourceAPI"
  clNow :: "'w \<Rightarrow> timestamp \<times> 'w"

record kubeLib =
  isControlledBy :: "objectMeta \<Rightarrow> objectMeta \<Rightarrow> bool"
  setControllerReference :: "objectMeta \<Rightarrow> objectMeta \<Rightarrow> goError + objectMeta"
  findStatusCondition :: "condition list \<Rightarrow> string \<Rightarrow> condition option"
  apiSetStatusCondition :: "condition list \<Rightarrow> condition \<Rightarrow> condition list"
  quantityOf :: quantityParser
  jsonMarshal :: marshaller
  yamlBackend :: yamlReader

section \<open>The state of the cluster\<close>

record recordedEvent =
  reAgent :: objectKey
  reType :: string
  reReason :: string
  reMessage :: string

record 'w cluster =
  csHidden :: 'w
  csAgents :: "objectKey \<Rightarrow> hermesAgent option"
  csConfigMaps :: "objectKey \<Rightarrow> configMap option"
  csSecrets :: "objectKey \<Rightarrow> secret option"
  csClaims :: "objectKey \<Rightarrow> persistentVolumeClaim option"
  csStatefulSets :: "objectKey \<Rightarrow> statefulSet option"
  csServices :: "objectKey \<Rightarrow> service option"
  csNetworkPolicies :: "objectKey \<Rightarrow> networkPolicy option"
  csBudgets :: "objectKey \<Rightarrow> podDisruptionBudget option"
  csEvents :: "recordedEvent list"

text \<open>Running an operation for one kind on the whole cluster.\<close>

definition onAgents :: "(('w, hermesAgent) store \<Rightarrow> 'r \<times> ('w, hermesAgent) store) \<Rightarrow> 'w cluster \<Rightarrow> 'r \<times> 'w cluster" where
  "onAgents f s = (case f (csHidden s, csAgents s) of (r, w, st) \<Rightarrow> (r, s\<lparr>csHidden := w, csAgents := st\<rparr>))"

definition onConfigMaps :: "(('w, configMap) store \<Rightarrow> 'r \<times> ('w, configMap) store) \<Rightarrow> 'w cluster \<Rightarrow> 'r \<times> 'w cluster" where
  "onConfigMaps f s = (case f (csHidden s, csConfigMaps s) of (r, w, st) \<Rightarrow> (r, s\<lparr>csHidden := w, csConfigMaps := st\<rparr>))"

definition onSecrets :: "(('w, secret) store \<Rightarrow> 'r \<times> ('w, secret) store) \<Rightarrow> 'w cluster \<Rightarrow> 'r \<times> 'w cluster" where
  "onSecrets f s = (case f (csHidden s, csSecrets s) of (r, w, st) \<Rightarrow> (r, s\<lparr>csHidden := w, csSecrets := st\<rparr>))"

definition onClaims :: "(('w, persistentVolumeClaim) store \<Rightarrow> 'r \<times> ('w, persistentVolumeClaim) store) \<Rightarrow> 'w cluster \<Rightarrow> 'r \<times> 'w cluster" where
  "onClaims f s = (case f (csHidden s, csClaims s) of (r, w, st) \<Rightarrow> (r, s\<lparr>csHidden := w, csClaims := st\<rparr>))"

definition onStatefulSets :: "(('w, statefulSet) store \<Rightarrow> 'r \<times> ('w, statefulSet) store) \<Rightarrow> 'w cluster \<Rightarrow> 'r \<times> 'w cluster" where
  "onStatefulSets f s = (case f (csHidden s, csStatefulSets s) of (r, w, st) \<Rightarrow> (r, s\<lparr>csHidden := w, csStatefulSets := st\<rparr>))"

definition onServices :: "(('w, service) store \<Rightarrow> 'r \<times> ('w, service) store) \<Rightarrow> 'w cluster \<Rightarrow> 'r \<times> 'w cluster" where
  "onServices f s = (case f (csHidden s, csServices s) of (r, w, st) \<Rightarrow> (r, s\<lparr>csHidden := w, csServices := st\<rparr>))"

definition onNetworkPolicies :: "(('w, networkPolicy) store \<Rightarrow> 'r \<times> ('w, networkPolicy) store) \<Rightarrow> 'w cluster \<Rightarrow> 'r \<times> 'w cluster" where
  "onNetworkPolicies f s = (case f (csHidden s, csNetworkPolicies s) of (r, w, st) \<Rightarrow> (r, s\<lparr>csHidden := w, csNetworkPolicies := st\<rparr>))"

definition onBudgets :: "(('w, podDisruptionBudget) store \<Rightarrow> 'r \<times> ('w, podDisruptionBudget) store) \<Rightarrow> 'w cluster \<Rightarrow> 'r \<times> 'w cluster" where
  "onBudgets f s = (case f (csHidden s, csBudgets s) of (r, w, st) \<Rightarrow> (r, s\<lparr>csHidden := w, csBudgets := st\<rparr>))"

lemmas on_defs = onAgents_def onConfigMaps_def onSecrets_def onClaims_def onStatefulSets_def onServices_def
  onNetworkPolicies_def onBudgets_def

text \<open>Nothing but the hidden state has changed.\<close>

definition unchanged :: "'w cluster \<Rightarrow> 'w cluster \<Rightarrow> bool" where
  "unchanged s s' \<longleftrightarrow> s' = s\<lparr>csHidden := csHidden s'\<rparr>"

lemma unchanged_refl [simp]: "unchanged s s"
  by (simp add: unchanged_def)

lemma unchanged_trans [trans]: "unchanged s s' \<Longrightarrow> unchanged s' s'' \<Longrightarrow> unchanged s s''"
  unfolding unchanged_def by (metis cluster.select_convs(1) cluster.surjective cluster.update_convs(1))

lemma unchanged_stores:
  assumes "unchanged s s'"
  shows "csAgents s' = csAgents s" "csConfigMaps s' = csConfigMaps s" "csSecrets s' = csSecrets s"
    "csClaims s' = csClaims s" "csStatefulSets s' = csStatefulSets s" "csServices s' = csServices s"
    "csNetworkPolicies s' = csNetworkPolicies s" "csBudgets s' = csBudgets s" "csEvents s' = csEvents s"
  by (subst assms [unfolded unchanged_def], simp)+

text \<open>A step that only reads, and whose value is \<open>y\<close> when it succeeds.\<close>

definition yields :: "'w cluster \<Rightarrow> 'a \<Rightarrow> ('e + 'a) \<times> 'w cluster \<Rightarrow> bool" where
  "yields s y rs \<longleftrightarrow> unchanged s (snd rs) \<and> (\<forall>x. fst rs = Inr x \<longrightarrow> x = y)"

lemma yields_andThen:
  assumes "yields s x rs" and "\<And>s'. unchanged s s' \<Longrightarrow> yields s' y (f x s')"
  shows "yields s y (andThen rs f)"
  using assms by (auto simp: yields_def andThen_def split: prod.splits sum.splits intro: unchanged_trans)

lemma yieldsD:
  "yields s y (r, s') \<Longrightarrow> unchanged s s'" "yields s y (Inr x, s') \<Longrightarrow> x = y"
  by (simp_all add: yields_def)

text \<open>\<^verbatim>\<open>metav1.Now\<close> reads the clock of the hidden state.\<close>

definition now :: "'w kubeClient \<Rightarrow> 'w \<Rightarrow> timestamp \<times> 'w" where
  "now c w = clNow c w"

section \<open>What the operator relies on\<close>

text \<open>The store holds, under the key, an object with the property, as sent or as the server has admitted it.\<close>

definition holds :: "('o option \<Rightarrow> 'o \<Rightarrow> 'o) \<Rightarrow> (objectKey \<Rightarrow> 'o option) \<Rightarrow> objectKey \<Rightarrow> ('o \<Rightarrow> bool) \<Rightarrow> bool" where
  "holds admit st k P \<longleftrightarrow> (\<exists>m. P m \<and> (st k = Some m \<or> (\<exists>old. st k = Some (admit old m))))"

lemma holds_cong: "st' k = st k \<Longrightarrow> holds admit st' k P = holds admit st k P"
  by (simp add: holds_def)

lemma holds_mono: "holds admit st k P \<Longrightarrow> (\<And>m. P m \<Longrightarrow> Q m) \<Longrightarrow> holds admit st k Q"
  by (auto simp: holds_def)

text \<open>
  The stored object is a fixed point of an update: the server makes the object of the store out of what
  the mutate function returns on it.
\<close>

definition fixedBy :: "('o option \<Rightarrow> 'o \<Rightarrow> 'o) \<Rightarrow> ('o \<Rightarrow> goError + 'o) \<Rightarrow> 'o option \<Rightarrow> bool" where
  "fixedBy admit mutate stored \<longleftrightarrow>
     (case stored of
        None \<Rightarrow> False
      | Some ob \<Rightarrow> (case mutate ob of Inl _ \<Rightarrow> False | Inr m \<Rightarrow> admit (Some ob) m = ob))"

lemma fixedByE:
  assumes "fixedBy admit mutate stored"
  obtains ob m where "stored = Some ob" "mutate ob = Inr m" "admit (Some ob) m = ob"
  using assms by (auto simp: fixedBy_def split: option.splits sum.splits)

text \<open>
  The server settles what a mutate function asks for: what it stores for a fixed point of the mutate
  function is a fixed point of the update.
\<close>

definition stable :: "('o option \<Rightarrow> 'o \<Rightarrow> 'o) \<Rightarrow> ('o \<Rightarrow> goError + 'o) \<Rightarrow> bool" where
  "stable admit mutate \<longleftrightarrow>
     (\<forall>m. mutate m = Inr m \<longrightarrow> admit (Some m) m = m \<and> (\<forall>old. fixedBy admit mutate (Some (admit old m))))"

lemma stable_plain: "stable (\<lambda>old m. m) mutate"
  by (simp add: stable_def fixedBy_def)

lemma holds_fixed: "holds admit st k (\<lambda>m. mutate m = Inr m) \<Longrightarrow> stable admit mutate \<Longrightarrow> fixedBy admit mutate (st k)"
  by (auto simp: holds_def stable_def) (simp add: fixedBy_def)

text \<open>
  \<^verbatim>\<open>metav1.GetControllerOf\<close>, and what makes a reference one to an agent: the group and version of
  \<^verbatim>\<open>src/api/v1/groupversion_info.go\<close>, the kind and the name.
\<close>

definition controllerOf :: "objectMeta \<Rightarrow> ownerReference option" where
  "controllerOf m = find (\<lambda>ref. orController ref = Some True) (omOwnerReferences m)"

definition agentReference :: "objectMeta \<Rightarrow> ownerReference \<Rightarrow> bool" where
  "agentReference owner ref \<longleftrightarrow>
     orAPIVersion ref = ''hermes.nous.ai/v1'' \<and> orKind ref = ''HermesAgent'' \<and> orName ref = omName owner"

definition namesOwner :: "objectMeta \<Rightarrow> objectMeta \<Rightarrow> bool" where
  "namesOwner owner m \<longleftrightarrow> (case controllerOf m of None \<Rightarrow> False | Some ref \<Rightarrow> agentReference owner ref)"

lemma namesOwnerE:
  assumes "namesOwner owner m"
  obtains ref where "controllerOf m = Some ref" "agentReference owner ref"
  using assms by (auto simp: namesOwner_def split: option.splits)

lemma namesOwner_cong: "omOwnerReferences m = omOwnerReferences m' \<Longrightarrow> namesOwner owner m = namesOwner owner m'"
  by (simp add: namesOwner_def controllerOf_def)

text \<open>
  The laws of the client for one kind.  A read leaves the store alone, finds what is stored under the
  key and reports \<^verbatim>\<open>NotFound\<close> only for an absent object.  \<^verbatim>\<open>CreateOrUpdate\<close> runs the mutate function on
  the stored object, or on the given one when there is none; when it returns no error the result is
  stored as the server admits it, or the stored object is already equal to it, in which case nothing
  is written; when it returns an error the write may or may not have happened.  Admission leaves the owner
  references alone.  A deletion removes at most the object with the given key.
  No error made outside the operator is its unexported drift error.
\<close>

locale kube_api =
  fixes api :: "('w, 'o) resourceAPI"
    and metaOf :: "'o \<Rightarrow> objectMeta"
    and admit :: "'o option \<Rightarrow> 'o \<Rightarrow> 'o"
  assumes get_keeps: "apiGet api k (w, st) = (r, w', st') \<Longrightarrow> st' = st"
    and get_found: "apiGet api k (w, st) = (Inr ob, s') \<Longrightarrow> st k = Some ob \<and> keyOf (metaOf ob) = k"
    and get_missing: "apiGet api k (w, st) = (Inl e, s') \<Longrightarrow> isNotFound e \<Longrightarrow> st k = None"
    and update_ok: "apiCreateOrUpdate api ob f (w, st) = (None, w', st') \<Longrightarrow>
      \<exists>m. f (case st (keyOf (metaOf ob)) of None \<Rightarrow> ob | Some old \<Rightarrow> old) = Inr m \<and>
        (st (keyOf (metaOf ob)) = Some m \<and> st' = st \<or>
         st' = st(keyOf (metaOf ob) \<mapsto> admit (st (keyOf (metaOf ob))) m))"
    and update_failed: "apiCreateOrUpdate api ob f (w, st) = (Some e, w', st') \<Longrightarrow>
      st' = st \<or>
      (\<exists>m. f (case st (keyOf (metaOf ob)) of None \<Rightarrow> ob | Some old \<Rightarrow> old) = Inr m \<and>
         st' = st(keyOf (metaOf ob) \<mapsto> admit (st (keyOf (metaOf ob))) m))"
    and update_error: "apiCreateOrUpdate api ob f (w, st) = (Some e, s') \<Longrightarrow>
      asDriftError e = None \<or> f (case st (keyOf (metaOf ob)) of None \<Rightarrow> ob | Some old \<Rightarrow> old) = Inl e"
    and admit_owners: "omOwnerReferences (metaOf (admit old m)) = omOwnerReferences (metaOf m)"
    and delete_key: "apiDelete api ob (w, st) = (result, w', st') \<Longrightarrow> st' = st \<or> st' = st(keyOf (metaOf ob) := None)"
begin

lemma admitted_owner: "namesOwner owner (metaOf (admit old m)) = namesOwner owner (metaOf m)"
  by (rule namesOwner_cong) (rule admit_owners)

lemma update_cases:
  assumes "apiCreateOrUpdate api ob f (w, st) = (r, w', st')"
  obtains "st' = st"
  | m where "f (case st (keyOf (metaOf ob)) of None \<Rightarrow> ob | Some old \<Rightarrow> old) = Inr m"
      and "st' = st(keyOf (metaOf ob) \<mapsto> admit (st (keyOf (metaOf ob))) m)"
  using assms update_ok update_failed by (cases r) blast+

lemma update_other:
  "apiCreateOrUpdate api ob f (w, st) = (r, w', st') \<Longrightarrow> k \<noteq> keyOf (metaOf ob) \<Longrightarrow> st' k = st k"
  by (elim update_cases) auto

lemma update_refused:
  "apiCreateOrUpdate api ob f (w, st) = (r, w', st') \<Longrightarrow>
   f (case st (keyOf (metaOf ob)) of None \<Rightarrow> ob | Some old \<Rightarrow> old) = Inl e \<Longrightarrow> st' = st \<and> r \<noteq> None"
  using update_ok update_failed by (cases r) fastforce+

lemma update_present:
  "apiCreateOrUpdate api ob f (w, st) = (None, w', st') \<Longrightarrow> st' (keyOf (metaOf ob)) \<noteq> None"
  by (drule update_ok) auto

lemma update_holds:
  assumes "apiCreateOrUpdate api ob f (w, st) = (None, w', st')" and "\<And>old m. f old = Inr m \<Longrightarrow> P m"
    and "keyOf (metaOf ob) = k"
  shows "holds admit st' k P"
  using update_ok [OF assms(1)] assms(2,3) by (fastforce simp: holds_def)

lemma update_fixed:
  assumes "apiCreateOrUpdate api ob f (w, st) = (r, w', st')" and "fixedBy admit f (st (keyOf (metaOf ob)))"
  shows "st' = st"
proof -
  obtain old m where "st (keyOf (metaOf ob)) = Some old" "f old = Inr m" "admit (Some old) m = old"
    using assms(2) by (rule fixedByE)
  with assms(1) show ?thesis by (auto elim!: update_cases)
qed

lemma delete_other:
  "apiDelete api ob (w, st) = (r, w', st') \<Longrightarrow> k \<noteq> keyOf (metaOf ob) \<Longrightarrow> st' k = st k"
  by (drule delete_key) auto

end

text \<open>
  Owner references: \<^verbatim>\<open>SetControllerReference\<close> makes the owner the controller, with a reference of its kind
  and name, and touches nothing but the owner references, changes nothing the second time, and refuses an
  object that another owner controls.  \<^verbatim>\<open>IsControlledBy\<close> knows an owner by its UID.
\<close>

locale owner_api =
  fixes controls :: "objectMeta \<Rightarrow> objectMeta \<Rightarrow> bool"
    and setOwner :: "objectMeta \<Rightarrow> objectMeta \<Rightarrow> goError + objectMeta"
  assumes owner_set: "setOwner owner m = Inr m' \<Longrightarrow> controls m' owner"
    and owner_named: "setOwner owner m = Inr m' \<Longrightarrow> namesOwner owner m'"
    and owner_identity: "omUID owner = omUID owner' \<Longrightarrow> controls m owner = controls m owner'"
    and owner_frame: "setOwner owner m = Inr m' \<Longrightarrow> m' = m\<lparr>omOwnerReferences := omOwnerReferences m'\<rparr>"
    and owner_again: "setOwner owner m = Inr m' \<Longrightarrow> setOwner owner m' = Inr m'"
    and owner_conflict: "ref \<in> set (omOwnerReferences m) \<Longrightarrow> orController ref = Some True \<Longrightarrow>
      orName ref \<noteq> omName owner \<Longrightarrow> \<exists>e. setOwner owner m = Inl e"
    and owner_error: "setOwner owner m = Inl e \<Longrightarrow> asDriftError e = None"
begin

lemma owner_keeps:
  assumes "setOwner owner m = Inr m'"
  shows "omName m' = omName m" "omNamespace m' = omNamespace m" "omLabels m' = omLabels m"
    "omAnnotations m' = omAnnotations m" "omUID m' = omUID m" "omGeneration m' = omGeneration m"
  by (subst owner_frame [OF assms], simp)+

lemma owner_key: "setOwner owner m = Inr m' \<Longrightarrow> keyOf m' = keyOf m"
  by (simp add: keyOf_def owner_keeps)

end

text \<open>
  Status conditions: \<^verbatim>\<open>SetStatusCondition\<close> sets the condition of its type up to the transition time,
  keeps the others, and changes nothing when the condition is already as asked.
\<close>

locale condition_api =
  fixes findCondition :: "condition list \<Rightarrow> string \<Rightarrow> condition option"
    and setConditionOf :: "condition list \<Rightarrow> condition \<Rightarrow> condition list"
  assumes find_type: "findCondition cs ty = Some cd \<Longrightarrow> cdType cd = ty"
    and find_set: "\<exists>time. findCondition (setConditionOf cs cd) (cdType cd) = Some (cd\<lparr>cdLastTransitionTime := time\<rparr>)"
    and find_other: "ty \<noteq> cdType cd \<Longrightarrow> findCondition (setConditionOf cs cd) ty = findCondition cs ty"
    and set_same: "findCondition cs (cdType cd) = Some old \<Longrightarrow>
      old\<lparr>cdLastTransitionTime := cdLastTransitionTime cd\<rparr> = cd \<Longrightarrow> setConditionOf cs cd = cs"

text \<open>
  The custom resources: a list holds the stored agents of the namespace, where \<open>known\<close> is the set of
  keys in use, and a patch of the status
  subresource changes the status of the stored object and nothing else.
\<close>

locale agent_api =
  fixes api :: "'w agentAPI"
    and known :: "objectKey set"
  assumes agent_get_keeps: "apiGetAgent api k (w, st) = (r, w', st') \<Longrightarrow> st' = st"
    and agent_found: "apiGetAgent api k (w, st) = (Inr agent, s') \<Longrightarrow> st k = Some agent \<and> keyOf (haMeta agent) = k"
    and agent_missing: "apiGetAgent api k (w, st) = (Inl e, s') \<Longrightarrow> isNotFound e \<Longrightarrow> st k = None"
    and agents_listed: "apiListAgents api ns (w, st) = (Inr agents, s') \<Longrightarrow> dom st \<subseteq> known \<Longrightarrow>
      set agents = {agent. agentNamespace agent = ns \<and> st (agentKey agent) = Some agent}"
    and status_patched: "apiPatchStatus api latest base (w, st) = (Inr answer, w', st') \<Longrightarrow>
      st (agentKey latest) = Some base \<Longrightarrow>
      answer = base\<lparr>haStatus := haStatus latest\<rparr> \<and> st' = st(agentKey latest \<mapsto> answer)"
    and status_patch_failed: "apiPatchStatus api latest base (w, st) = (Inl e, w', st') \<Longrightarrow>
      st (agentKey latest) = Some base \<Longrightarrow>
      st' = st \<or> st' = st(agentKey latest \<mapsto> base\<lparr>haStatus := haStatus latest\<rparr>)"

section \<open>An in-memory API server\<close>

text \<open>
  The hidden state is the list of the failures still to be injected, one entry per call, and the
  clock.  A call that fails leaves the store alone.
\<close>

type_synonym memoryWorld = "bool list \<times> timestamp"

definition fails :: "memoryWorld \<Rightarrow> bool" where
  "fails w = (case fst w of [] \<Rightarrow> False | b # _ \<Rightarrow> b)"

definition tick :: "memoryWorld \<Rightarrow> memoryWorld" where
  "tick w = (tl (fst w), snd w + 1)"

definition unavailable :: goError where
  "unavailable = APIError OtherReason ''the server is currently unable to handle the request''"

definition missing :: "objectKey \<Rightarrow> goError" where
  "missing k = APIError NotFound (snd k @ '' not found'')"

definition memoryGet ::
  "('o \<Rightarrow> objectMeta) \<Rightarrow> objectKey \<Rightarrow> (memoryWorld, 'o) store \<Rightarrow> (goError + 'o) \<times> (memoryWorld, 'o) store" where
  "memoryGet metaOf k = (\<lambda>(w, st).
     (if fails w then Inl unavailable
      else case st k of
        None \<Rightarrow> Inl (missing k)
      | Some ob \<Rightarrow> (if keyOf (metaOf ob) = k then Inr ob else Inl unavailable),
      tick w, st))"

definition memoryCreateOrUpdate ::
  "('o \<Rightarrow> objectMeta) \<Rightarrow> 'o \<Rightarrow> ('o \<Rightarrow> goError + 'o) \<Rightarrow> (memoryWorld, 'o) store \<Rightarrow> goError option \<times> (memoryWorld, 'o) store" where
  "memoryCreateOrUpdate metaOf ob f = (\<lambda>(w, st).
     let k = keyOf (metaOf ob) in
     if fails w then (Some unavailable, tick w, st)
     else case f (case st k of None \<Rightarrow> ob | Some old \<Rightarrow> old) of
       Inl e \<Rightarrow> (Some e, tick w, st)
     | Inr m \<Rightarrow> (None, tick w, st(k \<mapsto> m)))"

definition memoryDelete ::
  "('o \<Rightarrow> objectMeta) \<Rightarrow> 'o \<Rightarrow> (memoryWorld, 'o) store \<Rightarrow> goError option \<times> (memoryWorld, 'o) store" where
  "memoryDelete metaOf ob = (\<lambda>(w, st).
     let k = keyOf (metaOf ob) in
     if fails w then (Some unavailable, tick w, st)
     else if st k = None then (Some (missing k), tick w, st)
     else (None, tick w, st(k := None)))"

definition memoryAPI :: "('o \<Rightarrow> objectMeta) \<Rightarrow> (memoryWorld, 'o) resourceAPI" where
  "memoryAPI metaOf = \<lparr>apiGet = memoryGet metaOf, apiCreateOrUpdate = memoryCreateOrUpdate metaOf,
     apiDelete = memoryDelete metaOf\<rparr>"

lemmas memory_defs = memoryAPI_def memoryGet_def memoryCreateOrUpdate_def memoryDelete_def
  unavailable_def missing_def

lemma memory_kube_api: "kube_api (memoryAPI metaOf) metaOf (\<lambda>old m. m)"
  by unfold_locales
    (auto simp: memory_defs Let_def split: if_splits option.splits sum.splits)

interpretation memory: kube_api "memoryAPI metaOf" metaOf "\<lambda>old m. m" for metaOf
  by (rule memory_kube_api)

lemma find_filter: "find P xs = (case filter P xs of [] \<Rightarrow> None | x # _ \<Rightarrow> Some x)"
  by (induction xs) auto

definition memoryIsControlledBy :: "objectMeta \<Rightarrow> objectMeta \<Rightarrow> bool" where
  "memoryIsControlledBy m owner =
     (case filter (\<lambda>r. orController r = Some True) (omOwnerReferences m) of
        [] \<Rightarrow> False
      | r # _ \<Rightarrow> orUID r = omUID owner)"

definition memorySetControllerReference :: "objectMeta \<Rightarrow> objectMeta \<Rightarrow> goError + objectMeta" where
  "memorySetControllerReference owner m =
     (let ref = \<lparr>orAPIVersion = ''hermes.nous.ai/v1'', orKind = ''HermesAgent'', orName = omName owner,
                 orUID = omUID owner, orController = Some True\<rparr>
      in case filter (\<lambda>r. orController r = Some True) (omOwnerReferences m) of
           [] \<Rightarrow> Inr (m\<lparr>omOwnerReferences := omOwnerReferences m @ [ref]\<rparr>)
         | r # rs \<Rightarrow>
             (if list_all (\<lambda>r. agentReference owner r \<and> orUID r = omUID owner) (r # rs) then Inr m
              else Inl (TextError ''Object is already owned by another controller'')))"

interpretation memoryOwners: owner_api memoryIsControlledBy memorySetControllerReference
proof
  fix owner m m' :: objectMeta
  assume "memorySetControllerReference owner m = Inr m'"
  then show "memoryIsControlledBy m' owner" and "m' = m\<lparr>omOwnerReferences := omOwnerReferences m'\<rparr>"
    and "memorySetControllerReference owner m' = Inr m'" and "namesOwner owner m'"
    by (auto simp: memorySetControllerReference_def memoryIsControlledBy_def namesOwner_def controllerOf_def
        find_filter agentReference_def Let_def split: list.splits if_splits)
next
  show "omUID owner = omUID owner' \<Longrightarrow> memoryIsControlledBy m owner = memoryIsControlledBy m owner'" for owner owner' m
    by (simp add: memoryIsControlledBy_def cong: list.case_cong)
next
  fix ref and m owner :: objectMeta
  assume "ref \<in> set (omOwnerReferences m)" and "orController ref = Some True" and "orName ref \<noteq> omName owner"
  then have "ref \<in> set (filter (\<lambda>r. orController r = Some True) (omOwnerReferences m))"
    and "\<not> (agentReference owner ref \<and> orUID ref = omUID owner)" by (simp_all add: agentReference_def)
  then show "\<exists>e. memorySetControllerReference owner m = Inl e"
    unfolding memorySetControllerReference_def Let_def
    by (cases "filter (\<lambda>r. orController r = Some True) (omOwnerReferences m)") (auto simp: list_all_iff)
next
  fix owner m :: objectMeta and e
  assume "memorySetControllerReference owner m = Inl e"
  then show "asDriftError e = None"
    by (auto simp: memorySetControllerReference_def Let_def split: list.splits if_splits)
qed

definition memoryFindStatusCondition :: "condition list \<Rightarrow> string \<Rightarrow> condition option" where
  "memoryFindStatusCondition cs ty = find (\<lambda>cd. cdType cd = ty) cs"

fun memorySetStatusCondition :: "condition list \<Rightarrow> condition \<Rightarrow> condition list" where
  "memorySetStatusCondition [] new = [new]"
| "memorySetStatusCondition (cd # cs) new =
     (if cdType cd = cdType new
      then new\<lparr>cdLastTransitionTime :=
             (if cdStatus cd = cdStatus new then cdLastTransitionTime cd else cdLastTransitionTime new)\<rparr> # cs
      else cd # memorySetStatusCondition cs new)"

interpretation memoryConditions: condition_api memoryFindStatusCondition memorySetStatusCondition
proof
  show "memoryFindStatusCondition cs ty = Some cd \<Longrightarrow> cdType cd = ty" for cs ty cd
    by (auto simp: memoryFindStatusCondition_def find_Some_iff)
  show "\<exists>time. memoryFindStatusCondition (memorySetStatusCondition cs cd) (cdType cd) =
      Some (cd\<lparr>cdLastTransitionTime := time\<rparr>)" for cs cd
    by (induction cs) (auto simp: memoryFindStatusCondition_def intro: exI [of _ "cdLastTransitionTime cd"])
  show "ty \<noteq> cdType cd \<Longrightarrow> memoryFindStatusCondition (memorySetStatusCondition cs cd) ty =
      memoryFindStatusCondition cs ty" for cs ty cd
    by (induction cs) (auto simp: memoryFindStatusCondition_def)
  show "memoryFindStatusCondition cs (cdType cd) = Some old \<Longrightarrow>
      old\<lparr>cdLastTransitionTime := cdLastTransitionTime cd\<rparr> = cd \<Longrightarrow> memorySetStatusCondition cs cd = cs" for cs cd old
    by (induction cs) (cases old; cases cd; auto simp: memoryFindStatusCondition_def split: if_splits)+
qed

subsection \<open>Custom resources\<close>

definition memoryAgentAPI :: "objectKey list \<Rightarrow> memoryWorld agentAPI" where
  "memoryAgentAPI known =
     \<lparr>apiGetAgent = memoryGet haMeta,
      apiListAgents = (\<lambda>ns (w, st).
        (if fails w then Inl unavailable
         else Inr (filter (\<lambda>agent. agentNamespace agent = ns \<and> st (agentKey agent) = Some agent)
           (concat (map (\<lambda>k. case st k of None \<Rightarrow> [] | Some agent \<Rightarrow> [agent]) known))),
         tick w, st)),
      apiPatchStatus = (\<lambda>latest base (w, st).
        (case st (agentKey latest) of
           None \<Rightarrow> (Inl (missing (agentKey latest)), tick w, st)
         | Some stored \<Rightarrow>
             (if fails w then (Inl unavailable, tick w, st)
              else (let answer = stored\<lparr>haStatus := haStatus latest\<rparr>
                    in (Inr answer, tick w, st(agentKey latest \<mapsto> answer))))))\<rparr>"

lemma memory_agent_api: "agent_api (memoryAgentAPI known) (set known)"
proof
  show "apiListAgents (memoryAgentAPI known) ns (w, st) = (Inr agents, s') \<Longrightarrow> dom st \<subseteq> set known \<Longrightarrow>
      set agents = {agent. agentNamespace agent = ns \<and> st (agentKey agent) = Some agent}" for ns w st agents s'
    by (auto simp: memoryAgentAPI_def dom_def subset_iff split: if_splits option.splits) metis
qed (auto simp: memoryAgentAPI_def memory_defs Let_def split: if_splits option.splits)

interpretation memoryAgents: agent_api "memoryAgentAPI known" "set known" for known
  by (rule memory_agent_api)

definition memoryClient :: "objectKey list \<Rightarrow> memoryWorld kubeClient" where
  "memoryClient known =
     \<lparr>clAgents = memoryAgentAPI known, clConfigMaps = memoryAPI cmMeta, clSecrets = memoryAPI seMeta,
      clClaims = memoryAPI pcMeta, clStatefulSets = memoryAPI sfMeta, clServices = memoryAPI srvMeta,
      clNetworkPolicies = memoryAPI nyMeta, clBudgets = memoryAPI pdMeta,
      clNow = (\<lambda>w. (snd w, (fst w, snd w + 1)))\<rparr>"

definition memoryLib :: kubeLib where
  "memoryLib =
     \<lparr>isControlledBy = memoryIsControlledBy, setControllerReference = memorySetControllerReference,
      findStatusCondition = memoryFindStatusCondition, apiSetStatusCondition = memorySetStatusCondition,
      quantityOf = (\<lambda>t. if t = ''10Gi'' then Inr 10737418240 else Inl (TextError ''unable to parse quantity'')),
      jsonMarshal = (\<lambda>_. []), yamlBackend = (\<lambda>t. if t = [] then None else Some [])\<rparr>"

end
