(* ===== verification/Status.thy ===== *)
theory Status
  imports Cluster
begin

text \<open>
  The status of a HermesAgent (\<^verbatim>\<open>src/internal/controller/hermesagent_controller.go\<close>): conditions, the
  failure marks, the view of storage and workload, and the events for condition changes.  A function
  on \<^verbatim>\<open>*HermesAgentStatus\<close> maps the status together with the hidden state of the API server, which
  holds the clock that \<^verbatim>\<open>metav1.Now\<close> reads.
\<close>

section \<open>Conditions\<close>

definition conditionTypeConfigReady :: string where "conditionTypeConfigReady = ''ConfigReady''"
definition conditionTypePersistenceReady :: string where "conditionTypePersistenceReady = ''PersistenceReady''"
definition conditionTypeWorkloadReady :: string where "conditionTypeWorkloadReady = ''WorkloadReady''"
definition conditionTypeReady :: string where "conditionTypeReady = ''Ready''"
definition phaseConfigError :: string where "phaseConfigError = ''ConfigError''"
definition phaseStoragePending :: string where "phaseStoragePending = ''StoragePending''"
definition phaseStorageError :: string where "phaseStorageError = ''StorageError''"
definition phaseWorkloadPending :: string where "phaseWorkloadPending = ''WorkloadPending''"
definition phaseWorkloadError :: string where "phaseWorkloadError = ''WorkloadError''"
definition phaseReady :: string where "phaseReady = ''Ready''"
definition reasonWaitingForPersistence :: string where "reasonWaitingForPersistence = ''WaitingForPersistence''"
definition reasonStatefulSetRollout :: string where "reasonStatefulSetRollout = ''StatefulSetRolloutPending''"
definition reasonStatefulSetWaitingReady :: string where
  "reasonStatefulSetWaitingReady = ''StatefulSetWaitingForReadyReplicas''"

lemmas condition_types = conditionTypeConfigReady_def conditionTypePersistenceReady_def
  conditionTypeWorkloadReady_def conditionTypeReady_def
lemmas phases = phaseConfigError_def phaseStoragePending_def phaseStorageError_def phaseWorkloadPending_def
  phaseWorkloadError_def phaseReady_def

lemma condition_types_distinct [simp]:
  "conditionTypeConfigReady \<noteq> conditionTypePersistenceReady" "conditionTypePersistenceReady \<noteq> conditionTypeConfigReady"
  "conditionTypeConfigReady \<noteq> conditionTypeWorkloadReady" "conditionTypeWorkloadReady \<noteq> conditionTypeConfigReady"
  "conditionTypeConfigReady \<noteq> conditionTypeReady" "conditionTypeReady \<noteq> conditionTypeConfigReady"
  "conditionTypePersistenceReady \<noteq> conditionTypeWorkloadReady" "conditionTypeWorkloadReady \<noteq> conditionTypePersistenceReady"
  "conditionTypePersistenceReady \<noteq> conditionTypeReady" "conditionTypeReady \<noteq> conditionTypePersistenceReady"
  "conditionTypeWorkloadReady \<noteq> conditionTypeReady" "conditionTypeReady \<noteq> conditionTypeWorkloadReady"
  by (simp_all add: condition_types)

type_synonym 'w statusMutator = "hermesAgentStatus \<times> 'w \<Rightarrow> hermesAgentStatus \<times> 'w"

definition setCondition ::
  "kubeLib \<Rightarrow> 'w kubeClient \<Rightarrow> string \<Rightarrow> string \<Rightarrow> string \<Rightarrow> string \<Rightarrow> 'w statusMutator" where
  "setCondition lib c conditionType conditionStatus reason message = (\<lambda>(status, w).
     case now c w of (time, w') \<Rightarrow>
       (status\<lparr>saConditions := apiSetStatusCondition lib (saConditions status)
          \<lparr>cdType = conditionType, cdStatus = conditionStatus, cdObservedGeneration = saObservedGeneration status,
           cdLastTransitionTime = time, cdReason = reason, cdMessage = message\<rparr>\<rparr>, w'))"

definition updateStatus :: "(hermesAgentStatus \<Rightarrow> hermesAgentStatus) \<Rightarrow> 'w statusMutator" where
  "updateStatus f = (\<lambda>(status, w). (f status, w))"

definition populateStatusMetadata :: "hermesAgent \<Rightarrow> string \<Rightarrow> hermesAgentStatus \<Rightarrow> hermesAgentStatus" where
  "populateStatusMetadata agent configHash status =
     status\<lparr>saImage := hermesImage (spImage (haSpec agent)), saConfigHash := configHash,
       saPersistentVolumeClaimName :=
         (if persistenceEnabled agent then persistentVolumeClaimName (agentName agent) else []),
       saPersistentVolumeClaimDriftedFields := [], saPersistentVolumeClaimRemediation := [],
       saServiceName := (if serviceEnabled agent then agentName agent else [])\<rparr>"

section \<open>Failure marks\<close>

definition setConfigReconciled :: "kubeLib \<Rightarrow> 'w kubeClient \<Rightarrow> 'w statusMutator" where
  "setConfigReconciled lib c =
     setCondition lib c conditionTypeConfigReady ''True'' ''ConfigReconciled'' ''Configuration inputs resolved successfully''"

definition markConfigFailure ::
  "kubeLib \<Rightarrow> 'w kubeClient \<Rightarrow> string \<Rightarrow> string \<Rightarrow> string \<Rightarrow> 'w statusMutator" where
  "markConfigFailure lib c reason configMessage readyMessage sw =
     (let sw = updateStatus (\<lambda>status. status\<lparr>saReadyReplicas := 0, saPersistenceBound := False\<rparr>) sw;
          sw = setCondition lib c conditionTypeConfigReady ''False'' reason configMessage sw;
          sw = setCondition lib c conditionTypePersistenceReady ''Unknown'' ''Unknown''
                 ''Persistence state is unknown until configuration inputs resolve successfully'' sw;
          sw = setCondition lib c conditionTypeWorkloadReady ''Unknown'' ''Unknown''
                 ''Workload state is unknown until configuration inputs resolve successfully'' sw;
          sw = setCondition lib c conditionTypeReady ''False'' reason readyMessage sw
      in updateStatus (\<lambda>status. status\<lparr>saPhase := phaseConfigError\<rparr>) sw)"

definition markDrift ::
  "kubeLib \<Rightarrow> 'w kubeClient \<Rightarrow> persistentVolumeClaimSpecDriftError \<Rightarrow> 'w statusMutator" where
  "markDrift lib c driftErr sw =
     (let sw = updateStatus (\<lambda>status. status\<lparr>saPersistentVolumeClaimDriftedFields := deFields driftErr,
                 saPersistentVolumeClaimRemediation := deRemediation driftErr\<rparr>) sw;
          sw = setCondition lib c conditionTypePersistenceReady ''False'' ''PersistentVolumeClaimSpecDrift''
                 (driftErrorText driftErr) sw;
          sw = setCondition lib c conditionTypeWorkloadReady ''Unknown'' ''PersistentVolumeClaimSpecDrift''
                 ''Workload state is unchanged, but the requested PVC spec cannot be applied in place'' sw;
          sw = setCondition lib c conditionTypeReady ''False'' ''PersistentVolumeClaimSpecDrift''
                 ''Hermes persistence does not match the requested immutable PVC settings'' sw
      in updateStatus (\<lambda>status. status\<lparr>saPhase := phaseStorageError\<rparr>) sw)"

definition markPersistenceFailure :: "kubeLib \<Rightarrow> 'w kubeClient \<Rightarrow> goError \<Rightarrow> 'w statusMutator" where
  "markPersistenceFailure lib c err sw =
     (let sw = updateStatus (\<lambda>status. status\<lparr>saReadyReplicas := 0, saPersistenceBound := False\<rparr>) sw;
          sw = setConfigReconciled lib c sw
      in case asDriftError err of
           Some driftErr \<Rightarrow> markDrift lib c driftErr sw
         | None \<Rightarrow>
             (let sw = setCondition lib c conditionTypePersistenceReady ''False''
                         ''PersistentVolumeClaimReconcileFailed'' (errorText err) sw;
                  sw = setCondition lib c conditionTypeWorkloadReady ''False'' reasonWaitingForPersistence
                         ''Workload is waiting for the Hermes PVC to reconcile'' sw;
                  sw = setCondition lib c conditionTypeReady ''False'' ''PersistentVolumeClaimReconcileFailed''
                         ''Hermes persistence could not be reconciled'' sw
              in updateStatus (\<lambda>status. status\<lparr>saPhase := phaseStorageError\<rparr>) sw))"

definition markWorkloadFailure ::
  "kubeLib \<Rightarrow> 'w kubeClient \<Rightarrow> string \<Rightarrow> string \<Rightarrow> string \<Rightarrow> 'w statusMutator" where
  "markWorkloadFailure lib c reason workloadMessage readyMessage sw =
     (let sw = updateStatus (\<lambda>status. status\<lparr>saReadyReplicas := 0\<rparr>) sw;
          sw = setConfigReconciled lib c sw;
          sw = setCondition lib c conditionTypeWorkloadReady ''False'' reason workloadMessage sw;
          sw = setCondition lib c conditionTypeReady ''False'' reason readyMessage sw
      in updateStatus (\<lambda>status. status\<lparr>saPhase := phaseWorkloadError\<rparr>) sw)"

section \<open>The view of storage and workload\<close>

record statusView =
  stvReadyReplicas :: int
  stvPersistenceBound :: bool
  stvPersistenceConditionStatus :: string
  stvPersistenceReason :: string
  stvPersistenceMessage :: string
  stvWorkloadConditionStatus :: string
  stvWorkloadReason :: string
  stvWorkloadMessage :: string
  stvReadyConditionStatus :: string
  stvReadyReason :: string
  stvReadyMessage :: string
  stvPhase :: string

definition emptyView :: statusView where
  "emptyView = \<lparr>stvReadyReplicas = 0, stvPersistenceBound = False, stvPersistenceConditionStatus = [],
     stvPersistenceReason = [], stvPersistenceMessage = [], stvWorkloadConditionStatus = [],
     stvWorkloadReason = [], stvWorkloadMessage = [], stvReadyConditionStatus = [], stvReadyReason = [],
     stvReadyMessage = [], stvPhase = []\<rparr>"

definition persistenceReason :: "string \<Rightarrow> string" where
  "persistenceReason phase =
     (if phase = ''Bound'' then ''PersistentVolumeClaimBound''
      else if phase = ''Lost'' then ''PersistentVolumeClaimLost''
      else ''PersistentVolumeClaimPending'')"

definition persistenceMessage :: "persistentVolumeClaim \<Rightarrow> string" where
  "persistenceMessage claim =
     ''PersistentVolumeClaim '' @ omName (pcMeta claim) @
     (if pcPhase claim = ''Bound'' then '' is bound''
      else if pcPhase claim = ''Lost'' then '' is lost; inspect the storage backend and recreate the claim if needed''
      else '' is waiting to bind; check storage class, capacity, and access modes'')"

definition persistencePhase :: "string \<Rightarrow> string" where
  "persistencePhase phase = (if phase = ''Lost'' then phaseStorageError else phaseStoragePending)"

text \<open>The branch of \<^verbatim>\<open>readStatusView\<close> for a claim that does not exist.\<close>

definition missingClaimView :: "string \<Rightarrow> statusView" where
  "missingClaimView claimName =
     (let reason = ''PersistentVolumeClaimMissing'';
          message = ''PersistentVolumeClaim '' @ claimName @
            '' has not been created yet; inspect reconcile errors and storage settings''
      in emptyView\<lparr>stvPersistenceConditionStatus := ''False'', stvPersistenceReason := reason,
           stvPersistenceMessage := message, stvWorkloadConditionStatus := ''False'',
           stvWorkloadReason := reasonWaitingForPersistence,
           stvWorkloadMessage := ''Workload is waiting for the Hermes PVC to be created and bound'',
           stvReadyConditionStatus := ''False'', stvReadyReason := reason, stvReadyMessage := message,
           stvPhase := phaseStoragePending\<rparr>)"

text \<open>The view of an existing claim, and whether the workload is looked at next.\<close>

definition claimView :: "persistentVolumeClaim \<Rightarrow> bool \<times> statusView" where
  "claimView claim =
     (if pcPhase claim = ''Bound'' then
        (True, emptyView\<lparr>stvPersistenceBound := True, stvPersistenceConditionStatus := ''True'',
           stvPersistenceReason := ''PersistentVolumeClaimBound'',
           stvPersistenceMessage := ''PersistentVolumeClaim '' @ omName (pcMeta claim) @ '' is bound''\<rparr>)
      else
        (False, emptyView\<lparr>stvPersistenceConditionStatus := ''False'',
           stvPersistenceReason := persistenceReason (pcPhase claim),
           stvPersistenceMessage := persistenceMessage claim,
           stvWorkloadConditionStatus := ''False'', stvWorkloadReason := reasonWaitingForPersistence,
           stvWorkloadMessage := ''Workload is waiting for the Hermes PVC to bind'',
           stvReadyConditionStatus := ''False'', stvReadyReason := persistenceReason (pcPhase claim),
           stvReadyMessage := persistenceMessage claim, stvPhase := persistencePhase (pcPhase claim)\<rparr>))"

definition ephemeralView :: statusView where
  "ephemeralView = emptyView\<lparr>stvPersistenceConditionStatus := ''True'',
     stvPersistenceReason := ''PersistenceDisabled'',
     stvPersistenceMessage := ''Persistence is disabled; Hermes is using ephemeral storage''\<rparr>"

text \<open>The first half of \<^verbatim>\<open>readStatusView\<close>.\<close>

definition readPersistenceView ::
  "'w kubeClient \<Rightarrow> hermesAgent \<Rightarrow> 'w cluster \<Rightarrow> (goError + bool \<times> statusView) \<times> 'w cluster" where
  "readPersistenceView c agent s =
     (if persistenceEnabled agent then
        (let pvcName = persistentVolumeClaimName (agentName agent)
         in case onClaims (apiGet (clClaims c) (agentNamespace agent, pvcName)) s of
              (Inl err, s') \<Rightarrow> (if isNotFound err then Inr (False, missingClaimView pvcName) else Inl err, s')
            | (Inr claim, s') \<Rightarrow> (Inr (claimView claim), s'))
      else (Inr (True, ephemeralView), s))"

definition missingStatefulSetView :: "string \<Rightarrow> statusView \<Rightarrow> statusView" where
  "missingStatefulSetView name view =
     (let message = ''StatefulSet '' @ name @ '' has not been created yet; inspect earlier reconcile errors''
      in view\<lparr>stvWorkloadConditionStatus := ''False'', stvWorkloadReason := ''StatefulSetMissing'',
           stvWorkloadMessage := message, stvReadyConditionStatus := ''False'',
           stvReadyReason := ''StatefulSetMissing'', stvReadyMessage := message,
           stvPhase := phaseWorkloadPending\<rparr>)"

definition statefulSetDesiredReplicas :: "statefulSet \<Rightarrow> int" where
  "statefulSetDesiredReplicas sts = (case sfReplicas (sfSpec sts) of None \<Rightarrow> 1 | Some n \<Rightarrow> n)"

definition replicaText :: "statefulSet \<Rightarrow> string" where
  "replicaText sts = ''StatefulSet '' @ omName (sfMeta sts) @ '' has '' @ itoa (sfReadyReplicas sts) @ ''/'' @
     itoa (statefulSetDesiredReplicas sts) @ '' ready replicas''"

text \<open>The last part of \<^verbatim>\<open>readStatusView\<close>, for an existing StatefulSet.\<close>

definition workloadView :: "statefulSet \<Rightarrow> statusView \<Rightarrow> statusView" where
  "workloadView sts view =
     (let view = view\<lparr>stvReadyReplicas := sfReadyReplicas sts\<rparr>
      in if sfReadyReplicas sts \<ge> statefulSetDesiredReplicas sts \<and>
            sfObservedGeneration sts \<ge> omGeneration (sfMeta sts) then
           view\<lparr>stvWorkloadConditionStatus := ''True'', stvWorkloadReason := ''StatefulSetReady'',
             stvWorkloadMessage := replicaText sts, stvReadyConditionStatus := ''True'',
             stvReadyReason := conditionTypeReady,
             stvReadyMessage := ''Hermes persistence and workload are ready'', stvPhase := phaseReady\<rparr>
         else
           (let view = view\<lparr>stvWorkloadConditionStatus := ''False'', stvReadyConditionStatus := ''False'',
                  stvPhase := phaseWorkloadPending\<rparr>;
                (reason, message) =
                  (if sfObservedGeneration sts < omGeneration (sfMeta sts) then
                     (reasonStatefulSetRollout,
                      ''StatefulSet '' @ omName (sfMeta sts) @ '' rollout is pending: observed generation '' @
                      itoa (sfObservedGeneration sts) @ '' is behind desired generation '' @
                      itoa (omGeneration (sfMeta sts)))
                   else
                     (reasonStatefulSetWaitingReady,
                      replicaText sts @ ''; inspect pod events, image pulls, and probe failures if rollout stalls''))
            in view\<lparr>stvWorkloadReason := reason, stvWorkloadMessage := message, stvReadyReason := reason,
                 stvReadyMessage := message\<rparr>))"

definition readStatusView ::
  "'w kubeClient \<Rightarrow> hermesAgent \<Rightarrow> 'w cluster \<Rightarrow> (goError + statusView) \<times> 'w cluster" where
  "readStatusView c agent s =
     (case readPersistenceView c agent s of
        (Inl err, s') \<Rightarrow> (Inl err, s')
      | (Inr (goOn, view), s') \<Rightarrow>
          (if \<not> goOn then (Inr view, s')
           else case onStatefulSets (apiGet (clStatefulSets c) (agentKey agent)) s' of
             (Inl err, s'') \<Rightarrow>
               (if isNotFound err then Inr (missingStatefulSetView (agentName agent) view) else Inl err, s'')
           | (Inr sts, s'') \<Rightarrow> (Inr (workloadView sts view), s'')))"

text \<open>The mutation that \<^verbatim>\<open>reconcileStatus\<close> hands to \<^verbatim>\<open>patchStatus\<close>.\<close>

definition applyStatusView ::
  "kubeLib \<Rightarrow> 'w kubeClient \<Rightarrow> hermesAgent \<Rightarrow> string \<Rightarrow> statusView \<Rightarrow> 'w statusMutator" where
  "applyStatusView lib c agent configHash view sw =
     (let sw = updateStatus (populateStatusMetadata agent configHash) sw;
          sw = updateStatus (\<lambda>status. status\<lparr>saReadyReplicas := stvReadyReplicas view,
                 saPersistenceBound := stvPersistenceBound view\<rparr>) sw;
          sw = setConfigReconciled lib c sw;
          sw = setCondition lib c conditionTypePersistenceReady (stvPersistenceConditionStatus view)
                 (stvPersistenceReason view) (stvPersistenceMessage view) sw;
          sw = setCondition lib c conditionTypeWorkloadReady (stvWorkloadConditionStatus view)
                 (stvWorkloadReason view) (stvWorkloadMessage view) sw;
          sw = setCondition lib c conditionTypeReady (stvReadyConditionStatus view)
                 (stvReadyReason view) (stvReadyMessage view) sw
      in updateStatus (\<lambda>status. status\<lparr>saPhase := stvPhase view\<rparr>) sw)"

section \<open>Events\<close>

record statusEvent =
  eoType :: string
  eoReason :: string
  eoMessage :: string
  eoOk :: bool

definition noEvent :: statusEvent where
  "noEvent = \<lparr>eoType = [], eoReason = [], eoMessage = [], eoOk = False\<rparr>"

definition warningReasons :: "string list" where
  "warningReasons = [''InvalidConfig'', ''MissingReferencedInput'', ''ReferencedInputsReadFailed'',
     ''ConfigMapReconcileFailed'', ''PersistentVolumeClaimReconcileFailed'', ''PersistentVolumeClaimSpecDrift'',
     ''PersistentVolumeClaimLost'', ''StatefulSetReconcileFailed'', ''ServiceReconcileFailed'',
     ''NetworkPolicyReconcileFailed'', ''PodDisruptionBudgetReconcileFailed'']"

definition eventTypeForCondition :: "condition \<Rightarrow> string" where
  "eventTypeForCondition cd = (if cdReason cd \<in> set warningReasons then ''Warning'' else ''Normal'')"

definition eventForConditionTransition ::
  "kubeLib \<Rightarrow> hermesAgentStatus \<Rightarrow> hermesAgentStatus \<Rightarrow> string \<Rightarrow> statusEvent" where
  "eventForConditionTransition lib before after conditionType =
     (let beforeCondition = findStatusCondition lib (saConditions before) conditionType
      in case findStatusCondition lib (saConditions after) conditionType of
           None \<Rightarrow> noEvent
         | Some cd \<Rightarrow>
             (if (case beforeCondition of
                    None \<Rightarrow> False
                  | Some b \<Rightarrow> cdStatus b = cdStatus cd \<and> cdReason b = cdReason cd \<and> cdMessage b = cdMessage cd)
              then noEvent
              else \<lparr>eoType = eventTypeForCondition cd, eoReason = cdReason cd, eoMessage = cdMessage cd,
                    eoOk = (cdReason cd \<noteq> [])\<rparr>))"

definition statusEventsForTransition ::
  "kubeLib \<Rightarrow> hermesAgentStatus \<Rightarrow> hermesAgentStatus \<Rightarrow> statusEvent list" where
  "statusEventsForTransition lib before after =
     (let config = eventForConditionTransition lib before after conditionTypeConfigReady;
          persistence = eventForConditionTransition lib before after conditionTypePersistenceReady;
          workload = eventForConditionTransition lib before after conditionTypeWorkloadReady;
          persistenceChanged = (eoOk persistence \<and> eoReason persistence \<noteq> ''Unknown'')
      in (if eoOk config \<and> eoType config = ''Warning'' then [config] else []) @
         (if persistenceChanged then [persistence] else []) @
         (if eoOk workload \<and> eoReason workload \<noteq> ''Unknown'' \<and>
             (\<not> persistenceChanged \<or> eoReason workload \<noteq> reasonWaitingForPersistence)
          then [workload] else []))"

definition emitStatusEvent ::
  "kubeLib \<Rightarrow> bool \<Rightarrow> hermesAgent \<Rightarrow> hermesAgentStatus \<Rightarrow> hermesAgentStatus \<Rightarrow> 'w cluster \<Rightarrow> 'w cluster" where
  "emitStatusEvent lib hasRecorder agent before after s =
     (if \<not> hasRecorder then s
      else s\<lparr>csEvents := csEvents s @
        map (\<lambda>e. \<lparr>reAgent = agentKey agent, reType = eoType e, reReason = eoReason e, reMessage = eoMessage e\<rparr>)
          (statusEventsForTransition lib before after)\<rparr>)"

section \<open>How conditions evolve\<close>

text \<open>What a condition says, without the transition time.\<close>

definition conditionSummary :: "kubeLib \<Rightarrow> hermesAgentStatus \<Rightarrow> string \<Rightarrow> (string \<times> string \<times> string \<times> int) option" where
  "conditionSummary lib status ty =
     map_option (\<lambda>cd. (cdStatus cd, cdReason cd, cdMessage cd, cdObservedGeneration cd))
       (findStatusCondition lib (saConditions status) ty)"

lemma conditionSummary_frame [simp]:
  "conditionSummary lib (status\<lparr>saPhase := phase\<rparr>) = conditionSummary lib status"
  "conditionSummary lib (status\<lparr>saReadyReplicas := n\<rparr>) = conditionSummary lib status"
  "conditionSummary lib (status\<lparr>saPersistenceBound := b\<rparr>) = conditionSummary lib status"
  "conditionSummary lib (status\<lparr>saPersistentVolumeClaimDriftedFields := fs\<rparr>) = conditionSummary lib status"
  "conditionSummary lib (status\<lparr>saPersistentVolumeClaimRemediation := rem\<rparr>) = conditionSummary lib status"
  "conditionSummary lib (populateStatusMetadata agent configHash status) = conditionSummary lib status"
  by (rule ext, simp add: conditionSummary_def populateStatusMetadata_def)+

lemma fst_updateStatus [simp]: "fst (updateStatus f sw) = f (fst sw)"
  by (simp add: updateStatus_def split_beta)

lemma setCondition_frame [simp]:
  "saPhase (fst (setCondition lib c ty st r m sw)) = saPhase (fst sw)"
  "saObservedGeneration (fst (setCondition lib c ty st r m sw)) = saObservedGeneration (fst sw)"
  "saImage (fst (setCondition lib c ty st r m sw)) = saImage (fst sw)"
  "saConfigHash (fst (setCondition lib c ty st r m sw)) = saConfigHash (fst sw)"
  "saReadyReplicas (fst (setCondition lib c ty st r m sw)) = saReadyReplicas (fst sw)"
  "saPersistenceBound (fst (setCondition lib c ty st r m sw)) = saPersistenceBound (fst sw)"
  "saPersistentVolumeClaimName (fst (setCondition lib c ty st r m sw)) = saPersistentVolumeClaimName (fst sw)"
  "saPersistentVolumeClaimDriftedFields (fst (setCondition lib c ty st r m sw)) =
     saPersistentVolumeClaimDriftedFields (fst sw)"
  "saPersistentVolumeClaimRemediation (fst (setCondition lib c ty st r m sw)) =
     saPersistentVolumeClaimRemediation (fst sw)"
  "saServiceName (fst (setCondition lib c ty st r m sw)) = saServiceName (fst sw)"
  "saLastReconcileTime (fst (setCondition lib c ty st r m sw)) = saLastReconcileTime (fst sw)"
  by (simp_all add: setCondition_def split_beta)

lemma status_absorb:
  "saPhase s = p \<Longrightarrow> s\<lparr>saPhase := p\<rparr> = s"
  "saReadyReplicas s = n \<Longrightarrow> s\<lparr>saReadyReplicas := n\<rparr> = s"
  "saPersistenceBound s = b \<Longrightarrow> s\<lparr>saPersistenceBound := b\<rparr> = s"
  "saPersistentVolumeClaimDriftedFields s = fs \<Longrightarrow> s\<lparr>saPersistentVolumeClaimDriftedFields := fs\<rparr> = s"
  "saPersistentVolumeClaimRemediation s = t \<Longrightarrow> s\<lparr>saPersistentVolumeClaimRemediation := t\<rparr> = s"
  by (cases s; simp)+

lemma populate_frame [simp]:
  "saPhase (populateStatusMetadata agent h s) = saPhase s"
  "saObservedGeneration (populateStatusMetadata agent h s) = saObservedGeneration s"
  "saReadyReplicas (populateStatusMetadata agent h s) = saReadyReplicas s"
  "saPersistenceBound (populateStatusMetadata agent h s) = saPersistenceBound s"
  by (simp_all add: populateStatusMetadata_def)

text \<open>The fields that \<^verbatim>\<open>populateStatusMetadata\<close> sets are as it sets them.\<close>

definition metadataPopulated :: "hermesAgent \<Rightarrow> string \<Rightarrow> hermesAgentStatus \<Rightarrow> bool" where
  "metadataPopulated agent configHash status \<longleftrightarrow>
     saImage status = hermesImage (spImage (haSpec agent)) \<and> saConfigHash status = configHash \<and>
     saPersistentVolumeClaimName status =
       (if persistenceEnabled agent then persistentVolumeClaimName (agentName agent) else []) \<and>
     saPersistentVolumeClaimDriftedFields status = [] \<and> saPersistentVolumeClaimRemediation status = [] \<and>
     saServiceName status = (if serviceEnabled agent then agentName agent else [])"

lemma populated_fix: "metadataPopulated agent h s \<Longrightarrow> populateStatusMetadata agent h s = s"
  by (cases s) (simp add: metadataPopulated_def populateStatusMetadata_def)

lemma populated: "metadataPopulated agent h (populateStatusMetadata agent h s)"
  by (simp add: metadataPopulated_def populateStatusMetadata_def)

lemma populated_frame [simp]:
  "metadataPopulated agent h (s\<lparr>saPhase := phase\<rparr>) = metadataPopulated agent h s"
  "metadataPopulated agent h (s\<lparr>saReadyReplicas := n\<rparr>) = metadataPopulated agent h s"
  "metadataPopulated agent h (s\<lparr>saPersistenceBound := b\<rparr>) = metadataPopulated agent h s"
  "metadataPopulated agent h (fst (setCondition lib c ty st r m sw)) = metadataPopulated agent h (fst sw)"
  by (simp_all add: metadataPopulated_def)

text \<open>
  The contract of the condition library as the status code uses it.
\<close>

locale status_conditions = condition_api "findStatusCondition lib" "apiSetStatusCondition lib" for lib :: kubeLib
begin

lemma summary_set [simp]:
  "conditionSummary lib (fst (setCondition lib c ty st r m sw)) ty' =
     (if ty' = ty then Some (st, r, m, saObservedGeneration (fst sw)) else conditionSummary lib (fst sw) ty')"
proof -
  obtain time w' where now: "now c (snd sw) = (time, w')" by force
  let ?cd = "\<lparr>cdType = ty, cdStatus = st, cdObservedGeneration = saObservedGeneration (fst sw),
    cdLastTransitionTime = time, cdReason = r, cdMessage = m\<rparr>"
  show ?thesis
    using find_set [of "saConditions (fst sw)" ?cd] find_other [of ty' ?cd "saConditions (fst sw)"] now
    by (auto simp: conditionSummary_def setCondition_def split_beta)
qed

lemma setCondition_noop [simp]:
  assumes "conditionSummary lib (fst sw) ty = Some (st, r, m, saObservedGeneration (fst sw))"
  shows "fst (setCondition lib c ty st r m sw) = fst sw"
proof -
  obtain old where old: "findStatusCondition lib (saConditions (fst sw)) ty = Some old"
    and says: "cdStatus old = st" "cdReason old = r" "cdMessage old = m"
      "cdObservedGeneration old = saObservedGeneration (fst sw)"
    using assms by (auto simp: conditionSummary_def)
  have "cdType old = ty" using old by (rule find_type)
  with says have "apiSetStatusCondition lib (saConditions (fst sw)) \<lparr>cdType = ty, cdStatus = st,
      cdObservedGeneration = saObservedGeneration (fst sw), cdLastTransitionTime = time, cdReason = r,
      cdMessage = m\<rparr> = saConditions (fst sw)" for time
    using old by (intro set_same) (auto intro: condition.equality)
  then show ?thesis by (cases "fst sw") (simp add: setCondition_def split_beta)
qed

lemma failure_summaries:
  "conditionSummary lib (fst (markConfigFailure lib c reason m r sw)) conditionTypeReady =
     Some (''False'', reason, r, saObservedGeneration (fst sw))"
  "conditionSummary lib (fst (markWorkloadFailure lib c reason m r sw)) conditionTypeReady =
     Some (''False'', reason, r, saObservedGeneration (fst sw))"
  by (simp_all add: markConfigFailure_def markWorkloadFailure_def setConfigReconciled_def Let_def)

lemma applied_status:
  assumes T: "T = fst (applyStatusView lib c agent h view sw)"
  shows "conditionSummary lib T conditionTypeConfigReady =
      Some (''True'', ''ConfigReconciled'', ''Configuration inputs resolved successfully'', saObservedGeneration (fst sw))"
    and "conditionSummary lib T conditionTypePersistenceReady =
      Some (stvPersistenceConditionStatus view, stvPersistenceReason view, stvPersistenceMessage view,
        saObservedGeneration (fst sw))"
    and "conditionSummary lib T conditionTypeWorkloadReady =
      Some (stvWorkloadConditionStatus view, stvWorkloadReason view, stvWorkloadMessage view,
        saObservedGeneration (fst sw))"
    and "conditionSummary lib T conditionTypeReady =
      Some (stvReadyConditionStatus view, stvReadyReason view, stvReadyMessage view, saObservedGeneration (fst sw))"
    and "metadataPopulated agent h T" and "saReadyReplicas T = stvReadyReplicas view"
    and "saPersistenceBound T = stvPersistenceBound view" and "saPhase T = stvPhase view"
    and "saObservedGeneration T = saObservedGeneration (fst sw)"
  unfolding T applyStatusView_def setConfigReconciled_def Let_def
  by (simp_all add: populated)

lemma applyStatusView_fix:
  assumes "conditionSummary lib T conditionTypeConfigReady =
      Some (''True'', ''ConfigReconciled'', ''Configuration inputs resolved successfully'', saObservedGeneration T)"
    and "conditionSummary lib T conditionTypePersistenceReady =
      Some (stvPersistenceConditionStatus view, stvPersistenceReason view, stvPersistenceMessage view,
        saObservedGeneration T)"
    and "conditionSummary lib T conditionTypeWorkloadReady =
      Some (stvWorkloadConditionStatus view, stvWorkloadReason view, stvWorkloadMessage view, saObservedGeneration T)"
    and "conditionSummary lib T conditionTypeReady =
      Some (stvReadyConditionStatus view, stvReadyReason view, stvReadyMessage view, saObservedGeneration T)"
    and "metadataPopulated agent h T" and "saReadyReplicas T = stvReadyReplicas view"
    and "saPersistenceBound T = stvPersistenceBound view" and "saPhase T = stvPhase view"
  shows "fst (applyStatusView lib c agent h view (T, w)) = T"
  using assms unfolding applyStatusView_def setConfigReconciled_def Let_def
  by (simp add: populated_fix status_absorb)

lemma applyStatusView_idem:
  "fst (applyStatusView lib c agent h view (fst (applyStatusView lib c agent h view sw), w)) =
     fst (applyStatusView lib c agent h view sw)"
  by (rule applyStatusView_fix) (simp_all add: applied_status [OF refl])

end

end
