(* ===== verification/References.thy ===== *)
theory References
  imports Cluster
begin

text \<open>
  Referenced ConfigMaps and Secrets (\<^verbatim>\<open>src/internal/controller/hermesagent_controller.go\<close>): reading
  them into snapshots, and the map functions of the two watches, which find the agents that refer to
  a changed object.
\<close>

section \<open>Reading referenced objects\<close>

definition getConfigMapForReference ::
  "'w kubeClient \<Rightarrow> string \<Rightarrow> string \<Rightarrow> 'w cluster \<Rightarrow> (goError + configMap option) \<times> 'w cluster" where
  "getConfigMapForReference c namespace name s =
     (case onConfigMaps (apiGet (clConfigMaps c) (namespace, name)) s of
        (Inl err, s') \<Rightarrow> (if isNotFound err then Inr None else Inl err, s')
      | (Inr cm, s') \<Rightarrow> (Inr (Some cm), s'))"

definition getSecretForReference ::
  "'w kubeClient \<Rightarrow> string \<Rightarrow> string \<Rightarrow> 'w cluster \<Rightarrow> (goError + secret option) \<times> 'w cluster" where
  "getSecretForReference c namespace name s =
     (case onSecrets (apiGet (clSecrets c) (namespace, name)) s of
        (Inl err, s') \<Rightarrow> (if isNotFound err then Inr None else Inl err, s')
      | (Inr se, s') \<Rightarrow> (Inr (Some se), s'))"

text \<open>A reference counts when it is set and has a name.\<close>

definition named :: "('r \<Rightarrow> string) \<Rightarrow> 'r option \<Rightarrow> 'r option" where
  "named nameOf ref = (case ref of None \<Rightarrow> None | Some r \<Rightarrow> (if nameOf r = [] then None else Some r))"

text \<open>One \<^verbatim>\<open>if ref != nil && ref.Name != ...\<close> statement: read the object and append its snapshot.\<close>

type_synonym ('w, 'o) reader = "string \<Rightarrow> 'w cluster \<Rightarrow> (goError + 'o option) \<times> 'w cluster"

definition appendSnapshot ::
  "('w, 'o) reader \<Rightarrow> ('r \<Rightarrow> string) \<Rightarrow> ('r \<Rightarrow> 'o option \<Rightarrow> referencedObjectSnapshot) \<Rightarrow> 'r option \<Rightarrow>
   referencedObjectSnapshot list \<Rightarrow> 'w cluster \<Rightarrow> (goError + referencedObjectSnapshot list) \<times> 'w cluster" where
  "appendSnapshot read nameOf snapshot ref snapshots s =
     (case named nameOf ref of
        None \<Rightarrow> (Inr snapshots, s)
      | Some r \<Rightarrow> andThen (read (nameOf r) s) (\<lambda>ob s'. (Inr (snapshots @ [snapshot r ob]), s')))"

fun appendConfigFileSnapshots ::
  "'w kubeClient \<Rightarrow> string \<Rightarrow> hermesAgentConfigSource list \<Rightarrow> referencedObjectSnapshot list \<Rightarrow> 'w cluster \<Rightarrow>
   (goError + referencedObjectSnapshot list) \<times> 'w cluster" where
  "appendConfigFileSnapshots c namespace [] snapshots s = (Inr snapshots, s)"
| "appendConfigFileSnapshots c namespace (source # sources) snapshots s =
     andThen (appendSnapshot (getConfigMapForReference c namespace) ksName
        (\<lambda>r cm. newConfigMapFileSnapshot (ksName r) (ksKey r) cm) (csConfigMapRef source) snapshots s) (\<lambda>snapshots s.
     andThen (appendSnapshot (getSecretForReference c namespace) ksName
        (\<lambda>r se. newSecretFileSnapshot (ksName r) (ksKey r) se) (csSecretRef source) snapshots s) (\<lambda>snapshots s.
     appendConfigFileSnapshots c namespace sources snapshots s))"

fun appendFileMountSnapshots ::
  "'w kubeClient \<Rightarrow> string \<Rightarrow> hermesAgentFileMountSpec list \<Rightarrow> referencedObjectSnapshot list \<Rightarrow> 'w cluster \<Rightarrow>
   (goError + referencedObjectSnapshot list) \<times> 'w cluster" where
  "appendFileMountSnapshots c namespace [] snapshots s = (Inr snapshots, s)"
| "appendFileMountSnapshots c namespace (m # ms) snapshots s =
     andThen
       (if named lorName (fmConfigMapRef m) \<noteq> None
        then appendSnapshot (getConfigMapForReference c namespace) lorName
          (\<lambda>r cm. newConfigMapProjectionSnapshot (lorName r) (fmItems m) cm) (fmConfigMapRef m) snapshots s
        else appendSnapshot (getSecretForReference c namespace) lorName
          (\<lambda>r se. newSecretProjectionSnapshot (lorName r) (fmItems m) se) (fmSecretRef m) snapshots s)
       (appendFileMountSnapshots c namespace ms)"

fun appendEnvValueSnapshots ::
  "'w kubeClient \<Rightarrow> string \<Rightarrow> envVar list \<Rightarrow> referencedObjectSnapshot list \<Rightarrow> 'w cluster \<Rightarrow>
   (goError + referencedObjectSnapshot list) \<times> 'w cluster" where
  "appendEnvValueSnapshots c namespace [] snapshots s = (Inr snapshots, s)"
| "appendEnvValueSnapshots c namespace (v # vs) snapshots s =
     (case evValueFrom v of
        None \<Rightarrow> appendEnvValueSnapshots c namespace vs snapshots s
      | Some source \<Rightarrow>
          andThen (appendSnapshot (getConfigMapForReference c namespace) ksName
             (\<lambda>r cm. newConfigMapKeySnapshot (ksName r) (ksKey r) (optionalValue (ksOptional r)) cm)
             (esConfigMapKeyRef source) snapshots s) (\<lambda>snapshots s.
          andThen (appendSnapshot (getSecretForReference c namespace) ksName
             (\<lambda>r se. newSecretKeySnapshot (ksName r) (ksKey r) (optionalValue (ksOptional r)) se)
             (esSecretKeyRef source) snapshots s) (\<lambda>snapshots s.
          appendEnvValueSnapshots c namespace vs snapshots s)))"

fun appendEnvFromSnapshots ::
  "'w kubeClient \<Rightarrow> string \<Rightarrow> envFromSource list \<Rightarrow> referencedObjectSnapshot list \<Rightarrow> 'w cluster \<Rightarrow>
   (goError + referencedObjectSnapshot list) \<times> 'w cluster" where
  "appendEnvFromSnapshots c namespace [] snapshots s = (Inr snapshots, s)"
| "appendEnvFromSnapshots c namespace (source # sources) snapshots s =
     andThen (appendSnapshot (getConfigMapForReference c namespace) erName
        (\<lambda>r cm. newConfigMapEnvFromSnapshot (erName r) (optionalValue (erOptional r)) cm)
        (efConfigMapRef source) snapshots s) (\<lambda>snapshots s.
     andThen (appendSnapshot (getSecretForReference c namespace) erName
        (\<lambda>r se. newSecretSnapshot (erName r) (optionalValue (erOptional r)) se)
        (efSecretRef source) snapshots s) (\<lambda>snapshots s.
     appendEnvFromSnapshots c namespace sources snapshots s))"

fun appendSecretRefSnapshots ::
  "'w kubeClient \<Rightarrow> string \<Rightarrow> localObjectReference list \<Rightarrow> referencedObjectSnapshot list \<Rightarrow> 'w cluster \<Rightarrow>
   (goError + referencedObjectSnapshot list) \<times> 'w cluster" where
  "appendSecretRefSnapshots c namespace [] snapshots s = (Inr snapshots, s)"
| "appendSecretRefSnapshots c namespace (r # rs) snapshots s =
     andThen (appendSnapshot (getSecretForReference c namespace) lorName
        (\<lambda>r se. newSecretSnapshot (lorName r) False se) (Some r) snapshots s)
       (appendSecretRefSnapshots c namespace rs)"

definition resolveReferencedInputs ::
  "'w kubeClient \<Rightarrow> hermesAgent \<Rightarrow> 'w cluster \<Rightarrow> (goError + referencedInputState) \<times> 'w cluster" where
  "resolveReferencedInputs c agent s =
     (let ns = agentNamespace agent; sp = haSpec agent in
      andThen (appendConfigFileSnapshots c ns [spConfig sp, spGatewayConfig sp] [] s) (\<lambda>fileRefs s.
      andThen (appendFileMountSnapshots c ns (spFileMounts sp) [] s) (\<lambda>fileMountRefs s.
      andThen (appendEnvValueSnapshots c ns (spEnv sp) [] s) (\<lambda>envValueRefs s.
      andThen (appendEnvFromSnapshots c ns (spEnvFrom sp) [] s) (\<lambda>envFrom s.
      andThen (appendSecretRefSnapshots c ns (spSecretRefs sp) [] s) (\<lambda>secretRefs s.
        (Inr \<lparr>riFileRefs = fileRefs, riFileMountRefs = fileMountRefs, riEnvValueRefs = envValueRefs,
              riEnvFrom = envFrom, riSecretRefs = secretRefs\<rparr>, s)))))))"

section \<open>The map functions of the watches\<close>

definition refersTo :: "('r \<Rightarrow> string) \<Rightarrow> 'r option \<Rightarrow> string \<Rightarrow> bool" where
  "refersTo nameOf ref name = (case ref of None \<Rightarrow> False | Some r \<Rightarrow> nameOf r = name)"

definition configSourceReferencesConfigMap :: "hermesAgentConfigSource \<Rightarrow> string \<Rightarrow> bool" where
  "configSourceReferencesConfigMap source name = refersTo ksName (csConfigMapRef source) name"

definition configSourceReferencesSecret :: "hermesAgentConfigSource \<Rightarrow> string \<Rightarrow> bool" where
  "configSourceReferencesSecret source name = refersTo ksName (csSecretRef source) name"

definition referencesConfigMap :: "hermesAgent \<Rightarrow> string \<Rightarrow> bool" where
  "referencesConfigMap agent name =
     (if name = [] then False
      else if configSourceReferencesConfigMap (spConfig (haSpec agent)) name \<or>
              configSourceReferencesConfigMap (spGatewayConfig (haSpec agent)) name then True
      else if list_ex (\<lambda>v. case evValueFrom v of None \<Rightarrow> False | Some src \<Rightarrow> refersTo ksName (esConfigMapKeyRef src) name)
                (spEnv (haSpec agent)) then True
      else if list_ex (\<lambda>source. refersTo erName (efConfigMapRef source) name) (spEnvFrom (haSpec agent)) then True
      else list_ex (\<lambda>m. refersTo lorName (fmConfigMapRef m) name) (spFileMounts (haSpec agent)))"

definition referencesSecret :: "hermesAgent \<Rightarrow> string \<Rightarrow> bool" where
  "referencesSecret agent name =
     (if name = [] then False
      else if configSourceReferencesSecret (spConfig (haSpec agent)) name \<or>
              configSourceReferencesSecret (spGatewayConfig (haSpec agent)) name then True
      else if list_ex (\<lambda>v. case evValueFrom v of None \<Rightarrow> False | Some src \<Rightarrow> refersTo ksName (esSecretKeyRef src) name)
                (spEnv (haSpec agent)) then True
      else if list_ex (\<lambda>source. refersTo erName (efSecretRef source) name) (spEnvFrom (haSpec agent)) then True
      else if list_ex (\<lambda>r. lorName r = name) (spSecretRefs (haSpec agent)) then True
      else list_ex (\<lambda>m. refersTo lorName (fmSecretRef m) name) (spFileMounts (haSpec agent)))"

definition findReferencingAgents ::
  "'w kubeClient \<Rightarrow> string \<Rightarrow> (hermesAgent \<Rightarrow> bool) \<Rightarrow> 'w cluster \<Rightarrow> objectKey list \<times> 'w cluster" where
  "findReferencingAgents c namespace matches s =
     (case onAgents (apiListAgents (clAgents c) namespace) s of
        (Inl err, s') \<Rightarrow> ([], s')
      | (Inr agents, s') \<Rightarrow> (map agentKey (filter matches agents), s'))"

definition findAgentsForConfigMap :: "'w kubeClient \<Rightarrow> configMap \<Rightarrow> 'w cluster \<Rightarrow> objectKey list \<times> 'w cluster" where
  "findAgentsForConfigMap c obj s =
     findReferencingAgents c (omNamespace (cmMeta obj)) (\<lambda>agent. referencesConfigMap agent (omName (cmMeta obj))) s"

definition findAgentsForSecret :: "'w kubeClient \<Rightarrow> secret \<Rightarrow> 'w cluster \<Rightarrow> objectKey list \<times> 'w cluster" where
  "findAgentsForSecret c obj s =
     findReferencingAgents c (omNamespace (seMeta obj)) (\<lambda>agent. referencesSecret agent (omName (seMeta obj))) s"

section \<open>What is read\<close>

text \<open>
  The specification of \<open>resolveReferencedInputs\<close>: a pure function of the agent and of two lookup
  functions, for ConfigMaps and for Secrets by name.
\<close>

definition snapshotOf ::
  "('r \<Rightarrow> string) \<Rightarrow> ('r \<Rightarrow> 'o option \<Rightarrow> referencedObjectSnapshot) \<Rightarrow> (string \<Rightarrow> 'o option) \<Rightarrow> 'r option \<Rightarrow>
   referencedObjectSnapshot list" where
  "snapshotOf nameOf snapshot look ref =
     (case named nameOf ref of None \<Rightarrow> [] | Some r \<Rightarrow> [snapshot r (look (nameOf r))])"

type_synonym 'o finder = "string \<Rightarrow> 'o option"

definition configFileSnapshots :: "configMap finder \<Rightarrow> secret finder \<Rightarrow> hermesAgentConfigSource \<Rightarrow> referencedObjectSnapshot list" where
  "configFileSnapshots cmOf seOf source =
     snapshotOf ksName (\<lambda>r cm. newConfigMapFileSnapshot (ksName r) (ksKey r) cm) cmOf (csConfigMapRef source) @
     snapshotOf ksName (\<lambda>r se. newSecretFileSnapshot (ksName r) (ksKey r) se) seOf (csSecretRef source)"

definition fileMountSnapshots :: "configMap finder \<Rightarrow> secret finder \<Rightarrow> hermesAgentFileMountSpec \<Rightarrow> referencedObjectSnapshot list" where
  "fileMountSnapshots cmOf seOf m =
     (if named lorName (fmConfigMapRef m) \<noteq> None
      then snapshotOf lorName (\<lambda>r cm. newConfigMapProjectionSnapshot (lorName r) (fmItems m) cm) cmOf (fmConfigMapRef m)
      else snapshotOf lorName (\<lambda>r se. newSecretProjectionSnapshot (lorName r) (fmItems m) se) seOf (fmSecretRef m))"

definition envValueSnapshots :: "configMap finder \<Rightarrow> secret finder \<Rightarrow> envVar \<Rightarrow> referencedObjectSnapshot list" where
  "envValueSnapshots cmOf seOf v =
     (case evValueFrom v of
        None \<Rightarrow> []
      | Some src \<Rightarrow>
          snapshotOf ksName (\<lambda>r cm. newConfigMapKeySnapshot (ksName r) (ksKey r) (optionalValue (ksOptional r)) cm)
            cmOf (esConfigMapKeyRef src) @
          snapshotOf ksName (\<lambda>r se. newSecretKeySnapshot (ksName r) (ksKey r) (optionalValue (ksOptional r)) se)
            seOf (esSecretKeyRef src))"

definition envFromSnapshots :: "configMap finder \<Rightarrow> secret finder \<Rightarrow> envFromSource \<Rightarrow> referencedObjectSnapshot list" where
  "envFromSnapshots cmOf seOf source =
     snapshotOf erName (\<lambda>r cm. newConfigMapEnvFromSnapshot (erName r) (optionalValue (erOptional r)) cm)
       cmOf (efConfigMapRef source) @
     snapshotOf erName (\<lambda>r se. newSecretSnapshot (erName r) (optionalValue (erOptional r)) se) seOf (efSecretRef source)"

definition secretRefSnapshots :: "secret finder \<Rightarrow> localObjectReference \<Rightarrow> referencedObjectSnapshot list" where
  "secretRefSnapshots seOf r = snapshotOf lorName (\<lambda>r se. newSecretSnapshot (lorName r) False se) seOf (Some r)"

definition referencedInputsOf :: "configMap finder \<Rightarrow> secret finder \<Rightarrow> hermesAgent \<Rightarrow> referencedInputState" where
  "referencedInputsOf cmOf seOf agent =
     (let sp = haSpec agent in
      \<lparr>riFileRefs = concat (map (configFileSnapshots cmOf seOf) [spConfig sp, spGatewayConfig sp]),
       riFileMountRefs = concat (map (fileMountSnapshots cmOf seOf) (spFileMounts sp)),
       riEnvValueRefs = concat (map (envValueSnapshots cmOf seOf) (spEnv sp)),
       riEnvFrom = concat (map (envFromSnapshots cmOf seOf) (spEnvFrom sp)),
       riSecretRefs = concat (map (secretRefSnapshots seOf) (spSecretRefs sp))\<rparr>)"

section \<open>The reader implements the specification\<close>

text \<open>The contract of a function that reads one kind of referenced object by name.\<close>

locale object_reader =
  fixes read :: "('w, 'o) reader"
    and look :: "'w cluster \<Rightarrow> 'o finder"
  assumes read_frame: "read n s = (r, s') \<Longrightarrow> unchanged s s'"
    and read_value: "read n s = (Inr x, s') \<Longrightarrow> x = look s n"
    and look_frame: "unchanged s s' \<Longrightarrow> look s' = look s"

text \<open>A step that only reads and appends the snapshots \<open>xs\<close> when it succeeds.\<close>

definition appends ::
  "'w cluster \<Rightarrow> 'a list \<Rightarrow> 'a list \<Rightarrow> (goError + 'a list) \<times> 'w cluster \<Rightarrow> bool" where
  "appends s acc xs rs \<longleftrightarrow> yields s (acc @ xs) rs"

lemma appends_none [simp]: "appends s acc [] (Inr acc, s)"
  by (simp add: appends_def yields_def)

lemma appends_andThen:
  assumes "appends s acc xs rs" and "\<And>s'. unchanged s s' \<Longrightarrow> appends s' (acc @ xs) ys (f (acc @ xs) s')"
  shows "appends s acc (xs @ ys) (andThen rs f)"
  using assms unfolding appends_def append_assoc [symmetric] by (rule yields_andThen)

text \<open>The two lookup functions of a namespace.\<close>

definition findsIn :: "string \<Rightarrow> 'w cluster \<Rightarrow> configMap finder \<Rightarrow> secret finder \<Rightarrow> bool" where
  "findsIn ns s cmOf seOf \<longleftrightarrow> cmOf = (\<lambda>n. csConfigMaps s (ns, n)) \<and> seOf = (\<lambda>n. csSecrets s (ns, n))"

lemma findsIn_unchanged: "findsIn ns s cmOf seOf \<Longrightarrow> unchanged s s' \<Longrightarrow> findsIn ns s' cmOf seOf"
  by (simp add: findsIn_def unchanged_stores)

context object_reader
begin

lemma appendSnapshot_appends:
  "look s = finder \<Longrightarrow> appends s acc (snapshotOf nameOf snap finder ref) (appendSnapshot read nameOf snap ref acc s)"
  by (auto simp: appends_def yields_def appendSnapshot_def snapshotOf_def andThen_def
      split: option.splits prod.splits sum.splits dest: read_frame read_value)

end

text \<open>Both readers of a client, for the namespace of an agent.\<close>

locale reference_readers =
  cms: object_reader "getConfigMapForReference c ns" "\<lambda>s n. csConfigMaps s (ns, n)" +
  ses: object_reader "getSecretForReference c ns" "\<lambda>s n. csSecrets s (ns, n)"
  for c :: "'w kubeClient" and ns :: string
begin

lemma snapshot_appends:
  "findsIn ns s cmOf seOf \<Longrightarrow>
     appends s acc (snapshotOf nameOf snap cmOf ref) (appendSnapshot (getConfigMapForReference c ns) nameOf snap ref acc s)"
  "findsIn ns s cmOf seOf \<Longrightarrow>
     appends s acc (snapshotOf nameOf snap' seOf ref) (appendSnapshot (getSecretForReference c ns) nameOf snap' ref acc s)"
  by (simp_all add: cms.appendSnapshot_appends ses.appendSnapshot_appends findsIn_def)

lemma configFiles_appends:
  "findsIn ns s cmOf seOf \<Longrightarrow>
   appends s acc (concat (map (configFileSnapshots cmOf seOf) sources)) (appendConfigFileSnapshots c ns sources acc s)"
  by (induction sources arbitrary: acc s)
    (auto simp: configFileSnapshots_def intro!: appends_andThen snapshot_appends intro: findsIn_unchanged unchanged_trans)

lemma fileMounts_appends:
  "findsIn ns s cmOf seOf \<Longrightarrow>
   appends s acc (concat (map (fileMountSnapshots cmOf seOf) ms)) (appendFileMountSnapshots c ns ms acc s)"
  by (induction ms arbitrary: acc s)
    (auto simp: fileMountSnapshots_def intro!: appends_andThen snapshot_appends intro: findsIn_unchanged unchanged_trans)

lemma envValues_appends:
  "findsIn ns s cmOf seOf \<Longrightarrow>
   appends s acc (concat (map (envValueSnapshots cmOf seOf) vs)) (appendEnvValueSnapshots c ns vs acc s)"
  by (induction vs arbitrary: acc s)
    (auto simp: envValueSnapshots_def split: option.splits
      intro!: appends_andThen snapshot_appends intro: findsIn_unchanged unchanged_trans)

lemma envFrom_appends:
  "findsIn ns s cmOf seOf \<Longrightarrow>
   appends s acc (concat (map (envFromSnapshots cmOf seOf) sources)) (appendEnvFromSnapshots c ns sources acc s)"
  by (induction sources arbitrary: acc s)
    (auto simp: envFromSnapshots_def intro!: appends_andThen snapshot_appends intro: findsIn_unchanged unchanged_trans)

lemma secretRefs_appends:
  "findsIn ns s cmOf seOf \<Longrightarrow>
   appends s acc (concat (map (secretRefSnapshots seOf) rs)) (appendSecretRefSnapshots c ns rs acc s)"
  by (induction rs arbitrary: acc s)
    (auto simp: secretRefSnapshots_def intro!: appends_andThen snapshot_appends intro: findsIn_unchanged unchanged_trans)

lemmas all_yields = configFiles_appends [where acc = "[]", unfolded appends_def append_Nil]
  fileMounts_appends [where acc = "[]", unfolded appends_def append_Nil]
  envValues_appends [where acc = "[]", unfolded appends_def append_Nil]
  envFrom_appends [where acc = "[]", unfolded appends_def append_Nil]
  secretRefs_appends [where acc = "[]", unfolded appends_def append_Nil]

lemma resolve_yields:
  assumes "agentNamespace agent = ns" and "findsIn ns s cmOf seOf"
  shows "yields s (referencedInputsOf cmOf seOf agent) (resolveReferencedInputs c agent s)"
  unfolding resolveReferencedInputs_def referencedInputsOf_def Let_def assms(1)
  by (rule yields_andThen all_yields [where cmOf = cmOf and seOf = seOf] |
      blast intro: assms(2) findsIn_unchanged unchanged_trans | simp add: yields_def)+

end

lemma client_readers:
  assumes "kube_api (clConfigMaps c) cmMeta admitCM" and "kube_api (clSecrets c) seMeta admitSE"
  shows "reference_readers c ns"
proof
  show "getConfigMapForReference c ns n s = (r, s') \<Longrightarrow> unchanged s s'" for n s r s'
    using kube_api.get_keeps [OF assms(1)]
    by (fastforce simp: getConfigMapForReference_def on_defs unchanged_def split: prod.splits sum.splits)
  show "getSecretForReference c ns n s = (r, s') \<Longrightarrow> unchanged s s'" for n s r s'
    using kube_api.get_keeps [OF assms(2)]
    by (fastforce simp: getSecretForReference_def on_defs unchanged_def split: prod.splits sum.splits)
  show "getConfigMapForReference c ns n s = (Inr x, s') \<Longrightarrow> x = csConfigMaps s (ns, n)" for n s x s'
    using kube_api.get_found [OF assms(1)] kube_api.get_missing [OF assms(1)]
    by (fastforce simp: getConfigMapForReference_def on_defs split: prod.splits sum.splits if_splits)
  show "getSecretForReference c ns n s = (Inr x, s') \<Longrightarrow> x = csSecrets s (ns, n)" for n s x s'
    using kube_api.get_found [OF assms(2)] kube_api.get_missing [OF assms(2)]
    by (fastforce simp: getSecretForReference_def on_defs split: prod.splits sum.splits if_splits)
qed (simp_all add: unchanged_stores)

interpretation memoryReaders: reference_readers "memoryClient known" ns for known ns
  by (rule client_readers [where admitCM = "\<lambda>old m. m" and admitSE = "\<lambda>old m. m"]) (simp_all add: memoryClient_def memory_kube_api)

section \<open>The watches cover what is read\<close>

lemma snapshotOf_cong:
  "(\<And>n. n \<noteq> [] \<Longrightarrow> refersTo nameOf ref n \<Longrightarrow> look n = look' n) \<Longrightarrow>
     snapshotOf nameOf snap look ref = snapshotOf nameOf snap look' ref"
  by (auto simp: snapshotOf_def named_def refersTo_def split: option.splits)

lemma referencesConfigMap_cases:
  "n \<noteq> [] \<Longrightarrow> refersTo ksName (csConfigMapRef (spConfig (haSpec agent))) n \<Longrightarrow> referencesConfigMap agent n"
  "n \<noteq> [] \<Longrightarrow> refersTo ksName (csConfigMapRef (spGatewayConfig (haSpec agent))) n \<Longrightarrow> referencesConfigMap agent n"
  "n \<noteq> [] \<Longrightarrow> v \<in> set (spEnv (haSpec agent)) \<Longrightarrow> evValueFrom v = Some src \<Longrightarrow>
     refersTo ksName (esConfigMapKeyRef src) n \<Longrightarrow> referencesConfigMap agent n"
  "n \<noteq> [] \<Longrightarrow> source \<in> set (spEnvFrom (haSpec agent)) \<Longrightarrow> refersTo erName (efConfigMapRef source) n \<Longrightarrow>
     referencesConfigMap agent n"
  "n \<noteq> [] \<Longrightarrow> m \<in> set (spFileMounts (haSpec agent)) \<Longrightarrow> refersTo lorName (fmConfigMapRef m) n \<Longrightarrow>
     referencesConfigMap agent n"
  by (auto simp: referencesConfigMap_def configSourceReferencesConfigMap_def list_ex_iff)

lemma referencesSecret_cases:
  "n \<noteq> [] \<Longrightarrow> refersTo ksName (csSecretRef (spConfig (haSpec agent))) n \<Longrightarrow> referencesSecret agent n"
  "n \<noteq> [] \<Longrightarrow> refersTo ksName (csSecretRef (spGatewayConfig (haSpec agent))) n \<Longrightarrow> referencesSecret agent n"
  "n \<noteq> [] \<Longrightarrow> v \<in> set (spEnv (haSpec agent)) \<Longrightarrow> evValueFrom v = Some src \<Longrightarrow>
     refersTo ksName (esSecretKeyRef src) n \<Longrightarrow> referencesSecret agent n"
  "n \<noteq> [] \<Longrightarrow> source \<in> set (spEnvFrom (haSpec agent)) \<Longrightarrow> refersTo erName (efSecretRef source) n \<Longrightarrow>
     referencesSecret agent n"
  "n \<noteq> [] \<Longrightarrow> m \<in> set (spFileMounts (haSpec agent)) \<Longrightarrow> refersTo lorName (fmSecretRef m) n \<Longrightarrow>
     referencesSecret agent n"
  "n \<noteq> [] \<Longrightarrow> r \<in> set (spSecretRefs (haSpec agent)) \<Longrightarrow> refersTo lorName (Some r) n \<Longrightarrow> referencesSecret agent n"
  by (auto simp: referencesSecret_def configSourceReferencesSecret_def list_ex_iff refersTo_def)

lemma inputs_depend_on_references:
  assumes cm: "\<And>n. referencesConfigMap agent n \<Longrightarrow> cmOf n = cmOf' n"
    and se: "\<And>n. referencesSecret agent n \<Longrightarrow> seOf n = seOf' n"
  shows "referencedInputsOf cmOf seOf agent = referencedInputsOf cmOf' seOf' agent"
proof -
  note cong = arg_cong2 [where f = append] snapshotOf_cong cm se
  note refs = referencesConfigMap_cases referencesSecret_cases
  have "configFileSnapshots cmOf seOf (spConfig (haSpec agent)) = configFileSnapshots cmOf' seOf' (spConfig (haSpec agent))"
    "configFileSnapshots cmOf seOf (spGatewayConfig (haSpec agent)) =
       configFileSnapshots cmOf' seOf' (spGatewayConfig (haSpec agent))"
    unfolding configFileSnapshots_def by (intro cong; erule refs; assumption)+
  moreover have "fileMountSnapshots cmOf seOf m = fileMountSnapshots cmOf' seOf' m"
    if "m \<in> set (spFileMounts (haSpec agent))" for m
    unfolding fileMountSnapshots_def using that by (intro if_cong refl snapshotOf_cong cm se) (erule refs; assumption)+
  moreover have "envValueSnapshots cmOf seOf v = envValueSnapshots cmOf' seOf' v"
    if "v \<in> set (spEnv (haSpec agent))" for v
    unfolding envValueSnapshots_def
    using that by (cases "evValueFrom v") (auto intro!: arg_cong2 [where f = append] snapshotOf_cong cm se intro: refs)
  moreover have "envFromSnapshots cmOf seOf e = envFromSnapshots cmOf' seOf' e"
    if "e \<in> set (spEnvFrom (haSpec agent))" for e
    unfolding envFromSnapshots_def using that by (intro cong) (erule refs; assumption)+
  moreover have "secretRefSnapshots seOf r = secretRefSnapshots seOf' r"
    if "r \<in> set (spSecretRefs (haSpec agent))" for r
    unfolding secretRefSnapshots_def using that by (intro cong) (erule refs; assumption)
  ultimately show ?thesis
    unfolding referencedInputsOf_def Let_def by (simp cong: map_cong)
qed

text \<open>When the list fails, its error is dropped and nobody is enqueued.\<close>

lemma failed_list_wakes_nobody:
  "fst (apiListAgents (clAgents c) namespace (csHidden s, csAgents s)) = Inl e \<Longrightarrow>
     fst (findReferencingAgents c namespace matches s) = []"
  by (simp add: findReferencingAgents_def on_defs split_beta)

lemma findReferencingAgents_covers:
  assumes "agent_api (clAgents c) known" and "dom (csAgents s) \<subseteq> known"
    and "fst (apiListAgents (clAgents c) (agentNamespace agent) (csHidden s, csAgents s)) = Inr agents"
    and "csAgents s (agentKey agent) = Some agent"
  shows "agentKey agent \<in> set (fst (findReferencingAgents c (agentNamespace agent) matches s)) \<longleftrightarrow> matches agent"
proof -
  obtain s' where list: "apiListAgents (clAgents c) (agentNamespace agent) (csHidden s, csAgents s) = (Inr agents, s')"
    using assms(3) by (metis prod.collapse)
  have agents: "set agents = {a. agentNamespace a = agentNamespace agent \<and> csAgents s (agentKey a) = Some a}"
    by (rule agent_api.agents_listed [OF assms(1) list assms(2)])
  have "fst (findReferencingAgents c (agentNamespace agent) matches s) = map agentKey (filter matches agents)"
    using list by (simp add: findReferencingAgents_def on_defs split_beta)
  then have "agentKey agent \<in> set (fst (findReferencingAgents c (agentNamespace agent) matches s)) \<longleftrightarrow>
      (\<exists>a. a \<in> set agents \<and> matches a \<and> agentKey a = agentKey agent)"
    by (simp add: image_iff) (metis prod.inject)
  also have "\<dots> \<longleftrightarrow> matches agent"
    using assms(4) unfolding agents by (metis (mono_tags, lifting) fst_conv mem_Collect_eq option.inject)
  finally show ?thesis .
qed

section \<open>Properties\<close>

text \<open>\<^bold>\<open>C9.\<close> Reading the referenced inputs implements its specification: when it succeeds, the
  snapshots are those of the ConfigMaps and Secrets stored in the namespace of the agent, in the order
  of the spec, and no object of the cluster has changed.\<close>

theorem resolve_refines_inputs:
  assumes "kube_api (clConfigMaps c) cmMeta admitCM" and "kube_api (clSecrets c) seMeta admitSE"
    and "resolveReferencedInputs c agent s = (Inr ri, s')"
  shows "ri = referencedInputsOf (\<lambda>n. csConfigMaps s (agentNamespace agent, n))
      (\<lambda>n. csSecrets s (agentNamespace agent, n)) agent \<and> unchanged s s'"
  using reference_readers.resolve_yields [OF client_readers [OF assms(1,2)] refl, of agent s, unfolded findsIn_def,
      OF conjI [OF refl refl]] assms(3)
  by (auto dest: yieldsD)

text \<open>An agent that takes its configuration from a ConfigMap, and a cluster that holds both.\<close>

definition sharedConfigMap :: configMap where
  "sharedConfigMap = \<lparr>cmMeta = zeroMeta\<lparr>omName := ''shared'', omNamespace := ''default''\<rparr>,
     cmData = fmupd ''a'' ''x'' fmempty, cmBinaryData = fmempty\<rparr>"

definition referringAgent :: hermesAgent where
  "referringAgent = zeroAgent\<lparr>haMeta := zeroMeta\<lparr>omName := ''demo'', omNamespace := ''default'', omUID := ''uid-1''\<rparr>,
     haSpec := zeroSpec\<lparr>spConfig := noConfigSource\<lparr>csConfigMapRef :=
       Some \<lparr>ksName = ''shared'', ksKey = ''a'', ksOptional = None\<rparr>\<rparr>\<rparr>\<rparr>"

definition emptyCluster :: "memoryWorld cluster" where
  "emptyCluster = \<lparr>csHidden = ([], 0), csAgents = Map.empty, csConfigMaps = Map.empty, csSecrets = Map.empty,
     csClaims = Map.empty, csStatefulSets = Map.empty, csServices = Map.empty, csNetworkPolicies = Map.empty,
     csBudgets = Map.empty, csEvents = []\<rparr>"

definition sharedCluster :: "memoryWorld cluster" where
  "sharedCluster = emptyCluster\<lparr>csAgents := Map.empty((''default'', ''demo'') \<mapsto> referringAgent),
     csConfigMaps := Map.empty((''default'', ''shared'') \<mapsto> sharedConfigMap)\<rparr>"

lemmas sample_defs = sharedConfigMap_def referringAgent_def sharedCluster_def emptyCluster_def zero_defs

theorem resolve_refines_inputs_witness:
  "fst (resolveReferencedInputs (memoryClient []) referringAgent sharedCluster) =
     Inr (referencedInputsOf (\<lambda>n. csConfigMaps sharedCluster (''default'', n)) (\<lambda>n. None) referringAgent)"
proof -
  obtain ri s' where run: "resolveReferencedInputs (memoryClient []) referringAgent sharedCluster = (Inr ri, s')"
    by (simp add: resolveReferencedInputs_def Let_def appendSnapshot_def named_def getConfigMapForReference_def
        on_defs memoryClient_def memory_defs fails_def tick_def keyOf_def sample_defs)
  have "ri = referencedInputsOf (\<lambda>n. csConfigMaps sharedCluster (''default'', n)) (\<lambda>n. None) referringAgent"
    using resolve_refines_inputs [of "memoryClient []" "\<lambda>old m. m" "\<lambda>old m. m", OF _ _ run]
    by (simp add: memoryClient_def memory_kube_api sample_defs)
  with run show ?thesis by simp
qed

text \<open>The ConfigMap watch misses nothing: when the agents can be listed and the watch does not
  enqueue an agent of the namespace for a changed ConfigMap, then whatever that ConfigMap now holds, the
  inputs of the agent, and so its plan and its hash, are what they were.\<close>

lemma configMap_watch_complete:
  assumes "agent_api (clAgents c) known" and "dom (csAgents s) \<subseteq> known"
    and "fst (apiListAgents (clAgents c) (agentNamespace agent) (csHidden s, csAgents s)) = Inr agents"
    and "csAgents s (agentKey agent) = Some agent" and "agentNamespace agent = omNamespace (cmMeta obj)"
    and "agentKey agent \<notin> set (fst (findAgentsForConfigMap c obj s))"
  shows "referencedInputsOf (cmOf(omName (cmMeta obj) := content)) seOf agent = referencedInputsOf cmOf seOf agent"
proof -
  have "\<not> referencesConfigMap agent (omName (cmMeta obj))"
    using assms(6) findReferencingAgents_covers [OF assms(1-4)] assms(5)
    by (simp add: findAgentsForConfigMap_def)
  then show ?thesis by (intro inputs_depend_on_references) auto
qed

text \<open>The Secret watch misses nothing either.\<close>

lemma secret_watch_complete:
  assumes "agent_api (clAgents c) known" and "dom (csAgents s) \<subseteq> known"
    and "fst (apiListAgents (clAgents c) (agentNamespace agent) (csHidden s, csAgents s)) = Inr agents"
    and "csAgents s (agentKey agent) = Some agent" and "agentNamespace agent = omNamespace (seMeta obj)"
    and "agentKey agent \<notin> set (fst (findAgentsForSecret c obj s))"
  shows "referencedInputsOf cmOf (seOf(omName (seMeta obj) := content)) agent = referencedInputsOf cmOf seOf agent"
proof -
  have "\<not> referencesSecret agent (omName (seMeta obj))"
    using assms(6) findReferencingAgents_covers [OF assms(1-4)] assms(5)
    by (simp add: findAgentsForSecret_def)
  then show ?thesis by (intro inputs_depend_on_references) auto
qed

text \<open>\<^bold>\<open>C20.\<close> The watches miss nothing: when the agents can be listed, and neither the watch on ConfigMaps
  enqueues an agent for a changed ConfigMap of its namespace nor the watch on Secrets for a changed Secret,
  then whatever the two objects now hold, the inputs of the agent, and so its plan and its hash, are what
  they were.\<close>

theorem watches_complete:
  assumes "agent_api (clAgents c) known" and "dom (csAgents s) \<subseteq> known"
    and "fst (apiListAgents (clAgents c) (agentNamespace agent) (csHidden s, csAgents s)) = Inr agents"
    and "csAgents s (agentKey agent) = Some agent"
    and "agentNamespace agent = omNamespace (cmMeta cm)" and "agentNamespace agent = omNamespace (seMeta se)"
    and "agentKey agent \<notin> set (fst (findAgentsForConfigMap c cm s))" and "agentKey agent \<notin> set (fst (findAgentsForSecret c se s))"
  shows "referencedInputsOf (cmOf(omName (cmMeta cm) := content)) (seOf(omName (seMeta se) := secrets)) agent =
    referencedInputsOf cmOf seOf agent"
  using configMap_watch_complete [OF assms(1-5,7)] secret_watch_complete [OF assms(1-4,6,8)] by metis

theorem watches_complete_witness:
  "referencedInputsOf ((\<lambda>n. None)(''other'' := Some sharedConfigMap)) ((\<lambda>n. None)(''token'' := None)) referringAgent =
     referencedInputsOf (\<lambda>n. None) (\<lambda>n. None) referringAgent"
  using watches_complete [of "memoryClient [(''default'', ''demo'')]" "{(''default'', ''demo'')}" sharedCluster
      referringAgent "[referringAgent]"
      "sharedConfigMap\<lparr>cmMeta := zeroMeta\<lparr>omName := ''other'', omNamespace := ''default''\<rparr>\<rparr>"
      "\<lparr>seMeta = zeroMeta\<lparr>omName := ''token'', omNamespace := ''default''\<rparr>, seData = fmempty\<rparr>"
      "\<lambda>n. None" "Some sharedConfigMap" "\<lambda>n. None" None]
    memory_agent_api [of "[(''default'', ''demo'')]"]
  by (simp add: memoryClient_def memoryAgentAPI_def fails_def findAgentsForConfigMap_def findAgentsForSecret_def
      findReferencingAgents_def on_defs referencesConfigMap_def configSourceReferencesConfigMap_def
      referencesSecret_def configSourceReferencesSecret_def refersTo_def sample_defs)

section \<open>Which references are missing\<close>

text \<open>
  The declarative reading of the missing reference messages.  A reference that is set and named needs
  its object, and the key it selects, unless it is optional; a file mount needs every selected key.
\<close>

definition found :: "('r \<Rightarrow> string) \<Rightarrow> ('r \<Rightarrow> 'o \<Rightarrow> bool) \<Rightarrow> ('r \<Rightarrow> bool) \<Rightarrow> 'o finder \<Rightarrow> 'r option \<Rightarrow> bool" where
  "found nameOf good opt look ref =
     (case named nameOf ref of None \<Rightarrow> True
      | Some r \<Rightarrow> opt r \<or> (case look (nameOf r) of None \<Rightarrow> False | Some ob \<Rightarrow> good r ob))"

definition hasConfigKey :: "configMap \<Rightarrow> string \<Rightarrow> bool" where
  "hasConfigKey cm key \<longleftrightarrow> key |\<in>| fmdom (cmData cm) \<or> key |\<in>| fmdom (cmBinaryData cm)"

definition hasSecretKey :: "secret \<Rightarrow> string \<Rightarrow> bool" where
  "hasSecretKey se key \<longleftrightarrow> key |\<in>| fmdom (seData se)"

definition configSourceFound :: "configMap finder \<Rightarrow> secret finder \<Rightarrow> hermesAgentConfigSource \<Rightarrow> bool" where
  "configSourceFound cmOf seOf source \<longleftrightarrow>
     found ksName (\<lambda>r cm. ksKey r = [] \<or> hasConfigKey cm (ksKey r)) (\<lambda>_. False) cmOf (csConfigMapRef source) \<and>
     found ksName (\<lambda>r se. ksKey r = [] \<or> hasSecretKey se (ksKey r)) (\<lambda>_. False) seOf (csSecretRef source)"

definition fileMountFound :: "configMap finder \<Rightarrow> secret finder \<Rightarrow> hermesAgentFileMountSpec \<Rightarrow> bool" where
  "fileMountFound cmOf seOf m \<longleftrightarrow>
     (if named lorName (fmConfigMapRef m) \<noteq> None
      then found lorName (\<lambda>_ cm. list_all (\<lambda>i. hasConfigKey cm (piKey i)) (fmItems m)) (\<lambda>_. False) cmOf (fmConfigMapRef m)
      else found lorName (\<lambda>_ se. list_all (\<lambda>i. hasSecretKey se (piKey i)) (fmItems m)) (\<lambda>_. False) seOf (fmSecretRef m))"

definition envValueFound :: "configMap finder \<Rightarrow> secret finder \<Rightarrow> envVar \<Rightarrow> bool" where
  "envValueFound cmOf seOf v \<longleftrightarrow>
     (case evValueFrom v of None \<Rightarrow> True
      | Some src \<Rightarrow>
          found ksName (\<lambda>r cm. ksKey r = [] \<or> hasConfigKey cm (ksKey r)) (\<lambda>r. optionalValue (ksOptional r)) cmOf (esConfigMapKeyRef src) \<and>
          found ksName (\<lambda>r se. ksKey r = [] \<or> hasSecretKey se (ksKey r)) (\<lambda>r. optionalValue (ksOptional r)) seOf (esSecretKeyRef src))"

definition envFromFound :: "configMap finder \<Rightarrow> secret finder \<Rightarrow> envFromSource \<Rightarrow> bool" where
  "envFromFound cmOf seOf source \<longleftrightarrow>
     found erName (\<lambda>_ _. True) (\<lambda>r. optionalValue (erOptional r)) cmOf (efConfigMapRef source) \<and>
     found erName (\<lambda>_ _. True) (\<lambda>r. optionalValue (erOptional r)) seOf (efSecretRef source)"

definition referencesFound :: "configMap finder \<Rightarrow> secret finder \<Rightarrow> hermesAgent \<Rightarrow> bool" where
  "referencesFound cmOf seOf agent \<longleftrightarrow>
     list_all (configSourceFound cmOf seOf) [spConfig (haSpec agent), spGatewayConfig (haSpec agent)] \<and>
     list_all (fileMountFound cmOf seOf) (spFileMounts (haSpec agent)) \<and>
     list_all (envValueFound cmOf seOf) (spEnv (haSpec agent)) \<and>
     list_all (envFromFound cmOf seOf) (spEnvFrom (haSpec agent)) \<and>
     list_all (\<lambda>r. found lorName (\<lambda>_ _. True) (\<lambda>_. False) seOf (Some r)) (spSecretRefs (haSpec agent))"

lemma raw_keys: "configMapRaw cm key \<noteq> None \<longleftrightarrow> hasConfigKey cm key" "fmlookup (seData se) key \<noteq> None \<longleftrightarrow> hasSecretKey se key"
  by (auto simp: configMapRaw_def hasConfigKey_def hasSecretKey_def fmlookup_dom_iff split: option.splits)

lemma snapshotOf_messages:
  assumes "\<And>r. appendMessages (snap r (look (nameOf r))) = [] \<longleftrightarrow>
    opt r \<or> (case look (nameOf r) of None \<Rightarrow> False | Some ob \<Rightarrow> good r ob)"
  shows "list_all (\<lambda>x. appendMessages x = []) (snapshotOf nameOf snap look ref) \<longleftrightarrow> found nameOf good opt look ref"
  by (simp add: snapshotOf_def found_def assms split: option.splits)

lemma key_messages_all:
  "appendMessages (keySnapshot ''ConfigMap'' n key opt configMapFileValue obC) = [] \<longleftrightarrow>
     opt \<or> (case obC of None \<Rightarrow> False | Some cm \<Rightarrow> key = [] \<or> hasConfigKey cm key)"
  "appendMessages (keySnapshot ''Secret'' n key opt secretFileValue obS) = [] \<longleftrightarrow>
     opt \<or> (case obS of None \<Rightarrow> False | Some se \<Rightarrow> key = [] \<or> hasSecretKey se key)"
proof -
  have empty: "appendMessages (keySnapshot kind n [] opt val ob) = [] \<longleftrightarrow> opt \<or> ob \<noteq> None" for kind val and ob :: "'a option"
    by (auto simp: keySnapshot_def blankSnapshot_def appendMessages_def Let_def split: option.splits)
  show "appendMessages (keySnapshot ''ConfigMap'' n key opt configMapFileValue obC) = [] \<longleftrightarrow>
     opt \<or> (case obC of None \<Rightarrow> False | Some cm \<Rightarrow> key = [] \<or> hasConfigKey cm key)"
    using configMaps.key_messages [of key "''ConfigMap''" n opt obC, unfolded raw_keys] empty
    by (cases "key = []") (auto split: option.splits)
  show "appendMessages (keySnapshot ''Secret'' n key opt secretFileValue obS) = [] \<longleftrightarrow>
     opt \<or> (case obS of None \<Rightarrow> False | Some se \<Rightarrow> key = [] \<or> hasSecretKey se key)"
    using secrets.key_messages [of key "''Secret''" n opt obS, unfolded raw_keys] empty
    by (cases "key = []") (auto split: option.splits)
qed

lemma projection_messages_all:
  "appendMessages (newConfigMapProjectionSnapshot n items obC) = [] \<longleftrightarrow>
     (case obC of None \<Rightarrow> False | Some cm \<Rightarrow> list_all (\<lambda>i. hasConfigKey cm (piKey i)) items)"
  "appendMessages (newSecretProjectionSnapshot n items obS) = [] \<longleftrightarrow>
     (case obS of None \<Rightarrow> False | Some se \<Rightarrow> list_all (\<lambda>i. hasSecretKey se (piKey i)) items)"
  unfolding newConfigMapProjectionSnapshot_def newSecretProjectionSnapshot_def
    configMaps.projection_messages secrets.projection_messages raw_keys by simp_all

lemma whole_messages:
  "appendMessages (newConfigMapEnvFromSnapshot n opt obC) = [] \<longleftrightarrow> opt \<or> obC \<noteq> None"
  "appendMessages (newSecretSnapshot n opt obS) = [] \<longleftrightarrow> opt \<or> obS \<noteq> None"
  by (auto simp: newConfigMapEnvFromSnapshot_def newSecretSnapshot_def blankSnapshot_def appendMessages_def Let_def
      split: option.splits)

lemma concat_messages: "concat (map appendMessages (concat (map f xs))) = [] \<longleftrightarrow> list_all (\<lambda>x. list_all (\<lambda>y. appendMessages y = []) (f x)) xs"
  by (auto simp: list_all_iff)

lemma component_messages:
  "list_all (\<lambda>y. appendMessages y = []) (configFileSnapshots cmOf seOf source) = configSourceFound cmOf seOf source"
  "list_all (\<lambda>y. appendMessages y = []) (fileMountSnapshots cmOf seOf m) = fileMountFound cmOf seOf m"
  "list_all (\<lambda>y. appendMessages y = []) (envValueSnapshots cmOf seOf v) = envValueFound cmOf seOf v"
  "list_all (\<lambda>y. appendMessages y = []) (envFromSnapshots cmOf seOf e) = envFromFound cmOf seOf e"
  "list_all (\<lambda>y. appendMessages y = []) (secretRefSnapshots seOf r) = found lorName (\<lambda>_ _. True) (\<lambda>_. False) seOf (Some r)"
  unfolding configFileSnapshots_def configSourceFound_def fileMountSnapshots_def fileMountFound_def envValueSnapshots_def
    envValueFound_def envFromSnapshots_def envFromFound_def secretRefSnapshots_def list_all_append
  by (simp_all add: newConfigMapFileSnapshot_def newSecretFileSnapshot_def newSecretKeySnapshot_def newConfigMapKeySnapshot_def
      snapshotOf_def found_def key_messages_all projection_messages_all whole_messages split: option.splits)

text \<open>\<^bold>\<open>C26.\<close> A reconcile stops for missing references exactly when a required one is missing: there is no
  message precisely when every named reference of the spec finds its object and the keys it selects,
  or is optional.\<close>

theorem no_message_iff_references_found:
  "missingReferenceMessages (referencedInputsOf cmOf seOf agent) = [] \<longleftrightarrow> referencesFound cmOf seOf agent"
  unfolding missingReferenceMessages_def referencedInputsOf_def referencesFound_def Let_def
    referencedInputState.select_convs append_is_Nil_conv concat_messages component_messages ..

section \<open>The terminal backend of a referenced configuration\<close>

lemma config_snapshot_first:
  assumes "completeRef (csSecretRef (spConfig (haSpec agent))) = Some r" and "csConfigMapRef (spConfig (haSpec agent)) = None"
  shows "\<exists>rest. riFileRefs (referencedInputsOf cmOf seOf agent) = newSecretFileSnapshot (ksName r) (ksKey r) (seOf (ksName r)) # rest"
  using assms by (auto simp: completeRef_def referencedInputsOf_def configFileSnapshots_def snapshotOf_def named_def Let_def
      split: option.splits if_splits)

text \<open>\<^bold>\<open>C36.\<close> A configuration file in a Secret is read back as it was written: the snapshot holds the bytes in
  base64, and the network policy is built from the backend that the original bytes name.\<close>

theorem secret_backend_roundtrip:
  assumes "csRaw (spConfig (haSpec agent)) = []" and "csConfigMapRef (spConfig (haSpec agent)) = None"
    and "completeRef (csSecretRef (spConfig (haSpec agent))) = Some r"
    and "seOf (ksName r) = Some se" and "fmlookup (seData se) (ksKey r) = Some content"
  shows "effectiveTerminalBackend yaml agent (referencedInputsOf cmOf seOf agent) =
    (case terminalBackendFromConfigContent yaml content of Some backend \<Rightarrow> backend | None \<Rightarrow> tmBackend (spTerminal (haSpec agent)))"
proof -
  obtain rest where "riFileRefs (referencedInputsOf cmOf seOf agent) = newSecretFileSnapshot (ksName r) (ksKey r) (Some se) # rest"
    using config_snapshot_first [OF assms(3,2), of cmOf seOf] assms(4) by auto
  moreover have "backendFromSnapshots yaml ''Secret'' (ksName r) (ksKey r) (newSecretFileSnapshot (ksName r) (ksKey r) (Some se) # rest) =
      terminalBackendFromConfigContent yaml content"
    using assms(5) by (simp add: newSecretFileSnapshot_def newSecretKeySnapshot_def keySnapshot_def blankSnapshot_def secretFileValue_def Let_def)
  ultimately show ?thesis
    using assms(1-3) by (simp add: effectiveTerminalBackend_def configSourceTerminalBackend_def completeRef_def)
qed

definition secretAgent :: hermesAgent where
  "secretAgent = zeroAgent\<lparr>haSpec := zeroSpec\<lparr>spConfig := noConfigSource\<lparr>csSecretRef :=
     Some \<lparr>ksName = ''private'', ksKey = ''config.yaml'', ksOptional = None\<rparr>\<rparr>\<rparr>\<rparr>"

theorem secret_backend_roundtrip_witness:
  "effectiveTerminalBackend (\<lambda>t. Some t) secretAgent (referencedInputsOf (\<lambda>n. None)
     (\<lambda>n. Some \<lparr>seMeta = zeroMeta, seData = fmupd ''config.yaml'' ''ssh'' fmempty\<rparr>) secretAgent) = ''ssh''"
  using secret_backend_roundtrip [of secretAgent "\<lparr>ksName = ''private'', ksKey = ''config.yaml'', ksOptional = None\<rparr>"
      "\<lambda>n. Some \<lparr>seMeta = zeroMeta, seData = fmupd ''config.yaml'' ''ssh'' fmempty\<rparr>" _ "''ssh''" "\<lambda>t. Some t" "\<lambda>n. None"]
  by (simp add: secretAgent_def zero_defs completeRef_def terminalBackendFromConfigContent_def)

text \<open>
  A configuration file in the binary data of a ConfigMap is not decoded: the YAML reader gets the base64 text.
\<close>

lemma binary_config_not_decoded:
  assumes "csRaw (spConfig (haSpec agent)) = []" and "csConfigMapRef (spConfig (haSpec agent)) = Some r"
    and "ksName r \<noteq> []" and "ksKey r \<noteq> []" and "cmOf (ksName r) = Some cm" and "fmlookup (cmData cm) (ksKey r) = None"
    and "fmlookup (cmBinaryData cm) (ksKey r) = Some content"
  shows "configSourceTerminalBackend yaml (spConfig (haSpec agent)) (referencedInputsOf cmOf seOf agent) =
    terminalBackendFromConfigContent yaml (encodeToString content)"
  using assms
  by (simp add: configSourceTerminalBackend_def completeRef_def referencedInputsOf_def configFileSnapshots_def snapshotOf_def
      named_def newConfigMapFileSnapshot_def keySnapshot_def blankSnapshot_def configMapFileValue_def Let_def)

end
