(* ===== verification/Managed.thy ===== *)
theory Managed
  imports Cluster "HOL-Library.Multiset"
begin

text \<open>
  The functions of \<^verbatim>\<open>src/internal/controller/hermesagent_controller.go\<close> that bring one managed object
  to its desired state.  The mutate function that the source passes to \<^verbatim>\<open>CreateOrUpdate\<close> is a definition
  of its own.  A function that touches one kind of object works on the store of that kind.
\<close>

section \<open>Zero values of the managed objects\<close>

definition newMeta :: "string \<Rightarrow> string \<Rightarrow> objectMeta" where
  "newMeta namespace name = zeroMeta\<lparr>omName := name, omNamespace := namespace\<rparr>"

definition newConfigMap :: "string \<Rightarrow> string \<Rightarrow> configMap" where
  "newConfigMap namespace name = \<lparr>cmMeta = newMeta namespace name, cmData = fmempty, cmBinaryData = fmempty\<rparr>"

definition newClaim :: "string \<Rightarrow> string \<Rightarrow> persistentVolumeClaim" where
  "newClaim namespace name = \<lparr>pcMeta = newMeta namespace name,
     pcSpec = \<lparr>pcAccessModes = [], pcRequests = fmempty, pcStorageClassName = None\<rparr>, pcPhase = []\<rparr>"

definition newService :: "string \<Rightarrow> string \<Rightarrow> service" where
  "newService namespace name = \<lparr>srvMeta = newMeta namespace name, srvType = [], srvSelector = fmempty, srvPorts = []\<rparr>"

definition newNetworkPolicy :: "string \<Rightarrow> string \<Rightarrow> networkPolicy" where
  "newNetworkPolicy namespace name = \<lparr>nyMeta = newMeta namespace name,
     nySpec = \<lparr>nyPodSelector = \<lparr>lsMatchLabels = fmempty, lsMatchExpressions = []\<rparr>, nyPolicyTypes = [], nyEgress = []\<rparr>\<rparr>"

definition newPodDisruptionBudget :: "string \<Rightarrow> string \<Rightarrow> podDisruptionBudget" where
  "newPodDisruptionBudget namespace name =
     \<lparr>pdMeta = newMeta namespace name, pdSelector = None, pdMaxUnavailable = None\<rparr>"

definition newStatefulSet :: "string \<Rightarrow> string \<Rightarrow> statefulSet" where
  "newStatefulSet namespace name = \<lparr>sfMeta = newMeta namespace name,
     sfSpec = \<lparr>sfReplicas = None, sfServiceName = [], sfUpdateStrategy = \<lparr>ustType = [], ustRollingUpdate = None\<rparr>,
       sfSelector = \<lparr>lsMatchLabels = fmempty, lsMatchExpressions = []\<rparr>,
       sfTemplate = \<lparr>ptLabels = fmempty, ptAnnotations = fmempty,
         ptSpec = \<lparr>psSecurityContext = \<lparr>pxRunAsNonRoot = None, pxRunAsUser = None, pxRunAsGroup = None,
             pxFSGroup = None, pxSeccompProfile = None\<rparr>,
           psImagePullSecrets = [], psServiceAccountName = [], psAutomountServiceAccountToken = None,
           psNodeSelector = fmempty, psTolerations = [], psAffinity = None, psTopologySpreadConstraints = [],
           psTerminationGracePeriodSeconds = None, psContainers = [], psVolumes = []\<rparr>\<rparr>\<rparr>,
     sfReadyReplicas = 0, sfObservedGeneration = 0\<rparr>"

section \<open>Owner and labels\<close>

text \<open>
  The frame of every mutate function: the labels of the agent are merged in first and the owner
  reference is set last.
\<close>

definition ownedMeta :: "kubeLib \<Rightarrow> hermesAgent \<Rightarrow> str_map \<Rightarrow> objectMeta \<Rightarrow> goError + objectMeta" where
  "ownedMeta lib agent labels m =
     setControllerReference lib (haMeta agent) (m\<lparr>omLabels := mergeStringMaps (omLabels m) labels\<rparr>)"

section \<open>Generated ConfigMaps\<close>

definition mutateConfigMap :: "kubeLib \<Rightarrow> hermesAgent \<Rightarrow> resolvedConfigFile \<Rightarrow> configMap \<Rightarrow> goError + configMap" where
  "mutateConfigMap lib agent file cm =
     (case ownedMeta lib agent (resourceLabels agent) (cmMeta cm) of
        Inl err \<Rightarrow> Inl err
      | Inr m \<Rightarrow> Inr (cm\<lparr>cmMeta := m, cmData := fmupd (rfSourceKey file) (rfContent file) fmempty\<rparr>))"

definition reconcileInlineConfigMap ::
  "kubeLib \<Rightarrow> 'w kubeClient \<Rightarrow> hermesAgent \<Rightarrow> resolvedConfigFile \<Rightarrow> ('w, configMap) store \<Rightarrow> goError option \<times> ('w, configMap) store" where
  "reconcileInlineConfigMap lib c agent file st =
     apiCreateOrUpdate (clConfigMaps c) (newConfigMap (agentNamespace agent) (rfConfigMapName file))
       (mutateConfigMap lib agent file) st"

definition statefulSetReadyForGeneratedConfigCleanup :: "statefulSet \<Rightarrow> bool" where
  "statefulSetReadyForGeneratedConfigCleanup sts \<longleftrightarrow>
     sfReadyReplicas sts \<ge> (case sfReplicas (sfSpec sts) of None \<Rightarrow> 1 | Some n \<Rightarrow> n) \<and>
     sfObservedGeneration sts \<ge> omGeneration (sfMeta sts)"

text \<open>The loop over the two generated names.\<close>

fun cleanupGeneratedIds ::
  "kubeLib \<Rightarrow> 'w kubeClient \<Rightarrow> hermesAgent \<Rightarrow> string set \<Rightarrow> string list \<Rightarrow> ('w, configMap) store \<Rightarrow>
   goError option \<times> ('w, configMap) store" where
  "cleanupGeneratedIds lib c agent desired [] st = (None, st)"
| "cleanupGeneratedIds lib c agent desired (cid # ids) st =
     (let configMapName = generatedConfigMapName (agentName agent) cid in
      if configMapName \<in> desired then cleanupGeneratedIds lib c agent desired ids st
      else case apiGet (clConfigMaps c) (agentNamespace agent, configMapName) st of
        (Inl err, st') \<Rightarrow>
          (if isNotFound err then cleanupGeneratedIds lib c agent desired ids st' else (Some err, st'))
      | (Inr cm, st') \<Rightarrow>
          (if \<not> isControlledBy lib (cmMeta cm) (haMeta agent) then cleanupGeneratedIds lib c agent desired ids st'
           else case apiDelete (clConfigMaps c) cm st' of
             (None, st'') \<Rightarrow> cleanupGeneratedIds lib c agent desired ids st''
           | (Some err, st'') \<Rightarrow>
               (if isNotFound err then cleanupGeneratedIds lib c agent desired ids st'' else (Some err, st''))))"

definition cleanupStaleGeneratedConfigMaps ::
  "kubeLib \<Rightarrow> 'w kubeClient \<Rightarrow> hermesAgent \<Rightarrow> string set \<Rightarrow> 'w cluster \<Rightarrow> goError option \<times> 'w cluster" where
  "cleanupStaleGeneratedConfigMaps lib c agent desired s =
     (case onStatefulSets (apiGet (clStatefulSets c) (agentKey agent)) s of
        (Inl err, s') \<Rightarrow> (if isNotFound err then None else Some err, s')
      | (Inr sts, s') \<Rightarrow>
          (if \<not> statefulSetReadyForGeneratedConfigCleanup sts then (None, s')
           else onConfigMaps (cleanupGeneratedIds lib c agent desired [''config'', ''gateway-config'']) s'))"

text \<open>The loop over the files of the plan, collecting the names of the generated ones.\<close>

fun reconcileFiles ::
  "kubeLib \<Rightarrow> 'w kubeClient \<Rightarrow> hermesAgent \<Rightarrow> resolvedConfigFile list \<Rightarrow> string set \<Rightarrow> 'w cluster \<Rightarrow>
   (goError + string set) \<times> 'w cluster" where
  "reconcileFiles lib c agent [] desired s = (Inr desired, s)"
| "reconcileFiles lib c agent (file # files) desired s =
     (if \<not> rfGenerated file then reconcileFiles lib c agent files desired s
      else case onConfigMaps (reconcileInlineConfigMap lib c agent file) s of
        (Some err, s') \<Rightarrow> (Inl err, s')
      | (None, s') \<Rightarrow> reconcileFiles lib c agent files (insert (rfConfigMapName file) desired) s')"

definition reconcileGeneratedConfigMaps ::
  "kubeLib \<Rightarrow> 'w kubeClient \<Rightarrow> hermesAgent \<Rightarrow> configPlan \<Rightarrow> 'w cluster \<Rightarrow> goError option \<times> 'w cluster" where
  "reconcileGeneratedConfigMaps lib c agent plan s =
     (case reconcileFiles lib c agent (cpFiles plan) {} s of
        (Inl err, s') \<Rightarrow> (Some err, s')
      | (Inr desired, s') \<Rightarrow> cleanupStaleGeneratedConfigMaps lib c agent desired s')"

section \<open>The persistent volume claim\<close>

definition persistentVolumeClaimDriftRemediation :: "hermesAgent \<Rightarrow> string \<Rightarrow> string" where
  "persistentVolumeClaimDriftRemediation agent pvcName =
     ''Supported remediation: create a new HermesAgent with a different name for a fresh PVC, or back up Hermes state, delete PersistentVolumeClaim '' @
     pvcName @ '', and re-apply HermesAgent '' @ agentName agent"

definition newPersistentVolumeClaimSpecDriftError ::
  "hermesAgent \<Rightarrow> string \<Rightarrow> string list \<Rightarrow> persistentVolumeClaimSpecDriftError" where
  "newPersistentVolumeClaimSpecDriftError agent pvcName drifted =
     \<lparr>deName = pvcName, deFields = drifted, deRemediation = persistentVolumeClaimDriftRemediation agent pvcName\<rparr>"

definition equalPersistentVolumeAccessModes :: "string list \<Rightarrow> string list \<Rightarrow> bool" where
  "equalPersistentVolumeAccessModes left right =
     (if length left \<noteq> length right then False else sort left = sort right)"

definition equalOptionalString :: "string option \<Rightarrow> string option \<Rightarrow> bool" where
  "equalOptionalString left right =
     (case (left, right) of (Some l, Some r) \<Rightarrow> l = r | _ \<Rightarrow> left = None \<and> right = None)"

definition persistentVolumeClaimImmutableFieldDrift ::
  "hermesAgent \<Rightarrow> persistentVolumeClaimSpec \<Rightarrow> persistentVolumeClaimSpec \<Rightarrow> string list" where
  "persistentVolumeClaimImmutableFieldDrift agent existing desired =
     (if \<not> equalPersistentVolumeAccessModes (pcAccessModes existing) (pcAccessModes desired)
      then [''spec.storage.persistence.accessModes''] else []) @
     (if pvStorageClassName (stPersistence (spStorage (haSpec agent))) \<noteq> None \<and>
         \<not> equalOptionalString (pcStorageClassName existing) (pcStorageClassName desired)
      then [''spec.storage.persistence.storageClassName''] else [])"

definition mutateClaim ::
  "kubeLib \<Rightarrow> hermesAgent \<Rightarrow> persistentVolumeClaim \<Rightarrow> bool \<Rightarrow> persistentVolumeClaim \<Rightarrow> goError + persistentVolumeClaim" where
  "mutateClaim lib agent desired existed claim =
     (let drift = persistentVolumeClaimImmutableFieldDrift agent (pcSpec claim) (pcSpec desired) in
      if existed \<and> drift \<noteq> [] then
        Inl (DriftError (newPersistentVolumeClaimSpecDriftError agent (omName (pcMeta claim)) drift))
      else
        (let spec = (if \<not> existed then pcSpec desired
                     else (pcSpec claim)\<lparr>pcRequests := pcRequests (pcSpec desired)\<rparr>)
         in case ownedMeta lib agent (omLabels (pcMeta desired)) (pcMeta claim) of
              Inl err \<Rightarrow> Inl err
            | Inr m \<Rightarrow> Inr (claim\<lparr>pcMeta := m, pcSpec := spec\<rparr>)))"

definition reconcilePersistentVolumeClaim ::
  "kubeLib \<Rightarrow> 'w kubeClient \<Rightarrow> hermesAgent \<Rightarrow> ('w, persistentVolumeClaim) store \<Rightarrow>
   goError option \<times> ('w, persistentVolumeClaim) store" where
  "reconcilePersistentVolumeClaim lib c agent st =
     (if \<not> persistenceEnabled agent then (None, st)
      else case buildPersistentVolumeClaim (quantityOf lib) agent of
        Inl err \<Rightarrow> (Some err, st)
      | Inr desired \<Rightarrow>
          (case apiGet (clClaims c) (agentNamespace agent, omName (pcMeta desired)) st of
             (Inl err, st') \<Rightarrow>
               (if \<not> isNotFound err then (Some err, st')
                else apiCreateOrUpdate (clClaims c) (newClaim (agentNamespace agent) (omName (pcMeta desired)))
                       (mutateClaim lib agent desired False) st')
           | (Inr claim, st') \<Rightarrow>
               apiCreateOrUpdate (clClaims c) claim (mutateClaim lib agent desired True) st'))"

section \<open>The StatefulSet\<close>

definition mutateStatefulSet ::
  "kubeLib \<Rightarrow> hermesAgent \<Rightarrow> podTemplateInputs \<Rightarrow> statefulSet \<Rightarrow> goError + statefulSet" where
  "mutateStatefulSet lib agent inputs sts =
     (let desired = buildStatefulSet agent inputs
      in case ownedMeta lib agent (omLabels (sfMeta desired)) (sfMeta sts) of
           Inl err \<Rightarrow> Inl err
         | Inr m \<Rightarrow> Inr (sts\<lparr>sfMeta := m, sfSpec := sfSpec desired\<rparr>))"

definition reconcileStatefulSet ::
  "kubeLib \<Rightarrow> 'w kubeClient \<Rightarrow> hermesAgent \<Rightarrow> podTemplateInputs \<Rightarrow> ('w, statefulSet) store \<Rightarrow>
   goError option \<times> ('w, statefulSet) store" where
  "reconcileStatefulSet lib c agent inputs st =
     apiCreateOrUpdate (clStatefulSets c) (newStatefulSet (agentNamespace agent) (agentName agent))
       (mutateStatefulSet lib agent inputs) st"

section \<open>Disruption budget, Service and network policy\<close>

definition mutatePodDisruptionBudget :: "kubeLib \<Rightarrow> hermesAgent \<Rightarrow> podDisruptionBudget \<Rightarrow> goError + podDisruptionBudget" where
  "mutatePodDisruptionBudget lib agent pdb =
     (let desired = buildPodDisruptionBudget agent
      in case ownedMeta lib agent (omLabels (pdMeta desired)) (pdMeta pdb) of
           Inl err \<Rightarrow> Inl err
         | Inr m \<Rightarrow> Inr (pdb\<lparr>pdMeta := m, pdSelector := pdSelector desired, pdMaxUnavailable := pdMaxUnavailable desired\<rparr>))"

definition reconcilePodDisruptionBudget ::
  "kubeLib \<Rightarrow> 'w kubeClient \<Rightarrow> hermesAgent \<Rightarrow> ('w, podDisruptionBudget) store \<Rightarrow> goError option \<times> ('w, podDisruptionBudget) store" where
  "reconcilePodDisruptionBudget lib c agent st =
     (case apiGet (clBudgets c) (agentKey agent) st of
        (Inl err, st') \<Rightarrow>
          (if \<not> isNotFound err then (Some err, st')
           else if \<not> podDisruptionBudgetEnabled agent then (None, st')
           else apiCreateOrUpdate (clBudgets c) (newPodDisruptionBudget (agentNamespace agent) (agentName agent))
                  (mutatePodDisruptionBudget lib agent) st')
      | (Inr pdb, st') \<Rightarrow>
          (if \<not> podDisruptionBudgetEnabled agent then
             (if \<not> isControlledBy lib (pdMeta pdb) (haMeta agent) then (None, st')
              else apiDelete (clBudgets c) pdb st')
           else if \<not> isControlledBy lib (pdMeta pdb) (haMeta agent) then
             (Some (TextError (''PodDisruptionBudget '' @ omName (pdMeta pdb) @
                '' already exists and is not owned by HermesAgent '' @ agentName agent)), st')
           else apiCreateOrUpdate (clBudgets c) pdb (mutatePodDisruptionBudget lib agent) st'))"

definition hasNodePort :: "string \<Rightarrow> bool" where
  "hasNodePort ty \<longleftrightarrow> ty = ''NodePort'' \<or> ty = ''LoadBalancer''"

definition keepNodePort :: "string \<Rightarrow> servicePort list \<Rightarrow> servicePort list \<Rightarrow> servicePort list" where
  "keepNodePort ty existingPorts ports =
     (case (existingPorts, ports) of
        ([old], [new]) \<Rightarrow>
          (if hasNodePort ty \<and> poNodePort old \<noteq> 0
           then [new\<lparr>poNodePort := poNodePort old\<rparr>] else ports)
      | _ \<Rightarrow> ports)"

definition mutateService :: "kubeLib \<Rightarrow> hermesAgent \<Rightarrow> service \<Rightarrow> service \<Rightarrow> goError + service" where
  "mutateService lib agent desired srv =
     (case ownedMeta lib agent (omLabels (srvMeta desired))
             ((srvMeta srv)\<lparr>omAnnotations := mergeStringMaps fmempty (omAnnotations (srvMeta desired))\<rparr>) of
        Inl err \<Rightarrow> Inl err
      | Inr m \<Rightarrow>
          Inr (srv\<lparr>srvMeta := m, srvType := srvType desired, srvSelector := srvSelector desired,
                 srvPorts := keepNodePort (srvType desired) (srvPorts srv) (srvPorts desired)\<rparr>))"

definition named_as :: "objectMeta \<Rightarrow> objectMeta \<Rightarrow> objectMeta" where
  "named_as desired m = m\<lparr>omNamespace := omNamespace desired, omName := omName desired\<rparr>"

definition reconcileService ::
  "kubeLib \<Rightarrow> 'w kubeClient \<Rightarrow> hermesAgent \<Rightarrow> ('w, service) store \<Rightarrow> goError option \<times> ('w, service) store" where
  "reconcileService lib c agent st =
     (let desired = buildService agent in
      case apiGet (clServices c) (agentKey agent) st of
        (Inl err, st') \<Rightarrow>
          (if \<not> isNotFound err then (Some err, st')
           else if \<not> serviceEnabled agent then (None, st')
           else apiCreateOrUpdate (clServices c)
                  (newService (omNamespace (srvMeta desired)) (omName (srvMeta desired)))
                  (mutateService lib agent desired) st')
      | (Inr srv, st') \<Rightarrow>
          (if \<not> serviceEnabled agent then
             (if \<not> isControlledBy lib (srvMeta srv) (haMeta agent) then (None, st')
              else apiDelete (clServices c) srv st')
           else if \<not> isControlledBy lib (srvMeta srv) (haMeta agent) then
             (Some (TextError (''service '' @ omName (srvMeta srv) @
                '' already exists and is not owned by HermesAgent '' @ agentName agent)), st')
           else apiCreateOrUpdate (clServices c) (srv\<lparr>srvMeta := named_as (srvMeta desired) (srvMeta srv)\<rparr>)
                  (mutateService lib agent desired) st'))"

definition mutateNetworkPolicy :: "kubeLib \<Rightarrow> hermesAgent \<Rightarrow> networkPolicy \<Rightarrow> networkPolicy \<Rightarrow> goError + networkPolicy" where
  "mutateNetworkPolicy lib agent desired np =
     (case ownedMeta lib agent (omLabels (nyMeta desired)) (nyMeta np) of
        Inl err \<Rightarrow> Inl err
      | Inr m \<Rightarrow> Inr (np\<lparr>nyMeta := m, nySpec := nySpec desired\<rparr>))"

definition reconcileNetworkPolicy ::
  "kubeLib \<Rightarrow> 'w kubeClient \<Rightarrow> hermesAgent \<Rightarrow> referencedInputState \<Rightarrow> ('w, networkPolicy) store \<Rightarrow>
   goError option \<times> ('w, networkPolicy) store" where
  "reconcileNetworkPolicy lib c agent ri st =
     (let desired = buildNetworkPolicy agent (effectiveTerminalBackend (yamlBackend lib) agent ri) in
      case apiGet (clNetworkPolicies c) (agentKey agent) st of
        (Inl err, st') \<Rightarrow>
          (if \<not> isNotFound err then (Some err, st')
           else if \<not> networkPolicyEnabled agent then (None, st')
           else apiCreateOrUpdate (clNetworkPolicies c)
                  (newNetworkPolicy (omNamespace (nyMeta desired)) (omName (nyMeta desired)))
                  (mutateNetworkPolicy lib agent desired) st')
      | (Inr np, st') \<Rightarrow>
          (if \<not> networkPolicyEnabled agent then
             (if \<not> isControlledBy lib (nyMeta np) (haMeta agent) then (None, st')
              else apiDelete (clNetworkPolicies c) np st')
           else if \<not> isControlledBy lib (nyMeta np) (haMeta agent) then
             (Some (TextError (''networkpolicy '' @ omName (nyMeta np) @
                '' already exists and is not owned by HermesAgent '' @ agentName agent)), st')
           else apiCreateOrUpdate (clNetworkPolicies c) (np\<lparr>nyMeta := named_as (nyMeta desired) (nyMeta np)\<rparr>)
                  (mutateNetworkPolicy lib agent desired) st'))"

section \<open>The contract of the mutate functions\<close>

text \<open>An object that the owner controls, that names it as its controller, and that carries the labels.\<close>

definition markedAs :: "(objectMeta \<Rightarrow> objectMeta \<Rightarrow> bool) \<Rightarrow> objectMeta \<Rightarrow> str_map \<Rightarrow> objectMeta \<Rightarrow> bool" where
  "markedAs controls owner labels m \<longleftrightarrow> controls m owner \<and> namesOwner owner m \<and> labels \<subseteq>\<^sub>f omLabels m"

lemma markedAsD:
  "markedAs controls owner labels m \<Longrightarrow> controls m owner" "markedAs controls owner labels m \<Longrightarrow> namesOwner owner m"
  by (simp_all add: markedAs_def)

text \<open>
  Every mutate function keeps the key of the object, makes the agent its controller and names it as such,
  puts the agent's labels on it, and has nothing left to do on its own result.
\<close>

locale owning_mutator =
  fixes controls :: "objectMeta \<Rightarrow> objectMeta \<Rightarrow> bool"
    and metaOf :: "'o \<Rightarrow> objectMeta"
    and owner :: objectMeta
    and labels :: str_map
    and mutate :: "'o \<Rightarrow> goError + 'o"
  assumes mutated_key: "mutate ob = Inr ob' \<Longrightarrow> keyOf (metaOf ob') = keyOf (metaOf ob)"
    and mutated_owned: "mutate ob = Inr ob' \<Longrightarrow> controls (metaOf ob') owner"
    and mutated_named: "mutate ob = Inr ob' \<Longrightarrow> namesOwner owner (metaOf ob')"
    and mutated_labels: "mutate ob = Inr ob' \<Longrightarrow> omLabels (metaOf ob') = mergeStringMaps (omLabels (metaOf ob)) labels"
    and mutated_again: "mutate ob = Inr ob' \<Longrightarrow> mutate ob' = Inr ob'"
begin

lemma mutated_marked: "mutate ob = Inr ob' \<Longrightarrow> markedAs controls owner labels (metaOf ob')"
  by (simp add: markedAs_def mutated_owned mutated_named mutated_labels fmsubset_alt_def fmpred_iff)

end

text \<open>The owner contract for the functions of a library record.\<close>

locale owner_lib = owner_api "isControlledBy lib" "setControllerReference lib" for lib :: kubeLib
begin

lemma ownedMeta_facts:
  assumes "ownedMeta lib agent labels m = Inr m'"
  shows "isControlledBy lib m' (haMeta agent)" "omName m' = omName m" "omNamespace m' = omNamespace m"
    "omAnnotations m' = omAnnotations m" "omLabels m' = mergeStringMaps (omLabels m) labels"
    "namesOwner (haMeta agent) m'"
  using assms owner_set owner_named owner_keeps by (auto simp: ownedMeta_def)

lemma ownedMeta_again:
  assumes "ownedMeta lib agent labels m = Inr m'"
  shows "ownedMeta lib agent labels m' = Inr m'"
proof -
  have "m'\<lparr>omLabels := mergeStringMaps (omLabels m') labels\<rparr> = m'"
    by (simp add: ownedMeta_facts(5) [OF assms])
  then show ?thesis
    using owner_again assms by (metis ownedMeta_def)
qed

lemma ownedMeta_error: "ownedMeta lib agent labels m = Inl e \<Longrightarrow> asDriftError e = None"
  unfolding ownedMeta_def by (rule owner_error)

lemma ownedMeta_conflict:
  "ref \<in> set (omOwnerReferences m) \<Longrightarrow> orController ref = Some True \<Longrightarrow> orName ref \<noteq> agentName agent \<Longrightarrow>
     \<exists>e. ownedMeta lib agent labels m = Inl e"
  unfolding ownedMeta_def by (rule owner_conflict) auto

end

lemma keepNodePort_one:
  "keepNodePort ty [old] [new] =
     [if hasNodePort ty \<and> poNodePort old \<noteq> 0 then new\<lparr>poNodePort := poNodePort old\<rparr> else new]"
  by (simp add: keepNodePort_def)

lemma keepNodePort_none: "length existing \<noteq> 1 \<or> length ports \<noteq> 1 \<Longrightarrow> keepNodePort ty existing ports = ports"
  by (cases existing; cases ports; cases "tl existing"; cases "tl ports") (simp_all add: keepNodePort_def)

lemma keepNodePort_again [simp]: "keepNodePort ty (keepNodePort ty existing ports) ports = keepNodePort ty existing ports"
proof (cases "\<exists>old new. existing = [old] \<and> ports = [new]")
  case True
  then show ?thesis by (auto simp: keepNodePort_one)
next
  case False
  then have "length existing \<noteq> 1 \<or> length ports \<noteq> 1" by (simp add: length_Suc_conv)
  then have keep: "keepNodePort ty existing ports = ports" by (rule keepNodePort_none)
  show ?thesis
  proof (cases "length ports = 1")
    case True
    then obtain new where "ports = [new]" by (auto simp: length_Suc_conv)
    then show ?thesis unfolding keep by (simp add: keepNodePort_one)
  qed (simp add: keep keepNodePort_none)
qed

lemma drift_ignores_requests [simp]:
  "persistentVolumeClaimImmutableFieldDrift agent (spec\<lparr>pcRequests := q\<rparr>) desired =
     persistentVolumeClaimImmutableFieldDrift agent spec desired"
  by (simp add: persistentVolumeClaimImmutableFieldDrift_def)

sublocale owner_lib \<subseteq> configMapMutator: owning_mutator "isControlledBy lib" cmMeta "haMeta agent"
    "resourceLabels agent" "mutateConfigMap lib agent f" for agent f
  by unfold_locales
    (auto simp: mutateConfigMap_def keyOf_def ownedMeta_facts ownedMeta_again split: sum.splits)

lemma mutateClaim_Inr:
  "mutateClaim lib agent desired existed claim = Inr claim' \<longleftrightarrow>
     (existed \<longrightarrow> persistentVolumeClaimImmutableFieldDrift agent (pcSpec claim) (pcSpec desired) = []) \<and>
     (\<exists>m. ownedMeta lib agent (omLabels (pcMeta desired)) (pcMeta claim) = Inr m \<and>
        claim' = claim\<lparr>pcMeta := m, pcSpec := (if existed then (pcSpec claim)\<lparr>pcRequests := pcRequests (pcSpec desired)\<rparr>
          else pcSpec desired)\<rparr>)"
  by (auto simp: mutateClaim_def Let_def split: sum.splits)

sublocale owner_lib \<subseteq> claimMutator: owning_mutator "isControlledBy lib" pcMeta "haMeta agent"
    "omLabels (pcMeta desired)" "mutateClaim lib agent desired existed" for agent desired existed
proof
  show "mutateClaim lib agent desired existed claim = Inr claim' \<Longrightarrow>
      mutateClaim lib agent desired existed claim' = Inr claim'" for claim claim'
    by (cases existed) (auto simp: mutateClaim_Inr dest: ownedMeta_again)
qed (auto simp: mutateClaim_Inr keyOf_def ownedMeta_facts)

sublocale owner_lib \<subseteq> statefulSetMutator: owning_mutator "isControlledBy lib" sfMeta "haMeta agent"
    "resourceLabels agent" "mutateStatefulSet lib agent inputs" for agent inputs
  by unfold_locales
    (auto simp: mutateStatefulSet_def buildStatefulSet_def namedMeta_def keyOf_def Let_def ownedMeta_facts
      ownedMeta_again split: sum.splits)

sublocale owner_lib \<subseteq> budgetMutator: owning_mutator "isControlledBy lib" pdMeta "haMeta agent"
    "resourceLabels agent" "mutatePodDisruptionBudget lib agent" for agent
  by unfold_locales
    (auto simp: mutatePodDisruptionBudget_def buildPodDisruptionBudget_def namedMeta_def keyOf_def Let_def
      ownedMeta_facts ownedMeta_again split: sum.splits)

lemma mutateService_again:
  assumes "owner_lib lib" and "mutateService lib agent desired srv = Inr srv'"
  shows "mutateService lib agent desired srv' = Inr srv'"
proof -
  obtain m where m: "ownedMeta lib agent (omLabels (srvMeta desired))
      ((srvMeta srv)\<lparr>omAnnotations := omAnnotations (srvMeta desired)\<rparr>) = Inr m"
    and srv': "srv' = srv\<lparr>srvMeta := m, srvType := srvType desired, srvSelector := srvSelector desired,
      srvPorts := keepNodePort (srvType desired) (srvPorts srv) (srvPorts desired)\<rparr>"
    using assms(2) by (auto simp: mutateService_def split: sum.splits)
  have "m\<lparr>omAnnotations := omAnnotations (srvMeta desired)\<rparr> = m"
    using owner_lib.ownedMeta_facts(4) [OF assms(1) m] by (cases m) simp
  then show ?thesis
    using owner_lib.ownedMeta_again [OF assms(1) m] by (simp add: mutateService_def srv')
qed

sublocale owner_lib \<subseteq> serviceMutator: owning_mutator "isControlledBy lib" srvMeta "haMeta agent"
    "omLabels (srvMeta desired)" "mutateService lib agent desired" for agent desired
proof
  show "mutateService lib agent desired srv = Inr srv' \<Longrightarrow> mutateService lib agent desired srv' = Inr srv'" for srv srv'
    by (rule mutateService_again) unfold_locales
qed (auto simp: mutateService_def keyOf_def ownedMeta_facts split: sum.splits)

sublocale owner_lib \<subseteq> networkPolicyMutator: owning_mutator "isControlledBy lib" nyMeta "haMeta agent"
    "omLabels (nyMeta desired)" "mutateNetworkPolicy lib agent desired" for agent desired
  by unfold_locales
    (auto simp: mutateNetworkPolicy_def keyOf_def ownedMeta_facts ownedMeta_again split: sum.splits)

interpretation memoryOwnerLib: owner_lib memoryLib
  by (simp add: owner_lib_def memoryLib_def memoryOwners.owner_api_axioms)

section \<open>The contract of a guarded resource\<close>

text \<open>
  The disruption budget, the Service and the network policy share their control flow: look the object
  up, delete it when it is switched off and owned, refuse to touch it when it belongs to someone else,
  otherwise create or update it.
\<close>

locale guarded_resource =
  fixes api :: "('w, 'o) resourceAPI"
    and metaOf :: "'o \<Rightarrow> objectMeta"
    and key :: objectKey
    and enabled :: bool
    and owned :: "'o \<Rightarrow> bool"
    and conflict :: "'o \<Rightarrow> goError"
    and initial :: "'o option \<Rightarrow> 'o"
    and mutate :: "'o \<Rightarrow> goError + 'o"
    and reconcile :: "('w, 'o) store \<Rightarrow> goError option \<times> ('w, 'o) store"
  assumes shape: "reconcile st =
      (case apiGet api key st of
         (Inl err, st') \<Rightarrow>
           (if \<not> isNotFound err then (Some err, st')
            else if \<not> enabled then (None, st') else apiCreateOrUpdate api (initial None) mutate st')
       | (Inr ob, st') \<Rightarrow>
           (if \<not> enabled then (if \<not> owned ob then (None, st') else apiDelete api ob st')
            else if \<not> owned ob then (Some (conflict ob), st')
            else apiCreateOrUpdate api (initial (Some ob)) mutate st'))"
    and initial_new: "keyOf (metaOf (initial None)) = key"
    and initial_old: "keyOf (metaOf ob) = key \<Longrightarrow> keyOf (metaOf (initial (Some ob))) = key"
begin

lemma reconcile_cases:
  assumes "kube_api api metaOf admit" and "reconcile (w, st) = (r, w', st')"
  obtains (kept) "st' = st"
  | (deleted) ob where "\<not> enabled" "st key = Some ob" "owned ob" "st' = st(key := None)"
  | (written) w2 where "enabled" "\<And>ob. st key = Some ob \<Longrightarrow> owned ob" "keyOf (metaOf (initial (st key))) = key"
      "apiCreateOrUpdate api (initial (st key)) mutate (w2, st) = (r, w', st')"
proof (cases "apiGet api key (w, st)")
  case (fields got w1 st1)
  have st1: "st1 = st" using kube_api.get_keeps [OF assms(1) fields] .
  show thesis
  proof (cases got)
    case (Inl err)
    show thesis
    proof (cases "isNotFound err \<and> enabled")
      case True
      then have absent: "st key = None"
        using kube_api.get_missing [OF assms(1)] fields Inl by blast
      moreover have "apiCreateOrUpdate api (initial None) mutate (w1, st) = (r, w', st')"
        using True assms(2) fields Inl st1 by (simp add: shape)
      ultimately show thesis using True initial_new by (intro written [of w1]) auto
    next
      case False
      then show thesis using assms(2) fields Inl st1 by (intro kept) (auto simp: shape split: if_splits)
    qed
  next
    case (Inr ob)
    have found: "st key = Some ob" "keyOf (metaOf ob) = key"
      using kube_api.get_found [OF assms(1)] fields Inr by blast+
    consider "\<not> enabled \<and> owned ob" | "enabled \<and> owned ob" | "\<not> owned ob" by blast
    then show thesis
    proof cases
      case 1
      then have "apiDelete api ob (w1, st) = (r, w', st')"
        using assms(2) fields Inr st1 by (simp add: shape)
      with kube_api.delete_key [OF assms(1)] found 1 show thesis by (metis kept deleted)
    next
      case 2
      then have "apiCreateOrUpdate api (initial (Some ob)) mutate (w1, st) = (r, w', st')"
        using assms(2) fields Inr st1 by (simp add: shape)
      with found 2 show thesis by (intro written [of w1]) (auto simp: initial_old)
    next
      case 3
      then show thesis using assms(2) fields Inr st1 by (intro kept) (auto simp: shape split: if_splits)
    qed
  qed
qed

lemma foreign_kept:
  "kube_api api metaOf admit \<Longrightarrow> reconcile (w, st) = (r, w', st') \<Longrightarrow> st key = Some ob \<Longrightarrow> \<not> owned ob \<Longrightarrow> st' = st"
  by (elim reconcile_cases) auto

lemma foreign_reported:
  assumes "kube_api api metaOf admit" and "reconcile (w, st) = (r, w', st')" and "st key = Some ob"
    and "\<not> owned ob" and "enabled"
  shows "r \<noteq> None"
proof (cases "apiGet api key (w, st)")
  case (fields got w1 st1)
  have "got = Inl err \<Longrightarrow> \<not> isNotFound err" for err
    using kube_api.get_missing [OF assms(1)] fields assms(3) by fastforce
  moreover have "got = Inr ob' \<Longrightarrow> ob' = ob" for ob'
    using kube_api.get_found [OF assms(1)] fields assms(3) by fastforce
  ultimately show ?thesis
    using assms(2,4,5) fields by (cases got) (auto simp: shape)
qed

lemma others_kept:
  assumes "kube_api api metaOf admit" and "reconcile (w, st) = (r, w', st')" and "k \<noteq> key"
  shows "st' k = st k"
  using assms(1,2)
proof (cases rule: reconcile_cases)
  case (written w2)
  then show ?thesis using kube_api.update_other [OF assms(1)] assms(3) by metis
qed (use assms(3) in auto)

lemma disabled_never_writes:
  "kube_api api metaOf admit \<Longrightarrow> reconcile (w, st) = (r, w', st') \<Longrightarrow> \<not> enabled \<Longrightarrow>
     st' = st \<or> st' = st(key := None)"
  by (elim reconcile_cases) auto

lemma enabled_update:
  assumes "kube_api api metaOf admit" and "reconcile (w, st) = (None, w', st')" and "enabled"
  obtains w1 where "apiCreateOrUpdate api (initial (st key)) mutate (w1, st) = (None, w', st')"
    and "keyOf (metaOf (initial (st key))) = key"
proof (cases "apiGet api key (w, st)")
  case (fields got w1 st1)
  have st1: "st1 = st" using kube_api.get_keeps [OF assms(1) fields] .
  show thesis
  proof (cases got)
    case (Inl err)
    with assms(2,3) fields have "isNotFound err" by (auto simp: shape split: if_splits)
    moreover from this have "st key = None" using kube_api.get_missing [OF assms(1)] fields Inl by blast
    ultimately show thesis using assms(2,3) fields Inl st1 by (intro that [of w1]) (simp_all add: shape initial_new)
  next
    case (Inr ob)
    have "st key = Some ob" "keyOf (metaOf ob) = key" using kube_api.get_found [OF assms(1)] fields Inr by blast+
    with assms(2,3) fields Inr st1 show thesis
      by (intro that [of w1]) (simp_all add: shape initial_old split: if_splits)
  qed
qed

lemma enabled_present:
  assumes "kube_api api metaOf admit" and "reconcile (w, st) = (None, w', st')" and "enabled"
  shows "\<exists>m. mutate (case st key of None \<Rightarrow> initial None | Some old \<Rightarrow> old) = Inr m \<and>
    (st key = Some m \<and> st' = st \<or> st' = st(key \<mapsto> admit (st key) m))"
proof -
  obtain w1 where call: "apiCreateOrUpdate api (initial (st key)) mutate (w1, st) = (None, w', st')"
    and "keyOf (metaOf (initial (st key))) = key" using enabled_update [OF assms] .
  with kube_api.update_ok [OF assms(1) call] show ?thesis by (cases "st key") simp_all
qed

lemma enabled_holds:
  assumes "kube_api api metaOf admit" and "reconcile (w, st) = (None, w', st')" and "enabled"
    and "\<And>old m. mutate old = Inr m \<Longrightarrow> P m"
  shows "holds admit st' key P"
proof -
  obtain w1 where call: "apiCreateOrUpdate api (initial (st key)) mutate (w1, st) = (None, w', st')"
    and key: "keyOf (metaOf (initial (st key))) = key" using enabled_update [OF assms(1-3)] .
  show ?thesis by (rule kube_api.update_holds [OF assms(1) call assms(4) key])
qed

text \<open>A converged object is not written, whatever fails.\<close>

lemma settled_kept:
  assumes "kube_api api metaOf admit" and "reconcile (w, st) = (r, w', st')"
    and "enabled \<longrightarrow> fixedBy admit mutate (st key)" and "enabled \<or> pred_option (\<lambda>ob. \<not> owned ob) (st key)"
  shows "st' = st"
  using assms(1,2)
proof (cases rule: reconcile_cases)
  case (deleted ob)
  with assms(4) show ?thesis by simp
next
  case (written w2)
  with assms(3) show ?thesis by (intro kube_api.update_fixed [OF assms(1) written(4)]) simp
qed

end

lemma new_keys [simp]:
  "keyOf (cmMeta (newConfigMap ns n)) = (ns, n)" "keyOf (pcMeta (newClaim ns n)) = (ns, n)"
  "keyOf (srvMeta (newService ns n)) = (ns, n)" "keyOf (nyMeta (newNetworkPolicy ns n)) = (ns, n)"
  "keyOf (pdMeta (newPodDisruptionBudget ns n)) = (ns, n)" "keyOf (sfMeta (newStatefulSet ns n)) = (ns, n)"
  by (simp_all add: keyOf_def newMeta_def newConfigMap_def newClaim_def newService_def newNetworkPolicy_def
      newPodDisruptionBudget_def newStatefulSet_def)

lemma built_keys [simp]:
  "omNamespace (srvMeta (buildService agent)) = agentNamespace agent" "omName (srvMeta (buildService agent)) = agentName agent"
  "omNamespace (nyMeta (buildNetworkPolicy agent b)) = agentNamespace agent"
  "omName (nyMeta (buildNetworkPolicy agent b)) = agentName agent"
  by (simp_all add: buildService_def buildNetworkPolicy_def namedMeta_def Let_def)

lemma built_labels [simp]:
  "omLabels (srvMeta (buildService agent)) = resourceLabels agent"
  "omLabels (nyMeta (buildNetworkPolicy agent b)) = resourceLabels agent"
  "omAnnotations (srvMeta (buildService agent)) = svAnnotations (spService (haSpec agent))"
  by (simp_all add: buildService_def buildNetworkPolicy_def namedMeta_def Let_def)

lemma keyOf_built [simp]:
  "keyOf (srvMeta (buildService agent)) = agentKey agent" "keyOf (nyMeta (buildNetworkPolicy agent b)) = agentKey agent"
  by (simp_all add: keyOf_def)

lemma keyOf_named_as [simp]: "keyOf (named_as desired m) = keyOf desired"
  by (simp add: named_as_def keyOf_def)

interpretation budgetGuard: guarded_resource "clBudgets c" pdMeta "agentKey agent" "podDisruptionBudgetEnabled agent"
    "\<lambda>pdb. isControlledBy lib (pdMeta pdb) (haMeta agent)"
    "\<lambda>pdb. TextError (''PodDisruptionBudget '' @ omName (pdMeta pdb) @
       '' already exists and is not owned by HermesAgent '' @ agentName agent)"
    "\<lambda>x. case x of None \<Rightarrow> newPodDisruptionBudget (agentNamespace agent) (agentName agent) | Some pdb \<Rightarrow> pdb"
    "mutatePodDisruptionBudget lib agent" "reconcilePodDisruptionBudget lib c agent" for lib c agent
  by unfold_locales (unfold reconcilePodDisruptionBudget_def option.case, simp_all)

interpretation serviceGuard: guarded_resource "clServices c" srvMeta "agentKey agent" "serviceEnabled agent"
    "\<lambda>srv. isControlledBy lib (srvMeta srv) (haMeta agent)"
    "\<lambda>srv. TextError (''service '' @ omName (srvMeta srv) @
       '' already exists and is not owned by HermesAgent '' @ agentName agent)"
    "\<lambda>x. case x of None \<Rightarrow> newService (agentNamespace agent) (agentName agent)
       | Some srv \<Rightarrow> srv\<lparr>srvMeta := named_as (srvMeta (buildService agent)) (srvMeta srv)\<rparr>"
    "mutateService lib agent (buildService agent)" "reconcileService lib c agent" for lib c agent
  by unfold_locales (unfold reconcileService_def option.case Let_def built_keys, simp_all)

interpretation networkPolicyGuard: guarded_resource "clNetworkPolicies c" nyMeta "agentKey agent" "networkPolicyEnabled agent"
    "\<lambda>np. isControlledBy lib (nyMeta np) (haMeta agent)"
    "\<lambda>np. TextError (''networkpolicy '' @ omName (nyMeta np) @
       '' already exists and is not owned by HermesAgent '' @ agentName agent)"
    "\<lambda>x. case x of None \<Rightarrow> newNetworkPolicy (agentNamespace agent) (agentName agent)
       | Some np \<Rightarrow> np\<lparr>nyMeta := named_as
           (nyMeta (buildNetworkPolicy agent (effectiveTerminalBackend (yamlBackend lib) agent ri))) (nyMeta np)\<rparr>"
    "mutateNetworkPolicy lib agent (buildNetworkPolicy agent (effectiveTerminalBackend (yamlBackend lib) agent ri))"
    "reconcileNetworkPolicy lib c agent ri" for lib c agent ri
  by unfold_locales (unfold reconcileNetworkPolicy_def option.case Let_def built_keys, simp_all)

section \<open>The claim is never deleted and keeps its immutable fields\<close>

lemma claim_built:
  "buildPersistentVolumeClaim parse agent = Inr desired \<Longrightarrow>
     omName (pcMeta desired) = persistentVolumeClaimName (agentName agent) \<and> omLabels (pcMeta desired) = resourceLabels agent \<and>
     pcAccessModes (pcSpec desired) = persistenceAccessModes agent \<and>
     pcStorageClassName (pcSpec desired) = pvStorageClassName (stPersistence (spStorage (haSpec agent)))"
  by (auto simp: buildPersistentVolumeClaim_def namedMeta_def split: sum.splits)

lemma reconcileClaim_cases:
  assumes "kube_api (clClaims c) pcMeta admit"
    and "reconcilePersistentVolumeClaim lib c agent (w, st) = (r, w', st')"
    and "key = (agentNamespace agent, persistentVolumeClaimName (agentName agent))"
  obtains (kept) "st' = st" "r = None \<Longrightarrow> \<not> persistenceEnabled agent"
  | (called) desired init w1 where "persistenceEnabled agent" "buildPersistentVolumeClaim (quantityOf lib) agent = Inr desired"
      "keyOf (pcMeta init) = key"
      "apiCreateOrUpdate (clClaims c) init (mutateClaim lib agent desired (st key \<noteq> None)) (w1, st) = (r, w', st')"
proof (cases "persistenceEnabled agent")
  case False
  with assms(2) show thesis by (intro kept) (auto simp: reconcilePersistentVolumeClaim_def)
next
  case True
  show thesis
  proof (cases "buildPersistentVolumeClaim (quantityOf lib) agent")
    case (Inl err)
    with True assms(2) show thesis by (intro kept) (auto simp: reconcilePersistentVolumeClaim_def)
  next
    case (Inr desired)
    have name: "(agentNamespace agent, omName (pcMeta desired)) = key"
      using claim_built [OF Inr] assms(3) by simp
    obtain got w1 st1 where got: "apiGet (clClaims c) key (w, st) = (got, w1, st1)" by (metis prod_cases3)
    have st1: "st1 = st" using kube_api.get_keeps [OF assms(1) got] .
    show thesis
    proof (cases got)
      case (Inl err)
      show thesis
      proof (cases "isNotFound err")
        case True
        have "st key = None" using kube_api.get_missing [OF assms(1)] got Inl True by blast
        with \<open>persistenceEnabled agent\<close> Inr assms(2,3) got Inl True st1 name show thesis
          by (intro called [of desired "newClaim (agentNamespace agent) (omName (pcMeta desired))" w1])
            (auto simp: reconcilePersistentVolumeClaim_def)
      next
        case False
        with \<open>persistenceEnabled agent\<close> Inr assms(2) got Inl st1 name show thesis
          by (intro kept) (auto simp: reconcilePersistentVolumeClaim_def)
      qed
    next
      case (Inr claim)
      have "st key = Some claim" "keyOf (pcMeta claim) = key"
        using kube_api.get_found [OF assms(1)] got Inr by blast+
      with True \<open>buildPersistentVolumeClaim (quantityOf lib) agent = Inr desired\<close> assms(2) got Inr st1 name show thesis
        by (intro called [of desired claim w1]) (auto simp: reconcilePersistentVolumeClaim_def)
    qed
  qed
qed

lemma claim_survives:
  assumes "kube_api (clClaims c) pcMeta admit" and "reconcilePersistentVolumeClaim lib c agent (w, st) = (r, w', st')"
    and "st k = Some claim"
  shows "st' k = Some claim \<or> (\<exists>m q. st' k = Some (admit (Some claim) m) \<and> pcSpec m = (pcSpec claim)\<lparr>pcRequests := q\<rparr>)"
proof -
  define key where "key = (agentNamespace agent, persistentVolumeClaimName (agentName agent))"
  from assms(1,2) key_def show ?thesis
  proof (cases rule: reconcileClaim_cases)
    case kept
    with assms(3) show ?thesis by simp
  next
    case (called desired init w1)
    show ?thesis
    proof (cases "k = key")
      case True
      have stored: "st key = Some claim" using assms(3) True by simp
      show ?thesis
      proof (rule kube_api.update_cases [OF assms(1) called(4)])
        assume "st' = st"
        with assms(3) show ?thesis by simp
      next
        fix m
        assume "mutateClaim lib agent desired (st key \<noteq> None)
            (case st (keyOf (pcMeta init)) of None \<Rightarrow> init | Some old \<Rightarrow> old) = Inr m"
          and "st' = st(keyOf (pcMeta init) \<mapsto> admit (st (keyOf (pcMeta init))) m)"
        then have "mutateClaim lib agent desired True claim = Inr m" and "st' k = Some (admit (Some claim) m)"
          using stored called(3) True by simp_all
        then show ?thesis by (auto simp: mutateClaim_Inr intro!: exI [of _ m])
      qed
    next
      case False
      with kube_api.update_other [OF assms(1) called(4)] called(3) assms(3) show ?thesis by simp
    qed
  qed
qed

lemma claim_drift_refused:
  assumes "kube_api (clClaims c) pcMeta admit" and "reconcilePersistentVolumeClaim lib c agent (w, st) = (r, w', st')"
    and "persistenceEnabled agent" and "buildPersistentVolumeClaim (quantityOf lib) agent = Inr desired"
    and "st (agentNamespace agent, persistentVolumeClaimName (agentName agent)) = Some claim"
    and "persistentVolumeClaimImmutableFieldDrift agent (pcSpec claim) (pcSpec desired) = drift" and "drift \<noteq> []"
  shows "st' = st \<and> r \<noteq> None"
proof -
  from assms(1,2) refl show ?thesis
  proof (cases rule: reconcileClaim_cases)
    case kept
    with assms(3) show ?thesis by auto
  next
    case (called desired' init w1)
    have "mutateClaim lib agent desired' True claim =
        Inl (DriftError (newPersistentVolumeClaimSpecDriftError agent (omName (pcMeta claim)) drift))"
      using called(2) assms(4,6,7) by (simp add: mutateClaim_def)
    then show ?thesis
      using kube_api.update_refused [OF assms(1) called(4)] called(3) assms(5) by simp
  qed
qed

lemma sort_eq_iff_mset: "sort xs = sort ys \<longleftrightarrow> mset xs = mset (ys :: 'a :: linorder list)"
  by (metis mset_sort sorted_list_of_multiset_mset)

lemma equalAccessModes_iff: "equalPersistentVolumeAccessModes left right \<longleftrightarrow> mset left = mset right"
  using mset_eq_length [of left right] by (auto simp: equalPersistentVolumeAccessModes_def sort_eq_iff_mset)

lemma equalOptionalString_iff: "equalOptionalString left right \<longleftrightarrow> left = right"
  by (auto simp: equalOptionalString_def split: option.splits)

lemma no_drift_iff:
  "persistentVolumeClaimImmutableFieldDrift agent existing desired = [] \<longleftrightarrow>
     mset (pcAccessModes existing) = mset (pcAccessModes desired) \<and>
     (pvStorageClassName (stPersistence (spStorage (haSpec agent))) = None \<or>
      pcStorageClassName existing = pcStorageClassName desired)"
  by (auto simp: persistentVolumeClaimImmutableFieldDrift_def equalAccessModes_iff equalOptionalString_iff)

section \<open>Generated ConfigMaps are published and cleaned up safely\<close>

lemma cleanup_safe:
  assumes "kube_api (clConfigMaps c) cmMeta admit"
    and "cleanupGeneratedIds lib c agent desired ids (w, st) = (r, w', st')"
  shows "st' k = st k \<or> (\<exists>cid cm. k = (agentNamespace agent, generatedConfigMapName (agentName agent) cid) \<and>
    cid \<in> set ids \<and> generatedConfigMapName (agentName agent) cid \<notin> desired \<and> st k = Some cm \<and>
    isControlledBy lib (cmMeta cm) (haMeta agent) \<and> st' k = None)"
  using assms(2)
proof (induction ids arbitrary: w st)
  case (Cons cid ids)
  let ?key = "(agentNamespace agent, generatedConfigMapName (agentName agent) cid)"
  obtain got w1 st1 where got: "apiGet (clConfigMaps c) ?key (w, st) = (got, w1, st1)" by (metis prod_cases3)
  have st1: "st1 = st" using kube_api.get_keeps [OF assms(1) got] .
  consider (rest) w2 where "cleanupGeneratedIds lib c agent desired ids (w2, st) = (r, w', st')"
    | (stop) "st' = st"
    | (deletes) cm where "got = Inr cm" "generatedConfigMapName (agentName agent) cid \<notin> desired"
        "isControlledBy lib (cmMeta cm) (haMeta agent)"
    using Cons.prems got st1 by (cases got) (auto simp: Let_def split: if_splits)
  then show ?case
  proof cases
    case rest
    from Cons.IH [OF rest] show ?thesis by auto
  next
    case deletes
    have cm: "st ?key = Some cm" "keyOf (cmMeta cm) = ?key"
      using kube_api.get_found [OF assms(1)] got deletes(1) by blast+
    obtain d w2 st2 where d: "apiDelete (clConfigMaps c) cm (w1, st) = (d, w2, st2)" by (metis prod_cases3)
    have st2: "st2 = st \<or> st2 = st(?key := None)" using kube_api.delete_key [OF assms(1) d] cm(2) by simp
    have "cleanupGeneratedIds lib c agent desired ids (w2, st2) = (r, w', st') \<or> st' = st2"
      using Cons.prems got st1 deletes d by (auto simp: Let_def split: if_splits option.splits)
    moreover have "st2 k = st k \<or> k = ?key \<and> st2 k = None" using st2 by (cases "k = ?key") auto
    ultimately show ?thesis using Cons.IH [of w2 st2] cm(1) deletes(2,3) by fastforce
  qed simp
qed simp

lemma inline_call:
  assumes "onConfigMaps (reconcileInlineConfigMap lib c agent f) s = (r, s')"
  shows "apiCreateOrUpdate (clConfigMaps c) (newConfigMap (agentNamespace agent) (rfConfigMapName f))
      (mutateConfigMap lib agent f) (csHidden s, csConfigMaps s) = (r, csHidden s', csConfigMaps s')"
  using assms by (auto simp: on_defs reconcileInlineConfigMap_def split: prod.splits)

lemma inline_holds:
  assumes "kube_api (clConfigMaps c) cmMeta admit" and "onConfigMaps (reconcileInlineConfigMap lib c agent f) s = (None, s')"
    and "\<And>old m. mutateConfigMap lib agent f old = Inr m \<Longrightarrow> P m"
  shows "holds admit (csConfigMaps s') (agentNamespace agent, rfConfigMapName f) P"
  by (rule kube_api.update_holds [OF assms(1) inline_call [OF assms(2)] assms(3)]) simp_all

lemma inline_others:
  assumes "kube_api (clConfigMaps c) cmMeta admit" and "onConfigMaps (reconcileInlineConfigMap lib c agent f) s = (r, s')"
    and "k \<noteq> (agentNamespace agent, rfConfigMapName f)"
  shows "csConfigMaps s' k = csConfigMaps s k"
  using kube_api.update_other [OF assms(1) inline_call [OF assms(2)], of k] assms(3) by simp

lemma reconcileFiles_holds:
  assumes "kube_api (clConfigMaps c) cmMeta admit" and "reconcileFiles lib c agent files desired s = (Inr names, s')"
    and "distinct (map rfConfigMapName (filter rfGenerated files))"
    and "\<And>f old m. mutateConfigMap lib agent f old = Inr m \<Longrightarrow> P f m"
  shows "names = desired \<union> rfConfigMapName ` set (filter rfGenerated files)"
    and "list_all (\<lambda>f. holds admit (csConfigMaps s') (agentNamespace agent, rfConfigMapName f) (P f)) (filter rfGenerated files)"
    and "snd k \<notin> rfConfigMapName ` set (filter rfGenerated files) \<Longrightarrow> csConfigMaps s' k = csConfigMaps s k"
  using assms(2,3)
proof (induction files arbitrary: desired s k)
  case (Cons f files)
  {
    case 1
    then show ?case using Cons.IH(1) by (auto split: if_splits prod.splits option.splits)
  next
    case 2
    show ?case
    proof (cases "rfGenerated f")
      case True
      then obtain s1 where s1: "onConfigMaps (reconcileInlineConfigMap lib c agent f) s = (None, s1)"
        and rest: "reconcileFiles lib c agent files (insert (rfConfigMapName f) desired) s1 = (Inr names, s')"
        using 2 by (auto split: prod.splits option.splits)
      have dist: "distinct (map rfConfigMapName (filter rfGenerated files))"
        and new: "rfConfigMapName f \<notin> rfConfigMapName ` set (filter rfGenerated files)"
        using 2(2) True by simp_all
      have "csConfigMaps s' (agentNamespace agent, rfConfigMapName f) = csConfigMaps s1 (agentNamespace agent, rfConfigMapName f)"
        by (rule Cons.IH(3) [OF _ rest dist]) (use new in simp)
      then have "holds admit (csConfigMaps s') (agentNamespace agent, rfConfigMapName f) (P f)"
        using inline_holds [OF assms(1) s1, of "P f"] assms(4) holds_cong by metis
      with Cons.IH(2) [OF rest dist] True show ?thesis by simp
    qed (use 2 Cons.IH(2) in auto)
  next
    case 3
    show ?case
    proof (cases "rfGenerated f")
      case True
      then obtain s1 where s1: "onConfigMaps (reconcileInlineConfigMap lib c agent f) s = (None, s1)"
        and rest: "reconcileFiles lib c agent files (insert (rfConfigMapName f) desired) s1 = (Inr names, s')"
        using 3 by (auto split: prod.splits option.splits)
      have "k \<noteq> (agentNamespace agent, rfConfigMapName f)" using 3 True by auto
      with inline_others [OF assms(1) s1] Cons.IH(3) [OF _ rest] 3 True show ?thesis by simp
    qed (use 3 Cons.IH(3) in auto)
  }
qed auto

end
