(* ===== verification/Reconciler.thy ===== *)
theory Reconciler
  imports Status References Managed
begin

text \<open>
  \<^verbatim>\<open>Reconcile\<close> of \<^verbatim>\<open>src/internal/controller/hermesagent_controller.go\<close> with the functions that report a
  result through the status.  The result of a reconcile is the returned error, if any; the controller
  runtime retries on an error.  Logging is left out.
\<close>

section \<open>Patching the status\<close>

definition patchStatus ::
  "kubeLib \<Rightarrow> 'w kubeClient \<Rightarrow> bool \<Rightarrow> hermesAgent \<Rightarrow> 'w statusMutator \<Rightarrow> 'w cluster \<Rightarrow> goError option \<times> 'w cluster" where
  "patchStatus lib c hasRecorder agent mutate s =
     (case onAgents (apiGetAgent (clAgents c) (agentKey agent)) s of
        (Inl err, s) \<Rightarrow> (if isNotFound err then None else Some err, s)
      | (Inr base, s) \<Rightarrow>
          (case mutate ((haStatus base)\<lparr>saObservedGeneration := omGeneration (haMeta base)\<rparr>, csHidden s) of
             (status, w) \<Rightarrow>
               (if haStatus base = status then (None, s\<lparr>csHidden := w\<rparr>)
                else case now c w of
                  (time, w) \<Rightarrow>
                    (let latest = base\<lparr>haStatus := status\<lparr>saLastReconcileTime := Some time\<rparr>\<rparr>
                     in case onAgents (apiPatchStatus (clAgents c) latest base) (s\<lparr>csHidden := w\<rparr>) of
                          (Inl err, s) \<Rightarrow> (Some err, s)
                        | (Inr latest, s) \<Rightarrow>
                            (None, emitStatusEvent lib hasRecorder latest (haStatus base) (haStatus latest) s)))))"

definition patchFailureStatus ::
  "kubeLib \<Rightarrow> 'w kubeClient \<Rightarrow> bool \<Rightarrow> hermesAgent \<Rightarrow> string \<Rightarrow> goError \<Rightarrow> 'w statusMutator \<Rightarrow> 'w cluster \<Rightarrow>
   goError option \<times> 'w cluster" where
  "patchFailureStatus lib c hasRecorder agent operation cause mutate s =
     orFail (patchStatus lib c hasRecorder agent mutate s)
       (\<lambda>err s. (Some (WrapError (operation @ '': '' @ errorText cause @ '' (status update failed: '' @ errorText err @ '')'') cause), s))
       (\<lambda>s. (None, s))"

definition returnStatusFailure ::
  "kubeLib \<Rightarrow> 'w kubeClient \<Rightarrow> bool \<Rightarrow> hermesAgent \<Rightarrow> string \<Rightarrow> goError \<Rightarrow> 'w statusMutator \<Rightarrow> 'w cluster \<Rightarrow>
   goError option \<times> 'w cluster" where
  "returnStatusFailure lib c hasRecorder agent operation cause mutate s =
     orFail (patchFailureStatus lib c hasRecorder agent operation cause mutate s)
       (\<lambda>err s. (Some err, s)) (\<lambda>s. (None, s))"

definition returnErrorWithStatus ::
  "kubeLib \<Rightarrow> 'w kubeClient \<Rightarrow> bool \<Rightarrow> hermesAgent \<Rightarrow> string \<Rightarrow> goError \<Rightarrow> 'w statusMutator \<Rightarrow> 'w cluster \<Rightarrow>
   goError option \<times> 'w cluster" where
  "returnErrorWithStatus lib c hasRecorder agent operation cause mutate s =
     orFail (patchFailureStatus lib c hasRecorder agent operation cause mutate s)
       (\<lambda>err s. (Some err, s)) (\<lambda>s. (Some cause, s))"

definition reconcileStatus ::
  "kubeLib \<Rightarrow> 'w kubeClient \<Rightarrow> bool \<Rightarrow> hermesAgent \<Rightarrow> string \<Rightarrow> 'w cluster \<Rightarrow> goError option \<times> 'w cluster" where
  "reconcileStatus lib c hasRecorder agent configHash s =
     (case readStatusView c agent s of
        (Inl err, s) \<Rightarrow> (Some err, s)
      | (Inr view, s) \<Rightarrow> patchStatus lib c hasRecorder agent (applyStatusView lib c agent configHash view) s)"

section \<open>The reconcile loop\<close>

text \<open>The status mutations that \<^verbatim>\<open>Reconcile\<close> passes to the failure reports.\<close>

definition configFailure ::
  "kubeLib \<Rightarrow> 'w kubeClient \<Rightarrow> hermesAgent \<Rightarrow> string \<Rightarrow> string \<Rightarrow> string \<Rightarrow> string \<Rightarrow> 'w statusMutator" where
  "configFailure lib c agent hash reason message readyMessage sw =
     markConfigFailure lib c reason message readyMessage (updateStatus (populateStatusMetadata agent hash) sw)"

definition persistenceFailure ::
  "kubeLib \<Rightarrow> 'w kubeClient \<Rightarrow> hermesAgent \<Rightarrow> string \<Rightarrow> goError \<Rightarrow> 'w statusMutator" where
  "persistenceFailure lib c agent hash err sw =
     markPersistenceFailure lib c err (updateStatus (populateStatusMetadata agent hash) sw)"

definition workloadFailure ::
  "kubeLib \<Rightarrow> 'w kubeClient \<Rightarrow> hermesAgent \<Rightarrow> string \<Rightarrow> string \<Rightarrow> string \<Rightarrow> string \<Rightarrow> 'w statusMutator" where
  "workloadFailure lib c agent hash reason message readyMessage sw =
     markWorkloadFailure lib c reason message readyMessage (updateStatus (populateStatusMetadata agent hash) sw)"

text \<open>The second half of \<^verbatim>\<open>Reconcile\<close>: the plan and the referenced inputs are known.\<close>

definition reconcilePlan ::
  "kubeLib \<Rightarrow> 'w kubeClient \<Rightarrow> bool \<Rightarrow> hermesAgent \<Rightarrow> referencedInputState \<Rightarrow> configPlan \<Rightarrow> 'w cluster \<Rightarrow>
   goError option \<times> 'w cluster" where
  "reconcilePlan lib c hasRecorder agent ri plan s =
     orFail (reconcileGeneratedConfigMaps lib c agent plan s)
       (\<lambda>err. returnErrorWithStatus lib c hasRecorder agent ''reconcile configmap'' err
          (configFailure lib c agent (cpHash plan) ''ConfigMapReconcileFailed'' (errorText err)
             ''Inline configuration resources could not be reconciled'')) (\<lambda>s.
     orFail (onClaims (reconcilePersistentVolumeClaim lib c agent) s)
       (\<lambda>err. returnErrorWithStatus lib c hasRecorder agent ''reconcile pvc'' err
          (persistenceFailure lib c agent (cpHash plan) err)) (\<lambda>s.
     orFail (onStatefulSets (reconcileStatefulSet lib c agent (buildPodTemplateInputs agent plan)) s)
       (\<lambda>err. returnErrorWithStatus lib c hasRecorder agent ''reconcile statefulset'' err
          (workloadFailure lib c agent (cpHash plan) ''StatefulSetReconcileFailed'' (errorText err)
             ''Hermes workload could not be reconciled'')) (\<lambda>s.
     orFail (onServices (reconcileService lib c agent) s)
       (\<lambda>err. returnErrorWithStatus lib c hasRecorder agent ''reconcile service'' err
          (workloadFailure lib c agent (cpHash plan) ''ServiceReconcileFailed'' (errorText err)
             ''Hermes Service could not be reconciled'')) (\<lambda>s.
     orFail (onNetworkPolicies (reconcileNetworkPolicy lib c agent ri) s)
       (\<lambda>err. returnErrorWithStatus lib c hasRecorder agent ''reconcile networkpolicy'' err
          (workloadFailure lib c agent (cpHash plan) ''NetworkPolicyReconcileFailed'' (errorText err)
             ''Hermes NetworkPolicy could not be reconciled'')) (\<lambda>s.
     orFail (onBudgets (reconcilePodDisruptionBudget lib c agent) s)
       (\<lambda>err. returnErrorWithStatus lib c hasRecorder agent ''reconcile poddisruptionbudget'' err
          (workloadFailure lib c agent (cpHash plan) ''PodDisruptionBudgetReconcileFailed'' (errorText err)
             ''Hermes PodDisruptionBudget could not be reconciled'')) (\<lambda>s.
     reconcileStatus lib c hasRecorder agent (cpHash plan) s))))))"

definition reconcileAgent ::
  "kubeLib \<Rightarrow> 'w kubeClient \<Rightarrow> bool \<Rightarrow> hermesAgent \<Rightarrow> 'w cluster \<Rightarrow> goError option \<times> 'w cluster" where
  "reconcileAgent lib c hasRecorder agent s =
     (case buildConfigPlan (jsonMarshal lib) agent of
        Inl err \<Rightarrow>
          returnStatusFailure lib c hasRecorder agent ''build config plan'' err
            (configFailure lib c agent [] ''InvalidConfig'' (errorText err) ''HermesAgent configuration is invalid'') s
      | Inr _ \<Rightarrow>
          (case resolveReferencedInputs c agent s of
             (Inl err, s) \<Rightarrow>
               returnErrorWithStatus lib c hasRecorder agent ''read referenced inputs'' err
                 (configFailure lib c agent [] ''ReferencedInputsReadFailed''
                    (''Could not read referenced ConfigMaps or Secrets: '' @ errorText err)
                    ''Referenced configuration inputs could not be read'') s
           | (Inr ri, s) \<Rightarrow>
               (if missingReferenceMessages ri \<noteq> [] then
                  (let message = joinMessages (missingReferenceMessages ri)
                   in returnStatusFailure lib c hasRecorder agent ''missing referenced inputs'' (TextError message)
                        (configFailure lib c agent [] ''MissingReferencedInput'' message
                           ''Referenced configuration inputs are missing'') s)
                else case buildConfigPlanWithReferences (jsonMarshal lib) agent ri of
                  Inl err \<Rightarrow>
                    returnStatusFailure lib c hasRecorder agent ''build config plan'' err
                      (configFailure lib c agent [] ''InvalidConfig'' (errorText err)
                         ''HermesAgent configuration is invalid'') s
                | Inr plan \<Rightarrow> reconcilePlan lib c hasRecorder agent ri plan s)))"

definition Reconcile ::
  "kubeLib \<Rightarrow> 'w kubeClient \<Rightarrow> bool \<Rightarrow> objectKey \<Rightarrow> 'w cluster \<Rightarrow> goError option \<times> 'w cluster" where
  "Reconcile lib c hasRecorder request s =
     (case onAgents (apiGetAgent (clAgents c) request) s of
        (Inl err, s) \<Rightarrow> (if isNotFound err then None else Some err, s)
      | (Inr agent, s) \<Rightarrow> reconcileAgent lib c hasRecorder agent s)"

section \<open>What each step leaves alone\<close>

lemma on_frames:
  "onAgents fA s = (rA, s') \<Longrightarrow> csConfigMaps s' = csConfigMaps s \<and> csSecrets s' = csSecrets s \<and> csClaims s' = csClaims s \<and>
     csStatefulSets s' = csStatefulSets s \<and> csServices s' = csServices s \<and>
     csNetworkPolicies s' = csNetworkPolicies s \<and> csBudgets s' = csBudgets s \<and> csEvents s' = csEvents s"
  "onConfigMaps fC s = (rC, s') \<Longrightarrow> csAgents s' = csAgents s \<and> csSecrets s' = csSecrets s \<and> csClaims s' = csClaims s \<and>
     csStatefulSets s' = csStatefulSets s \<and> csServices s' = csServices s \<and>
     csNetworkPolicies s' = csNetworkPolicies s \<and> csBudgets s' = csBudgets s \<and> csEvents s' = csEvents s"
  "onClaims fP s = (rP, s') \<Longrightarrow> csAgents s' = csAgents s \<and> csConfigMaps s' = csConfigMaps s \<and> csSecrets s' = csSecrets s \<and>
     csStatefulSets s' = csStatefulSets s \<and> csServices s' = csServices s \<and>
     csNetworkPolicies s' = csNetworkPolicies s \<and> csBudgets s' = csBudgets s \<and> csEvents s' = csEvents s"
  "onStatefulSets fS s = (rS, s') \<Longrightarrow> csAgents s' = csAgents s \<and> csConfigMaps s' = csConfigMaps s \<and>
     csSecrets s' = csSecrets s \<and> csClaims s' = csClaims s \<and> csServices s' = csServices s \<and>
     csNetworkPolicies s' = csNetworkPolicies s \<and> csBudgets s' = csBudgets s \<and> csEvents s' = csEvents s"
  "onServices fV s = (rV, s') \<Longrightarrow> csAgents s' = csAgents s \<and> csConfigMaps s' = csConfigMaps s \<and>
     csSecrets s' = csSecrets s \<and> csClaims s' = csClaims s \<and> csStatefulSets s' = csStatefulSets s \<and>
     csNetworkPolicies s' = csNetworkPolicies s \<and> csBudgets s' = csBudgets s \<and> csEvents s' = csEvents s"
  "onNetworkPolicies fN s = (rN, s') \<Longrightarrow> csAgents s' = csAgents s \<and> csConfigMaps s' = csConfigMaps s \<and>
     csSecrets s' = csSecrets s \<and> csClaims s' = csClaims s \<and> csStatefulSets s' = csStatefulSets s \<and>
     csServices s' = csServices s \<and> csBudgets s' = csBudgets s \<and> csEvents s' = csEvents s"
  "onBudgets fB s = (rB, s') \<Longrightarrow> csAgents s' = csAgents s \<and> csConfigMaps s' = csConfigMaps s \<and>
     csSecrets s' = csSecrets s \<and> csClaims s' = csClaims s \<and> csStatefulSets s' = csStatefulSets s \<and>
     csServices s' = csServices s \<and> csNetworkPolicies s' = csNetworkPolicies s \<and> csEvents s' = csEvents s"
  by (auto simp: on_defs split: prod.splits)

lemma unchanged_frame:
  "unchanged s s' \<Longrightarrow> csAgents s' = csAgents s \<and> csConfigMaps s' = csConfigMaps s \<and> csSecrets s' = csSecrets s \<and>
     csClaims s' = csClaims s \<and> csStatefulSets s' = csStatefulSets s \<and> csServices s' = csServices s \<and>
     csNetworkPolicies s' = csNetworkPolicies s \<and> csBudgets s' = csBudgets s \<and> csEvents s' = csEvents s"
  by (simp add: unchanged_stores)

text \<open>The stores of everything but the custom resources.\<close>

definition managed ::
  "'w cluster \<Rightarrow> (objectKey \<Rightarrow> configMap option) \<times> (objectKey \<Rightarrow> secret option) \<times>
     (objectKey \<Rightarrow> persistentVolumeClaim option) \<times> (objectKey \<Rightarrow> statefulSet option) \<times> (objectKey \<Rightarrow> service option) \<times>
     (objectKey \<Rightarrow> networkPolicy option) \<times> (objectKey \<Rightarrow> podDisruptionBudget option)" where
  "managed s = (csConfigMaps s, csSecrets s, csClaims s, csStatefulSets s, csServices s, csNetworkPolicies s, csBudgets s)"

lemma managed_stores:
  "managed s' = managed s \<Longrightarrow> csConfigMaps s' = csConfigMaps s \<and> csSecrets s' = csSecrets s \<and> csClaims s' = csClaims s \<and>
     csStatefulSets s' = csStatefulSets s \<and> csServices s' = csServices s \<and>
     csNetworkPolicies s' = csNetworkPolicies s \<and> csBudgets s' = csBudgets s"
  by (simp add: managed_def)

lemma managed_unchanged: "unchanged s s' \<Longrightarrow> managed s' = managed s"
  by (simp add: managed_def unchanged_stores)

lemma managed_onAgents: "onAgents f s = (r, s') \<Longrightarrow> managed s' = managed s"
  by (drule on_frames) (simp add: managed_def)

lemma managed_patchStatus: "managed (snd (patchStatus lib c hasRecorder agent mutate s)) = managed s"
  by (auto simp: patchStatus_def emitStatusEvent_def Let_def managed_def
      split: prod.splits sum.splits if_splits dest!: on_frames)

lemma managed_reports [simp]:
  "managed (snd (patchFailureStatus lib c hasRecorder agent operation cause mutate s)) = managed s"
  "managed (snd (returnStatusFailure lib c hasRecorder agent operation cause mutate s)) = managed s"
  "managed (snd (returnErrorWithStatus lib c hasRecorder agent operation cause mutate s)) = managed s"
proof -
  show fail: "managed (snd (patchFailureStatus lib c hasRecorder agent operation cause mutate s)) = managed s"
    unfolding patchFailureStatus_def
    by (rule orFail_rule) (use managed_patchStatus [of lib c hasRecorder agent mutate s] in auto)
  show "managed (snd (returnStatusFailure lib c hasRecorder agent operation cause mutate s)) = managed s"
    unfolding returnStatusFailure_def by (rule orFail_rule) (use fail in auto)
  show "managed (snd (returnErrorWithStatus lib c hasRecorder agent operation cause mutate s)) = managed s"
    unfolding returnErrorWithStatus_def by (rule orFail_rule) (use fail in auto)
qed

lemma report_managed:
  "returnStatusFailure lib c hasRecorder agent operation cause mutate s = (r, s') \<Longrightarrow> managed s' = managed s"
  "returnErrorWithStatus lib c hasRecorder agent operation cause mutate s = (r, s') \<Longrightarrow> managed s' = managed s"
  using managed_reports by (metis snd_conv)+

lemma report_frame:
  "returnErrorWithStatus lib c hasRecorder agent operation cause mutate s = (r, s') \<Longrightarrow>
     csConfigMaps s' = csConfigMaps s \<and> csSecrets s' = csSecrets s \<and> csClaims s' = csClaims s \<and>
     csStatefulSets s' = csStatefulSets s \<and> csServices s' = csServices s \<and>
     csNetworkPolicies s' = csNetworkPolicies s \<and> csBudgets s' = csBudgets s"
  using managed_stores [OF managed_reports(3)] by (metis snd_conv)

text \<open>Reading the status view changes no store.\<close>

lemma readStatusView_unchanged:
  assumes "kube_api (clClaims c) pcMeta admitP" and "kube_api (clStatefulSets c) sfMeta admitS"
    and "readStatusView c agent s = (r, s')"
  shows "unchanged s s'"
proof -
  have claim: "readPersistenceView c agent s = (r, s') \<Longrightarrow> unchanged s s'" for s r s'
    using kube_api.get_keeps [OF assms(1)]
    by (fastforce simp: readPersistenceView_def on_defs unchanged_def Let_def split: prod.splits sum.splits if_splits)
  have sts: "onStatefulSets (apiGet (clStatefulSets c) k) s = (r, s') \<Longrightarrow> unchanged s s'" for k s r s'
    using kube_api.get_keeps [OF assms(2)]
    by (fastforce simp: on_defs unchanged_def split: prod.splits)
  show ?thesis
    using assms(3) by (auto simp: readStatusView_def split: prod.splits sum.splits if_splits
        dest!: claim sts intro: unchanged_trans)
qed

text \<open>The custom resources differ in nothing but their statuses.\<close>

definition statusOnly :: "'w cluster \<Rightarrow> 'w cluster \<Rightarrow> bool" where
  "statusOnly s s' \<longleftrightarrow>
     (\<forall>k. map_option (haStatus_update (\<lambda>_. zeroStatus)) (csAgents s' k) =
           map_option (haStatus_update (\<lambda>_. zeroStatus)) (csAgents s k))"

lemma statusOnly_same: "csAgents s' = csAgents s \<Longrightarrow> statusOnly s s'"
  by (simp add: statusOnly_def)

lemma statusOnly_trans: "statusOnly s s' \<Longrightarrow> statusOnly s' s'' \<Longrightarrow> statusOnly s s''"
  by (simp add: statusOnly_def)

lemma statusOnly_lookup:
  "statusOnly s s' \<Longrightarrow> csAgents s k = Some a \<Longrightarrow> \<exists>status. csAgents s' k = Some (a\<lparr>haStatus := status\<rparr>)"
  unfolding statusOnly_def
  by (drule spec [of _ k]) (auto simp: map_option_case split: option.splits, metis hermesAgent.surjective
      hermesAgent.update_convs(3) hermesAgent.ext_inject)

text \<open>
  The specification of readiness: the claim is bound, unless storage is ephemeral, and the StatefulSet
  has its replicas ready in the latest generation.
\<close>

definition storageReady :: "hermesAgent \<Rightarrow> 'w cluster \<Rightarrow> bool" where
  "storageReady agent s \<longleftrightarrow>
     (if persistenceEnabled agent then
        (case csClaims s (agentNamespace agent, persistentVolumeClaimName (agentName agent)) of
           None \<Rightarrow> False | Some claim \<Rightarrow> pcPhase claim = ''Bound'')
      else True)"

definition agentReady :: "hermesAgent \<Rightarrow> 'w cluster \<Rightarrow> bool" where
  "agentReady agent s \<longleftrightarrow> storageReady agent s \<and>
     (case csStatefulSets s (agentKey agent) of
        None \<Rightarrow> False
      | Some sts \<Rightarrow> sfReadyReplicas sts \<ge> statefulSetDesiredReplicas sts \<and>
          sfObservedGeneration sts \<ge> omGeneration (sfMeta sts))"

lemma agentReady_stores:
  "csClaims s' = csClaims s \<Longrightarrow> csStatefulSets s' = csStatefulSets s \<Longrightarrow> agentReady agent s' = agentReady agent s"
  by (simp add: agentReady_def storageReady_def)

lemma view_phases:
  "stvPhase (missingClaimView n) \<noteq> phaseReady" "stvReadyConditionStatus (missingClaimView n) = ''False''"
  "stvPhase (missingStatefulSetView n v) \<noteq> phaseReady" "stvReadyConditionStatus (missingStatefulSetView n v) = ''False''"
  by (simp_all add: missingClaimView_def missingStatefulSetView_def Let_def phases)

lemma claimView_bound: "fst (claimView claim) \<longleftrightarrow> pcPhase claim = ''Bound''"
  by (simp add: claimView_def)

lemma claimView_pending:
  "\<not> fst (claimView claim) \<Longrightarrow>
     stvPhase (snd (claimView claim)) \<noteq> phaseReady \<and> stvReadyConditionStatus (snd (claimView claim)) = ''False''"
  by (auto simp: claimView_def persistencePhase_def phases split: if_splits)

lemma workloadView_phase:
  "(stvPhase (workloadView sts v) = phaseReady) \<longleftrightarrow>
     sfReadyReplicas sts \<ge> statefulSetDesiredReplicas sts \<and> sfObservedGeneration sts \<ge> omGeneration (sfMeta sts)"
  "stvReadyConditionStatus (workloadView sts v) =
     (if sfReadyReplicas sts \<ge> statefulSetDesiredReplicas sts \<and> sfObservedGeneration sts \<ge> omGeneration (sfMeta sts)
      then ''True'' else ''False'')"
  by (auto simp: workloadView_def Let_def phases)

text \<open>
  A status is truthful when it reports readiness, in the phase or in the condition, only for an agent
  that is ready.
\<close>

definition reportsReady :: "kubeLib \<Rightarrow> hermesAgentStatus \<Rightarrow> bool" where
  "reportsReady lib status \<longleftrightarrow> saPhase status = phaseReady \<or>
     (case conditionSummary lib status conditionTypeReady of None \<Rightarrow> False | Some (value, _) \<Rightarrow> value = ''True'')"

definition truthful :: "kubeLib \<Rightarrow> hermesAgent \<Rightarrow> 'w cluster \<Rightarrow> bool" where
  "truthful lib agent s \<longleftrightarrow>
     (case csAgents s (agentKey agent) of
        None \<Rightarrow> False
      | Some stored \<Rightarrow> haSpec stored = haSpec agent \<and> haMeta stored = haMeta agent \<and>
          (reportsReady lib (haStatus stored) \<longrightarrow> agentReady agent s))"

lemma reportsReady_cong:
  "saPhase s = saPhase s' \<Longrightarrow> saConditions s = saConditions s' \<Longrightarrow> reportsReady lib s = reportsReady lib s'"
  by (simp add: reportsReady_def conditionSummary_def)

section \<open>The contract of the whole client\<close>

text \<open>
  What the server makes of an object it stores, per kind: defaulting, the generation, the status it
  keeps.
\<close>

record serverAdmission =
  adConfigMap :: "configMap option \<Rightarrow> configMap \<Rightarrow> configMap"
  adSecret :: "secret option \<Rightarrow> secret \<Rightarrow> secret"
  adClaim :: "persistentVolumeClaim option \<Rightarrow> persistentVolumeClaim \<Rightarrow> persistentVolumeClaim"
  adStatefulSet :: "statefulSet option \<Rightarrow> statefulSet \<Rightarrow> statefulSet"
  adService :: "service option \<Rightarrow> service \<Rightarrow> service"
  adNetworkPolicy :: "networkPolicy option \<Rightarrow> networkPolicy \<Rightarrow> networkPolicy"
  adBudget :: "podDisruptionBudget option \<Rightarrow> podDisruptionBudget \<Rightarrow> podDisruptionBudget"

locale kube_client =
  owners: owner_lib lib +
  statuses: status_conditions lib +
  agents: agent_api "clAgents c" known +
  configMaps: kube_api "clConfigMaps c" cmMeta "adConfigMap ad" +
  secrets: kube_api "clSecrets c" seMeta "adSecret ad" +
  claims: kube_api "clClaims c" pcMeta "adClaim ad" +
  statefulSets: kube_api "clStatefulSets c" sfMeta "adStatefulSet ad" +
  services: kube_api "clServices c" srvMeta "adService ad" +
  networkPolicies: kube_api "clNetworkPolicies c" nyMeta "adNetworkPolicy ad" +
  budgets: kube_api "clBudgets c" pdMeta "adBudget ad"
  for lib :: kubeLib and c :: "'w kubeClient" and known :: "objectKey set" and ad :: serverAdmission
begin

lemma get_agent:
  assumes "onAgents (apiGetAgent (clAgents c) k) s = (r, s')"
  shows "unchanged s s'" and "r = Inr agent \<Longrightarrow> csAgents s k = Some agent \<and> agentKey agent = k"
    and "r = Inl e \<Longrightarrow> isNotFound e \<Longrightarrow> csAgents s k = None"
proof -
  obtain w st where call: "apiGetAgent (clAgents c) k (csHidden s, csAgents s) = (r, w, st)"
    and s': "s' = s\<lparr>csHidden := w, csAgents := st\<rparr>"
    using assms by (auto simp: on_defs split: prod.splits)
  show "unchanged s s'" using agents.agent_get_keeps [OF call] by (simp add: s' unchanged_def)
  show "r = Inr agent \<Longrightarrow> csAgents s k = Some agent \<and> agentKey agent = k"
    using agents.agent_found call by (auto simp: keyOf_def)
  show "r = Inl e \<Longrightarrow> isNotFound e \<Longrightarrow> csAgents s k = None" using agents.agent_missing call by blast
qed

lemma get_statefulSet:
  assumes "onStatefulSets (apiGet (clStatefulSets c) k) s = (r, s')"
  shows "unchanged s s'" and "r = Inr sts \<Longrightarrow> csStatefulSets s k = Some sts"
    and "r = Inl e \<Longrightarrow> isNotFound e \<Longrightarrow> csStatefulSets s k = None"
proof -
  obtain w st where call: "apiGet (clStatefulSets c) k (csHidden s, csStatefulSets s) = (r, w, st)"
    and s': "s' = s\<lparr>csHidden := w, csStatefulSets := st\<rparr>"
    using assms by (auto simp: on_defs split: prod.splits)
  show "unchanged s s'" using statefulSets.get_keeps [OF call] by (simp add: s' unchanged_def)
  show "r = Inr sts \<Longrightarrow> csStatefulSets s k = Some sts" using statefulSets.get_found call by blast
  show "r = Inl e \<Longrightarrow> isNotFound e \<Longrightarrow> csStatefulSets s k = None" using statefulSets.get_missing call by blast
qed

lemma get_claim:
  assumes "onClaims (apiGet (clClaims c) k) s = (r, s')"
  shows "unchanged s s'" and "r = Inr claim \<Longrightarrow> csClaims s k = Some claim"
    and "r = Inl e \<Longrightarrow> isNotFound e \<Longrightarrow> csClaims s k = None"
proof -
  obtain w st where call: "apiGet (clClaims c) k (csHidden s, csClaims s) = (r, w, st)"
    and s': "s' = s\<lparr>csHidden := w, csClaims := st\<rparr>"
    using assms by (auto simp: on_defs split: prod.splits)
  show "unchanged s s'" using claims.get_keeps [OF call] by (simp add: s' unchanged_def)
  show "r = Inr claim \<Longrightarrow> csClaims s k = Some claim" using claims.get_found call by blast
  show "r = Inl e \<Longrightarrow> isNotFound e \<Longrightarrow> csClaims s k = None" using claims.get_missing call by blast
qed

lemma status_view_unchanged: "readStatusView c agent s = (r, s') \<Longrightarrow> unchanged s s'"
  by (rule readStatusView_unchanged [OF claims.kube_api_axioms statefulSets.kube_api_axioms])

lemma resolve_unchanged:
  "resolveReferencedInputs c agent s = (r, s') \<Longrightarrow> unchanged s s'"
  using reference_readers.resolve_yields [OF client_readers [OF configMaps.kube_api_axioms secrets.kube_api_axioms] refl,
      of agent s, unfolded findsIn_def, OF conjI [OF refl refl]] yieldsD(1) by metis

lemma resolve_value:
  "resolveReferencedInputs c agent s = (Inr ri, s') \<Longrightarrow>
     ri = referencedInputsOf (\<lambda>n. csConfigMaps s (agentNamespace agent, n))
       (\<lambda>n. csSecrets s (agentNamespace agent, n)) agent"
  using reference_readers.resolve_yields [OF client_readers [OF configMaps.kube_api_axioms secrets.kube_api_axioms] refl,
      of agent s, unfolded findsIn_def, OF conjI [OF refl refl]] yieldsD(2) by metis

lemma managed_reconcileStatus [simp]: "managed (snd (reconcileStatus lib c hasRecorder agent h s)) = managed s"
  by (auto simp: reconcileStatus_def managed_patchStatus split: prod.splits sum.splits
      dest!: status_view_unchanged managed_unchanged)

lemma status_frame:
  "reconcileStatus lib c hasRecorder agent h s = (r, s') \<Longrightarrow>
     csConfigMaps s' = csConfigMaps s \<and> csSecrets s' = csSecrets s \<and> csClaims s' = csClaims s \<and>
     csStatefulSets s' = csStatefulSets s \<and> csServices s' = csServices s \<and>
     csNetworkPolicies s' = csNetworkPolicies s \<and> csBudgets s' = csBudgets s"
  using managed_stores [OF managed_reconcileStatus] by (metis snd_conv)

lemma reconcileFiles_frame:
  "reconcileFiles lib c agent files desired s = (r, s') \<Longrightarrow>
     csAgents s' = csAgents s \<and> csSecrets s' = csSecrets s \<and> csClaims s' = csClaims s \<and>
     csStatefulSets s' = csStatefulSets s \<and> csServices s' = csServices s \<and>
     csNetworkPolicies s' = csNetworkPolicies s \<and> csBudgets s' = csBudgets s \<and> csEvents s' = csEvents s"
  by (induction files arbitrary: desired s)
    (fastforce split: if_splits prod.splits option.splits dest!: on_frames(2))+

lemma generated_frame:
  "reconcileGeneratedConfigMaps lib c agent plan s = (r, s') \<Longrightarrow>
     csAgents s' = csAgents s \<and> csSecrets s' = csSecrets s \<and> csClaims s' = csClaims s \<and>
     csStatefulSets s' = csStatefulSets s \<and> csServices s' = csServices s \<and>
     csNetworkPolicies s' = csNetworkPolicies s \<and> csBudgets s' = csBudgets s \<and> csEvents s' = csEvents s"
  by (auto simp: reconcileGeneratedConfigMaps_def cleanupStaleGeneratedConfigMaps_def
      split: prod.splits sum.splits if_splits
      dest!: reconcileFiles_frame on_frames(2) get_statefulSet(1) [THEN unchanged_frame])

subsection \<open>Every store goes through at most one run of its reconcile function\<close>

lemmas step_frames = generated_frame on_frames(3-7) report_frame status_frame

lemma plan_claims:
  assumes "reconcilePlan lib c hasRecorder agent ri plan s = (r, s')"
  shows "csClaims s' = csClaims s \<or>
    (\<exists>w e w'. reconcilePersistentVolumeClaim lib c agent (w, csClaims s) = (e, w', csClaims s'))"
  using assms unfolding reconcilePlan_def
  by (elim orFail_cases) (auto dest!: step_frames simp: onClaims_def split: prod.splits)

lemma plan_statefulSets:
  assumes "reconcilePlan lib c hasRecorder agent ri plan s = (r, s')"
  shows "csStatefulSets s' = csStatefulSets s \<or>
    (\<exists>w e w'. reconcileStatefulSet lib c agent (buildPodTemplateInputs agent plan) (w, csStatefulSets s) =
       (e, w', csStatefulSets s'))"
  using assms unfolding reconcilePlan_def
  by (elim orFail_cases) (auto dest!: step_frames simp: onStatefulSets_def split: prod.splits)

lemma plan_services:
  assumes "reconcilePlan lib c hasRecorder agent ri plan s = (r, s')"
  shows "csServices s' = csServices s \<or>
    (\<exists>w e w'. reconcileService lib c agent (w, csServices s) = (e, w', csServices s'))"
  using assms unfolding reconcilePlan_def
  by (elim orFail_cases) (auto dest!: step_frames simp: onServices_def split: prod.splits)

lemma plan_networkPolicies:
  assumes "reconcilePlan lib c hasRecorder agent ri plan s = (r, s')"
  shows "csNetworkPolicies s' = csNetworkPolicies s \<or>
    (\<exists>w e w'. reconcileNetworkPolicy lib c agent ri (w, csNetworkPolicies s) = (e, w', csNetworkPolicies s'))"
  using assms unfolding reconcilePlan_def
  by (elim orFail_cases) (auto dest!: step_frames simp: onNetworkPolicies_def split: prod.splits)

lemma plan_budgets:
  assumes "reconcilePlan lib c hasRecorder agent ri plan s = (r, s')"
  shows "csBudgets s' = csBudgets s \<or>
    (\<exists>w e w'. reconcilePodDisruptionBudget lib c agent (w, csBudgets s) = (e, w', csBudgets s'))"
  using assms unfolding reconcilePlan_def
  by (elim orFail_cases) (auto dest!: step_frames simp: onBudgets_def split: prod.splits)

lemma plan_secrets:
  assumes "reconcilePlan lib c hasRecorder agent ri plan s = (r, s')"
  shows "csSecrets s' = csSecrets s"
  using assms unfolding reconcilePlan_def by (elim orFail_cases) (auto dest!: step_frames)

text \<open>A failed claim step ends the reconcile before the workload.\<close>

lemma plan_stops_at_claim:
  assumes "reconcilePlan lib c hasRecorder agent ri plan s = (r, s')"
    and "reconcileGeneratedConfigMaps lib c agent plan s = (None, s1)"
    and "onClaims (reconcilePersistentVolumeClaim lib c agent) s1 = (Some e, s2)"
  shows "csStatefulSets s' = csStatefulSets s" "csServices s' = csServices s"
    "csNetworkPolicies s' = csNetworkPolicies s" "csBudgets s' = csBudgets s" "r \<noteq> None"
proof -
  have "returnErrorWithStatus lib c hasRecorder agent ''reconcile pvc'' e (persistenceFailure lib c agent (cpHash plan) e) s2 = (r, s')"
    using assms by (simp add: reconcilePlan_def)
  moreover from this have "r \<noteq> None"
    by (auto simp: returnErrorWithStatus_def elim: orFail_cases)
  ultimately show "csStatefulSets s' = csStatefulSets s" "csServices s' = csServices s"
    "csNetworkPolicies s' = csNetworkPolicies s" "csBudgets s' = csBudgets s" "r \<noteq> None"
    using assms(2,3) by (auto dest!: step_frames)
qed

subsection \<open>The two ways a reconcile ends\<close>

lemma reconcileAgent_cases:
  assumes "reconcileAgent lib c hasRecorder agent s = (r, s')"
  obtains (config) "managed s' = managed s"
  | (plan) ri plan s1 where "unchanged s s1" "resolveReferencedInputs c agent s = (Inr ri, s1)"
      "missingReferenceMessages ri = []" "buildConfigPlanWithReferences (jsonMarshal lib) agent ri = Inr plan"
      "reconcilePlan lib c hasRecorder agent ri plan s1 = (r, s')"
proof (cases "buildConfigPlan (jsonMarshal lib) agent")
  case (Inl err)
  with assms have "managed s' = managed s"
    by (auto simp: reconcileAgent_def dest!: report_managed)
  then show thesis by (rule config)
next
  case (Inr plan0)
  obtain got s1 where resolved: "resolveReferencedInputs c agent s = (got, s1)" by force
  then have same: "unchanged s s1" by (rule resolve_unchanged)
  show thesis
  proof (cases "\<exists>ri plan. got = Inr ri \<and> missingReferenceMessages ri = [] \<and>
      buildConfigPlanWithReferences (jsonMarshal lib) agent ri = Inr plan")
    case True
    then obtain ri pl where ok: "got = Inr ri" "missingReferenceMessages ri = []"
      "buildConfigPlanWithReferences (jsonMarshal lib) agent ri = Inr pl" by blast
    with assms Inr resolved have "reconcilePlan lib c hasRecorder agent ri pl s1 = (r, s')"
      by (simp add: reconcileAgent_def)
    with ok resolved same show thesis by (intro plan [of s1 ri pl]) simp_all
  next
    case False
    with assms Inr resolved have "managed s' = managed s1"
      by (auto simp: reconcileAgent_def Let_def split: sum.splits if_splits dest!: report_managed)
    with managed_unchanged [OF same] show thesis by (intro config) simp
  qed
qed

lemma Reconcile_cases:
  assumes "Reconcile lib c hasRecorder request s = (r, s')"
  obtains (config) "managed s' = managed s"
  | (plan) agent ri plan s1 where "csAgents s request = Some agent" "agentKey agent = request" "unchanged s s1"
      "missingReferenceMessages ri = []"
      "ri = referencedInputsOf (\<lambda>n. csConfigMaps s (agentNamespace agent, n))
        (\<lambda>n. csSecrets s (agentNamespace agent, n)) agent" "buildConfigPlanWithReferences (jsonMarshal lib) agent ri = Inr plan"
      "reconcilePlan lib c hasRecorder agent ri plan s1 = (r, s')"
proof (cases "onAgents (apiGetAgent (clAgents c) request) s")
  case (Pair got s0)
  have same: "unchanged s s0" using Pair by (rule get_agent(1))
  show thesis
  proof (cases got)
    case (Inl err)
    with assms Pair managed_unchanged [OF same] show thesis by (intro config) (simp add: Reconcile_def)
  next
    case (Inr agent)
    have agent: "csAgents s request = Some agent" "agentKey agent = request"
      using get_agent(2) [OF Pair] Inr by auto
    have run: "reconcileAgent lib c hasRecorder agent s0 = (r, s')"
      using assms Pair Inr by (simp add: Reconcile_def)
    from run show thesis
    proof (cases rule: reconcileAgent_cases)
      case config
      with managed_unchanged [OF same] show thesis by (intro that(1)) simp
    next
      case (plan ri pl s1)
      have "ri = referencedInputsOf (\<lambda>n. csConfigMaps s (agentNamespace agent, n))
          (\<lambda>n. csSecrets s (agentNamespace agent, n)) agent"
        using resolve_value [OF plan(2)] same by (simp add: unchanged_stores)
      with agent same plan show thesis by (intro that(2)) (auto intro: unchanged_trans)
    qed
  qed
qed

subsection \<open>Stores after a whole reconcile\<close>

lemma reconcile_services:
  assumes "Reconcile lib c hasRecorder request s = (r, s')" and "csServices s k = Some srv"
    and "csAgents s request = Some agent" and "k \<noteq> request \<or> \<not> isControlledBy lib (srvMeta srv) (haMeta agent)"
  shows "csServices s' k = Some srv"
  using assms(1)
proof (cases rule: Reconcile_cases)
  case config
  with managed_stores assms(2) show ?thesis by metis
next
  case (plan agent' ri pl s1)
  then have "agent' = agent" "agentKey agent = request" "csServices s1 = csServices s"
    using assms(3) by (auto simp: unchanged_stores)
  with plan_services [OF plan(7)] assms(2,4) serviceGuard.foreign_kept [OF services.kube_api_axioms]
    serviceGuard.others_kept [OF services.kube_api_axioms]
  show ?thesis by metis
qed

lemma reconcile_networkPolicies:
  assumes "Reconcile lib c hasRecorder request s = (r, s')" and "csNetworkPolicies s k = Some np"
    and "csAgents s request = Some agent" and "k \<noteq> request \<or> \<not> isControlledBy lib (nyMeta np) (haMeta agent)"
  shows "csNetworkPolicies s' k = Some np"
  using assms(1)
proof (cases rule: Reconcile_cases)
  case config
  with managed_stores assms(2) show ?thesis by metis
next
  case (plan agent' ri pl s1)
  then have "agent' = agent" "agentKey agent = request" "csNetworkPolicies s1 = csNetworkPolicies s"
    using assms(3) by (auto simp: unchanged_stores)
  with plan_networkPolicies [OF plan(7)] assms(2,4) networkPolicyGuard.foreign_kept [OF networkPolicies.kube_api_axioms]
    networkPolicyGuard.others_kept [OF networkPolicies.kube_api_axioms]
  show ?thesis by metis
qed

lemma reconcile_budgets:
  assumes "Reconcile lib c hasRecorder request s = (r, s')" and "csBudgets s k = Some pdb"
    and "csAgents s request = Some agent" and "k \<noteq> request \<or> \<not> isControlledBy lib (pdMeta pdb) (haMeta agent)"
  shows "csBudgets s' k = Some pdb"
  using assms(1)
proof (cases rule: Reconcile_cases)
  case config
  with managed_stores assms(2) show ?thesis by metis
next
  case (plan agent' ri pl s1)
  then have "agent' = agent" "agentKey agent = request" "csBudgets s1 = csBudgets s"
    using assms(3) by (auto simp: unchanged_stores)
  with plan_budgets [OF plan(7)] assms(2,4) budgetGuard.foreign_kept [OF budgets.kube_api_axioms]
    budgetGuard.others_kept [OF budgets.kube_api_axioms]
  show ?thesis by metis
qed

lemma reconcile_claims:
  assumes "Reconcile lib c hasRecorder request s = (r, s')" and "csClaims s k = Some claim"
  shows "csClaims s' k = Some claim \<or>
    (\<exists>m q. csClaims s' k = Some (adClaim ad (Some claim) m) \<and> pcSpec m = (pcSpec claim)\<lparr>pcRequests := q\<rparr>)"
  using assms(1)
proof (cases rule: Reconcile_cases)
  case config
  with managed_stores assms(2) show ?thesis by metis
next
  case (plan agent ri pl s1)
  then have "csClaims s1 = csClaims s" by (simp add: unchanged_stores)
  with plan_claims [OF plan(7)] assms(2) claim_survives [OF claims.kube_api_axioms] show ?thesis by metis
qed

lemma reconcile_secrets: "Reconcile lib c hasRecorder request s = (r, s') \<Longrightarrow> csSecrets s' = csSecrets s"
  by (erule Reconcile_cases) (auto dest!: managed_stores plan_secrets unchanged_frame)

lemma config_failure_writes_nothing:
  assumes "csAgents s request = Some agent"
    and "buildConfigPlan (jsonMarshal lib) agent = Inl err \<or>
      missingReferenceMessages (referencedInputsOf (\<lambda>n. csConfigMaps s (agentNamespace agent, n))
        (\<lambda>n. csSecrets s (agentNamespace agent, n)) agent) \<noteq> []"
    and "Reconcile lib c hasRecorder request s = (r, s')"
  shows "managed s' = managed s"
  using assms(3)
proof (cases rule: Reconcile_cases)
  case (plan agent' ri pl s1)
  then have "agent' = agent" using assms(1) by simp
  moreover have "isOk (buildConfigPlan (jsonMarshal lib) agent')"
    using plan(6) buildConfigPlan_ok isOk_simps(1) unfolding buildConfigPlan_def by metis
  ultimately show ?thesis using assms(2) plan(4,5) by auto
qed

lemma drift_blocks_workload:
  assumes "csAgents s request = Some agent" and "persistenceEnabled agent"
    and "buildPersistentVolumeClaim (quantityOf lib) agent = Inr desired"
    and "csClaims s (agentNamespace agent, persistentVolumeClaimName (agentName agent)) = Some claim"
    and "persistentVolumeClaimImmutableFieldDrift agent (pcSpec claim) (pcSpec desired) \<noteq> []"
    and "Reconcile lib c hasRecorder request s = (r, s')"
  shows "csClaims s' = csClaims s \<and> csStatefulSets s' = csStatefulSets s \<and> csServices s' = csServices s \<and>
    csNetworkPolicies s' = csNetworkPolicies s \<and> csBudgets s' = csBudgets s"
  using assms(6)
proof (cases rule: Reconcile_cases)
  case config
  with managed_stores show ?thesis by blast
next
  case (plan agent' ri pl s1)
  have agent: "agent' = agent" using plan(1) assms(1) by simp
  obtain e2 s2 where s2: "reconcileGeneratedConfigMaps lib c agent pl s1 = (e2, s2)" by force
  note same = generated_frame [OF s2] unchanged_frame [OF plan(3)]
  obtain e3 s3 where s3: "onClaims (reconcilePersistentVolumeClaim lib c agent) s2 = (e3, s3)" by force
  then obtain w where run: "reconcilePersistentVolumeClaim lib c agent (csHidden s2, csClaims s2) = (e3, w, csClaims s3)"
    by (auto simp: on_defs split: prod.splits)
  have refused: "csClaims s3 = csClaims s2 \<and> e3 \<noteq> None"
    by (rule claim_drift_refused [OF claims.kube_api_axioms run assms(2,3) _ refl assms(5)])
      (use assms(4) same in simp)
  show ?thesis
  proof (cases e2)
    case None
    with refused s2 s3 plan(7) agent obtain e where
      "returnErrorWithStatus lib c hasRecorder agent ''reconcile pvc'' e (persistenceFailure lib c agent (cpHash pl) e) s3 = (r, s')"
      by (auto simp: reconcilePlan_def)
    from report_frame [OF this] on_frames(3) [OF s3] refused same show ?thesis by simp
  next
    case (Some e)
    with plan(7) s2 agent show ?thesis using same by (auto simp: reconcilePlan_def dest!: report_frame)
  qed
qed

lemma patchStatus_statusOnly:
  assumes "patchStatus lib c hasRecorder agent mutate s = (r, s')"
  shows "statusOnly s s'"
proof (cases "onAgents (apiGetAgent (clAgents c) (agentKey agent)) s")
  case (Pair got s1)
  note got = get_agent [OF Pair]
  show ?thesis
  proof (cases got)
    case (Inl err)
    with assms Pair got(1) show ?thesis by (auto simp: patchStatus_def statusOnly_same unchanged_stores)
  next
    case (Inr base)
    have base: "csAgents s1 (agentKey agent) = Some base" "agentKey base = agentKey agent"
      using got(1,2) Inr by (auto simp: unchanged_stores)
    obtain status w where mutated:
      "mutate ((haStatus base)\<lparr>saObservedGeneration := omGeneration (haMeta base)\<rparr>, csHidden s1) = (status, w)" by force
    obtain time w2 where time: "now c w = (time, w2)" by force
    define latest where "latest = base\<lparr>haStatus := status\<lparr>saLastReconcileTime := Some time\<rparr>\<rparr>"
    obtain answer w3 st where patched: "apiPatchStatus (clAgents c) latest base (w2, csAgents s1) = (answer, w3, st)"
      by (metis prod_cases3)
    have key: "csAgents s1 (agentKey latest) = Some base" using base by (simp add: latest_def)
    have "st = csAgents s1 \<or> st = (csAgents s1)(agentKey latest \<mapsto> base\<lparr>haStatus := haStatus latest\<rparr>)"
      using agents.status_patched [of latest base w2 "csAgents s1"] agents.status_patch_failed [of latest base w2 "csAgents s1"]
        patched key by (cases answer) auto
    moreover have "csAgents s' = csAgents s1 \<or> csAgents s' = st"
      using assms Pair Inr mutated time patched
      by (auto simp: patchStatus_def Let_def on_defs emitStatusEvent_def latest_def split: if_splits sum.splits)
    ultimately show ?thesis
      using got(1) key by (auto simp: statusOnly_def unchanged_stores)
  qed
qed

lemma reports_statusOnly:
  "patchFailureStatus lib c hasRecorder agent operation cause mutate s = (r, s') \<Longrightarrow> statusOnly s s'"
  "returnStatusFailure lib c hasRecorder agent operation cause mutate s = (r, s') \<Longrightarrow> statusOnly s s'"
  "returnErrorWithStatus lib c hasRecorder agent operation cause mutate s = (r, s') \<Longrightarrow> statusOnly s s'"
  "reconcileStatus lib c hasRecorder agent h s = (r, s') \<Longrightarrow> statusOnly s s'"
  by (auto simp: patchFailureStatus_def returnStatusFailure_def returnErrorWithStatus_def reconcileStatus_def
      elim!: orFail_cases split: prod.splits sum.splits dest: patchStatus_statusOnly
      dest!: status_view_unchanged simp: unchanged_stores statusOnly_def)

lemma plan_statusOnly:
  assumes "reconcilePlan lib c hasRecorder agent ri plan s = (r, s')"
  shows "statusOnly s s'"
  using assms unfolding reconcilePlan_def
  by (elim orFail_cases) (auto dest!: generated_frame on_frames(3-7) reports_statusOnly simp: statusOnly_def)

lemma reconcile_statusOnly:
  assumes "Reconcile lib c hasRecorder request s = (r, s')"
  shows "statusOnly s s'"
  using assms
  by (auto simp: Reconcile_def reconcileAgent_def Let_def split: prod.splits sum.splits if_splits
      dest!: get_agent(1) [THEN unchanged_frame] resolve_unchanged [THEN unchanged_frame] reports_statusOnly plan_statusOnly
      simp: statusOnly_def)

subsection \<open>The status tells the truth\<close>

lemma persistence_view:
  assumes "readPersistenceView c agent s = (Inr (goOn, v), s')"
  shows "goOn \<longleftrightarrow> storageReady agent s"
    and "\<not> goOn \<Longrightarrow> stvPhase v \<noteq> phaseReady \<and> stvReadyConditionStatus v = ''False''"
    and "unchanged s s'"
proof -
  let ?key = "(agentNamespace agent, persistentVolumeClaimName (agentName agent))"
  have "(goOn \<longleftrightarrow> storageReady agent s) \<and>
    (\<not> goOn \<longrightarrow> stvPhase v \<noteq> phaseReady \<and> stvReadyConditionStatus v = ''False'') \<and> unchanged s s'"
  proof (cases "persistenceEnabled agent")
    case True
    obtain got s1 where read: "onClaims (apiGet (clClaims c) ?key) s = (got, s1)" by force
    show ?thesis
    proof (cases got)
      case (Inl e)
      with assms read True have "isNotFound e" "goOn = False" "v = missingClaimView (persistentVolumeClaimName (agentName agent))" "s1 = s'"
        by (auto simp: readPersistenceView_def Let_def split: if_splits)
      with get_claim(1,3) [OF read] Inl True show ?thesis by (auto simp: storageReady_def view_phases)
    next
      case (Inr claim)
      with assms read True have "claimView claim = (goOn, v)" and s1: "s1 = s'"
        by (auto simp: readPersistenceView_def Let_def)
      then have view: "goOn = fst (claimView claim)" "v = snd (claimView claim)" by simp_all
      have stored: "csClaims s ?key = Some claim" using get_claim(2) [OF read] Inr by simp
      show ?thesis
        using claimView_pending [of claim] get_claim(1) [OF read] s1 stored True
        unfolding view by (simp add: storageReady_def claimView_bound)
    qed
  qed (use assms in \<open>auto simp: readPersistenceView_def storageReady_def\<close>)
  then show "goOn \<longleftrightarrow> storageReady agent s" "unchanged s s'"
    and "\<not> goOn \<Longrightarrow> stvPhase v \<noteq> phaseReady \<and> stvReadyConditionStatus v = ''False''" by blast+
qed

lemma status_view_ready:
  assumes "readStatusView c agent s = (Inr view, s')"
  shows "(stvPhase view = phaseReady \<longleftrightarrow> agentReady agent s) \<and>
    stvReadyConditionStatus view = (if agentReady agent s then ''True'' else ''False'')"
proof -
  obtain goOn v s1 where pv: "readPersistenceView c agent s = (Inr (goOn, v), s1)"
    using assms by (auto simp: readStatusView_def split: prod.splits sum.splits)
  note storage = persistence_view [OF pv]
  show ?thesis
  proof (cases goOn)
    case False
    with storage assms pv show ?thesis by (auto simp: readStatusView_def agentReady_def)
  next
    case True
    obtain got s2 where read: "onStatefulSets (apiGet (clStatefulSets c) (agentKey agent)) s1 = (got, s2)" by force
    have same: "csStatefulSets s1 = csStatefulSets s" using storage(3) by (simp add: unchanged_stores)
    show ?thesis
    proof (cases got)
      case (Inl e)
      with assms pv read True have "isNotFound e" "view = missingStatefulSetView (agentName agent) v"
        by (auto simp: readStatusView_def split: if_splits)
      with get_statefulSet(3) [OF read] Inl same show ?thesis by (auto simp: agentReady_def view_phases)
    next
      case (Inr sts)
      with assms pv read True have "view = workloadView sts v" by (auto simp: readStatusView_def)
      with get_statefulSet(2) [OF read] Inr same storage(1) True show ?thesis
        by (auto simp: agentReady_def workloadView_phase)
    qed
  qed
qed

lemma patched_status:
  assumes "patchStatus lib c hasRecorder agent mutate s = (None, s')" and "csAgents s (agentKey agent) = Some base"
  obtains status w where "csAgents s' (agentKey agent) = Some (base\<lparr>haStatus := status\<rparr>)"
    "saPhase status = saPhase (fst (mutate ((haStatus base)\<lparr>saObservedGeneration := omGeneration (haMeta base)\<rparr>, w)))"
    "saConditions status = saConditions (fst (mutate ((haStatus base)\<lparr>saObservedGeneration := omGeneration (haMeta base)\<rparr>, w)))"
    "status\<lparr>saLastReconcileTime := None\<rparr> =
       (fst (mutate ((haStatus base)\<lparr>saObservedGeneration := omGeneration (haMeta base)\<rparr>, w)))\<lparr>saLastReconcileTime := None\<rparr>"
proof (cases "onAgents (apiGetAgent (clAgents c) (agentKey agent)) s")
  case (Pair got s1)
  note got = get_agent [OF Pair]
  have got_base: "got = Inr base"
    using got(2,3) assms Pair by (cases got) (auto simp: patchStatus_def split: if_splits)
  have base: "csAgents s1 (agentKey agent) = Some base" "agentKey base = agentKey agent"
    using got(1,2) got_base by (auto simp: unchanged_stores)
  obtain status w where mutated:
    "mutate ((haStatus base)\<lparr>saObservedGeneration := omGeneration (haMeta base)\<rparr>, csHidden s1) = (status, w)" by force
  obtain time w2 where time: "now c w = (time, w2)" by force
  define latest where "latest = base\<lparr>haStatus := status\<lparr>saLastReconcileTime := Some time\<rparr>\<rparr>"
  obtain answer w3 st where patched: "apiPatchStatus (clAgents c) latest base (w2, csAgents s1) = (answer, w3, st)"
    by (metis prod_cases3)
  show thesis
  proof (cases "haStatus base = status")
    case True
    with assms Pair got_base mutated base show thesis
      by (intro that [of status "csHidden s1"]) (auto simp: patchStatus_def)
  next
    case False
    with assms(1) Pair got_base mutated time patched obtain answer' where answer: "answer = Inr answer'"
      and s': "csAgents s' = st"
      by (auto simp: patchStatus_def Let_def on_defs emitStatusEvent_def latest_def split: if_splits sum.splits)
    have "st = (csAgents s1)(agentKey latest \<mapsto> base\<lparr>haStatus := haStatus latest\<rparr>)"
      using agents.status_patched [of latest base w2 "csAgents s1"] patched answer base by (auto simp: latest_def)
    with s' base mutated show thesis
      by (intro that [of "haStatus latest" "csHidden s1"]) (auto simp: latest_def)
  qed
qed

lemma failure_not_ready: "\<not> reportsReady lib (fst (configFailure lib c agent h reason m r sw))"
  using statuses.failure_summaries(1) [of c reason m r "updateStatus (populateStatusMetadata agent h) sw"]
  by (simp add: reportsReady_def configFailure_def markConfigFailure_def Let_def phases)

lemma applied_ready:
  "reportsReady lib (fst (applyStatusView lib c agent h view sw)) \<longleftrightarrow>
     stvPhase view = phaseReady \<or> stvReadyConditionStatus view = ''True''"
  by (simp add: reportsReady_def statuses.applied_status [OF refl])

lemma patched_truthful:
  assumes "patchStatus lib c hasRecorder agent mutate s = (None, s')" and "csAgents s (agentKey agent) = Some agent"
    and "\<And>sw. reportsReady lib (fst (mutate sw)) \<Longrightarrow> agentReady agent s'"
  shows "truthful lib agent s'"
proof -
  from assms(1,2) obtain status w where stored: "csAgents s' (agentKey agent) = Some (agent\<lparr>haStatus := status\<rparr>)"
    and "saPhase status = saPhase (fst (mutate ((haStatus agent)\<lparr>saObservedGeneration := omGeneration (haMeta agent)\<rparr>, w)))"
    and "saConditions status = saConditions (fst (mutate ((haStatus agent)\<lparr>saObservedGeneration := omGeneration (haMeta agent)\<rparr>, w)))"
    by (rule patched_status)
  then have "reportsReady lib status \<Longrightarrow> agentReady agent s'"
    using assms(3) by (simp only: reportsReady_cong [of status])
  with stored show ?thesis by (simp add: truthful_def)
qed

lemma failure_truthful:
  assumes "returnStatusFailure lib c hasRecorder agent op cause (configFailure lib c agent h reason m r) s = (None, s')"
    and "csAgents s (agentKey agent) = Some agent"
  shows "truthful lib agent s'"
proof -
  have "patchStatus lib c hasRecorder agent (configFailure lib c agent h reason m r) s = (None, s')"
    using assms(1) by (auto simp: returnStatusFailure_def patchFailureStatus_def elim!: orFail_cases)
  then show ?thesis by (rule patched_truthful) (use assms(2) failure_not_ready in auto)
qed

lemma status_truthful:
  assumes "reconcileStatus lib c hasRecorder agent h s = (None, s')" and "csAgents s (agentKey agent) = Some agent"
  shows "truthful lib agent s'"
proof -
  obtain view s1 where view: "readStatusView c agent s = (Inr view, s1)"
    and patch: "patchStatus lib c hasRecorder agent (applyStatusView lib c agent h view) s1 = (None, s')"
    using assms(1) by (auto simp: reconcileStatus_def split: prod.splits sum.splits)
  have stored: "csAgents s1 (agentKey agent) = Some agent"
    using assms(2) status_view_unchanged [OF view] by (simp add: unchanged_stores)
  have same: "agentReady agent s' = agentReady agent s"
    using status_frame [OF assms(1)] by (intro agentReady_stores) blast+
  have "agentReady agent s'" if "reportsReady lib (fst (applyStatusView lib c agent h view sw))" for sw
    using that status_view_ready [OF view] unfolding applied_ready same by (auto split: if_splits)
  then show ?thesis by (rule patched_truthful [OF patch stored])
qed

lemma error_report_fails: "returnErrorWithStatus lib c hasRecorder agent op cause mutate s \<noteq> (None, s')"
  by (auto simp: returnErrorWithStatus_def elim!: orFail_cases)

lemma plan_passes:
  assumes "reconcilePlan lib c hasRecorder agent ri plan s = (None, s')"
  obtains s6 where "reconcileStatus lib c hasRecorder agent (cpHash plan) s6 = (None, s')" "csAgents s6 = csAgents s"
  using assms error_report_fails unfolding reconcilePlan_def
  by (elim orFail_cases) (auto dest!: generated_frame on_frames(3-7))

lemma agent_truthful:
  assumes "reconcileAgent lib c hasRecorder agent s = (None, s')" and "csAgents s (agentKey agent) = Some agent"
  shows "truthful lib agent s'"
proof -
  obtain resolved s1 where res: "resolveReferencedInputs c agent s = (resolved, s1)" by force
  have stored: "csAgents s1 (agentKey agent) = Some agent"
    using assms(2) resolve_unchanged [OF res] by (simp add: unchanged_stores)
  have plan: "reconcilePlan lib c hasRecorder agent ri plan s1 = (None, s') \<Longrightarrow> truthful lib agent s'" for ri plan
    using stored status_truthful by (metis plan_passes)
  show ?thesis
    using assms res stored failure_truthful plan error_report_fails
    by (auto simp: reconcileAgent_def Let_def split: sum.splits if_splits)
qed

lemma reconcile_truthful:
  assumes "Reconcile lib c hasRecorder request s = (None, s')" and "csAgents s request = Some agent"
  shows "truthful lib agent s'"
proof (cases "onAgents (apiGetAgent (clAgents c) request) s")
  case (Pair got s0)
  note got = get_agent [OF Pair]
  have "got = Inr agent" using got(2,3) assms Pair by (cases got) (auto simp: Reconcile_def split: if_splits)
  moreover from this have "csAgents s0 (agentKey agent) = Some agent" using got(1,2) by (auto simp: unchanged_stores)
  ultimately show ?thesis using assms(1) Pair agent_truthful by (simp add: Reconcile_def)
qed

end

text \<open>A server that stores what it gets.\<close>

definition plainAdmission :: serverAdmission where
  "plainAdmission = \<lparr>adConfigMap = \<lambda>old m. m, adSecret = \<lambda>old m. m, adClaim = \<lambda>old m. m, adStatefulSet = \<lambda>old m. m,
     adService = \<lambda>old m. m, adNetworkPolicy = \<lambda>old m. m, adBudget = \<lambda>old m. m\<rparr>"

lemma memory_status_conditions: "status_conditions memoryLib"
  by (simp add: status_conditions_def memoryLib_def memoryConditions.condition_api_axioms)

lemma memory_kube_client: "kube_client memoryLib (memoryClient known) (set known) plainAdmission"
  using memory_status_conditions
  by (simp add: kube_client_def memoryClient_def plainAdmission_def memory_kube_api memory_agent_api
      memoryOwnerLib.owner_lib_axioms)

interpretation memoryStatus: status_conditions memoryLib
  by (rule memory_status_conditions)

interpretation memoryKube: kube_client memoryLib "memoryClient known" "set known" plainAdmission for known
  by (rule memory_kube_client)

end
