(* ===== verification/Progress.thy ===== *)
theory Progress
  imports Reconciler
begin

text \<open>
  What a reconcile achieves.  The first half needs no more than the laws of the client: a reconcile that
  returns no error has brought every managed object to its desired state.  The second half shows that a
  reconcile does return no error when the API server answers, the configuration is valid and no object
  of another owner is in the way.
\<close>

section \<open>A server that answers\<close>

text \<open>Every object is stored under its own key.\<close>

definition keyed :: "('o \<Rightarrow> objectMeta) \<Rightarrow> (objectKey \<Rightarrow> 'o option) \<Rightarrow> bool" where
  "keyed metaOf st \<longleftrightarrow> (\<forall>k ob. st k = Some ob \<longrightarrow> keyOf (metaOf ob) = k)"

lemma keyedD: "keyed metaOf st \<Longrightarrow> st k = Some ob \<Longrightarrow> keyOf (metaOf ob) = k"
  unfolding keyed_def by blast

lemma keyed_upd: "keyed metaOf st \<Longrightarrow> keyOf (metaOf ob) = k \<Longrightarrow> keyed metaOf (st(k \<mapsto> ob))"
  by (simp add: keyed_def)

lemma keyed_delete: "keyed metaOf st \<Longrightarrow> keyed metaOf (st(k := None))"
  by (simp add: keyed_def)

text \<open>
  In a calm hidden state every call is answered: a stored object is found, an absent one is reported
  as such, an update whose mutate function succeeds is accepted, and a stored object can be deleted.
  The server does not rename what it stores.
\<close>

locale calm_api = kube_api api metaOf admit
  for api :: "('w, 'o) resourceAPI" and metaOf :: "'o \<Rightarrow> objectMeta" and admit :: "'o option \<Rightarrow> 'o \<Rightarrow> 'o" +
  fixes calm :: "'w \<Rightarrow> bool"
  assumes calm_found: "calm w \<Longrightarrow> st k = Some ob \<Longrightarrow> keyOf (metaOf ob) = k \<Longrightarrow>
      \<exists>w'. calm w' \<and> apiGet api k (w, st) = (Inr ob, w', st)"
    and calm_absent: "calm w \<Longrightarrow> st k = None \<Longrightarrow>
      \<exists>e w'. calm w' \<and> isNotFound e \<and> apiGet api k (w, st) = (Inl e, w', st)"
    and calm_update: "calm w \<Longrightarrow> f (case st (keyOf (metaOf ob)) of None \<Rightarrow> ob | Some old \<Rightarrow> old) = Inr m \<Longrightarrow>
      keyOf (metaOf m) = keyOf (metaOf ob) \<Longrightarrow> \<exists>w' st'. calm w' \<and> apiCreateOrUpdate api ob f (w, st) = (None, w', st')"
    and calm_delete: "calm w \<Longrightarrow> st (keyOf (metaOf ob)) = Some ob \<Longrightarrow>
      \<exists>w' st'. calm w' \<and> apiDelete api ob (w, st) = (None, w', st')"
    and admit_key: "keyOf (metaOf (admit old m)) = keyOf (metaOf m)"
begin

lemma update_passes:
  assumes "calm w" and "keyed metaOf st"
    and "f (case st (keyOf (metaOf ob)) of None \<Rightarrow> ob | Some old \<Rightarrow> old) = Inr m" and "keyOf (metaOf m) = keyOf (metaOf ob)"
  shows "\<exists>w' st'. apiCreateOrUpdate api ob f (w, st) = (None, w', st') \<and> calm w' \<and> keyed metaOf st'"
proof -
  obtain w' st' where call: "apiCreateOrUpdate api ob f (w, st) = (None, w', st')" and "calm w'"
    using calm_update [where w = w and f = f and st = st and ob = ob and m = m] assms by blast
  moreover have "keyed metaOf st'"
    using update_ok [OF call] assms(2-4) by (auto simp: admit_key intro!: keyed_upd)
  ultimately show ?thesis by blast
qed

lemma get_answers:
  assumes "calm w" and "keyed metaOf st"
  obtains r w' where "apiGet api k (w, st) = (r, w', st)" "calm w'" "\<forall>e. r = Inl e \<longrightarrow> isNotFound e"
proof (cases "st k")
  case None
  with calm_absent [OF assms(1)] that show thesis by (metis sum.inject(1))
next
  case (Some ob)
  with calm_found [where w = w and st = st and k = k and ob = ob] assms(1) keyedD [OF assms(2) Some] that show thesis by (metis sum.distinct(1))
qed

lemma delete_passes:
  assumes "calm w" and "keyed metaOf st" and "st (keyOf (metaOf ob)) = Some ob"
  shows "\<exists>w' st'. apiDelete api ob (w, st) = (None, w', st') \<and> calm w' \<and> keyed metaOf st'"
  using calm_delete [where w = w and st = st and ob = ob] delete_key assms keyed_delete by metis

end

lemma memory_calm_api: "calm_api (memoryAPI metaOf) metaOf (\<lambda>old m. m) (\<lambda>w. fst w = [])"
proof (intro calm_api.intro memory_kube_api)
  show "calm_api_axioms (memoryAPI metaOf) metaOf (\<lambda>old m. m) (\<lambda>w. fst w = [])"
    by unfold_locales (auto simp: memory_defs fails_def tick_def Let_def)
qed

interpretation memoryCalm: calm_api "memoryAPI metaOf" metaOf "\<lambda>old m. m" "\<lambda>w. fst w = []" for metaOf
  by (rule memory_calm_api)

section \<open>Steps that go well\<close>

text \<open>A calm server and stores in which every object is under its own key.\<close>

definition healthy :: "('w \<Rightarrow> bool) \<Rightarrow> 'w cluster \<Rightarrow> bool" where
  "healthy calm s \<longleftrightarrow> calm (csHidden s) \<and> keyed haMeta (csAgents s) \<and> keyed cmMeta (csConfigMaps s) \<and>
     keyed seMeta (csSecrets s) \<and> keyed pcMeta (csClaims s) \<and> keyed sfMeta (csStatefulSets s) \<and>
     keyed srvMeta (csServices s) \<and> keyed nyMeta (csNetworkPolicies s) \<and> keyed pdMeta (csBudgets s)"

definition goesWell :: "('w \<Rightarrow> bool) \<Rightarrow> (goError + 'a) \<times> 'w cluster \<Rightarrow> bool" where
  "goesWell calm rs \<longleftrightarrow> healthy calm (snd rs) \<and> isOk (fst rs)"

definition passes :: "('w \<Rightarrow> bool) \<Rightarrow> goError option \<times> 'w cluster \<Rightarrow> bool" where
  "passes calm rs \<longleftrightarrow> healthy calm (snd rs) \<and> fst rs = None"

definition passesOn :: "('w \<Rightarrow> bool) \<Rightarrow> ('o \<Rightarrow> objectMeta) \<Rightarrow>
    (('w, 'o) store \<Rightarrow> goError option \<times> ('w, 'o) store) \<Rightarrow> (objectKey \<Rightarrow> 'o option) \<Rightarrow> bool" where
  "passesOn calm metaOf f st \<longleftrightarrow>
     (\<forall>w. calm w \<longrightarrow> (\<exists>w' st'. f (w, st) = (None, w', st') \<and> calm w' \<and> keyed metaOf st'))"

lemma goesWell_simps [simp]: "goesWell calm (Inr x, s) = healthy calm s" "\<not> goesWell calm (Inl e, s)"
  by (simp_all add: goesWell_def)

lemma passes_simps [simp]: "passes calm (None, s) = healthy calm s" "\<not> passes calm (Some e, s)"
  by (simp_all add: passes_def)

lemma goesWell_andThen:
  assumes "goesWell calm rs" and "\<And>x s'. rs = (Inr x, s') \<Longrightarrow> healthy calm s' \<Longrightarrow> goesWell calm (f x s')"
  shows "goesWell calm (andThen rs f)"
  using assms by (cases rs; cases "fst rs") auto

lemma passes_orFail:
  assumes "passes calm rs" and "\<And>s'. rs = (None, s') \<Longrightarrow> healthy calm s' \<Longrightarrow> passes calm (rest s')"
  shows "passes calm (orFail rs handle rest)"
  using assms by (cases rs; cases "fst rs") auto

lemma passes_on:
  assumes "healthy calm s"
  shows "passesOn calm cmMeta fC (csConfigMaps s) \<Longrightarrow> passes calm (onConfigMaps fC s)"
    "passesOn calm pcMeta fP (csClaims s) \<Longrightarrow> passes calm (onClaims fP s)"
    "passesOn calm sfMeta fS (csStatefulSets s) \<Longrightarrow> passes calm (onStatefulSets fS s)"
    "passesOn calm srvMeta fV (csServices s) \<Longrightarrow> passes calm (onServices fV s)"
    "passesOn calm nyMeta fN (csNetworkPolicies s) \<Longrightarrow> passes calm (onNetworkPolicies fN s)"
    "passesOn calm pdMeta fB (csBudgets s) \<Longrightarrow> passes calm (onBudgets fB s)"
  using assms by (auto simp: passesOn_def healthy_def on_defs dest!: spec [of _ "csHidden s"])

section \<open>Guarded resources pass\<close>

context guarded_resource
begin

lemma reconcile_passes:
  assumes "calm_api api metaOf admit calm" and "keyed metaOf st"
    and "enabled \<Longrightarrow> pred_option (\<lambda>ob. owned ob \<and> isOk (mutate ob)) (st key)"
    and "isOk (mutate (initial None))" and "\<And>ob ob'. mutate ob = Inr ob' \<Longrightarrow> keyOf (metaOf ob') = keyOf (metaOf ob)"
  shows "passesOn calm metaOf reconcile st"
  unfolding passesOn_def
proof (intro allI impI)
  fix w
  assume calm: "calm w"
  note get = calm_api.calm_found [OF assms(1), where k = key] calm_api.calm_absent [OF assms(1), where k = key]
  show "\<exists>w' st'. reconcile (w, st) = (None, w', st') \<and> calm w' \<and> keyed metaOf st'"
  proof (cases "st key")
    case None
    then obtain e w1 where got: "calm w1" "isNotFound e" "apiGet api key (w, st) = (Inl e, w1, st)"
      using get(2) calm by blast
    obtain m where "mutate (initial None) = Inr m" using assms(4) by (auto simp: isOk_iff)
    with None got assms(2,5) show ?thesis
      using calm_api.update_passes [OF assms(1) got(1) assms(2), where ob = "initial None" and f = mutate and m = m]
      by (auto simp: shape initial_new)
  next
    case (Some ob)
    have key: "keyOf (metaOf ob) = key" using keyedD [OF assms(2) Some] .
    obtain w1 where got: "calm w1" "apiGet api key (w, st) = (Inr ob, w1, st)" using get(1) calm Some key by blast
    show ?thesis
    proof (cases enabled)
      case True
      then obtain m where m: "owned ob" "mutate ob = Inr m" using assms(3) Some by (auto simp: isOk_iff)
      with True got assms(2) key Some initial_old [OF key] assms(5) [OF m(2)] show ?thesis
        using calm_api.update_passes [OF assms(1) got(1) assms(2), where ob = "initial (Some ob)" and f = mutate and m = m]
        by (auto simp: shape)
    next
      case False
      with got assms(2) key Some show ?thesis
        using calm_api.delete_passes [OF assms(1) got(1) assms(2), where ob = ob] by (auto simp: shape)
    qed
  qed
qed

end

section \<open>The generated files of a plan\<close>

lemma resolved_name:
  "resolveConfigFile agent cid fileName source = Inr (Some f) \<Longrightarrow> rfGenerated f \<Longrightarrow>
     rfConfigMapName f = generatedConfigMapName (agentName agent) cid"
  by (auto simp: resolveConfigFile_def Let_def split: if_splits option.splits)

lemma plan_files:
  assumes "buildConfigPlanWithReferences marshal agent ri = Inr plan"
  shows "distinct (map rfConfigMapName (filter rfGenerated (cpFiles plan)))"
    and "f \<in> set (cpFiles plan) \<Longrightarrow> rfGenerated f \<Longrightarrow>
      rfConfigMapName f = generatedConfigMapName (agentName agent) ''config'' \<or>
      rfConfigMapName f = generatedConfigMapName (agentName agent) ''gateway-config''"
proof -
  obtain cf gf where cf: "resolveConfigFile agent ''config'' ''config.yaml'' (spConfig (haSpec agent)) = Inr cf"
    and gf: "resolveConfigFile agent ''gateway-config'' ''gateway.json'' (spGatewayConfig (haSpec agent)) = Inr gf"
    and files: "cpFiles plan = (case cf of None \<Rightarrow> [] | Some f \<Rightarrow> [f]) @ (case gf of None \<Rightarrow> [] | Some f \<Rightarrow> [f])"
    using assms by (auto simp: buildConfigPlanWithReferences_def Let_def split: option.splits sum.splits)
  then show "distinct (map rfConfigMapName (filter rfGenerated (cpFiles plan)))"
    using resolved_name by (auto simp: generatedConfigMapName_def split: option.splits)
  show "f \<in> set (cpFiles plan) \<Longrightarrow> rfGenerated f \<Longrightarrow>
      rfConfigMapName f = generatedConfigMapName (agentName agent) ''config'' \<or>
      rfConfigMapName f = generatedConfigMapName (agentName agent) ''gateway-config''"
    using files cf gf resolved_name by (auto split: option.splits)
qed

section \<open>What success means\<close>

text \<open>An object of the agent: the agent controls it and is named as its controller, and it carries the agent's labels.\<close>

abbreviation ownedBy :: "kubeLib \<Rightarrow> hermesAgent \<Rightarrow> objectMeta \<Rightarrow> bool" where
  "ownedBy lib agent \<equiv> markedAs (isControlledBy lib) (haMeta agent) (resourceLabels agent)"

text \<open>
  What the plan asks for of each kind.  Of a claim, the access modes count up to their order, and the storage
  class only when the spec names one; of the ports of a Service, the node port is the server's.
\<close>

definition publishes :: "kubeLib \<Rightarrow> hermesAgent \<Rightarrow> resolvedConfigFile \<Rightarrow> configMap \<Rightarrow> bool" where
  "publishes lib agent f cm \<longleftrightarrow>
     ownedBy lib agent (cmMeta cm) \<and> cmData cm = fmupd (rfSourceKey f) (rfContent f) fmempty"

definition claimFits :: "kubeLib \<Rightarrow> hermesAgent \<Rightarrow> persistentVolumeClaim \<Rightarrow> persistentVolumeClaim \<Rightarrow> bool" where
  "claimFits lib agent desired claim \<longleftrightarrow>
     ownedBy lib agent (pcMeta claim) \<and>
     mset (pcAccessModes (pcSpec claim)) = mset (pcAccessModes (pcSpec desired)) \<and>
     pcRequests (pcSpec claim) = pcRequests (pcSpec desired) \<and>
     (pvStorageClassName (stPersistence (spStorage (haSpec agent))) \<noteq> None \<longrightarrow>
        pcStorageClassName (pcSpec claim) = pcStorageClassName (pcSpec desired))"

definition statefulSetFits :: "kubeLib \<Rightarrow> hermesAgent \<Rightarrow> configPlan \<Rightarrow> statefulSet \<Rightarrow> bool" where
  "statefulSetFits lib agent plan sts \<longleftrightarrow>
     ownedBy lib agent (sfMeta sts) \<and> sfSpec sts = sfSpec (buildStatefulSet agent (buildPodTemplateInputs agent plan))"

definition serviceFits :: "kubeLib \<Rightarrow> hermesAgent \<Rightarrow> service \<Rightarrow> bool" where
  "serviceFits lib agent srv \<longleftrightarrow>
     ownedBy lib agent (srvMeta srv) \<and> omAnnotations (srvMeta srv) = svAnnotations (spService (haSpec agent)) \<and>
     srvType srv = srvType (buildService agent) \<and> srvSelector srv = srvSelector (buildService agent) \<and>
     map (poNodePort_update (\<lambda>_. 0)) (srvPorts srv) = map (poNodePort_update (\<lambda>_. 0)) (srvPorts (buildService agent))"

definition policyFits :: "kubeLib \<Rightarrow> hermesAgent \<Rightarrow> referencedInputState \<Rightarrow> networkPolicy \<Rightarrow> bool" where
  "policyFits lib agent ri np \<longleftrightarrow>
     ownedBy lib agent (nyMeta np) \<and>
     nySpec np = nySpec (buildNetworkPolicy agent (effectiveTerminalBackend (yamlBackend lib) agent ri))"

definition budgetFits :: "kubeLib \<Rightarrow> hermesAgent \<Rightarrow> podDisruptionBudget \<Rightarrow> bool" where
  "budgetFits lib agent pdb \<longleftrightarrow>
     ownedBy lib agent (pdMeta pdb) \<and> pdSelector pdb = pdSelector (buildPodDisruptionBudget agent) \<and>
     pdMaxUnavailable pdb = pdMaxUnavailable (buildPodDisruptionBudget agent)"

lemmas fits_defs = publishes_def claimFits_def statefulSetFits_def serviceFits_def policyFits_def budgetFits_def

text \<open>Every generated file and every enabled object of the agent is there as the plan asks for.\<close>

definition deployed ::
  "kubeLib \<Rightarrow> serverAdmission \<Rightarrow> hermesAgent \<Rightarrow> referencedInputState \<Rightarrow> configPlan \<Rightarrow> 'w cluster \<Rightarrow> bool" where
  "deployed lib ad agent ri plan s \<longleftrightarrow>
     list_all (\<lambda>f. holds (adConfigMap ad) (csConfigMaps s) (agentNamespace agent, rfConfigMapName f) (publishes lib agent f))
       (filter rfGenerated (cpFiles plan)) \<and>
     (persistenceEnabled agent \<longrightarrow>
        (case buildPersistentVolumeClaim (quantityOf lib) agent of
           Inl _ \<Rightarrow> False
         | Inr desired \<Rightarrow>
             holds (adClaim ad) (csClaims s) (agentNamespace agent, persistentVolumeClaimName (agentName agent))
               (claimFits lib agent desired))) \<and>
     holds (adStatefulSet ad) (csStatefulSets s) (agentKey agent) (statefulSetFits lib agent plan) \<and>
     (serviceEnabled agent \<longrightarrow> holds (adService ad) (csServices s) (agentKey agent) (serviceFits lib agent)) \<and>
     (networkPolicyEnabled agent \<longrightarrow>
        holds (adNetworkPolicy ad) (csNetworkPolicies s) (agentKey agent) (policyFits lib agent ri)) \<and>
     (podDisruptionBudgetEnabled agent \<longrightarrow> holds (adBudget ad) (csBudgets s) (agentKey agent) (budgetFits lib agent))"

context kube_client
begin

lemma generated_holds:
  assumes "reconcileGeneratedConfigMaps lib c agent plan s = (None, s')"
    and "distinct (map rfConfigMapName (filter rfGenerated (cpFiles plan)))"
    and "\<And>f old m. mutateConfigMap lib agent f old = Inr m \<Longrightarrow> P f m"
  shows "list_all (\<lambda>f. holds (adConfigMap ad) (csConfigMaps s') (agentNamespace agent, rfConfigMapName f) (P f))
    (filter rfGenerated (cpFiles plan))"
proof -
  obtain names s1 where files: "reconcileFiles lib c agent (cpFiles plan) {} s = (Inr names, s1)"
    and clean: "cleanupStaleGeneratedConfigMaps lib c agent names s1 = (None, s')"
    using assms(1) by (auto simp: reconcileGeneratedConfigMaps_def split: prod.splits sum.splits)
  note pub = reconcileFiles_holds [OF configMaps.kube_api_axioms files assms(2), where P = P, OF assms(3)]
  have "csConfigMaps s' (agentNamespace agent, n) = csConfigMaps s1 (agentNamespace agent, n)" if "n \<in> names" for n
  proof -
    obtain got s2 where got: "onStatefulSets (apiGet (clStatefulSets c) (agentKey agent)) s1 = (got, s2)" by force
    have same: "csConfigMaps s2 = csConfigMaps s1" using get_statefulSet(1) [OF got] by (simp add: unchanged_stores)
    have "s' = s2 \<or> (\<exists>w w' e. cleanupGeneratedIds lib c agent names [''config'', ''gateway-config''] (w, csConfigMaps s1) =
        (e, w', csConfigMaps s'))"
      using clean got same
      by (cases got) (auto simp: cleanupStaleGeneratedConfigMaps_def onConfigMaps_def split: if_splits prod.splits)
    then show ?thesis
    proof (elim disjE exE)
      fix w w' e
      assume "cleanupGeneratedIds lib c agent names [''config'', ''gateway-config''] (w, csConfigMaps s1) = (e, w', csConfigMaps s')"
      from cleanup_safe [OF configMaps.kube_api_axioms this, of "(agentNamespace agent, n)"] that show ?thesis by auto
    qed (simp add: same)
  qed
  then show ?thesis
    using pub(1,2) by (auto simp: list_all_iff intro: holds_cong [THEN iffD2])
qed

lemma configMap_published: "mutateConfigMap lib agent f old = Inr m \<Longrightarrow> publishes lib agent f m"
  using owners.configMapMutator.mutated_marked [of agent f old m]
  by (auto simp: publishes_def mutateConfigMap_def split: sum.splits)

lemma claim_deployed:
  assumes "reconcilePersistentVolumeClaim lib c agent (w, st) = (None, w', st')" and "persistenceEnabled agent"
  shows "case buildPersistentVolumeClaim (quantityOf lib) agent of
      Inl _ \<Rightarrow> False
    | Inr desired \<Rightarrow> holds (adClaim ad) st' (agentNamespace agent, persistentVolumeClaimName (agentName agent)) (claimFits lib agent desired)"
  using claims.kube_api_axioms assms(1) refl
proof (cases rule: reconcileClaim_cases)
  case (called desired init w1)
  have "holds (adClaim ad) st' (agentNamespace agent, persistentVolumeClaimName (agentName agent)) (claimFits lib agent desired)"
  proof (rule claims.update_holds [OF called(4) _ called(3)])
    fix old m
    assume m: "mutateClaim lib agent desired (st (agentNamespace agent, persistentVolumeClaimName (agentName agent)) \<noteq> None) old = Inr m"
    then show "claimFits lib agent desired m"
      using owners.claimMutator.mutated_marked [OF m] claim_built [OF called(2)]
      by (auto simp: claimFits_def mutateClaim_Inr no_drift_iff split: if_splits)
  qed
  with called(2) show ?thesis by simp
qed (use assms(2) in simp)

lemma statefulSet_deployed:
  assumes "reconcileStatefulSet lib c agent (buildPodTemplateInputs agent plan) (w, st) = (None, w', st')"
  shows "holds (adStatefulSet ad) st' (agentKey agent) (statefulSetFits lib agent plan)"
proof (rule statefulSets.update_holds [OF assms [unfolded reconcileStatefulSet_def]])
  fix old m
  assume m: "mutateStatefulSet lib agent (buildPodTemplateInputs agent plan) old = Inr m"
  then show "statefulSetFits lib agent plan m"
    using owners.statefulSetMutator.mutated_marked [OF m]
    by (auto simp: statefulSetFits_def mutateStatefulSet_def Let_def split: sum.splits)
qed simp

lemma keepNodePort_ports:
  "map (poNodePort_update (\<lambda>_. 0)) (keepNodePort ty existing ports) = map (poNodePort_update (\<lambda>_. 0)) ports"
proof (cases "length existing = 1 \<and> length ports = 1")
  case True
  then show ?thesis by (auto simp: length_Suc_conv keepNodePort_one)
qed (simp add: keepNodePort_none)

lemma service_deployed:
  assumes "reconcileService lib c agent (w, st) = (None, w', st')" and "serviceEnabled agent"
  shows "holds (adService ad) st' (agentKey agent) (serviceFits lib agent)"
proof (rule serviceGuard.enabled_holds [OF services.kube_api_axioms assms])
  fix old m
  assume m: "mutateService lib agent (buildService agent) old = Inr m"
  then show "serviceFits lib agent m"
    using owners.serviceMutator.mutated_marked [OF m]
    by (auto simp: serviceFits_def mutateService_def keepNodePort_ports owners.ownedMeta_facts split: sum.splits)
qed

lemma networkPolicy_deployed:
  assumes "reconcileNetworkPolicy lib c agent ri (w, st) = (None, w', st')" and "networkPolicyEnabled agent"
  shows "holds (adNetworkPolicy ad) st' (agentKey agent) (policyFits lib agent ri)"
proof (rule networkPolicyGuard.enabled_holds [OF networkPolicies.kube_api_axioms assms])
  fix old m
  assume m: "mutateNetworkPolicy lib agent (buildNetworkPolicy agent (effectiveTerminalBackend (yamlBackend lib) agent ri)) old = Inr m"
  then show "policyFits lib agent ri m"
    using owners.networkPolicyMutator.mutated_marked [OF m]
    by (auto simp: policyFits_def mutateNetworkPolicy_def split: sum.splits)
qed

lemma budget_deployed:
  assumes "reconcilePodDisruptionBudget lib c agent (w, st) = (None, w', st')" and "podDisruptionBudgetEnabled agent"
  shows "holds (adBudget ad) st' (agentKey agent) (budgetFits lib agent)"
proof (rule budgetGuard.enabled_holds [OF budgets.kube_api_axioms assms])
  fix old m
  assume m: "mutatePodDisruptionBudget lib agent old = Inr m"
  then show "budgetFits lib agent m"
    using owners.budgetMutator.mutated_marked [OF m]
    by (auto simp: budgetFits_def mutatePodDisruptionBudget_def Let_def split: sum.splits)
qed

lemma on_calls:
  "onClaims fP s = (rP, s') \<Longrightarrow> fP (csHidden s, csClaims s) = (rP, csHidden s', csClaims s')"
  "onStatefulSets fS s = (rS, s') \<Longrightarrow> fS (csHidden s, csStatefulSets s) = (rS, csHidden s', csStatefulSets s')"
  "onServices fV s = (rV, s') \<Longrightarrow> fV (csHidden s, csServices s) = (rV, csHidden s', csServices s')"
  "onNetworkPolicies fN s = (rN, s') \<Longrightarrow> fN (csHidden s, csNetworkPolicies s) = (rN, csHidden s', csNetworkPolicies s')"
  "onBudgets fB s = (rB, s') \<Longrightarrow> fB (csHidden s, csBudgets s) = (rB, csHidden s', csBudgets s')"
  by (auto simp: on_defs split: prod.splits)

text \<open>A run of the second half without an error passes through all its steps and ends with the status.\<close>

lemma plan_ends:
  assumes "reconcilePlan lib c hasRecorder agent ri plan s = (None, s')"
  obtains s6 where "reconcileStatus lib c hasRecorder agent (cpHash plan) s6 = (None, s')"
    "csAgents s6 = csAgents s" "csEvents s6 = csEvents s"
  using assms error_report_fails unfolding reconcilePlan_def
  by (elim orFail_cases) (auto dest!: generated_frame on_frames(3-7))

lemma plan_steps:
  assumes "reconcilePlan lib c hasRecorder agent ri plan s = (None, s')"
  obtains s1 s2 s3 s4 s5 s6 :: "'w cluster" where
    "reconcileGeneratedConfigMaps lib c agent plan s = (None, s1)" "csConfigMaps s' = csConfigMaps s1"
    "reconcilePersistentVolumeClaim lib c agent (csHidden s1, csClaims s1) = (None, csHidden s2, csClaims s')"
    "reconcileStatefulSet lib c agent (buildPodTemplateInputs agent plan) (csHidden s2, csStatefulSets s2) =
      (None, csHidden s3, csStatefulSets s')"
    "reconcileService lib c agent (csHidden s3, csServices s3) = (None, csHidden s4, csServices s')"
    "reconcileNetworkPolicy lib c agent ri (csHidden s4, csNetworkPolicies s4) = (None, csHidden s5, csNetworkPolicies s')"
    "reconcilePodDisruptionBudget lib c agent (csHidden s5, csBudgets s5) = (None, csHidden s6, csBudgets s')"
proof -
  obtain s1 s2 s3 s4 s5 s6 where steps:
    "reconcileGeneratedConfigMaps lib c agent plan s = (None, s1)"
    "onClaims (reconcilePersistentVolumeClaim lib c agent) s1 = (None, s2)"
    "onStatefulSets (reconcileStatefulSet lib c agent (buildPodTemplateInputs agent plan)) s2 = (None, s3)"
    "onServices (reconcileService lib c agent) s3 = (None, s4)"
    "onNetworkPolicies (reconcileNetworkPolicy lib c agent ri) s4 = (None, s5)"
    "onBudgets (reconcilePodDisruptionBudget lib c agent) s5 = (None, s6)"
    "reconcileStatus lib c hasRecorder agent (cpHash plan) s6 = (None, s')"
    using assms(1) error_report_fails unfolding reconcilePlan_def by (elim orFail_cases) auto
  note frames = generated_frame [OF steps(1)] on_frames(3) [OF steps(2)] on_frames(4) [OF steps(3)]
    on_frames(5) [OF steps(4)] on_frames(6) [OF steps(5)] on_frames(7) [OF steps(6)] status_frame [OF steps(7)]
  have stores: "csConfigMaps s' = csConfigMaps s1" "csClaims s' = csClaims s2" "csStatefulSets s' = csStatefulSets s3"
    "csServices s' = csServices s4" "csNetworkPolicies s' = csNetworkPolicies s5" "csBudgets s' = csBudgets s6"
    using frames by simp_all
  show thesis
    by (rule that [of s1 s2 s3 s4 s5 s6, OF steps(1) stores(1)])
      (use on_calls(1) [OF steps(2)] on_calls(2) [OF steps(3)] on_calls(3) [OF steps(4)] on_calls(4) [OF steps(5)]
        on_calls(5) [OF steps(6)] in \<open>simp_all only: stores\<close>)
qed

lemma plan_deploys:
  assumes "reconcilePlan lib c hasRecorder agent ri plan s = (None, s')"
    and "distinct (map rfConfigMapName (filter rfGenerated (cpFiles plan)))"
  shows "deployed lib ad agent ri plan s'"
  using assms(1)
proof (cases rule: plan_steps)
  case (1 s1 s2 s3 s4 s5 s6)
  show ?thesis
    unfolding deployed_def 1(2)
    using generated_holds [OF 1(1) assms(2) configMap_published] claim_deployed [OF 1(3)] statefulSet_deployed [OF 1(4)]
      service_deployed [OF 1(5)] networkPolicy_deployed [OF 1(6)] budget_deployed [OF 1(7)]
    by (intro conjI impI)
qed

lemma success_runs_plan:
  assumes "Reconcile lib c hasRecorder request s = (None, s')" and "csAgents s request = Some agent"
    and "ri = referencedInputsOf (\<lambda>n. csConfigMaps s (agentNamespace agent, n)) (\<lambda>n. csSecrets s (agentNamespace agent, n)) agent"
    and "missingReferenceMessages ri = []" and "buildConfigPlanWithReferences (jsonMarshal lib) agent ri = Inr plan"
  obtains s1 where "unchanged s s1" "agentKey agent = request" "reconcilePlan lib c hasRecorder agent ri plan s1 = (None, s')"
proof (cases "onAgents (apiGetAgent (clAgents c) request) s")
  case (Pair got s1)
  note got = get_agent [OF Pair]
  have agent: "got = Inr agent" using got(2,3) assms(1,2) Pair by (cases got) (auto simp: Reconcile_def split: if_splits)
  have key: "agentKey agent = request" using got(2) agent by blast
  have run: "reconcileAgent lib c hasRecorder agent s1 = (None, s')" using assms(1) Pair agent by (simp add: Reconcile_def)
  obtain plan0 where plan0: "buildConfigPlan (jsonMarshal lib) agent = Inr plan0"
    using assms(5) buildConfigPlan_ok by (metis buildConfigPlan_def isOk_iff)
  obtain resolved s2 where res: "resolveReferencedInputs c agent s1 = (resolved, s2)" by force
  have same: "unchanged s s2" using got(1) resolve_unchanged [OF res] by (rule unchanged_trans)
  have "resolved = Inr ri"
  proof (cases resolved)
    case (Inl e)
    with run plan0 res error_report_fails show ?thesis by (simp add: reconcileAgent_def)
  next
    case (Inr ri')
    with resolve_value [of agent s1] res got(1) assms(3) show ?thesis by (simp add: unchanged_stores)
  qed
  with run plan0 res assms(4,5) have "reconcilePlan lib c hasRecorder agent ri plan s2 = (None, s')"
    by (simp add: reconcileAgent_def)
  with same key show thesis by (rule that)
qed

lemma reconcile_deploys:
  assumes "Reconcile lib c hasRecorder request s = (None, s')" and "csAgents s request = Some agent"
    and "ri = referencedInputsOf (\<lambda>n. csConfigMaps s (agentNamespace agent, n)) (\<lambda>n. csSecrets s (agentNamespace agent, n)) agent"
    and "missingReferenceMessages ri = []" and "buildConfigPlanWithReferences (jsonMarshal lib) agent ri = Inr plan"
  shows "deployed lib ad agent ri plan s'"
  using success_runs_plan [OF assms] plan_deploys plan_files(1) [OF assms(5)] by metis

end

section \<open>The contract of a calm client\<close>

text \<open>No controller but the owner itself.\<close>

definition unclaimed :: "objectMeta \<Rightarrow> objectMeta \<Rightarrow> bool" where
  "unclaimed owner m \<longleftrightarrow>
     list_all (\<lambda>ref. orController ref = Some True \<longrightarrow> agentReference owner ref \<and> orUID ref = omUID owner)
       (omOwnerReferences m)"

text \<open>
  Nothing is in the way of an agent: the objects under its names have no other controller, those that
  are guarded belong to it, the claim can be built and has not drifted.
\<close>

definition unobstructed :: "kubeLib \<Rightarrow> hermesAgent \<Rightarrow> 'w cluster \<Rightarrow> bool" where
  "unobstructed lib agent s \<longleftrightarrow>
     list_all (\<lambda>cid. pred_option (\<lambda>cm. unclaimed (haMeta agent) (cmMeta cm))
       (csConfigMaps s (agentNamespace agent, generatedConfigMapName (agentName agent) cid))) [''config'', ''gateway-config''] \<and>
     (persistenceEnabled agent \<longrightarrow>
       (case buildPersistentVolumeClaim (quantityOf lib) agent of
          Inl _ \<Rightarrow> False
        | Inr desired \<Rightarrow>
            pred_option (\<lambda>claim. unclaimed (haMeta agent) (pcMeta claim) \<and>
                persistentVolumeClaimImmutableFieldDrift agent (pcSpec claim) (pcSpec desired) = [])
              (csClaims s (agentNamespace agent, persistentVolumeClaimName (agentName agent))))) \<and>
     pred_option (\<lambda>sts. unclaimed (haMeta agent) (sfMeta sts)) (csStatefulSets s (agentKey agent)) \<and>
     (serviceEnabled agent \<longrightarrow>
       pred_option (\<lambda>srv. isControlledBy lib (srvMeta srv) (haMeta agent) \<and> unclaimed (haMeta agent) (srvMeta srv))
         (csServices s (agentKey agent))) \<and>
     (networkPolicyEnabled agent \<longrightarrow>
       pred_option (\<lambda>np. isControlledBy lib (nyMeta np) (haMeta agent) \<and> unclaimed (haMeta agent) (nyMeta np))
         (csNetworkPolicies s (agentKey agent))) \<and>
     (podDisruptionBudgetEnabled agent \<longrightarrow>
       pred_option (\<lambda>pdb. isControlledBy lib (pdMeta pdb) (haMeta agent) \<and> unclaimed (haMeta agent) (pdMeta pdb))
         (csBudgets s (agentKey agent)))"

text \<open>
  A calm client serves every kind, its clock stays calm, the custom resource can be read and its
  status patched, and an object in the owner's namespace without another controller can be owned.
\<close>

locale calm_client =
  kube_client lib c known ad +
  configMaps: calm_api "clConfigMaps c" cmMeta "adConfigMap ad" calm +
  secrets: calm_api "clSecrets c" seMeta "adSecret ad" calm +
  claims: calm_api "clClaims c" pcMeta "adClaim ad" calm +
  statefulSets: calm_api "clStatefulSets c" sfMeta "adStatefulSet ad" calm +
  services: calm_api "clServices c" srvMeta "adService ad" calm +
  networkPolicies: calm_api "clNetworkPolicies c" nyMeta "adNetworkPolicy ad" calm +
  budgets: calm_api "clBudgets c" pdMeta "adBudget ad" calm
  for lib :: kubeLib and c :: "'w kubeClient" and known :: "objectKey set" and ad :: serverAdmission
    and calm :: "'w \<Rightarrow> bool" +
  assumes calm_agent: "calm w \<Longrightarrow> st k = Some agent \<Longrightarrow> agentKey agent = k \<Longrightarrow>
      \<exists>w'. calm w' \<and> apiGetAgent (clAgents c) k (w, st) = (Inr agent, w', st)"
    and calm_patch: "calm w \<Longrightarrow> st (agentKey latest) = Some base \<Longrightarrow>
      \<exists>answer w' st'. calm w' \<and> apiPatchStatus (clAgents c) latest base (w, st) = (Inr answer, w', st')"
    and calm_clock: "calm w \<Longrightarrow> calm (snd (clNow c w))"
    and unclaimed_taken: "unclaimed owner m \<Longrightarrow> omNamespace m = omNamespace owner \<Longrightarrow>
      isOk (setControllerReference lib owner m)"
begin

lemma owned_ok:
  "unclaimed (haMeta agent) m \<Longrightarrow> omNamespace m = agentNamespace agent \<Longrightarrow> isOk (ownedMeta lib agent labels m)"
  unfolding ownedMeta_def by (rule unclaimed_taken) (simp_all add: unclaimed_def)

subsection \<open>Reading the referenced objects\<close>

lemma read_goesWell:
  assumes "healthy calm s"
  shows "goesWell calm (getConfigMapForReference c ns n s)" "goesWell calm (getSecretForReference c ns n s)"
proof -
  have calm: "calm (csHidden s)" "keyed cmMeta (csConfigMaps s)" "keyed seMeta (csSecrets s)"
    using assms by (simp_all add: healthy_def)
  obtain r w' where "apiGet (clConfigMaps c) (ns, n) (csHidden s, csConfigMaps s) = (r, w', csConfigMaps s)"
    "calm w'" "\<forall>e. r = Inl e \<longrightarrow> isNotFound e" using configMaps.get_answers [OF calm(1,2), of "(ns, n)"] .
  with assms show "goesWell calm (getConfigMapForReference c ns n s)"
    by (auto simp: getConfigMapForReference_def on_defs goesWell_def healthy_def split: sum.splits)
  obtain r w' where "apiGet (clSecrets c) (ns, n) (csHidden s, csSecrets s) = (r, w', csSecrets s)"
    "calm w'" "\<forall>e. r = Inl e \<longrightarrow> isNotFound e" using secrets.get_answers [OF calm(1,3), of "(ns, n)"] .
  with assms show "goesWell calm (getSecretForReference c ns n s)"
    by (auto simp: getSecretForReference_def on_defs goesWell_def healthy_def split: sum.splits)
qed

lemma snapshot_goesWell:
  assumes "healthy calm s"
  shows "goesWell calm (appendSnapshot (getConfigMapForReference c ns) nameOf snap ref acc s)"
    "goesWell calm (appendSnapshot (getSecretForReference c ns) nameOf snap' ref acc s)"
  using assms unfolding appendSnapshot_def
  by (auto split: option.splits intro!: goesWell_andThen read_goesWell)

lemma appended_goesWell:
  "healthy calm s \<Longrightarrow> goesWell calm (appendConfigFileSnapshots c ns sources acc s)"
  "healthy calm s \<Longrightarrow> goesWell calm (appendFileMountSnapshots c ns ms acc s)"
  "healthy calm s \<Longrightarrow> goesWell calm (appendEnvValueSnapshots c ns vs acc s)"
  "healthy calm s \<Longrightarrow> goesWell calm (appendEnvFromSnapshots c ns froms acc s)"
  "healthy calm s \<Longrightarrow> goesWell calm (appendSecretRefSnapshots c ns rs acc s)"
  subgoal by (induction sources arbitrary: acc s) (auto intro!: goesWell_andThen snapshot_goesWell)
  subgoal by (induction ms arbitrary: acc s) (auto intro!: goesWell_andThen snapshot_goesWell)
  subgoal by (induction vs arbitrary: acc s) (auto intro!: goesWell_andThen snapshot_goesWell split: option.splits)
  subgoal by (induction froms arbitrary: acc s) (auto intro!: goesWell_andThen snapshot_goesWell)
  subgoal by (induction rs arbitrary: acc s) (auto intro!: goesWell_andThen snapshot_goesWell)
  done

lemma resolve_goesWell: "healthy calm s \<Longrightarrow> goesWell calm (resolveReferencedInputs c agent s)"
  unfolding resolveReferencedInputs_def Let_def
  by (intro goesWell_andThen appended_goesWell) simp_all

subsection \<open>The managed objects\<close>

lemma new_unclaimed [simp]: "unclaimed owner (newMeta ns n)"
  by (simp add: unclaimed_def newMeta_def zeroMeta_def)

lemma mutated_ok:
  "isOk (mutateConfigMap lib agent f cm) = isOk (ownedMeta lib agent (resourceLabels agent) (cmMeta cm))"
  "isOk (mutateStatefulSet lib agent inputs sts) = isOk (ownedMeta lib agent (resourceLabels agent) (sfMeta sts))"
  "isOk (mutatePodDisruptionBudget lib agent pdb) = isOk (ownedMeta lib agent (resourceLabels agent) (pdMeta pdb))"
  "isOk (mutateNetworkPolicy lib agent np' np) = isOk (ownedMeta lib agent (omLabels (nyMeta np')) (nyMeta np))"
  "isOk (mutateService lib agent srv' srv) = isOk (ownedMeta lib agent (omLabels (srvMeta srv'))
     ((srvMeta srv)\<lparr>omAnnotations := omAnnotations (srvMeta srv')\<rparr>))"
  by (auto simp: mutateConfigMap_def mutateStatefulSet_def mutatePodDisruptionBudget_def mutateNetworkPolicy_def
      mutateService_def buildStatefulSet_def buildPodDisruptionBudget_def namedMeta_def Let_def split: sum.splits)

lemma ns_of_key: "keyOf m = (ns, n) \<Longrightarrow> omNamespace m = ns"
  by (simp add: keyOf_def)

lemma new_meta [simp]:
  "omNamespace (newMeta ns n) = ns" "omName (newMeta ns n) = n" "keyOf (newMeta ns n) = (ns, n)" "cmMeta (newConfigMap ns n) = newMeta ns n"
  "sfMeta (newStatefulSet ns n) = newMeta ns n" "srvMeta (newService ns n) = newMeta ns n"
  "nyMeta (newNetworkPolicy ns n) = newMeta ns n" "pdMeta (newPodDisruptionBudget ns n) = newMeta ns n"
  "pcMeta (newClaim ns n) = newMeta ns n"
  by (simp_all add: newMeta_def newConfigMap_def newStatefulSet_def newService_def newNetworkPolicy_def
      newPodDisruptionBudget_def newClaim_def keyOf_def)

lemma unclaimed_annotations [simp]: "unclaimed owner (m\<lparr>omAnnotations := a\<rparr>) = unclaimed owner m"
  by (simp add: unclaimed_def)

lemma service_passes:
  assumes "healthy calm s" and "unobstructed lib agent s"
  shows "passesOn calm srvMeta (reconcileService lib c agent) (csServices s)"
proof (rule serviceGuard.reconcile_passes [OF services.calm_api_axioms])
  show keyed: "keyed srvMeta (csServices s)" using assms(1) by (simp add: healthy_def)
  show "serviceEnabled agent \<Longrightarrow> pred_option (\<lambda>srv. isControlledBy lib (srvMeta srv) (haMeta agent) \<and>
      isOk (mutateService lib agent (buildService agent) srv)) (csServices s (agentKey agent))"
    using assms(2) keyedD [OF keyed, of "agentKey agent"]
    by (cases "csServices s (agentKey agent)") (auto simp: unobstructed_def mutated_ok owned_ok ns_of_key)
qed (auto simp: mutated_ok owned_ok owners.serviceMutator.mutated_key)

lemma networkPolicy_passes:
  assumes "healthy calm s" and "unobstructed lib agent s"
  shows "passesOn calm nyMeta (reconcileNetworkPolicy lib c agent ri) (csNetworkPolicies s)"
proof (rule networkPolicyGuard.reconcile_passes [OF networkPolicies.calm_api_axioms])
  show keyed: "keyed nyMeta (csNetworkPolicies s)" using assms(1) by (simp add: healthy_def)
  show "networkPolicyEnabled agent \<Longrightarrow> pred_option (\<lambda>np. isControlledBy lib (nyMeta np) (haMeta agent) \<and>
      isOk (mutateNetworkPolicy lib agent (buildNetworkPolicy agent (effectiveTerminalBackend (yamlBackend lib) agent ri)) np))
      (csNetworkPolicies s (agentKey agent))"
    using assms(2) keyedD [OF keyed, of "agentKey agent"]
    by (cases "csNetworkPolicies s (agentKey agent)") (auto simp: unobstructed_def mutated_ok owned_ok ns_of_key)
qed (auto simp: mutated_ok owned_ok owners.networkPolicyMutator.mutated_key)

lemma budget_passes:
  assumes "healthy calm s" and "unobstructed lib agent s"
  shows "passesOn calm pdMeta (reconcilePodDisruptionBudget lib c agent) (csBudgets s)"
proof (rule budgetGuard.reconcile_passes [OF budgets.calm_api_axioms])
  show keyed: "keyed pdMeta (csBudgets s)" using assms(1) by (simp add: healthy_def)
  show "podDisruptionBudgetEnabled agent \<Longrightarrow> pred_option (\<lambda>pdb. isControlledBy lib (pdMeta pdb) (haMeta agent) \<and>
      isOk (mutatePodDisruptionBudget lib agent pdb)) (csBudgets s (agentKey agent))"
    using assms(2) keyedD [OF keyed, of "agentKey agent"]
    by (cases "csBudgets s (agentKey agent)") (auto simp: unobstructed_def mutated_ok owned_ok ns_of_key)
qed (auto simp: mutated_ok owned_ok owners.budgetMutator.mutated_key)

lemma statefulSet_passes:
  assumes "healthy calm s" and "unobstructed lib agent s"
  shows "passesOn calm sfMeta (reconcileStatefulSet lib c agent inputs) (csStatefulSets s)"
  unfolding passesOn_def
proof (intro allI impI)
  fix w
  assume calm: "calm w"
  have keyed: "keyed sfMeta (csStatefulSets s)" using assms(1) by (simp add: healthy_def)
  let ?old = "case csStatefulSets s (agentKey agent) of None \<Rightarrow> newStatefulSet (agentNamespace agent) (agentName agent) | Some old \<Rightarrow> old"
  have "isOk (mutateStatefulSet lib agent inputs ?old)" and key: "keyOf (sfMeta ?old) = agentKey agent"
  proof -
    have "pred_option (\<lambda>sts. unclaimed (haMeta agent) (sfMeta sts)) (csStatefulSets s (agentKey agent))"
      using assms(2) by (simp add: unobstructed_def)
    then have "unclaimed (haMeta agent) (sfMeta ?old) \<and> keyOf (sfMeta ?old) = agentKey agent"
      using keyedD [OF keyed, of "agentKey agent"]
      by (cases "csStatefulSets s (agentKey agent)") simp_all
    then show "isOk (mutateStatefulSet lib agent inputs ?old)" "keyOf (sfMeta ?old) = agentKey agent"
      using owned_ok [of agent "sfMeta ?old"] ns_of_key [of "sfMeta ?old"] by (simp_all add: mutated_ok)
  qed
  then obtain m where m: "mutateStatefulSet lib agent inputs ?old = Inr m" by (auto simp: isOk_iff)
  then have "keyOf (sfMeta m) = agentKey agent" using owners.statefulSetMutator.mutated_key key by simp
  with m show "\<exists>w' st'. reconcileStatefulSet lib c agent inputs (w, csStatefulSets s) = (None, w', st') \<and> calm w' \<and> keyed sfMeta st'"
    using statefulSets.update_passes [OF calm keyed, where ob = "newStatefulSet (agentNamespace agent) (agentName agent)"
        and f = "mutateStatefulSet lib agent inputs" and m = m]
    by (simp add: reconcileStatefulSet_def)
qed

text \<open>The claim is created when it is absent, and updated when the agent may have it and it did not drift.\<close>

lemma absent_claim_passes:
  assumes calm: "calm w" and keyed: "keyed pcMeta st" and "persistenceEnabled agent"
    and desired: "buildPersistentVolumeClaim (quantityOf lib) agent = Inr desired"
    and absent: "st (agentNamespace agent, persistentVolumeClaimName (agentName agent)) = None"
  shows "\<exists>w' st'. reconcilePersistentVolumeClaim lib c agent (w, st) = (None, w', st') \<and> calm w' \<and> keyed pcMeta st'"
proof -
  let ?key = "(agentNamespace agent, persistentVolumeClaimName (agentName agent))"
  let ?claim = "newClaim (agentNamespace agent) (snd ?key)"
  obtain e w1 where got: "calm w1" "isNotFound e" "apiGet (clClaims c) ?key (w, st) = (Inl e, w1, st)"
    using claims.calm_absent [of w st ?key] calm absent by blast
  obtain owned where "ownedMeta lib agent (omLabels (pcMeta desired)) (pcMeta ?claim) = Inr owned"
    using owned_ok [of agent "pcMeta ?claim"] by (auto simp: isOk_iff)
  then obtain m where m: "mutateClaim lib agent desired False ?claim = Inr m"
    by (simp add: mutateClaim_Inr)
  show ?thesis
    using claims.update_passes [OF got(1) keyed, where ob = ?claim and f = "mutateClaim lib agent desired False" and m = m]
      absent m owners.claimMutator.mutated_key [OF m] assms(3) desired got claim_built [OF desired]
    by (simp add: reconcilePersistentVolumeClaim_def)
qed

lemma stored_claim_passes:
  assumes calm: "calm w" and keyed: "keyed pcMeta st" and "persistenceEnabled agent"
    and desired: "buildPersistentVolumeClaim (quantityOf lib) agent = Inr desired"
    and stored: "st (agentNamespace agent, persistentVolumeClaimName (agentName agent)) = Some claim"
    and fits: "unclaimed (haMeta agent) (pcMeta claim)"
      "persistentVolumeClaimImmutableFieldDrift agent (pcSpec claim) (pcSpec desired) = []"
  shows "\<exists>w' st'. reconcilePersistentVolumeClaim lib c agent (w, st) = (None, w', st') \<and> calm w' \<and> keyed pcMeta st'"
proof -
  let ?key = "(agentNamespace agent, persistentVolumeClaimName (agentName agent))"
  have key: "keyOf (pcMeta claim) = ?key" using keyedD [OF keyed stored] .
  obtain w1 where got: "calm w1" "apiGet (clClaims c) ?key (w, st) = (Inr claim, w1, st)"
    using claims.calm_found [of w st ?key claim] calm stored key by blast
  obtain owned where "ownedMeta lib agent (omLabels (pcMeta desired)) (pcMeta claim) = Inr owned"
    using owned_ok [of agent "pcMeta claim"] fits(1) ns_of_key [OF key] by (auto simp: isOk_iff)
  then obtain m where m: "mutateClaim lib agent desired True claim = Inr m"
    using fits(2) by (simp add: mutateClaim_Inr)
  show ?thesis
    using claims.update_passes [OF got(1) keyed, where ob = claim and f = "mutateClaim lib agent desired True" and m = m]
      stored m owners.claimMutator.mutated_key [OF m] assms(3) desired got claim_built [OF desired] key
    by (simp add: reconcilePersistentVolumeClaim_def)
qed

lemma claim_passes:
  assumes "healthy calm s" and "unobstructed lib agent s"
  shows "passesOn calm pcMeta (reconcilePersistentVolumeClaim lib c agent) (csClaims s)"
  unfolding passesOn_def
proof (intro allI impI)
  fix w
  assume calm: "calm w"
  have keyed: "keyed pcMeta (csClaims s)" using assms(1) by (simp add: healthy_def)
  let ?key = "(agentNamespace agent, persistentVolumeClaimName (agentName agent))"
  show "\<exists>w' st'. reconcilePersistentVolumeClaim lib c agent (w, csClaims s) = (None, w', st') \<and> calm w' \<and> keyed pcMeta st'"
  proof (cases "persistenceEnabled agent")
    case False
    with calm keyed show ?thesis by (simp add: reconcilePersistentVolumeClaim_def)
  next
    case True
    then obtain desired where desired: "buildPersistentVolumeClaim (quantityOf lib) agent = Inr desired"
      and "pred_option (\<lambda>claim. unclaimed (haMeta agent) (pcMeta claim) \<and>
        persistentVolumeClaimImmutableFieldDrift agent (pcSpec claim) (pcSpec desired) = []) (csClaims s ?key)"
      using assms(2) by (auto simp: unobstructed_def split: sum.splits)
    then show ?thesis
      using absent_claim_passes [OF calm keyed True desired] stored_claim_passes [OF calm keyed True desired]
      by (cases "csClaims s ?key") simp_all
  qed
qed

lemma inline_passes:
  assumes "healthy calm s"
    and "pred_option (\<lambda>cm. unclaimed (haMeta agent) (cmMeta cm)) (csConfigMaps s (agentNamespace agent, rfConfigMapName f))"
  shows "passes calm (onConfigMaps (reconcileInlineConfigMap lib c agent f) s)"
proof (rule passes_on(1) [OF assms(1)], unfold passesOn_def, intro allI impI)
  fix w
  assume calm: "calm w"
  let ?key = "(agentNamespace agent, rfConfigMapName f)"
  let ?new = "newConfigMap (agentNamespace agent) (rfConfigMapName f)"
  let ?old = "case csConfigMaps s ?key of None \<Rightarrow> ?new | Some old \<Rightarrow> old"
  have keyed: "keyed cmMeta (csConfigMaps s)" using assms(1) by (simp add: healthy_def)
  have old: "unclaimed (haMeta agent) (cmMeta ?old) \<and> keyOf (cmMeta ?old) = ?key"
    using assms(2) keyedD [OF keyed, of ?key]
    by (cases "csConfigMaps s ?key") simp_all
  then obtain m where m: "mutateConfigMap lib agent f ?old = Inr m"
    using owned_ok [of agent "cmMeta ?old"] ns_of_key [of "cmMeta ?old"] mutated_ok(1) by (metis isOk_iff)
  have "keyOf (cmMeta m) = keyOf (cmMeta ?new)"
    using owners.configMapMutator.mutated_key [OF m] old by simp
  with m show "\<exists>w' st'. reconcileInlineConfigMap lib c agent f (w, csConfigMaps s) = (None, w', st') \<and> calm w' \<and> keyed cmMeta st'"
    using configMaps.update_passes [OF calm keyed, where ob = ?new and f = "mutateConfigMap lib agent f" and m = m]
    by (simp add: reconcileInlineConfigMap_def)
qed

lemma files_go_well:
  assumes "healthy calm s" and "distinct (map rfConfigMapName (filter rfGenerated files))"
    and "list_all (\<lambda>f. rfGenerated f \<longrightarrow> pred_option (\<lambda>cm. unclaimed (haMeta agent) (cmMeta cm))
      (csConfigMaps s (agentNamespace agent, rfConfigMapName f))) files"
  shows "goesWell calm (reconcileFiles lib c agent files desired s)"
  using assms
proof (induction files arbitrary: s desired)
  case (Cons f files)
  show ?case
  proof (cases "rfGenerated f")
    case True
    then obtain s1 where s1: "onConfigMaps (reconcileInlineConfigMap lib c agent f) s = (None, s1)" and ok: "healthy calm s1"
      using inline_passes [OF Cons.prems(1), of agent f] Cons.prems(3)
      by (cases "onConfigMaps (reconcileInlineConfigMap lib c agent f) s") (auto simp: passes_def)
    have "csConfigMaps s1 (agentNamespace agent, rfConfigMapName g) = csConfigMaps s (agentNamespace agent, rfConfigMapName g)"
      if "g \<in> set files" "rfGenerated g" for g
    proof -
      have "rfConfigMapName g \<in> rfConfigMapName ` set (filter rfGenerated files)" using that by simp
      then have "rfConfigMapName g \<noteq> rfConfigMapName f" using Cons.prems(2) True by auto
      then show ?thesis by (intro inline_others [OF configMaps.kube_api_axioms s1]) simp
    qed
    with Cons.IH [OF ok] Cons.prems True s1 show ?thesis by (simp add: list_all_iff)
  qed (use Cons in auto)
qed simp

lemma cleanup_passes:
  "keyed cmMeta st \<Longrightarrow> passesOn calm cmMeta (cleanupGeneratedIds lib c agent desired ids) st"
proof (induction ids arbitrary: st)
  case Nil
  then show ?case by (simp add: passesOn_def)
next
  case (Cons cid ids)
  let ?name = "generatedConfigMapName (agentName agent) cid"
  let ?key = "(agentNamespace agent, ?name)"
  have rest: "\<exists>w' st'. cleanupGeneratedIds lib c agent desired ids (w, st0) = (None, w', st') \<and> calm w' \<and> keyed cmMeta st'"
    if "calm w" "keyed cmMeta st0" for w st0
    using Cons.IH [OF that(2)] that(1) by (auto simp: passesOn_def)
  show ?case
    unfolding passesOn_def
  proof (intro allI impI)
    fix w
    assume calm: "calm w"
    show "\<exists>w' st'. cleanupGeneratedIds lib c agent desired (cid # ids) (w, st) = (None, w', st') \<and> calm w' \<and> keyed cmMeta st'"
    proof (cases "?name \<in> desired")
      case True
      then show ?thesis using rest [OF calm Cons.prems] by simp
    next
      case False
      show ?thesis
      proof (cases "st ?key")
        case None
        obtain e w1 where "calm w1" "isNotFound e" "apiGet (clConfigMaps c) ?key (w, st) = (Inl e, w1, st)"
          using configMaps.calm_absent [of w st ?key] calm None by blast
        with rest [of w1 st] False Cons.prems show ?thesis by simp
      next
        case (Some cm)
        have key: "keyOf (cmMeta cm) = ?key" using keyedD [OF Cons.prems Some] .
        obtain w1 where w1: "calm w1" "apiGet (clConfigMaps c) ?key (w, st) = (Inr cm, w1, st)"
          using configMaps.calm_found [of w st ?key cm] calm Some key by blast
        obtain w2 st2 where "apiDelete (clConfigMaps c) cm (w1, st) = (None, w2, st2)" "calm w2" "keyed cmMeta st2"
          using configMaps.delete_passes [OF w1(1) Cons.prems, of cm] Some key by auto
        with rest [of w1 st] rest [of w2 st2] w1 False Cons.prems show ?thesis by simp
      qed
    qed
  qed
qed

lemma get_statefulSet_answers:
  assumes "healthy calm s"
  obtains r s' where "onStatefulSets (apiGet (clStatefulSets c) k) s = (r, s')" "healthy calm s'"
    "\<forall>e. r = Inl e \<longrightarrow> isNotFound e"
proof -
  obtain r w' where "apiGet (clStatefulSets c) k (csHidden s, csStatefulSets s) = (r, w', csStatefulSets s)" "calm w'"
    "\<forall>e. r = Inl e \<longrightarrow> isNotFound e"
    using statefulSets.get_answers [of "csHidden s" "csStatefulSets s" k] assms by (auto simp: healthy_def)
  then show thesis using assms by (intro that [of r "s\<lparr>csHidden := w'\<rparr>"]) (auto simp: on_defs healthy_def)
qed

lemma get_claim_answers:
  assumes "healthy calm s"
  obtains r s' where "onClaims (apiGet (clClaims c) k) s = (r, s')" "healthy calm s'" "\<forall>e. r = Inl e \<longrightarrow> isNotFound e"
proof -
  obtain r w' where "apiGet (clClaims c) k (csHidden s, csClaims s) = (r, w', csClaims s)" "calm w'"
    "\<forall>e. r = Inl e \<longrightarrow> isNotFound e"
    using claims.get_answers [of "csHidden s" "csClaims s" k] assms by (auto simp: healthy_def)
  then show thesis using assms by (intro that [of r "s\<lparr>csHidden := w'\<rparr>"]) (auto simp: on_defs healthy_def)
qed

lemma generated_passes:
  assumes "healthy calm s" and "distinct (map rfConfigMapName (filter rfGenerated (cpFiles plan)))"
    and "list_all (\<lambda>f. rfGenerated f \<longrightarrow> pred_option (\<lambda>cm. unclaimed (haMeta agent) (cmMeta cm))
      (csConfigMaps s (agentNamespace agent, rfConfigMapName f))) (cpFiles plan)"
  shows "passes calm (reconcileGeneratedConfigMaps lib c agent plan s)"
proof -
  obtain names s1 where s1: "reconcileFiles lib c agent (cpFiles plan) {} s = (Inr names, s1)" "healthy calm s1"
    using files_go_well [OF assms, of "{}"]
    by (cases "reconcileFiles lib c agent (cpFiles plan) {} s") (auto simp: goesWell_def isOk_iff)
  obtain r s2 where got: "onStatefulSets (apiGet (clStatefulSets c) (agentKey agent)) s1 = (r, s2)" "healthy calm s2"
    "\<forall>e. r = Inl e \<longrightarrow> isNotFound e" using get_statefulSet_answers [OF s1(2), of "agentKey agent"] .
  moreover have "passes calm (onConfigMaps (cleanupGeneratedIds lib c agent names [''config'', ''gateway-config'']) s2)"
    using got(2) by (intro passes_on(1) cleanup_passes) (simp_all add: healthy_def)
  ultimately show ?thesis
    using s1 by (cases r) (simp_all add: reconcileGeneratedConfigMaps_def cleanupStaleGeneratedConfigMaps_def
        del: cleanupGeneratedIds.simps)
qed

subsection \<open>The status\<close>

lemma persistence_view_goesWell:
  assumes "healthy calm s"
  shows "goesWell calm (readPersistenceView c agent s)"
proof (cases "persistenceEnabled agent")
  case True
  obtain r s' where "onClaims (apiGet (clClaims c) (agentNamespace agent, persistentVolumeClaimName (agentName agent))) s = (r, s')"
    "healthy calm s'" "\<forall>e. r = Inl e \<longrightarrow> isNotFound e" using get_claim_answers [OF assms] by metis
  with True show ?thesis by (cases r) (simp_all add: readPersistenceView_def Let_def)
qed (use assms in \<open>simp add: readPersistenceView_def\<close>)

lemma status_view_goesWell:
  assumes "healthy calm s"
  shows "goesWell calm (readStatusView c agent s)"
proof -
  obtain goOn view s1 where s1: "readPersistenceView c agent s = (Inr (goOn, view), s1)" "healthy calm s1"
    using persistence_view_goesWell [OF assms, of agent]
    by (cases "readPersistenceView c agent s") (auto simp: goesWell_def isOk_iff)
  obtain r s' where "onStatefulSets (apiGet (clStatefulSets c) (agentKey agent)) s1 = (r, s')" "healthy calm s'"
    "\<forall>e. r = Inl e \<longrightarrow> isNotFound e" using get_statefulSet_answers [OF s1(2), of "agentKey agent"] .
  with s1 show ?thesis by (cases r) (simp_all add: readStatusView_def)
qed

lemma calm_setCondition: "calm (snd sw) \<Longrightarrow> calm (snd (setCondition lib c ty st r m sw))"
  using calm_clock by (simp add: setCondition_def now_def split_beta)

lemma calm_applyStatusView: "calm (snd sw) \<Longrightarrow> calm (snd (applyStatusView lib c agent h view sw))"
  unfolding applyStatusView_def setConfigReconciled_def Let_def
  by (simp add: updateStatus_def split_beta calm_setCondition)

lemma calm_configFailure: "calm (snd sw) \<Longrightarrow> calm (snd (configFailure lib c agent h reason m r sw))"
  unfolding configFailure_def markConfigFailure_def Let_def
  by (simp add: updateStatus_def split_beta calm_setCondition)

lemma patchStatus_passes:
  assumes "healthy calm s" and "csAgents s (agentKey agent) \<noteq> None" and "\<And>sw. calm (snd sw) \<Longrightarrow> calm (snd (mutate sw))"
  shows "passes calm (patchStatus lib c hasRecorder agent mutate s)"
proof -
  obtain base where base: "csAgents s (agentKey agent) = Some base" using assms(2) by auto
  have key: "agentKey base = agentKey agent" using keyedD [of haMeta "csAgents s"] base assms(1) by (auto simp: healthy_def keyOf_def)
  obtain w1 where w1: "calm w1" "apiGetAgent (clAgents c) (agentKey agent) (csHidden s, csAgents s) = (Inr base, w1, csAgents s)"
    using calm_agent [of "csHidden s" "csAgents s" "agentKey agent" base] base key assms(1) by (auto simp: healthy_def)
  obtain status w2 where w2: "mutate ((haStatus base)\<lparr>saObservedGeneration := omGeneration (haMeta base)\<rparr>, w1) = (status, w2)" by force
  have calm2: "calm w2" using assms(3) [of "(_, w1)"] w1(1) w2 by (metis snd_conv)
  obtain time w3 where w3: "now c w2 = (time, w3)" by force
  have calm3: "calm w3" using calm_clock [OF calm2] w3 by (simp add: now_def)
  define latest where "latest = base\<lparr>haStatus := status\<lparr>saLastReconcileTime := Some time\<rparr>\<rparr>"
  have latest: "csAgents s (agentKey latest) = Some base" using base key by (simp add: latest_def)
  obtain answer w4 st where w4: "calm w4" "apiPatchStatus (clAgents c) latest base (w3, csAgents s) = (Inr answer, w4, st)"
    using calm_patch [where st = "csAgents s"] calm3 latest by blast
  have "keyed haMeta st"
    using agents.status_patched [OF w4(2) latest] assms(1) key by (auto simp: healthy_def keyOf_def latest_def intro!: keyed_upd)
  then show ?thesis
    using assms(1) w1 w2 w3 w4 calm2
    by (auto simp: patchStatus_def on_defs Let_def latest_def passes_def healthy_def emitStatusEvent_def)
qed

lemma reconcileStatus_passes:
  assumes "healthy calm s" and "csAgents s (agentKey agent) \<noteq> None"
  shows "passes calm (reconcileStatus lib c hasRecorder agent h s)"
proof -
  obtain view s1 where s1: "readStatusView c agent s = (Inr view, s1)" "healthy calm s1"
    using status_view_goesWell [OF assms(1), of agent] by (cases "readStatusView c agent s") (auto simp: goesWell_def isOk_iff)
  have "csAgents s1 = csAgents s" using status_view_unchanged [OF s1(1)] by (simp add: unchanged_stores)
  with s1 assms(2) show ?thesis
    by (simp add: reconcileStatus_def patchStatus_passes calm_applyStatusView)
qed

subsection \<open>The whole reconcile\<close>

lemma plan_goes_well:
  assumes "healthy calm s" and "unobstructed lib agent s" and "csAgents s (agentKey agent) \<noteq> None"
    and "buildConfigPlanWithReferences (jsonMarshal lib) agent ri = Inr plan"
  shows "passes calm (reconcilePlan lib c hasRecorder agent ri plan s)"
  unfolding reconcilePlan_def
proof (intro passes_orFail, goal_cases)
  case 1
  have "list_all (\<lambda>cid. pred_option (\<lambda>cm. unclaimed (haMeta agent) (cmMeta cm))
      (csConfigMaps s (agentNamespace agent, generatedConfigMapName (agentName agent) cid))) [''config'', ''gateway-config'']"
    using assms(2) by (simp add: unobstructed_def)
  then have "rfGenerated f \<longrightarrow> pred_option (\<lambda>cm. unclaimed (haMeta agent) (cmMeta cm))
      (csConfigMaps s (agentNamespace agent, rfConfigMapName f))" if "f \<in> set (cpFiles plan)" for f
    using plan_files(2) [OF assms(4) that] by auto
  then show ?case by (intro generated_passes assms(1) plan_files(1) [OF assms(4)]) (simp add: list_all_iff)
next
  case (2 s1)
  then show ?case using claim_passes [OF assms(1,2)] generated_frame [OF 2(1)]
    by (intro passes_on) simp_all
next
  case (3 s1 s2)
  then show ?case using statefulSet_passes [OF assms(1,2)] generated_frame [OF 3(1)] on_frames(3) [OF 3(3)]
    by (intro passes_on) simp_all
next
  case (4 s1 s2 s3)
  then show ?case using service_passes [OF assms(1,2)] generated_frame [OF 4(1)] on_frames(3) [OF 4(3)] on_frames(4) [OF 4(5)]
    by (intro passes_on) simp_all
next
  case (5 s1 s2 s3 s4)
  then show ?case using networkPolicy_passes [OF assms(1,2)] generated_frame [OF 5(1)] on_frames(3) [OF 5(3)]
    on_frames(4) [OF 5(5)] on_frames(5) [OF 5(7)] by (intro passes_on) simp_all
next
  case (6 s1 s2 s3 s4 s5)
  then show ?case using budget_passes [OF assms(1,2)] generated_frame [OF 6(1)] on_frames(3) [OF 6(3)]
    on_frames(4) [OF 6(5)] on_frames(5) [OF 6(7)] on_frames(6) [OF 6(9)] by (intro passes_on) simp_all
next
  case (7 s1 s2 s3 s4 s5 s6)
  then show ?case using generated_frame [OF 7(1)] on_frames(3) [OF 7(3)] on_frames(4) [OF 7(5)] on_frames(5) [OF 7(7)]
    on_frames(6) [OF 7(9)] on_frames(7) [OF 7(11)] assms(3) by (intro reconcileStatus_passes) simp_all
qed

lemma reconcile_goes_well:
  assumes "healthy calm s" and "csAgents s request = Some agent" and "unobstructed lib agent s"
    and "ri = referencedInputsOf (\<lambda>n. csConfigMaps s (agentNamespace agent, n)) (\<lambda>n. csSecrets s (agentNamespace agent, n)) agent"
    and "missingReferenceMessages ri = []" and "buildConfigPlanWithReferences (jsonMarshal lib) agent ri = Inr plan"
  shows "passes calm (Reconcile lib c hasRecorder request s)"
proof -
  have key: "agentKey agent = request" using keyedD [of haMeta "csAgents s"] assms(1,2) by (auto simp: healthy_def keyOf_def)
  obtain w1 where w1: "calm w1" "apiGetAgent (clAgents c) request (csHidden s, csAgents s) = (Inr agent, w1, csAgents s)"
    using calm_agent [of "csHidden s" "csAgents s" request agent] assms(1,2) key by (auto simp: healthy_def)
  define s1 where "s1 = s\<lparr>csHidden := w1\<rparr>"
  have s1: "healthy calm s1" "unchanged s s1" using assms(1) w1(1) by (simp_all add: s1_def healthy_def unchanged_def)
  have got: "onAgents (apiGetAgent (clAgents c) request) s = (Inr agent, s1)" using w1(2) by (simp add: on_defs s1_def)
  obtain ri' s2 where res: "resolveReferencedInputs c agent s1 = (Inr ri', s2)" and s2: "healthy calm s2"
    using resolve_goesWell [OF s1(1), of agent] by (cases "resolveReferencedInputs c agent s1") (auto simp: goesWell_def isOk_iff)
  have ri': "ri' = ri" using resolve_value [OF res] assms(4) by (simp add: s1_def)
  have same: "unchanged s s2" using s1(2) resolve_unchanged [OF res] by (rule unchanged_trans)
  obtain plan0 where "buildConfigPlan (jsonMarshal lib) agent = Inr plan0"
    using assms(6) buildConfigPlan_ok by (metis buildConfigPlan_def isOk_iff)
  then have run: "Reconcile lib c hasRecorder request s = reconcilePlan lib c hasRecorder agent ri plan s2"
    using got res ri' assms(5,6) by (simp add: Reconcile_def reconcileAgent_def)
  have "unobstructed lib agent s2"
    using assms(3) unfolding unobstructed_def unchanged_stores [OF same] .
  moreover have "csAgents s2 (agentKey agent) \<noteq> None" using assms(2) key same by (simp add: unchanged_stores)
  ultimately show ?thesis unfolding run by (intro plan_goes_well [OF s2 _ _ assms(6)])
qed

text \<open>An invalid configuration is reported in the status and not retried.\<close>

lemma invalid_run:
  assumes "healthy calm s" and "csAgents s request = Some agent" and "buildConfigPlan (jsonMarshal lib) agent = Inl err"
  obtains s1 mutate where "healthy calm s1" "csAgents s1 (agentKey agent) = Some agent" "agentKey agent = request"
    "mutate = configFailure lib c agent [] ''InvalidConfig'' (errorText err) ''HermesAgent configuration is invalid''"
    "passes calm (patchStatus lib c hasRecorder agent mutate s1)"
    "Reconcile lib c hasRecorder request s = patchStatus lib c hasRecorder agent mutate s1"
proof -
  have key: "agentKey agent = request" using keyedD [of haMeta "csAgents s"] assms(1,2) by (auto simp: healthy_def keyOf_def)
  obtain w1 where w1: "calm w1" "apiGetAgent (clAgents c) request (csHidden s, csAgents s) = (Inr agent, w1, csAgents s)"
    using calm_agent [of "csHidden s" "csAgents s" request agent] assms(1,2) key by (auto simp: healthy_def)
  define mutate where
    "mutate = configFailure lib c agent [] ''InvalidConfig'' (errorText err) ''HermesAgent configuration is invalid''"
  have s1: "healthy calm (s\<lparr>csHidden := w1\<rparr>)" "csAgents (s\<lparr>csHidden := w1\<rparr>) (agentKey agent) = Some agent"
    using assms(1,2) w1(1) key by (simp_all add: healthy_def)
  then have pass: "passes calm (patchStatus lib c hasRecorder agent mutate (s\<lparr>csHidden := w1\<rparr>))"
    unfolding mutate_def by (intro patchStatus_passes) (simp_all add: calm_configFailure)
  then have "Reconcile lib c hasRecorder request s = patchStatus lib c hasRecorder agent mutate (s\<lparr>csHidden := w1\<rparr>)"
    using w1(2) assms(3)
    by (auto simp: Reconcile_def reconcileAgent_def on_defs returnStatusFailure_def patchFailureStatus_def passes_def
        orFail_def mutate_def split: prod.splits option.splits)
  with s1 key pass show thesis by (intro that [OF _ _ _ mutate_def])
qed

lemma invalid_goes_well:
  assumes "healthy calm s" and "csAgents s request = Some agent" and "buildConfigPlan (jsonMarshal lib) agent = Inl err"
  shows "passes calm (Reconcile lib c hasRecorder request s)"
  using invalid_run [OF assms, of hasRecorder] by metis

lemma invalid_recorded:
  assumes "healthy calm s" and "csAgents s request = Some agent" and "buildConfigPlan (jsonMarshal lib) agent = Inl err"
  shows "\<exists>status. csAgents (snd (Reconcile lib c hasRecorder request s)) request = Some (agent\<lparr>haStatus := status\<rparr>) \<and>
    saPhase status = phaseConfigError \<and> \<not> reportsReady lib status"
proof -
  obtain s1 mutate where run: "csAgents s1 (agentKey agent) = Some agent" "agentKey agent = request"
    "mutate = configFailure lib c agent [] ''InvalidConfig'' (errorText err) ''HermesAgent configuration is invalid''"
    "passes calm (patchStatus lib c hasRecorder agent mutate s1)"
    "Reconcile lib c hasRecorder request s = patchStatus lib c hasRecorder agent mutate s1"
    using invalid_run [OF assms] .
  obtain s2 where s2: "patchStatus lib c hasRecorder agent mutate s1 = (None, s2)"
    using run(4) by (cases "patchStatus lib c hasRecorder agent mutate s1") (simp add: passes_def)
  obtain status w where stored: "csAgents s2 (agentKey agent) = Some (agent\<lparr>haStatus := status\<rparr>)"
    and phase: "saPhase status = saPhase (fst (mutate ((haStatus agent)\<lparr>saObservedGeneration := omGeneration (haMeta agent)\<rparr>, w)))"
    and conds: "saConditions status = saConditions (fst (mutate ((haStatus agent)\<lparr>saObservedGeneration := omGeneration (haMeta agent)\<rparr>, w)))"
    by (rule patched_status [OF s2 run(1)])
  have "\<not> reportsReady lib status"
    using failure_not_ready reportsReady_cong [OF phase conds] by (simp add: run(3))
  moreover have "saPhase status = phaseConfigError"
    unfolding phase run(3) by (simp add: configFailure_def markConfigFailure_def Let_def)
  ultimately show ?thesis using stored run(2,5) s2 by auto
qed

end

lemma memory_calm_client: "calm_client memoryLib (memoryClient known) (set known) plainAdmission (\<lambda>w. fst w = [])"
proof (intro calm_client.intro memory_kube_client)
  show "calm_client_axioms memoryLib (memoryClient known) (\<lambda>w. fst w = [])"
    by unfold_locales
      (auto simp: memoryClient_def memoryAgentAPI_def memory_defs fails_def tick_def keyOf_def Let_def memoryLib_def
        memorySetControllerReference_def unclaimed_def list_all_iff split: list.splits dest!: filter_eq_ConsD)
qed (simp_all add: memoryClient_def plainAdmission_def memory_calm_api)

interpretation memoryCalmClient: calm_client memoryLib "memoryClient known" "set known" plainAdmission "\<lambda>w. fst w = []" for known
  by (rule memory_calm_client)

end
