(* ===== verification/Convergence.thy ===== *)
theory Convergence
  imports Progress
begin

text \<open>
  A converged cluster is left alone, and a successful reconcile converges.  A cluster is settled for an
  agent and its plan when every managed object is a fixed point of the mutate function that the reconcile
  would run on it, and nothing is left to delete.
\<close>

section \<open>Settled clusters\<close>

text \<open>Nothing is left to delete: the objects that are switched off and the generated ConfigMaps that the plan does not ask for.\<close>

definition tidy :: "kubeLib \<Rightarrow> hermesAgent \<Rightarrow> configPlan \<Rightarrow> 'w cluster \<Rightarrow> bool" where
  "tidy lib agent plan s \<longleftrightarrow>
     list_all (\<lambda>cid. generatedConfigMapName (agentName agent) cid \<in> rfConfigMapName ` set (filter rfGenerated (cpFiles plan)) \<or>
       pred_option (\<lambda>cm. \<not> isControlledBy lib (cmMeta cm) (haMeta agent))
         (csConfigMaps s (agentNamespace agent, generatedConfigMapName (agentName agent) cid))) [''config'', ''gateway-config''] \<and>
     (serviceEnabled agent \<or> pred_option (\<lambda>srv. \<not> isControlledBy lib (srvMeta srv) (haMeta agent)) (csServices s (agentKey agent))) \<and>
     (networkPolicyEnabled agent \<or>
       pred_option (\<lambda>np. \<not> isControlledBy lib (nyMeta np) (haMeta agent)) (csNetworkPolicies s (agentKey agent))) \<and>
     (podDisruptionBudgetEnabled agent \<or>
       pred_option (\<lambda>pdb. \<not> isControlledBy lib (pdMeta pdb) (haMeta agent)) (csBudgets s (agentKey agent)))"

definition settled :: "kubeLib \<Rightarrow> serverAdmission \<Rightarrow> hermesAgent \<Rightarrow> referencedInputState \<Rightarrow> configPlan \<Rightarrow> 'w cluster \<Rightarrow> bool" where
  "settled lib ad agent ri plan s \<longleftrightarrow>
     list_all (\<lambda>f. fixedBy (adConfigMap ad) (mutateConfigMap lib agent f) (csConfigMaps s (agentNamespace agent, rfConfigMapName f)))
       (filter rfGenerated (cpFiles plan)) \<and>
     (persistenceEnabled agent \<longrightarrow>
       (case buildPersistentVolumeClaim (quantityOf lib) agent of
          Inl _ \<Rightarrow> False
        | Inr desired \<Rightarrow> fixedBy (adClaim ad) (mutateClaim lib agent desired True)
            (csClaims s (agentNamespace agent, persistentVolumeClaimName (agentName agent))))) \<and>
     fixedBy (adStatefulSet ad) (mutateStatefulSet lib agent (buildPodTemplateInputs agent plan)) (csStatefulSets s (agentKey agent)) \<and>
     (serviceEnabled agent \<longrightarrow> fixedBy (adService ad) (mutateService lib agent (buildService agent)) (csServices s (agentKey agent))) \<and>
     (networkPolicyEnabled agent \<longrightarrow>
       fixedBy (adNetworkPolicy ad) (mutateNetworkPolicy lib agent (buildNetworkPolicy agent (effectiveTerminalBackend (yamlBackend lib) agent ri)))
         (csNetworkPolicies s (agentKey agent))) \<and>
     (podDisruptionBudgetEnabled agent \<longrightarrow> fixedBy (adBudget ad) (mutatePodDisruptionBudget lib agent) (csBudgets s (agentKey agent)))"

lemma settled_managed:
  assumes "managed s' = managed s"
  shows "settled lib ad agent ri plan s' = settled lib ad agent ri plan s" "tidy lib agent plan s' = tidy lib agent plan s"
  using managed_stores [OF assms] by (simp_all only: settled_def tidy_def)

section \<open>Only generated ConfigMaps are touched\<close>

context kube_client
begin

lemma files_others:
  assumes "reconcileFiles lib c agent files desired s = (r, s')"
    and "k \<notin> (\<lambda>f. (agentNamespace agent, rfConfigMapName f)) ` set (filter rfGenerated files)"
  shows "csConfigMaps s' k = csConfigMaps s k"
  using assms
proof (induction files arbitrary: desired s)
  case (Cons f files)
  show ?case
  proof (cases "rfGenerated f")
    case True
    obtain e s1 where s1: "onConfigMaps (reconcileInlineConfigMap lib c agent f) s = (e, s1)" by force
    have "csConfigMaps s1 k = csConfigMaps s k"
      using inline_others [OF configMaps.kube_api_axioms s1] Cons.prems(2) True by simp
    with Cons True s1 show ?thesis by (cases e) auto
  qed (use Cons in auto)
qed auto

lemma cleanup_calls:
  assumes "cleanupStaleGeneratedConfigMaps lib c agent names s = (r, s')"
  shows "csConfigMaps s' = csConfigMaps s \<or> (\<exists>w w' e. cleanupGeneratedIds lib c agent names [''config'', ''gateway-config'']
    (w, csConfigMaps s) = (e, w', csConfigMaps s'))"
proof -
  obtain ans s1 where ans: "onStatefulSets (apiGet (clStatefulSets c) (agentKey agent)) s = (ans, s1)" by force
  have same: "csConfigMaps s1 = csConfigMaps s" using get_statefulSet(1) [OF ans] by (simp add: unchanged_stores)
  show ?thesis
    using assms ans same by (cases ans) (auto simp: cleanupStaleGeneratedConfigMaps_def onConfigMaps_def split: if_splits prod.splits)
qed

lemma generated_touches:
  assumes "reconcileGeneratedConfigMaps lib c agent plan s = (r, s')"
    and "k \<notin> (\<lambda>f. (agentNamespace agent, rfConfigMapName f)) ` set (filter rfGenerated (cpFiles plan))"
  shows "csConfigMaps s' k = csConfigMaps s k \<or>
    (\<exists>cid cm. k = (agentNamespace agent, generatedConfigMapName (agentName agent) cid) \<and> cid \<in> {''config'', ''gateway-config''} \<and>
       csConfigMaps s k = Some cm \<and> isControlledBy lib (cmMeta cm) (haMeta agent) \<and> csConfigMaps s' k = None)"
proof -
  obtain got s1 where files: "reconcileFiles lib c agent (cpFiles plan) {} s = (got, s1)" by force
  have same: "csConfigMaps s1 k = csConfigMaps s k" by (rule files_others [OF files assms(2)])
  show ?thesis
  proof (cases got)
    case (Inr names)
    have "cleanupStaleGeneratedConfigMaps lib c agent names s1 = (r, s')"
      using assms(1) files Inr by (simp add: reconcileGeneratedConfigMaps_def)
    from cleanup_calls [OF this] show ?thesis
    proof (elim disjE exE)
      fix w w' e
      assume "cleanupGeneratedIds lib c agent names [''config'', ''gateway-config''] (w, csConfigMaps s1) = (e, w', csConfigMaps s')"
      from cleanup_safe [OF configMaps.kube_api_axioms this, of k] same show ?thesis by auto
    qed (simp add: same)
  qed (use assms(1) files same in \<open>auto simp: reconcileGeneratedConfigMaps_def\<close>)
qed

lemma plan_configMaps:
  assumes "reconcilePlan lib c hasRecorder agent ri plan s = (r, s')"
  obtains e s1 where "reconcileGeneratedConfigMaps lib c agent plan s = (e, s1)" "csConfigMaps s' = csConfigMaps s1"
proof -
  obtain e s1 where gen: "reconcileGeneratedConfigMaps lib c agent plan s = (e, s1)" by force
  have "csConfigMaps s' = csConfigMaps s1"
    using assms unfolding reconcilePlan_def gen by (elim orFail_cases) (auto dest!: on_frames(3-7) report_frame status_frame)
  with gen show thesis by (rule that)
qed

lemma reconcile_configMaps:
  assumes "Reconcile lib c hasRecorder request s = (r, s')" and "csConfigMaps s k = Some cm"
    and "csAgents s request = Some agent"
    and "k \<notin> {(agentNamespace agent, generatedConfigMapName (agentName agent) ''config''),
      (agentNamespace agent, generatedConfigMapName (agentName agent) ''gateway-config'')}"
  shows "csConfigMaps s' k = Some cm"
  using assms(1)
proof (cases rule: Reconcile_cases)
  case config
  with managed_stores assms(2) show ?thesis by metis
next
  case (plan agent' ri pl s1)
  have agent: "agent' = agent" and same: "csConfigMaps s1 = csConfigMaps s" using plan(1,3) assms(3) by (simp_all add: unchanged_stores)
  obtain e s2 where gen: "reconcileGeneratedConfigMaps lib c agent pl s1 = (e, s2)" and s': "csConfigMaps s' = csConfigMaps s2"
    by (rule plan_configMaps [OF plan(7) [unfolded agent]])
  have "k \<notin> (\<lambda>f. (agentNamespace agent, rfConfigMapName f)) ` set (filter rfGenerated (cpFiles pl))"
    using plan_files(2) [OF plan(6) [unfolded agent]] assms(4) by force
  from generated_touches [OF gen this] assms(2,4) show ?thesis by (auto simp: s' same)
qed

end

section \<open>A settled cluster is left alone\<close>

context kube_client
begin

lemma files_kept:
  assumes "reconcileFiles lib c agent files desired s = (r, s')"
    and "list_all (\<lambda>f. fixedBy (adConfigMap ad) (mutateConfigMap lib agent f) (csConfigMaps s (agentNamespace agent, rfConfigMapName f)))
      (filter rfGenerated files)"
  shows "csConfigMaps s' = csConfigMaps s \<and> (\<forall>names. r = Inr names \<longrightarrow> names = desired \<union> rfConfigMapName ` set (filter rfGenerated files))"
  using assms
proof (induction files arbitrary: desired s)
  case (Cons f files)
  show ?case
  proof (cases "rfGenerated f")
    case True
    obtain e s1 where s1: "onConfigMaps (reconcileInlineConfigMap lib c agent f) s = (e, s1)" by force
    have same: "csConfigMaps s1 = csConfigMaps s"
      using configMaps.update_fixed [OF inline_call [OF s1]] Cons.prems(2) True by simp
    show ?thesis
    proof (cases e)
      case None
      with Cons.prems(1) True s1 have "reconcileFiles lib c agent files (insert (rfConfigMapName f) desired) s1 = (r, s')" by simp
      from Cons.IH [OF this] Cons.prems(2) True same show ?thesis by auto
    qed (use Cons.prems(1) True s1 same in auto)
  qed (use Cons in auto)
qed auto

lemma cleanup_kept:
  assumes "cleanupGeneratedIds lib c agent desired ids (w, st) = (r, w', st')"
    and "list_all (\<lambda>cid. generatedConfigMapName (agentName agent) cid \<in> desired \<or>
      pred_option (\<lambda>cm. \<not> isControlledBy lib (cmMeta cm) (haMeta agent))
        (st (agentNamespace agent, generatedConfigMapName (agentName agent) cid))) ids"
  shows "st' = st"
proof
  fix k
  from cleanup_safe [OF configMaps.kube_api_axioms assms(1), of k] assms(2) show "st' k = st k" by (auto simp: list_all_iff)
qed

lemma generated_kept:
  assumes "reconcileGeneratedConfigMaps lib c agent plan s = (r, s')" and "settled lib ad agent ri plan s" and "tidy lib agent plan s"
  shows "csConfigMaps s' = csConfigMaps s"
proof -
  have fixed: "list_all (\<lambda>f. fixedBy (adConfigMap ad) (mutateConfigMap lib agent f) (csConfigMaps s (agentNamespace agent, rfConfigMapName f)))
      (filter rfGenerated (cpFiles plan))"
    using assms(2) unfolding settled_def by (rule conjunct1)
  have stale: "list_all (\<lambda>cid. generatedConfigMapName (agentName agent) cid \<in> rfConfigMapName ` set (filter rfGenerated (cpFiles plan)) \<or>
       pred_option (\<lambda>cm. \<not> isControlledBy lib (cmMeta cm) (haMeta agent))
         (csConfigMaps s (agentNamespace agent, generatedConfigMapName (agentName agent) cid))) [''config'', ''gateway-config'']"
    using assms(3) unfolding tidy_def by (rule conjunct1)
  obtain got s1 where files: "reconcileFiles lib c agent (cpFiles plan) {} s = (got, s1)" by force
  note kept = files_kept [OF files fixed]
  show ?thesis
  proof (cases got)
    case (Inr names)
    have clean: "cleanupStaleGeneratedConfigMaps lib c agent names s1 = (r, s')"
      using assms(1) files Inr by (simp add: reconcileGeneratedConfigMaps_def)
    have same: "csConfigMaps s1 = csConfigMaps s" and names: "names = rfConfigMapName ` set (filter rfGenerated (cpFiles plan))"
      using kept Inr by simp_all
    from cleanup_calls [OF clean] show ?thesis
    proof (elim disjE exE)
      fix w w' e
      assume call: "cleanupGeneratedIds lib c agent names [''config'', ''gateway-config''] (w, csConfigMaps s1) = (e, w', csConfigMaps s')"
      have "csConfigMaps s' = csConfigMaps s1" by (rule cleanup_kept [OF call]) (unfold names same, rule stale)
      then show ?thesis by (simp only: same)
    qed (simp only: same)
  qed (use assms(1) files kept in \<open>auto simp: reconcileGeneratedConfigMaps_def\<close>)
qed

lemma claim_kept:
  assumes "reconcilePersistentVolumeClaim lib c agent (w, csClaims s) = (r, w', st')" and "settled lib ad agent ri plan s"
  shows "st' = csClaims s"
  using claims.kube_api_axioms assms(1) refl
proof (cases rule: reconcileClaim_cases)
  case (called desired init w1)
  have "fixedBy (adClaim ad) (mutateClaim lib agent desired True)
      (csClaims s (agentNamespace agent, persistentVolumeClaimName (agentName agent)))"
    using assms(2) called(1,2) by (simp add: settled_def)
  moreover from this have "csClaims s (agentNamespace agent, persistentVolumeClaimName (agentName agent)) \<noteq> None"
    by (elim fixedByE) simp
  ultimately show ?thesis by (intro claims.update_fixed [OF called(4)]) (simp add: called(3))
qed

lemma statefulSet_kept:
  assumes "reconcileStatefulSet lib c agent inputs (w, st) = (r, w', st')"
    and "fixedBy (adStatefulSet ad) (mutateStatefulSet lib agent inputs) (st (agentKey agent))"
  shows "st' = st"
  by (rule statefulSets.update_fixed [OF assms(1) [unfolded reconcileStatefulSet_def]]) (simp add: assms(2))

lemma service_kept:
  assumes "reconcileService lib c agent (w, csServices s) = (r, w', st')"
    and "serviceEnabled agent \<longrightarrow> fixedBy (adService ad) (mutateService lib agent (buildService agent)) (csServices s (agentKey agent))"
    and "serviceEnabled agent \<or> pred_option (\<lambda>srv. \<not> isControlledBy lib (srvMeta srv) (haMeta agent)) (csServices s (agentKey agent))"
  shows "st' = csServices s"
  by (rule serviceGuard.settled_kept [OF services.kube_api_axioms assms])

lemma networkPolicy_kept:
  assumes "reconcileNetworkPolicy lib c agent ri (w, csNetworkPolicies s) = (r, w', st')"
    and "networkPolicyEnabled agent \<longrightarrow>
      fixedBy (adNetworkPolicy ad) (mutateNetworkPolicy lib agent (buildNetworkPolicy agent (effectiveTerminalBackend (yamlBackend lib) agent ri)))
        (csNetworkPolicies s (agentKey agent))"
    and "networkPolicyEnabled agent \<or>
      pred_option (\<lambda>np. \<not> isControlledBy lib (nyMeta np) (haMeta agent)) (csNetworkPolicies s (agentKey agent))"
  shows "st' = csNetworkPolicies s"
  by (rule networkPolicyGuard.settled_kept [OF networkPolicies.kube_api_axioms assms])

lemma budget_kept:
  assumes "reconcilePodDisruptionBudget lib c agent (w, csBudgets s) = (r, w', st')"
    and "podDisruptionBudgetEnabled agent \<longrightarrow> fixedBy (adBudget ad) (mutatePodDisruptionBudget lib agent) (csBudgets s (agentKey agent))"
    and "podDisruptionBudgetEnabled agent \<or>
      pred_option (\<lambda>pdb. \<not> isControlledBy lib (pdMeta pdb) (haMeta agent)) (csBudgets s (agentKey agent))"
  shows "st' = csBudgets s"
  by (rule budgetGuard.settled_kept [OF budgets.kube_api_axioms assms])

lemma plan_kept:
  assumes "reconcilePlan lib c hasRecorder agent ri plan s = (r, s')" and "settled lib ad agent ri plan s" and "tidy lib agent plan s"
  shows "managed s' = managed s"
proof -
  note parts = assms(2) [unfolded settled_def] and stale = assms(3) [unfolded tidy_def]
  obtain e s1 where gen: "reconcileGeneratedConfigMaps lib c agent plan s = (e, s1)" and "csConfigMaps s' = csConfigMaps s1"
    by (rule plan_configMaps [OF assms(1)])
  with generated_kept [OF gen assms(2,3)] have "csConfigMaps s' = csConfigMaps s" by (simp only:)
  moreover have "csClaims s' = csClaims s" using plan_claims [OF assms(1)] claim_kept [OF _ assms(2)] by blast
  moreover have "csStatefulSets s' = csStatefulSets s"
    using plan_statefulSets [OF assms(1)] statefulSet_kept parts [THEN conjunct2, THEN conjunct2, THEN conjunct1] by blast
  moreover have "csServices s' = csServices s"
    using plan_services [OF assms(1)] service_kept parts stale by blast
  moreover have "csNetworkPolicies s' = csNetworkPolicies s"
    using plan_networkPolicies [OF assms(1)] networkPolicy_kept parts stale by blast
  moreover have "csBudgets s' = csBudgets s"
    using plan_budgets [OF assms(1)] budget_kept parts stale by blast
  ultimately show ?thesis using plan_secrets [OF assms(1)] by (simp add: managed_def)
qed

lemma settled_reconcile:
  assumes "csAgents s request = Some agent"
    and "ri = referencedInputsOf (\<lambda>n. csConfigMaps s (agentNamespace agent, n)) (\<lambda>n. csSecrets s (agentNamespace agent, n)) agent"
    and "buildConfigPlanWithReferences (jsonMarshal lib) agent ri = Inr plan"
    and "settled lib ad agent ri plan s" and "tidy lib agent plan s"
    and "Reconcile lib c hasRecorder request s = (r, s')"
  shows "managed s' = managed s"
  using assms(6)
proof (cases rule: Reconcile_cases)
  case (plan agent' ri' plan' s1)
  have agent: "agent' = agent" using plan(1) assms(1) by simp
  have ri: "ri' = ri" using plan(5) assms(2) agent by simp
  have plan': "plan' = plan" using plan(6) assms(3) agent ri by simp
  have same: "managed s1 = managed s" using managed_unchanged [OF plan(3)] .
  have "settled lib ad agent ri plan s1" "tidy lib agent plan s1"
    using assms(4,5) settled_managed [OF same] by simp_all
  with plan_kept [OF plan(7) [unfolded agent ri plan']] same show ?thesis by simp
qed

end

section \<open>A successful reconcile settles the cluster\<close>

text \<open>The server settles each of the updates of an agent.\<close>

definition settlingServer :: "kubeLib \<Rightarrow> serverAdmission \<Rightarrow> hermesAgent \<Rightarrow> referencedInputState \<Rightarrow> configPlan \<Rightarrow> bool" where
  "settlingServer lib ad agent ri plan \<longleftrightarrow>
     (\<forall>f. stable (adConfigMap ad) (mutateConfigMap lib agent f)) \<and>
     (\<forall>desired. stable (adClaim ad) (mutateClaim lib agent desired True)) \<and>
     stable (adStatefulSet ad) (mutateStatefulSet lib agent (buildPodTemplateInputs agent plan)) \<and>
     stable (adService ad) (mutateService lib agent (buildService agent)) \<and>
     stable (adNetworkPolicy ad)
       (mutateNetworkPolicy lib agent (buildNetworkPolicy agent (effectiveTerminalBackend (yamlBackend lib) agent ri))) \<and>
     stable (adBudget ad) (mutatePodDisruptionBudget lib agent)"

lemma plain_settles: "settlingServer lib plainAdmission agent ri plan"
  by (simp add: settlingServer_def plainAdmission_def stable_plain)

context kube_client
begin

lemma claim_again:
  assumes "mutateClaim lib agent desired existed old = Inr m"
  shows "mutateClaim lib agent desired True m = Inr m"
proof (cases existed)
  case True
  with owners.claimMutator.mutated_again assms show ?thesis by simp
next
  case False
  with assms owners.ownedMeta_again show ?thesis by (auto simp: mutateClaim_Inr no_drift_iff)
qed

lemma claim_settles:
  assumes "reconcilePersistentVolumeClaim lib c agent (w, st) = (None, w', st')" and "persistenceEnabled agent"
    and "settlingServer lib ad agent ri plan"
  shows "case buildPersistentVolumeClaim (quantityOf lib) agent of
       Inl _ \<Rightarrow> False
     | Inr desired \<Rightarrow> fixedBy (adClaim ad) (mutateClaim lib agent desired True)
         (st' (agentNamespace agent, persistentVolumeClaimName (agentName agent)))"
  using claims.kube_api_axioms assms(1) refl
proof (cases rule: reconcileClaim_cases)
  case (called desired init w1)
  have "holds (adClaim ad) st' (agentNamespace agent, persistentVolumeClaimName (agentName agent))
      (\<lambda>m. mutateClaim lib agent desired True m = Inr m)"
    by (rule claims.update_holds [OF called(4) _ called(3)]) (rule claim_again)
  then show ?thesis using assms(3) called(2) by (simp add: settlingServer_def holds_fixed)
qed (use assms(2) in simp)

lemma plan_settles:
  assumes "reconcilePlan lib c hasRecorder agent ri plan s = (None, s')" and "settlingServer lib ad agent ri plan"
    and "distinct (map rfConfigMapName (filter rfGenerated (cpFiles plan)))"
  shows "settled lib ad agent ri plan s'"
  using assms(1)
proof (cases rule: plan_steps)
  case (1 s1 s2 s3 s4 s5 s6)
  note server = assms(2) [unfolded settlingServer_def]
  have "list_all (\<lambda>f. holds (adConfigMap ad) (csConfigMaps s1) (agentNamespace agent, rfConfigMapName f)
      (\<lambda>m. mutateConfigMap lib agent f m = Inr m)) (filter rfGenerated (cpFiles plan))"
    by (rule generated_holds [OF 1(1) assms(3)]) (rule owners.configMapMutator.mutated_again)
  then have files: "list_all (\<lambda>f. fixedBy (adConfigMap ad) (mutateConfigMap lib agent f)
      (csConfigMaps s1 (agentNamespace agent, rfConfigMapName f))) (filter rfGenerated (cpFiles plan))"
    using server by (auto simp: list_all_iff intro: holds_fixed)
  have statefulSet: "fixedBy (adStatefulSet ad) (mutateStatefulSet lib agent (buildPodTemplateInputs agent plan))
      (csStatefulSets s' (agentKey agent))"
    by (intro holds_fixed statefulSets.update_holds [OF 1(4) [unfolded reconcileStatefulSet_def]])
      (use server owners.statefulSetMutator.mutated_again in simp_all)
  have service: "fixedBy (adService ad) (mutateService lib agent (buildService agent)) (csServices s' (agentKey agent))"
    if "serviceEnabled agent"
    using serviceGuard.enabled_holds [OF services.kube_api_axioms 1(5) that owners.serviceMutator.mutated_again] server
    by (intro holds_fixed) simp_all
  have policy: "fixedBy (adNetworkPolicy ad) (mutateNetworkPolicy lib agent
      (buildNetworkPolicy agent (effectiveTerminalBackend (yamlBackend lib) agent ri))) (csNetworkPolicies s' (agentKey agent))"
    if "networkPolicyEnabled agent"
    using networkPolicyGuard.enabled_holds [OF networkPolicies.kube_api_axioms 1(6) that
        owners.networkPolicyMutator.mutated_again] server
    by (intro holds_fixed) simp_all
  have budget: "fixedBy (adBudget ad) (mutatePodDisruptionBudget lib agent) (csBudgets s' (agentKey agent))"
    if "podDisruptionBudgetEnabled agent"
    using budgetGuard.enabled_holds [OF budgets.kube_api_axioms 1(7) that owners.budgetMutator.mutated_again] server
    by (intro holds_fixed) simp_all
  show ?thesis
    unfolding settled_def 1(2)
    using files claim_settles [OF 1(3) _ assms(2)] statefulSet service policy budget by (intro conjI impI)
qed

lemma reconcile_settles:
  assumes "Reconcile lib c hasRecorder request s = (None, s')" and "csAgents s request = Some agent"
    and "ri = referencedInputsOf (\<lambda>n. csConfigMaps s (agentNamespace agent, n)) (\<lambda>n. csSecrets s (agentNamespace agent, n)) agent"
    and "missingReferenceMessages ri = []" and "buildConfigPlanWithReferences (jsonMarshal lib) agent ri = Inr plan"
    and "settlingServer lib ad agent ri plan"
  shows "settled lib ad agent ri plan s'"
  using success_runs_plan [OF assms(1-5)] plan_settles [OF _ assms(6)] plan_files(1) [OF assms(5)] by metis

end

section \<open>A tidy cluster stays tidy\<close>

context guarded_resource
begin

lemma disabled_stays:
  assumes "kube_api api metaOf admit" and "reconcile (w, st) = (r, w', st')" and "enabled \<or> pred_option (\<lambda>ob. \<not> owned ob) (st key)"
  shows "enabled \<or> pred_option (\<lambda>ob. \<not> owned ob) (st' key)"
proof (cases enabled)
  case False
  with disabled_never_writes [OF assms(1,2)] assms(3) show ?thesis by auto
qed simp

end

context kube_client
begin

lemma plan_tidy:
  assumes "reconcilePlan lib c hasRecorder agent ri plan s = (r, s')" and "tidy lib agent plan s"
  shows "tidy lib agent plan s'"
proof -
  note stale = assms(2) [unfolded tidy_def]
  obtain e s1 where gen: "reconcileGeneratedConfigMaps lib c agent plan s = (e, s1)" and same: "csConfigMaps s' = csConfigMaps s1"
    by (rule plan_configMaps [OF assms(1)])
  have gone: "pred_option (\<lambda>cm. \<not> isControlledBy lib (cmMeta cm) (haMeta agent)) (csConfigMaps s' (agentNamespace agent, n))"
    if "n \<notin> rfConfigMapName ` set (filter rfGenerated (cpFiles plan))"
      and "pred_option (\<lambda>cm. \<not> isControlledBy lib (cmMeta cm) (haMeta agent)) (csConfigMaps s (agentNamespace agent, n))" for n
    using generated_touches [OF gen, of "(agentNamespace agent, n)"] that unfolding same by force
  have "serviceEnabled agent \<or> pred_option (\<lambda>srv. \<not> isControlledBy lib (srvMeta srv) (haMeta agent)) (csServices s' (agentKey agent))"
    using plan_services [OF assms(1)] serviceGuard.disabled_stays [OF services.kube_api_axioms]
      stale [THEN conjunct2, THEN conjunct1] by metis
  moreover have "networkPolicyEnabled agent \<or>
      pred_option (\<lambda>np. \<not> isControlledBy lib (nyMeta np) (haMeta agent)) (csNetworkPolicies s' (agentKey agent))"
    using plan_networkPolicies [OF assms(1)] networkPolicyGuard.disabled_stays [OF networkPolicies.kube_api_axioms]
      stale [THEN conjunct2, THEN conjunct2, THEN conjunct1] by metis
  moreover have "podDisruptionBudgetEnabled agent \<or>
      pred_option (\<lambda>pdb. \<not> isControlledBy lib (pdMeta pdb) (haMeta agent)) (csBudgets s' (agentKey agent))"
    using plan_budgets [OF assms(1)] budgetGuard.disabled_stays [OF budgets.kube_api_axioms]
      stale [THEN conjunct2, THEN conjunct2, THEN conjunct2] by metis
  moreover have "list_all (\<lambda>cid. generatedConfigMapName (agentName agent) cid \<in> rfConfigMapName ` set (filter rfGenerated (cpFiles plan)) \<or>
      pred_option (\<lambda>cm. \<not> isControlledBy lib (cmMeta cm) (haMeta agent))
        (csConfigMaps s' (agentNamespace agent, generatedConfigMapName (agentName agent) cid))) [''config'', ''gateway-config'']"
  proof (rule list.pred_mono_strong [OF stale [THEN conjunct1]], elim disjE)
    fix cid
    assume "pred_option (\<lambda>cm. \<not> isControlledBy lib (cmMeta cm) (haMeta agent))
      (csConfigMaps s (agentNamespace agent, generatedConfigMapName (agentName agent) cid))"
    with gone show "generatedConfigMapName (agentName agent) cid \<in> rfConfigMapName ` set (filter rfGenerated (cpFiles plan)) \<or>
        pred_option (\<lambda>cm. \<not> isControlledBy lib (cmMeta cm) (haMeta agent))
          (csConfigMaps s' (agentNamespace agent, generatedConfigMapName (agentName agent) cid))" by blast
  qed (rule disjI1)
  ultimately show ?thesis unfolding tidy_def by (intro conjI)
qed

lemma reconcile_tidy:
  assumes "Reconcile lib c hasRecorder request s = (None, s')" and "csAgents s request = Some agent"
    and "ri = referencedInputsOf (\<lambda>n. csConfigMaps s (agentNamespace agent, n)) (\<lambda>n. csSecrets s (agentNamespace agent, n)) agent"
    and "missingReferenceMessages ri = []" and "buildConfigPlanWithReferences (jsonMarshal lib) agent ri = Inr plan"
    and "tidy lib agent plan s"
  shows "tidy lib agent plan s'"
proof -
  obtain s1 where "unchanged s s1" and run: "reconcilePlan lib c hasRecorder agent ri plan s1 = (None, s')"
    by (rule success_runs_plan [OF assms(1-5)])
  then have "tidy lib agent plan s1" using settled_managed(2) [OF managed_unchanged] assms(6) by blast
  with plan_tidy [OF run] show ?thesis .
qed

end

section \<open>What of an agent is an input\<close>

text \<open>
  Nothing that the reconcile makes of an agent depends on more than its spec, its name, its namespace and
  its UID.  In particular nothing depends on the status it has written before.
\<close>

definition sameAgent :: "hermesAgent \<Rightarrow> hermesAgent \<Rightarrow> bool" where
  "sameAgent agent' agent \<longleftrightarrow> haSpec agent' = haSpec agent \<and> agentName agent' = agentName agent \<and>
     agentNamespace agent' = agentNamespace agent \<and> omUID (haMeta agent') = omUID (haMeta agent)"

lemma sameAgent_status: "sameAgent (agent\<lparr>haStatus := status\<rparr>) agent"
  by (simp add: sameAgent_def)

lemma sameAgentD:
  "sameAgent agent' agent \<Longrightarrow> haSpec agent' = haSpec agent" "sameAgent agent' agent \<Longrightarrow> agentName agent' = agentName agent"
  "sameAgent agent' agent \<Longrightarrow> agentNamespace agent' = agentNamespace agent"
  "sameAgent agent' agent \<Longrightarrow> omUID (haMeta agent') = omUID (haMeta agent)"
  by (simp_all add: sameAgent_def)

lemma sameAgent_parts:
  assumes "sameAgent agent' agent"
  shows "persistenceEnabled agent' = persistenceEnabled agent" "serviceEnabled agent' = serviceEnabled agent"
    "networkPolicyEnabled agent' = networkPolicyEnabled agent"
    "podDisruptionBudgetEnabled agent' = podDisruptionBudgetEnabled agent"
    "resourceLabels agent' = resourceLabels agent" "managedPodLabels agent' = managedPodLabels agent"
    "persistenceAccessModes agent' = persistenceAccessModes agent" "persistenceSize agent' = persistenceSize agent"
    "servicePortOf agent' = servicePortOf agent" "serviceTargetPort agent' = serviceTargetPort agent"
    "desiredReplicas agent' = desiredReplicas agent" "hermesArgs agent' = hermesArgs agent"
    "automountServiceAccountToken agent' = automountServiceAccountToken agent"
    "updateStrategyOf agent' = updateStrategyOf agent" "hermesDataVolume agent' = hermesDataVolume agent"
    "serviceType agent' = serviceType agent" "hermesStartupProbe agent' = hermesStartupProbe agent"
    "hermesReadinessProbe agent' = hermesReadinessProbe agent" "hermesLivenessProbe agent' = hermesLivenessProbe agent"
    "namedMeta agent' = namedMeta agent"
  by (simp_all add: persistenceEnabled_def serviceEnabled_def networkPolicyEnabled_def podDisruptionBudgetEnabled_def
      resourceLabels_def managedPodLabels_def persistenceAccessModes_def persistenceSize_def servicePortOf_def
      serviceTargetPort_def desiredReplicas_def hermesArgs_def automountServiceAccountToken_def updateStrategyOf_def
      hermesDataVolume_def serviceType_def hermesStartupProbe_def hermesReadinessProbe_def hermesLivenessProbe_def
      namedMeta_def fun_eq_iff sameAgentD [OF assms])

lemma sameAgent_builders:
  assumes "sameAgent agent' agent"
  shows "buildPodTemplateInputs agent' plan = buildPodTemplateInputs agent plan"
    "buildService agent' = buildService agent" "buildNetworkPolicy agent' b = buildNetworkPolicy agent b"
    "buildPodDisruptionBudget agent' = buildPodDisruptionBudget agent"
    "buildPersistentVolumeClaim q agent' = buildPersistentVolumeClaim q agent"
    "effectiveTerminalBackend y agent' ri = effectiveTerminalBackend y agent ri"
    "hermesPodSpec agent' inputs = hermesPodSpec agent inputs"
    "managedPodAnnotations agent' a = managedPodAnnotations agent a"
    "buildStatefulSet agent' inputs = buildStatefulSet agent inputs"
    "resolveConfigFile agent' cid fileName source = resolveConfigFile agent cid fileName source"
    "computeConfigHash m agent' files ri = computeConfigHash m agent files ri"
  by (simp_all add: hermesContainer_def buildPodTemplateInputs_def buildService_def buildNetworkPolicy_def
      buildPodDisruptionBudget_def buildPersistentVolumeClaim_def effectiveTerminalBackend_def containerPorts_def
      hermesPodSpec_def managedPodAnnotations_def buildStatefulSet_def resolveConfigFile_def computeConfigHash_def
      configHashPayload_def Let_def sameAgentD [OF assms] sameAgent_parts [OF assms]
      cong: if_cong option.case_cong sum.case_cong)

lemma sameAgent_plan:
  assumes "sameAgent agent' agent"
  shows "buildConfigPlanWithReferences m agent' ri = buildConfigPlanWithReferences m agent ri"
    "referencedInputsOf cms ses agent' = referencedInputsOf cms ses agent"
  by (simp_all add: buildConfigPlanWithReferences_def referencedInputsOf_def sameAgentD [OF assms]
      sameAgent_builders [OF assms] cong: if_cong option.case_cong sum.case_cong)

lemmas status_no_input [simp] = sameAgent_parts [OF sameAgent_status] sameAgent_builders [OF sameAgent_status]
lemmas status_no_input_plan [simp] = sameAgent_plan [OF sameAgent_status]

lemma status_no_input_owner [simp]: "ownedMeta lib (agent\<lparr>haStatus := status\<rparr>) = ownedMeta lib agent"
  by (simp add: ownedMeta_def fun_eq_iff)

lemma status_no_input_mutate [simp]:
  "mutateConfigMap lib (agent\<lparr>haStatus := status\<rparr>) = mutateConfigMap lib agent"
  "mutateClaim lib (agent\<lparr>haStatus := status\<rparr>) = mutateClaim lib agent"
  "mutateStatefulSet lib (agent\<lparr>haStatus := status\<rparr>) = mutateStatefulSet lib agent"
  "mutateService lib (agent\<lparr>haStatus := status\<rparr>) = mutateService lib agent"
  "mutateNetworkPolicy lib (agent\<lparr>haStatus := status\<rparr>) = mutateNetworkPolicy lib agent"
  "mutatePodDisruptionBudget lib (agent\<lparr>haStatus := status\<rparr>) = mutatePodDisruptionBudget lib agent"
  by (simp_all add: fun_eq_iff mutateConfigMap_def mutateClaim_def mutateStatefulSet_def mutateService_def
      mutateNetworkPolicy_def mutatePodDisruptionBudget_def persistentVolumeClaimImmutableFieldDrift_def
      newPersistentVolumeClaimSpecDriftError_def persistentVolumeClaimDriftRemediation_def
      cong: if_cong option.case_cong sum.case_cong)

lemma status_no_input_settled:
  "settled lib ad (agent\<lparr>haStatus := status\<rparr>) ri plan s = settled lib ad agent ri plan s"
  "tidy lib (agent\<lparr>haStatus := status\<rparr>) plan s = tidy lib agent plan s"
  by (simp_all add: settled_def tidy_def cong: sum.case_cong)

section \<open>Convergence\<close>

context kube_client
begin

text \<open>What is deployed for an agent is deployed for the same agent under other labels or with another status.\<close>

lemma sameAgent_marked:
  assumes "sameAgent agent' agent"
  shows "markedAs (isControlledBy lib) (haMeta agent') labels = markedAs (isControlledBy lib) (haMeta agent) labels"
proof -
  have "agentReference (haMeta agent') = agentReference (haMeta agent)"
    by (simp add: fun_eq_iff agentReference_def sameAgentD(2) [OF assms])
  with owners.owner_identity [OF sameAgentD(4) [OF assms]] show ?thesis
    by (simp add: fun_eq_iff markedAs_def namesOwner_def cong: option.case_cong)
qed

lemma sameAgent_deployed:
  assumes "sameAgent agent' agent"
  shows "deployed lib ad agent' ri plan s = deployed lib ad agent ri plan s"
proof -
  note same = sameAgentD [OF assms] sameAgent_parts [OF assms] sameAgent_builders [OF assms] sameAgent_marked [OF assms]
  have "publishes lib agent' = publishes lib agent" "claimFits lib agent' = claimFits lib agent"
    "statefulSetFits lib agent' = statefulSetFits lib agent" "serviceFits lib agent' = serviceFits lib agent"
    "policyFits lib agent' = policyFits lib agent" "budgetFits lib agent' = budgetFits lib agent"
    by (simp_all add: fun_eq_iff fits_defs same)
  then show ?thesis by (simp add: deployed_def same cong: if_cong sum.case_cong)
qed

lemma second_reconcile:
  assumes "Reconcile lib c hasRecorder request s = (None, s')" and "csAgents s request = Some agent"
    and "ri = referencedInputsOf (\<lambda>n. csConfigMaps s (agentNamespace agent, n)) (\<lambda>n. csSecrets s (agentNamespace agent, n)) agent"
    and "missingReferenceMessages ri = []" and "buildConfigPlanWithReferences (jsonMarshal lib) agent ri = Inr plan"
    and "settlingServer lib ad agent ri plan" and "tidy lib agent plan s'"
    and "referencedInputsOf (\<lambda>n. csConfigMaps s' (agentNamespace agent, n)) (\<lambda>n. csSecrets s' (agentNamespace agent, n)) agent = ri"
    and "Reconcile lib c hasRecorder' request s' = (r, s'')"
  shows "managed s'' = managed s'"
proof -
  obtain status where agent: "csAgents s' request = Some (agent\<lparr>haStatus := status\<rparr>)"
    using statusOnly_lookup [OF reconcile_statusOnly [OF assms(1)] assms(2)] by blast
  have settled: "settled lib ad agent ri plan s'" by (rule reconcile_settles [OF assms(1-6)])
  show ?thesis
    by (rule settled_reconcile [OF agent _ _ _ _ assms(9), where ri = ri and plan = plan])
      (use assms(5,7,8) settled in \<open>simp_all add: status_no_input_settled\<close>)
qed

end

end
