(* ===== verification/Watches.thy ===== *)
theory Watches
  imports Convergence
begin

text \<open>
  The controller around \<^verbatim>\<open>Reconcile\<close>: the watches that \<^verbatim>\<open>SetupWithManager\<close> of
  \<^verbatim>\<open>src/internal/controller/hermesagent_controller.go\<close> registers, and the work queue they feed, as a state
  machine.  The controller runtime is a parameter: of the requests it delivers only lower bounds are
  assumed.  A step is a change of the cluster by anybody, or one reconcile of a queued request; a failed
  request is queued again.  The list of agents that the map functions ask for may fail; the state keeps
  which agents have missed a change in that way.  The invariant says of every other agent off the queue that it
  has run on its current inputs and that what it asks for is deployed now.
\<close>

section \<open>The watches\<close>

datatype watchedKind =
  ConfigMapKind | PersistentVolumeClaimKind | ServiceKind | NetworkPolicyKind | PodDisruptionBudgetKind | StatefulSetKind

text \<open>
  The calls of the builder: the reconciled kind with the predicate on its updates, the owned kinds, and
  the watches with a map function.
\<close>

datatype 'w watch =
  ForAgents "objectMeta \<Rightarrow> objectMeta \<Rightarrow> bool"
| Owns watchedKind
| WatchesConfigMaps "configMap \<Rightarrow> 'w cluster \<Rightarrow> objectKey list \<times> 'w cluster"
| WatchesSecrets "secret \<Rightarrow> 'w cluster \<Rightarrow> objectKey list \<times> 'w cluster"

definition generationChanged :: "objectMeta \<Rightarrow> objectMeta \<Rightarrow> bool" where
  "generationChanged old new \<longleftrightarrow> omGeneration old \<noteq> omGeneration new"

definition SetupWithManager :: "'w kubeClient \<Rightarrow> 'w watch list" where
  "SetupWithManager c =
     [ForAgents generationChanged,
      Owns ConfigMapKind,
      Owns PersistentVolumeClaimKind,
      Owns ServiceKind,
      Owns NetworkPolicyKind,
      Owns PodDisruptionBudgetKind,
      Owns StatefulSetKind,
      WatchesConfigMaps (findAgentsForConfigMap c),
      WatchesSecrets (findAgentsForSecret c)]"

text \<open>The metadata of the objects of a kind that a change of the cluster creates, updates or deletes.\<close>

definition changedIn :: "('o \<Rightarrow> objectMeta) \<Rightarrow> (objectKey \<Rightarrow> 'o option) \<Rightarrow> (objectKey \<Rightarrow> 'o option) \<Rightarrow> objectMeta set" where
  "changedIn metaOf st st' = {metaOf ob | ob k. st k \<noteq> st' k \<and> (st k = Some ob \<or> st' k = Some ob)}"

fun changedMetas :: "watchedKind \<Rightarrow> 'w cluster \<Rightarrow> 'w cluster \<Rightarrow> objectMeta set" where
  "changedMetas ConfigMapKind s s' = changedIn cmMeta (csConfigMaps s) (csConfigMaps s')"
| "changedMetas PersistentVolumeClaimKind s s' = changedIn pcMeta (csClaims s) (csClaims s')"
| "changedMetas ServiceKind s s' = changedIn srvMeta (csServices s) (csServices s')"
| "changedMetas NetworkPolicyKind s s' = changedIn nyMeta (csNetworkPolicies s) (csNetworkPolicies s')"
| "changedMetas PodDisruptionBudgetKind s s' = changedIn pdMeta (csBudgets s) (csBudgets s')"
| "changedMetas StatefulSetKind s s' = changedIn sfMeta (csStatefulSets s) (csStatefulSets s')"

text \<open>An owner reference to a resource of the reconciled kind and group, in whatever version.\<close>

definition toAgentKind :: "ownerReference \<Rightarrow> bool" where
  "toAgentKind ref \<longleftrightarrow> orKind ref = ''HermesAgent'' \<and> hasPrefix (orAPIVersion ref) ''hermes.nous.ai/''"

lemma agentReference_kind: "agentReference owner ref \<Longrightarrow> toAgentKind ref \<and> orName ref = omName owner"
  by (simp add: agentReference_def toAgentKind_def hasPrefix_def)

text \<open>
  What the runtime delivers for a change of the cluster, at least: the key of a created agent and of an
  updated one that the predicate lets through, the controller of a changed object of an owned kind when the
  controller is an agent, and everything that the map function of a watch returns for a changed object.
\<close>

locale controller_runtime =
  fixes deliver :: "'w watch list \<Rightarrow> 'w cluster \<Rightarrow> 'w cluster \<Rightarrow> objectKey set"
  assumes deliver_agent: "ForAgents changed \<in> set ws \<Longrightarrow> csAgents s' k = Some new \<Longrightarrow>
      pred_option (\<lambda>old. changed (haMeta old) (haMeta new)) (csAgents s k) \<Longrightarrow> k \<in> deliver ws s s'"
    and deliver_owner: "Owns kind \<in> set ws \<Longrightarrow> m \<in> changedMetas kind s s' \<Longrightarrow> controllerOf m = Some ref \<Longrightarrow>
      toAgentKind ref \<Longrightarrow> (omNamespace m, orName ref) \<in> deliver ws s s'"
    and deliver_configMap: "WatchesConfigMaps f \<in> set ws \<Longrightarrow> csConfigMaps s k \<noteq> csConfigMaps s' k \<Longrightarrow>
      csConfigMaps s k = Some cm \<or> csConfigMaps s' k = Some cm \<Longrightarrow> set (fst (f cm s')) \<subseteq> deliver ws s s'"
    and deliver_secret: "WatchesSecrets g \<in> set ws \<Longrightarrow> csSecrets s k \<noteq> csSecrets s' k \<Longrightarrow>
      csSecrets s k = Some se \<or> csSecrets s' k = Some se \<Longrightarrow> set (fst (g se s')) \<subseteq> deliver ws s s'"

text \<open>A runtime that delivers nothing more.\<close>

definition leastDeliver :: "'w watch list \<Rightarrow> 'w cluster \<Rightarrow> 'w cluster \<Rightarrow> objectKey set" where
  "leastDeliver ws s s' =
     {k. \<exists>changed new. ForAgents changed \<in> set ws \<and> csAgents s' k = Some new \<and>
        pred_option (\<lambda>old. changed (haMeta old) (haMeta new)) (csAgents s k)} \<union>
     {k. \<exists>kind m ref. Owns kind \<in> set ws \<and> m \<in> changedMetas kind s s' \<and> controllerOf m = Some ref \<and>
        toAgentKind ref \<and> k = (omNamespace m, orName ref)} \<union>
     {k. \<exists>f cm k'. WatchesConfigMaps f \<in> set ws \<and> csConfigMaps s k' \<noteq> csConfigMaps s' k' \<and>
        (csConfigMaps s k' = Some cm \<or> csConfigMaps s' k' = Some cm) \<and> k \<in> set (fst (f cm s'))} \<union>
     {k. \<exists>f se k'. WatchesSecrets f \<in> set ws \<and> csSecrets s k' \<noteq> csSecrets s' k' \<and>
        (csSecrets s k' = Some se \<or> csSecrets s' k' = Some se) \<and> k \<in> set (fst (f se s'))}"

interpretation leastRuntime: controller_runtime leastDeliver
  by unfold_locales (unfold leastDeliver_def, blast+)

section \<open>The state machine\<close>

definition inputsOf :: "'w cluster \<Rightarrow> hermesAgent \<Rightarrow> referencedInputState" where
  "inputsOf s agent = referencedInputsOf (\<lambda>n. csConfigMaps s (agentNamespace agent, n)) (\<lambda>n. csSecrets s (agentNamespace agent, n)) agent"

text \<open>
  The map functions of the watches on ConfigMaps and Secrets list the agents of the namespace; when the list
  fails they answer with no request, and the change goes unheard.  These are the agents that refer to an
  object whose change goes unheard.
\<close>

definition unheard :: "'w kubeClient \<Rightarrow> 'w cluster \<Rightarrow> 'w cluster \<Rightarrow> objectKey set" where
  "unheard c s s' =
     {k. \<exists>agent n. csAgents s' k = Some agent \<and>
        \<not> isOk (fst (apiListAgents (clAgents c) (agentNamespace agent) (csHidden s', csAgents s'))) \<and>
        (referencesConfigMap agent n \<and> csConfigMaps s (agentNamespace agent, n) \<noteq> csConfigMaps s' (agentNamespace agent, n) \<or>
         referencesSecret agent n \<and> csSecrets s (agentNamespace agent, n) \<noteq> csSecrets s' (agentNamespace agent, n))}"

text \<open>
  The cluster and the set of queued requests, with two pieces of history: the agents with an unheard change
  since their last run without an error, and that run, as the clusters before and after it.
\<close>

record 'w controllerState =
  ctCluster :: "'w cluster"
  ctQueue :: "objectKey set"
  ctUnheard :: "objectKey set"
  ctRuns :: "objectKey \<Rightarrow> ('w cluster \<times> 'w cluster) option"

text \<open>A cluster that the API server may hold: objects are stored under their keys, and the known keys cover the agents.\<close>

definition validCluster :: "objectKey set \<Rightarrow> 'w cluster \<Rightarrow> bool" where
  "validCluster known s \<longleftrightarrow> keyed haMeta (csAgents s) \<and> keyed cmMeta (csConfigMaps s) \<and> keyed seMeta (csSecrets s) \<and>
     keyed pcMeta (csClaims s) \<and> keyed sfMeta (csStatefulSets s) \<and> keyed srvMeta (csServices s) \<and>
     keyed nyMeta (csNetworkPolicies s) \<and> keyed pdMeta (csBudgets s) \<and> dom (csAgents s) \<subseteq> known"

text \<open>
  A custom resource keeps its UID as long as it exists, so that it takes two steps to replace one, and the
  server gives it a new generation whenever its spec changes.
\<close>

definition generationsKept :: "'w cluster \<Rightarrow> 'w cluster \<Rightarrow> bool" where
  "generationsKept s s' \<longleftrightarrow>
     (\<forall>k old new. csAgents s k = Some old \<longrightarrow> csAgents s' k = Some new \<longrightarrow>
        omUID (haMeta old) = omUID (haMeta new) \<and>
        (haSpec old \<noteq> haSpec new \<longrightarrow> generationChanged (haMeta old) (haMeta new)))"

inductive controllerStep ::
  "kubeLib \<Rightarrow> 'w kubeClient \<Rightarrow> objectKey set \<Rightarrow> ('w watch list \<Rightarrow> 'w cluster \<Rightarrow> 'w cluster \<Rightarrow> objectKey set) \<Rightarrow> bool \<Rightarrow>
   'w controllerState \<Rightarrow> 'w controllerState \<Rightarrow> bool"
  for lib :: kubeLib and c :: "'w kubeClient" and known :: "objectKey set"
    and deliver :: "'w watch list \<Rightarrow> 'w cluster \<Rightarrow> 'w cluster \<Rightarrow> objectKey set" and hasRecorder :: bool
where
  environment:
    "validCluster known s' \<Longrightarrow> generationsKept (ctCluster ct) s' \<Longrightarrow>
     controllerStep lib c known deliver hasRecorder ct
       (ct\<lparr>ctCluster := s', ctQueue := ctQueue ct \<union> deliver (SetupWithManager c) (ctCluster ct) s',
          ctUnheard := ctUnheard ct \<union> unheard c (ctCluster ct) s'\<rparr>)"
| succeeded:
    "k \<in> ctQueue ct \<Longrightarrow> Reconcile lib c hasRecorder k (ctCluster ct) = (None, s') \<Longrightarrow> validCluster known s' \<Longrightarrow>
     controllerStep lib c known deliver hasRecorder ct
       \<lparr>ctCluster = s', ctQueue = ctQueue ct - {k} \<union> deliver (SetupWithManager c) (ctCluster ct) s',
        ctUnheard = ctUnheard ct - {k} \<union> unheard c (ctCluster ct) s',
        ctRuns = (ctRuns ct)(k \<mapsto> (ctCluster ct, s'))\<rparr>"
| failed:
    "k \<in> ctQueue ct \<Longrightarrow> Reconcile lib c hasRecorder k (ctCluster ct) = (Some e, s') \<Longrightarrow> validCluster known s' \<Longrightarrow>
     controllerStep lib c known deliver hasRecorder ct
       (ct\<lparr>ctCluster := s', ctQueue := insert k (ctQueue ct \<union> deliver (SetupWithManager c) (ctCluster ct) s'),
          ctUnheard := ctUnheard ct \<union> unheard c (ctCluster ct) s'\<rparr>)"

text \<open>At the start every agent is queued.\<close>

definition initialController :: "objectKey set \<Rightarrow> 'w controllerState \<Rightarrow> bool" where
  "initialController known ct \<longleftrightarrow> validCluster known (ctCluster ct) \<and> dom (csAgents (ctCluster ct)) \<subseteq> ctQueue ct \<and>
     ctUnheard ct = {} \<and> ctRuns ct = Map.empty"

inductive reachable ::
  "kubeLib \<Rightarrow> 'w kubeClient \<Rightarrow> objectKey set \<Rightarrow> ('w watch list \<Rightarrow> 'w cluster \<Rightarrow> 'w cluster \<Rightarrow> objectKey set) \<Rightarrow> bool \<Rightarrow>
   'w controllerState \<Rightarrow> bool"
  for lib :: kubeLib and c :: "'w kubeClient" and known :: "objectKey set"
    and deliver :: "'w watch list \<Rightarrow> 'w cluster \<Rightarrow> 'w cluster \<Rightarrow> objectKey set" and hasRecorder :: bool
where
  start: "initialController known ct \<Longrightarrow> reachable lib c known deliver hasRecorder ct"
| step: "reachable lib c known deliver hasRecorder ct \<Longrightarrow> controllerStep lib c known deliver hasRecorder ct ct' \<Longrightarrow>
    reachable lib c known deliver hasRecorder ct'"

section \<open>What a quiet change leaves alone\<close>

lemma sameAgent_trans: "sameAgent a b \<Longrightarrow> sameAgent b d \<Longrightarrow> sameAgent a d"
  by (simp add: sameAgent_def)

lemma sameAgent_sym: "sameAgent a b \<Longrightarrow> sameAgent b a"
  by (simp add: sameAgent_def)

lemma sameAgent_inputs: "sameAgent a b \<Longrightarrow> inputsOf s a = inputsOf s b"
  by (simp add: inputsOf_def sameAgent_plan(2) sameAgentD(3))

lemma valid_key: "validCluster known s \<Longrightarrow> csAgents s k = Some agent \<Longrightarrow> agentKey agent = k"
  by (auto simp: validCluster_def keyOf_def dest: keyedD)

context controller_runtime
begin

lemma referring_delivered:
  assumes "agent_api (clAgents c) known" and "validCluster known s'" and "csAgents s' k = Some agent"
    and "isOk (fst (apiListAgents (clAgents c) (agentNamespace agent) (csHidden s', csAgents s')))"
  shows "keyOf (cmMeta cm) = (agentNamespace agent, n) \<Longrightarrow> referencesConfigMap agent n \<Longrightarrow> k \<in> set (fst (findAgentsForConfigMap c cm s'))"
    and "keyOf (seMeta se) = (agentNamespace agent, n) \<Longrightarrow> referencesSecret agent n \<Longrightarrow> k \<in> set (fst (findAgentsForSecret c se s'))"
proof -
  obtain agents where list: "fst (apiListAgents (clAgents c) (agentNamespace agent) (csHidden s', csAgents s')) = Inr agents"
    using assms(4) unfolding isOk_iff by blast
  have key: "agentKey agent = k" using valid_key [OF assms(2,3)] .
  have "k \<in> set (fst (findReferencingAgents c (agentNamespace agent) matches s')) \<longleftrightarrow> matches agent" for matches
    using findReferencingAgents_covers [OF assms(1) _ list] assms(2,3) unfolding key [symmetric] by (simp add: validCluster_def)
  then show "keyOf (cmMeta cm) = (agentNamespace agent, n) \<Longrightarrow> referencesConfigMap agent n \<Longrightarrow> k \<in> set (fst (findAgentsForConfigMap c cm s'))"
    and "keyOf (seMeta se) = (agentNamespace agent, n) \<Longrightarrow> referencesSecret agent n \<Longrightarrow> k \<in> set (fst (findAgentsForSecret c se s'))"
    by (simp_all add: findAgentsForConfigMap_def findAgentsForSecret_def keyOf_def)
qed

text \<open>An agent that a change does not enqueue has the same inputs after the change, unless the change goes unheard.\<close>

lemma inputs_kept:
  assumes "agent_api (clAgents c) known" and "validCluster known s" and "validCluster known s'"
    and "csAgents s' k = Some agent" and "k \<notin> deliver (SetupWithManager c) s s'" and "k \<notin> unheard c s s'"
  shows "inputsOf s' agent = inputsOf s agent"
  unfolding inputsOf_def
proof (rule inputs_depend_on_references)
  fix n :: string
  let ?k = "(agentNamespace agent, n)"
  note keyed = assms(2,3) [unfolded validCluster_def]
  show "csConfigMaps s' ?k = csConfigMaps s ?k" if "referencesConfigMap agent n"
  proof (rule ccontr)
    assume changed: "csConfigMaps s' ?k \<noteq> csConfigMaps s ?k"
    then obtain cm where cm: "csConfigMaps s ?k \<noteq> csConfigMaps s' ?k" "csConfigMaps s ?k = Some cm \<or> csConfigMaps s' ?k = Some cm"
      by (metis option.exhaust)
    then have "keyOf (cmMeta cm) = ?k" using keyed keyedD by metis
    moreover have "isOk (fst (apiListAgents (clAgents c) (agentNamespace agent) (csHidden s', csAgents s')))"
      using assms(4,6) that cm(1) unfolding unheard_def by blast
    ultimately have "k \<in> set (fst (findAgentsForConfigMap c cm s'))" using referring_delivered(1) [OF assms(1,3,4)] that by blast
    with deliver_configMap [OF _ cm, of _ "SetupWithManager c"] assms(5) show False by (auto simp: SetupWithManager_def)
  qed
  show "csSecrets s' ?k = csSecrets s ?k" if "referencesSecret agent n"
  proof (rule ccontr)
    assume "csSecrets s' ?k \<noteq> csSecrets s ?k"
    then obtain se where se: "csSecrets s ?k \<noteq> csSecrets s' ?k" "csSecrets s ?k = Some se \<or> csSecrets s' ?k = Some se"
      by (metis option.exhaust)
    then have "keyOf (seMeta se) = ?k" using keyed keyedD by metis
    moreover have "isOk (fst (apiListAgents (clAgents c) (agentNamespace agent) (csHidden s', csAgents s')))"
      using assms(4,6) that se(1) unfolding unheard_def by blast
    ultimately have "k \<in> set (fst (findAgentsForSecret c se s'))" using referring_delivered(2) [OF assms(1,3,4)] that by blast
    with deliver_secret [OF _ se, of _ "SetupWithManager c"] assms(5) show False by (auto simp: SetupWithManager_def)
  qed
qed

text \<open>It was there before, the same but for its labels and its status.\<close>

lemma undelivered_agent:
  assumes "validCluster known s" and "validCluster known s'" and "generationsKept s s'"
    and "csAgents s' k = Some agent" and "k \<notin> deliver (SetupWithManager c) s s'"
  obtains old where "csAgents s k = Some old" "sameAgent old agent"
proof -
  have "\<not> pred_option (\<lambda>old. generationChanged (haMeta old) (haMeta agent)) (csAgents s k)"
    using deliver_agent [of generationChanged "SetupWithManager c" s' k agent s] assms(4,5) by (auto simp: SetupWithManager_def)
  then obtain old where old: "csAgents s k = Some old" "\<not> generationChanged (haMeta old) (haMeta agent)"
    by (cases "csAgents s k") auto
  moreover have "haSpec old = haSpec agent" "omUID (haMeta old) = omUID (haMeta agent)"
    using assms(3,4) old unfolding generationsKept_def by blast+
  moreover have "agentKey old = agentKey agent" using valid_key [OF assms(1) old(1)] valid_key [OF assms(2,4)] by simp
  ultimately show thesis by (intro that [of old]) (simp_all add: sameAgent_def)
qed

text \<open>An object of a watched kind that names the agent as its controller is the same after the change.\<close>

lemma owned_kept:
  assumes "Owns kind \<in> set ws" and "changedMetas kind s s' = changedIn metaOf st st'" and "keyed metaOf st"
    and "\<And>old m. omOwnerReferences (metaOf (admit old m)) = omOwnerReferences (metaOf m)"
    and "holds admit st k P" and "\<And>m. P m \<Longrightarrow> namesOwner owner (metaOf m)" and "(fst k, omName owner) \<notin> deliver ws s s'"
  shows "st' k = st k"
proof (rule ccontr)
  assume changed: "st' k \<noteq> st k"
  obtain m ob where m: "P m" "st k = Some ob" "omOwnerReferences (metaOf ob) = omOwnerReferences (metaOf m)"
    using assms(5) assms(4) unfolding holds_def by metis
  obtain ref where ref: "controllerOf (metaOf ob) = Some ref" "agentReference owner ref"
    using assms(6) [OF m(1)] namesOwner_cong [OF m(3), of owner] by (metis namesOwnerE)
  have "metaOf ob \<in> changedMetas kind s s'"
    unfolding assms(2) changedIn_def using changed m(2) by (metis (mono_tags, lifting) mem_Collect_eq)
  moreover have "omNamespace (metaOf ob) = fst k" using keyedD [OF assms(3) m(2)] by (auto simp: keyOf_def)
  ultimately have "(fst k, orName ref) \<in> deliver ws s s'"
    using deliver_owner [OF assms(1) _ ref(1)] agentReference_kind [OF ref(2)] by metis
  with agentReference_kind [OF ref(2)] assms(7) show False by simp
qed

end

section \<open>The objects of an agent\<close>

text \<open>What is stored under the names of the generated files and of the enabled objects of an agent.\<close>

definition agentObjects ::
  "hermesAgent \<Rightarrow> configPlan \<Rightarrow> 'w cluster \<Rightarrow> configMap option list \<times> persistentVolumeClaim option \<times> statefulSet option \<times>
     service option \<times> networkPolicy option \<times> podDisruptionBudget option" where
  "agentObjects agent plan s =
     (map (\<lambda>f. csConfigMaps s (agentNamespace agent, rfConfigMapName f)) (filter rfGenerated (cpFiles plan)),
      if persistenceEnabled agent then csClaims s (agentNamespace agent, persistentVolumeClaimName (agentName agent)) else None,
      csStatefulSets s (agentKey agent),
      if serviceEnabled agent then csServices s (agentKey agent) else None,
      if networkPolicyEnabled agent then csNetworkPolicies s (agentKey agent) else None,
      if podDisruptionBudgetEnabled agent then csBudgets s (agentKey agent) else None)"

lemma all_owned: "Owns kind \<in> set (SetupWithManager c)"
  by (cases kind) (simp_all add: SetupWithManager_def)

context kube_client
begin

lemma deployed_objects:
  assumes "agentObjects agent plan s' = agentObjects agent plan s" and "deployed lib ad agent ri plan s"
  shows "deployed lib ad agent ri plan s'"
proof -
  have same: "f \<in> set (cpFiles plan) \<Longrightarrow> rfGenerated f \<Longrightarrow>
      csConfigMaps s' (agentNamespace agent, rfConfigMapName f) = csConfigMaps s (agentNamespace agent, rfConfigMapName f)"
    "persistenceEnabled agent \<Longrightarrow> csClaims s' (agentNamespace agent, persistentVolumeClaimName (agentName agent)) =
       csClaims s (agentNamespace agent, persistentVolumeClaimName (agentName agent))"
    "csStatefulSets s' (agentKey agent) = csStatefulSets s (agentKey agent)"
    "serviceEnabled agent \<Longrightarrow> csServices s' (agentKey agent) = csServices s (agentKey agent)"
    "networkPolicyEnabled agent \<Longrightarrow> csNetworkPolicies s' (agentKey agent) = csNetworkPolicies s (agentKey agent)"
    "podDisruptionBudgetEnabled agent \<Longrightarrow> csBudgets s' (agentKey agent) = csBudgets s (agentKey agent)" for f
    using assms(1) by (auto simp: agentObjects_def)
  show ?thesis
    using assms(2) unfolding deployed_def
    by (auto simp: list_all_iff same holds_def split: sum.splits)
qed

lemma deployed_kept:
  assumes "controller_runtime deliver" and "validCluster known s" and "deployed lib ad agent ri plan s"
    and "agentKey agent \<notin> deliver (SetupWithManager c) s s'"
  shows "agentObjects agent plan s' = agentObjects agent plan s"
proof -
  note parts = assms(3) [unfolded deployed_def]
  have running: "holds (adStatefulSet ad) (csStatefulSets s) (agentKey agent) (statefulSetFits lib agent plan)"
    and serving: "serviceEnabled agent \<Longrightarrow> holds (adService ad) (csServices s) (agentKey agent) (serviceFits lib agent)"
    and guarding: "networkPolicyEnabled agent \<Longrightarrow> holds (adNetworkPolicy ad) (csNetworkPolicies s) (agentKey agent) (policyFits lib agent ri)"
    and limiting: "podDisruptionBudgetEnabled agent \<Longrightarrow> holds (adBudget ad) (csBudgets s) (agentKey agent) (budgetFits lib agent)"
    using parts by blast+
  have keyed: "keyed cmMeta (csConfigMaps s)" "keyed pcMeta (csClaims s)" "keyed sfMeta (csStatefulSets s)"
    "keyed srvMeta (csServices s)" "keyed nyMeta (csNetworkPolicies s)" "keyed pdMeta (csBudgets s)"
    using assms(2) by (simp_all add: validCluster_def)
  note kept = controller_runtime.owned_kept [OF assms(1) all_owned [where c = c], where owner = "haMeta agent" and s = s and s' = s']
  have named: "publishes lib agent f cm \<Longrightarrow> namesOwner (haMeta agent) (cmMeta cm)"
    "claimFits lib agent desired claim \<Longrightarrow> namesOwner (haMeta agent) (pcMeta claim)"
    "statefulSetFits lib agent plan sts \<Longrightarrow> namesOwner (haMeta agent) (sfMeta sts)"
    "serviceFits lib agent srv \<Longrightarrow> namesOwner (haMeta agent) (srvMeta srv)"
    "policyFits lib agent ri np \<Longrightarrow> namesOwner (haMeta agent) (nyMeta np)"
    "budgetFits lib agent pdb \<Longrightarrow> namesOwner (haMeta agent) (pdMeta pdb)" for f cm desired claim sts srv np pdb
    by (simp_all add: fits_defs markedAs_def)
  have "csConfigMaps s' (agentNamespace agent, rfConfigMapName f) = csConfigMaps s (agentNamespace agent, rfConfigMapName f)"
    if "f \<in> set (cpFiles plan)" "rfGenerated f" for f
  proof -
    have "holds (adConfigMap ad) (csConfigMaps s) (agentNamespace agent, rfConfigMapName f) (publishes lib agent f)"
      using parts that by (simp add: list_all_iff)
    from kept [OF changedMetas.simps(1) keyed(1) configMaps.admit_owners this named(1)] assms(4) show ?thesis by simp
  qed
  moreover have "csClaims s' (agentNamespace agent, persistentVolumeClaimName (agentName agent)) =
      csClaims s (agentNamespace agent, persistentVolumeClaimName (agentName agent))" if on: "persistenceEnabled agent"
  proof -
    obtain desired where "holds (adClaim ad) (csClaims s) (agentNamespace agent, persistentVolumeClaimName (agentName agent))
        (claimFits lib agent desired)"
      using parts [THEN conjunct2, THEN conjunct1, THEN mp, OF on] by (auto split: sum.splits)
    from kept [OF changedMetas.simps(2) keyed(2) claims.admit_owners this named(2)] assms(4) show ?thesis by simp
  qed
  moreover have "csStatefulSets s' (agentKey agent) = csStatefulSets s (agentKey agent)"
    using kept [OF changedMetas.simps(6) keyed(3) statefulSets.admit_owners running named(3)] assms(4) by simp
  moreover have "csServices s' (agentKey agent) = csServices s (agentKey agent)" if on: "serviceEnabled agent"
    using kept [OF changedMetas.simps(3) keyed(4) services.admit_owners serving [OF on] named(4)] assms(4) by simp
  moreover have "csNetworkPolicies s' (agentKey agent) = csNetworkPolicies s (agentKey agent)" if on: "networkPolicyEnabled agent"
    using kept [OF changedMetas.simps(4) keyed(5) networkPolicies.admit_owners guarding [OF on] named(5)] assms(4) by simp
  moreover have "csBudgets s' (agentKey agent) = csBudgets s (agentKey agent)" if on: "podDisruptionBudgetEnabled agent"
    using kept [OF changedMetas.simps(5) keyed(6) budgets.admit_owners limiting [OF on] named(6)] assms(4) by simp
  ultimately show ?thesis by (auto simp: agentObjects_def)
qed

end

section \<open>No update is lost\<close>

text \<open>The run has worked on this agent and on these inputs.\<close>

definition ranOn ::
  "kubeLib \<Rightarrow> 'w kubeClient \<Rightarrow> bool \<Rightarrow> objectKey \<Rightarrow> ('w cluster \<times> 'w cluster) option \<Rightarrow> hermesAgent \<Rightarrow> referencedInputState \<Rightarrow> bool" where
  "ranOn lib c hasRecorder k run agent ri \<longleftrightarrow>
     (\<exists>s0 s1 old. run = Some (s0, s1) \<and> Reconcile lib c hasRecorder k s0 = (None, s1) \<and>
        csAgents s0 k = Some old \<and> sameAgent old agent \<and> inputsOf s0 old = ri)"

text \<open>What the agent asks for with these inputs is deployed, if its configuration is valid and nothing is missing.\<close>

definition inPlace :: "kubeLib \<Rightarrow> serverAdmission \<Rightarrow> hermesAgent \<Rightarrow> referencedInputState \<Rightarrow> 'w cluster \<Rightarrow> bool" where
  "inPlace lib ad agent ri s \<longleftrightarrow>
     (\<forall>plan. missingReferenceMessages ri = [] \<longrightarrow> buildConfigPlanWithReferences (jsonMarshal lib) agent ri = Inr plan \<longrightarrow>
        deployed lib ad agent ri plan s)"

text \<open>
  Every agent that is not queued has run and is in place, and that on its current inputs when no change
  has gone unheard.
\<close>

definition upToDate :: "kubeLib \<Rightarrow> 'w kubeClient \<Rightarrow> serverAdmission \<Rightarrow> bool \<Rightarrow> 'w controllerState \<Rightarrow> bool" where
  "upToDate lib c ad hasRecorder ct \<longleftrightarrow>
     (\<forall>k agent. csAgents (ctCluster ct) k = Some agent \<longrightarrow> k \<notin> ctQueue ct \<longrightarrow>
        (\<exists>ri. ranOn lib c hasRecorder k (ctRuns ct k) agent ri \<and> inPlace lib ad agent ri (ctCluster ct) \<and>
           (k \<notin> ctUnheard ct \<longrightarrow> ri = inputsOf (ctCluster ct) agent)))"

lemma upToDateI:
  "(\<And>k agent. csAgents (ctCluster ct) k = Some agent \<Longrightarrow> k \<notin> ctQueue ct \<Longrightarrow>
      \<exists>ri. ranOn lib c hasRecorder k (ctRuns ct k) agent ri \<and> inPlace lib ad agent ri (ctCluster ct) \<and>
        (k \<notin> ctUnheard ct \<longrightarrow> ri = inputsOf (ctCluster ct) agent)) \<Longrightarrow> upToDate lib c ad hasRecorder ct"
  unfolding upToDate_def by blast

lemma upToDateD:
  "upToDate lib c ad hasRecorder ct \<Longrightarrow> csAgents (ctCluster ct) k = Some agent \<Longrightarrow> k \<notin> ctQueue ct \<Longrightarrow>
     \<exists>ri. ranOn lib c hasRecorder k (ctRuns ct k) agent ri \<and> inPlace lib ad agent ri (ctCluster ct) \<and>
       (k \<notin> ctUnheard ct \<longrightarrow> ri = inputsOf (ctCluster ct) agent)"
  unfolding upToDate_def by blast

lemma upToDate_current:
  "upToDate lib c ad hasRecorder ct \<Longrightarrow> csAgents (ctCluster ct) k = Some agent \<Longrightarrow> k \<notin> ctQueue ct \<Longrightarrow> k \<notin> ctUnheard ct \<Longrightarrow>
     ranOn lib c hasRecorder k (ctRuns ct k) agent (inputsOf (ctCluster ct) agent) \<and>
     inPlace lib ad agent (inputsOf (ctCluster ct) agent) (ctCluster ct)"
  using upToDateD by metis

lemma ranOn_same: "ranOn lib c hasRecorder k run old ri \<Longrightarrow> sameAgent old agent \<Longrightarrow> ranOn lib c hasRecorder k run agent ri"
  unfolding ranOn_def by (metis sameAgent_trans)

lemma statusOnly_agents:
  assumes "statusOnly s s'" and "csAgents s' k = Some agent"
  obtains old where "csAgents s k = Some old" "haSpec old = haSpec agent" "haMeta old = haMeta agent"
proof -
  have "statusOnly s' s" using assms(1) by (simp add: statusOnly_def)
  from statusOnly_lookup [OF this assms(2)] that show thesis by auto
qed

lemma statusOnly_generations: "statusOnly s s' \<Longrightarrow> generationsKept s s'"
  unfolding generationsKept_def by (metis statusOnly_agents option.inject)

context kube_client
begin

lemma inPlace_same: "inPlace lib ad old ri s \<Longrightarrow> sameAgent old agent \<Longrightarrow> inPlace lib ad agent ri s"
  unfolding inPlace_def by (metis sameAgent_deployed sameAgent_plan(1))

lemma inPlace_kept:
  assumes "controller_runtime deliver" and "validCluster known s" and "csAgents s k = Some agent"
    and "k \<notin> deliver (SetupWithManager c) s s'" and "inPlace lib ad agent ri s"
  shows "inPlace lib ad agent ri s'"
proof -
  have "agentKey agent \<notin> deliver (SetupWithManager c) s s'" using valid_key [OF assms(2,3)] assms(4) by simp
  with assms(5) deployed_kept [OF assms(1,2)] deployed_objects show ?thesis unfolding inPlace_def by metis
qed

text \<open>A run of its own puts an agent in place.\<close>

lemma run_inPlace:
  assumes "Reconcile lib c hasRecorder k s = (None, s')" and "csAgents s k = Some agent"
  shows "inPlace lib ad agent (inputsOf s agent) s'"
  unfolding inPlace_def inputsOf_def using reconcile_deploys [OF assms refl] by blast

text \<open>
  A change that queues what the runtime delivers keeps the invariant, when each agent that stays off the queue
  had run and was in place before the change or is so after it.
\<close>

lemma change_upToDate:
  assumes "controller_runtime deliver" and "validCluster known s" and "validCluster known (ctCluster ct')"
    and "generationsKept s (ctCluster ct')" and "deliver (SetupWithManager c) s (ctCluster ct') \<subseteq> ctQueue ct'"
    and "unheard c s (ctCluster ct') \<subseteq> ctUnheard ct'"
    and "\<And>k old. csAgents s k = Some old \<Longrightarrow> k \<notin> ctQueue ct' \<Longrightarrow>
      \<exists>ri. ranOn lib c hasRecorder k (ctRuns ct' k) old ri \<and> (inPlace lib ad old ri s \<or> inPlace lib ad old ri (ctCluster ct')) \<and>
        (k \<notin> ctUnheard ct' \<longrightarrow> ri = inputsOf s old)"
  shows "upToDate lib c ad hasRecorder ct'"
proof (rule upToDateI)
  fix k agent
  assume agent: "csAgents (ctCluster ct') k = Some agent" and queue: "k \<notin> ctQueue ct'"
  have away: "k \<notin> deliver (SetupWithManager c) s (ctCluster ct')" using queue assms(5) by blast
  obtain old where old: "csAgents s k = Some old" "sameAgent old agent"
    by (rule controller_runtime.undelivered_agent [OF assms(1-4) agent away])
  obtain ri where ri: "ranOn lib c hasRecorder k (ctRuns ct' k) old ri"
      "inPlace lib ad old ri s \<or> inPlace lib ad old ri (ctCluster ct')" "k \<notin> ctUnheard ct' \<longrightarrow> ri = inputsOf s old"
    using assms(7) [OF old(1) queue] by blast
  have "inPlace lib ad old ri (ctCluster ct')" using ri(2) inPlace_kept [OF assms(1,2) old(1) away] by blast
  moreover have "ri = inputsOf (ctCluster ct') agent" if "k \<notin> ctUnheard ct'"
  proof -
    have "k \<notin> unheard c s (ctCluster ct')" using that assms(6) by blast
    from controller_runtime.inputs_kept [OF assms(1) agents.agent_api_axioms assms(2,3) agent away this]
    show ?thesis using ri(3) that sameAgent_inputs [OF old(2)] by metis
  qed
  ultimately show "\<exists>ri. ranOn lib c hasRecorder k (ctRuns ct' k) agent ri \<and> inPlace lib ad agent ri (ctCluster ct') \<and>
      (k \<notin> ctUnheard ct' \<longrightarrow> ri = inputsOf (ctCluster ct') agent)"
    using ranOn_same [OF ri(1) old(2)] inPlace_same [OF _ old(2)] by blast
qed

lemma step_upToDate:
  assumes "controller_runtime deliver" and "controllerStep lib c known deliver hasRecorder ct ct'"
    and "validCluster known (ctCluster ct)" and "upToDate lib c ad hasRecorder ct"
  shows "validCluster known (ctCluster ct') \<and> upToDate lib c ad hasRecorder ct'"
proof -
  note change = change_upToDate [OF assms(1,3)] and before = upToDateD [OF assms(4)]
  have reconciled: "generationsKept (ctCluster ct) s'" if "Reconcile lib c hasRecorder k (ctCluster ct) = (r, s')" for k r s'
    using reconcile_statusOnly [OF that] by (rule statusOnly_generations)
  from assms(2) show ?thesis
  proof (cases rule: controllerStep.cases)
    case (environment s')
    have "upToDate lib c ad hasRecorder ct'"
      by (rule change) (use environment before in \<open>fastforce+\<close>)
    with environment show ?thesis by simp
  next
    case (succeeded k s')
    have "upToDate lib c ad hasRecorder ct'"
    proof (rule change)
      fix k' old
      assume old: "csAgents (ctCluster ct) k' = Some old" and queue: "k' \<notin> ctQueue ct'"
      show "\<exists>ri. ranOn lib c hasRecorder k' (ctRuns ct' k') old ri \<and>
          (inPlace lib ad old ri (ctCluster ct) \<or> inPlace lib ad old ri (ctCluster ct')) \<and>
          (k' \<notin> ctUnheard ct' \<longrightarrow> ri = inputsOf (ctCluster ct) old)"
      proof (cases "k' = k")
        case True
        have "ranOn lib c hasRecorder k (Some (ctCluster ct, s')) old (inputsOf (ctCluster ct) old)"
          unfolding ranOn_def using succeeded(3) old True sameAgent_def by blast
        with run_inPlace [OF succeeded(3)] old True succeeded(1) show ?thesis by auto
      next
        case False
        with before [OF old] queue succeeded(1) show ?thesis by auto
      qed
    qed (use succeeded(1,4) reconciled [OF succeeded(3)] in auto)
    with succeeded(1,4) show ?thesis by simp
  next
    case (failed k e s')
    have "upToDate lib c ad hasRecorder ct'"
      by (rule change) (use failed(1,4) reconciled [OF failed(3)] before in \<open>fastforce+\<close>)
    with failed(1,4) show ?thesis by simp
  qed
qed

lemma reachable_upToDate:
  assumes "controller_runtime deliver" and "reachable lib c known deliver hasRecorder ct"
  shows "validCluster known (ctCluster ct) \<and> upToDate lib c ad hasRecorder ct"
  using assms(2)
proof induction
  case (start ct)
  then show ?case by (auto simp: initialController_def upToDate_def)
next
  case (step ct ct')
  with step_upToDate [OF assms(1)] show ?case by blast
qed

text \<open>Whoever changes the objects of an agent that is in place, the agent is queued after the step.\<close>

lemma step_queues_agent:
  assumes "controller_runtime deliver" and "reachable lib c known deliver hasRecorder ct"
    and "controllerStep lib c known deliver hasRecorder ct ct'" and "csAgents (ctCluster ct) k = Some agent"
    and "k \<notin> ctQueue ct" and "k \<notin> ctUnheard ct" and "missingReferenceMessages (inputsOf (ctCluster ct) agent) = []"
    and "buildConfigPlanWithReferences (jsonMarshal lib) agent (inputsOf (ctCluster ct) agent) = Inr plan"
    and "agentObjects agent plan (ctCluster ct') \<noteq> agentObjects agent plan (ctCluster ct)"
  shows "k \<in> ctQueue ct'"
proof -
  note inv = reachable_upToDate [OF assms(1,2)]
  have "deployed lib ad agent (inputsOf (ctCluster ct) agent) plan (ctCluster ct)"
    using upToDate_current [OF conjunct2 [OF inv] assms(4-6)] assms(7,8) unfolding inPlace_def by blast
  then have "agentKey agent \<in> deliver (SetupWithManager c) (ctCluster ct) (ctCluster ct')"
    using deployed_kept [OF assms(1) conjunct1 [OF inv]] assms(9) by blast
  moreover have "agentKey agent = k" using valid_key [OF conjunct1 [OF inv] assms(4)] .
  moreover have "deliver (SetupWithManager c) (ctCluster ct) (ctCluster ct') \<subseteq> ctQueue ct'"
    using assms(3) by (cases rule: controllerStep.cases) auto
  ultimately show ?thesis by blast
qed

end

text \<open>A change of statuses wakes nobody.\<close>

lemma changedIn_same [simp]: "changedIn metaOf st st = {}"
  by (simp add: changedIn_def)

lemma status_change_silent:
  assumes "managed s' = managed s" and "statusOnly s s'"
  shows "leastDeliver (SetupWithManager c) s s' = {}"
proof -
  note stores = managed_stores [OF assms(1)]
  have metas: "changedMetas kind s s' = {}" for kind using stores by (cases kind) simp_all
  have "changed = generationChanged" if "ForAgents changed \<in> set (SetupWithManager c)" for changed
    using that by (simp add: SetupWithManager_def)
  moreover have "\<not> pred_option (\<lambda>old. generationChanged (haMeta old) (haMeta new)) (csAgents s k)" if new: "csAgents s' k = Some new" for k new
  proof -
    obtain old where "csAgents s k = Some old" "haMeta old = haMeta new" using assms(2) new by (rule statusOnly_agents)
    then show ?thesis by (simp add: generationChanged_def)
  qed
  ultimately have "{k. \<exists>changed new. ForAgents changed \<in> set (SetupWithManager c) \<and> csAgents s' k = Some new \<and>
      pred_option (\<lambda>old. changed (haMeta old) (haMeta new)) (csAgents s k)} = {}" by blast
  with stores metas show ?thesis unfolding leastDeliver_def by simp
qed

end
