(* ===== verification/Manager.thy ===== *)
theory Manager
  imports Admission Watches "HOL-Library.Sublist"
begin

text \<open>
  The entry point \<^verbatim>\<open>src/cmd/main.go\<close>: the command line, the options of the servers and of the manager, and
  the order in which everything is registered before the manager starts.  The manager of the controller
  runtime is a parameter that answers calls; the flags that zap binds are a parameter too.
\<close>

section \<open>Command line flags\<close>

text \<open>
  \<^verbatim>\<open>flag.Parse\<close> of the Go standard library.  A flag is a string, a boolean, or one that a library has
  bound, with the function that stores a value; only boolean flags may stand without a value.
\<close>

datatype flagError =
  HelpRequested | BadSyntax string | NotDefined string | NeedsArgument string | InvalidBoolean string string
| InvalidValue string string goError

datatype 'c flagValue =
  StringFlag "string \<Rightarrow> 'c \<Rightarrow> 'c"
| BoolFlag "bool \<Rightarrow> 'c \<Rightarrow> 'c"
| LibraryFlag bool "string \<Rightarrow> 'c \<Rightarrow> goError + 'c"

definition parseBool :: "string \<Rightarrow> bool option" where
  "parseBool text =
     (if text \<in> {''1'', ''t'', ''T'', ''TRUE'', ''true'', ''True''} then Some True
      else if text \<in> {''0'', ''f'', ''F'', ''FALSE'', ''false'', ''False''} then Some False
      else None)"

fun isBoolFlag :: "'c flagValue \<Rightarrow> bool" where
  "isBoolFlag (StringFlag _) = False"
| "isBoolFlag (BoolFlag _) = True"
| "isBoolFlag (LibraryFlag isBool _) = isBool"

fun setFlag :: "string \<Rightarrow> 'c flagValue \<Rightarrow> string \<Rightarrow> 'c \<Rightarrow> flagError + 'c" where
  "setFlag name (StringFlag store) value cfg = Inr (store value cfg)"
| "setFlag name (BoolFlag store) value cfg =
     (case parseBool value of None \<Rightarrow> Inl (InvalidBoolean value name) | Some b \<Rightarrow> Inr (store b cfg))"
| "setFlag name (LibraryFlag isBool store) value cfg =
     (case store value cfg of Inl err \<Rightarrow> Inl (InvalidValue value name err) | Inr cfg' \<Rightarrow> Inr cfg')"

fun parseFlags :: "(string \<Rightarrow> 'c flagValue option) \<Rightarrow> string list \<Rightarrow> 'c \<Rightarrow> flagError + 'c" where
  "parseFlags formal [] cfg = Inr cfg"
| "parseFlags formal (arg # args) cfg =
     (if length arg < 2 \<or> hd arg \<noteq> CHR ''-'' then Inr cfg
      else if arg = ''--'' then Inr cfg
      else let text = (if arg ! 1 = CHR ''-'' then drop 2 arg else drop 1 arg)
           in if text = [] \<or> hd text = CHR ''-'' \<or> hd text = CHR ''='' then Inl (BadSyntax arg)
              else let name = takeWhile (\<lambda>ch. ch \<noteq> CHR ''='') text; hasValue = (CHR ''='' \<in> set text);
                       value = tl (dropWhile (\<lambda>ch. ch \<noteq> CHR ''='') text)
                   in case formal name of
                        None \<Rightarrow> Inl (if name = ''help'' \<or> name = ''h'' then HelpRequested else NotDefined name)
                      | Some flag \<Rightarrow>
                          (if isBoolFlag flag then
                             (case setFlag name flag (if hasValue then value else ''true'') cfg of
                                Inl err \<Rightarrow> Inl err | Inr cfg' \<Rightarrow> parseFlags formal args cfg')
                           else if hasValue then
                             (case setFlag name flag value cfg of Inl err \<Rightarrow> Inl err | Inr cfg' \<Rightarrow> parseFlags formal args cfg')
                           else case args of
                             [] \<Rightarrow> Inl (NeedsArgument name)
                           | next # rest \<Rightarrow>
                               (case setFlag name flag next cfg of Inl err \<Rightarrow> Inl err | Inr cfg' \<Rightarrow> parseFlags formal rest cfg')))"

section \<open>The configuration of the manager\<close>

record 'z managerConfig =
  mcMetricsAddr :: string
  mcMetricsCertPath :: string
  mcMetricsCertName :: string
  mcMetricsCertKey :: string
  mcWebhookCertPath :: string
  mcWebhookCertName :: string
  mcWebhookCertKey :: string
  mcEnableLeaderElection :: bool
  mcProbeAddr :: string
  mcSecureMetrics :: bool
  mcEnableHTTP2 :: bool
  mcZapOptions :: 'z

text \<open>The defaults that the flag definitions store.\<close>

definition defaultConfig :: "'z \<Rightarrow> 'z managerConfig" where
  "defaultConfig development =
     \<lparr>mcMetricsAddr = ''0'', mcMetricsCertPath = [], mcMetricsCertName = ''tls.crt'', mcMetricsCertKey = ''tls.key'',
      mcWebhookCertPath = [], mcWebhookCertName = ''tls.crt'', mcWebhookCertKey = ''tls.key'',
      mcEnableLeaderElection = False, mcProbeAddr = '':8081'', mcSecureMetrics = True, mcEnableHTTP2 = False,
      mcZapOptions = development\<rparr>"

text \<open>A flag that zap binds: its name, whether it is boolean, and the function that stores a value.\<close>

type_synonym 'z zapFlag = "string \<times> bool \<times> (string \<Rightarrow> 'z \<Rightarrow> goError + 'z)"

definition bindFlag :: "'z zapFlag \<Rightarrow> string \<times> 'z managerConfig flagValue" where
  "bindFlag = (\<lambda>(name, isBool, store). (name, LibraryFlag isBool (\<lambda>value cfg.
     case store value (mcZapOptions cfg) of Inl err \<Rightarrow> Inl err | Inr z \<Rightarrow> Inr (cfg\<lparr>mcZapOptions := z\<rparr>))))"

definition managerFlags :: "'z zapFlag list \<Rightarrow> (string \<times> 'z managerConfig flagValue) list" where
  "managerFlags zapFlags =
     [(''metrics-bind-address'', StringFlag (\<lambda>v. mcMetricsAddr_update (\<lambda>_. v))),
      (''health-probe-bind-address'', StringFlag (\<lambda>v. mcProbeAddr_update (\<lambda>_. v))),
      (''leader-elect'', BoolFlag (\<lambda>v. mcEnableLeaderElection_update (\<lambda>_. v))),
      (''metrics-secure'', BoolFlag (\<lambda>v. mcSecureMetrics_update (\<lambda>_. v))),
      (''webhook-cert-path'', StringFlag (\<lambda>v. mcWebhookCertPath_update (\<lambda>_. v))),
      (''webhook-cert-name'', StringFlag (\<lambda>v. mcWebhookCertName_update (\<lambda>_. v))),
      (''webhook-cert-key'', StringFlag (\<lambda>v. mcWebhookCertKey_update (\<lambda>_. v))),
      (''metrics-cert-path'', StringFlag (\<lambda>v. mcMetricsCertPath_update (\<lambda>_. v))),
      (''metrics-cert-name'', StringFlag (\<lambda>v. mcMetricsCertName_update (\<lambda>_. v))),
      (''metrics-cert-key'', StringFlag (\<lambda>v. mcMetricsCertKey_update (\<lambda>_. v))),
      (''enable-http2'', BoolFlag (\<lambda>v. mcEnableHTTP2_update (\<lambda>_. v)))] @ map bindFlag zapFlags"

definition parseManagerConfig :: "'z \<Rightarrow> 'z zapFlag list \<Rightarrow> string list \<Rightarrow> flagError + 'z managerConfig" where
  "parseManagerConfig development zapFlags args =
     parseFlags (map_of (managerFlags zapFlags)) args (defaultConfig development)"

section \<open>The options of the servers\<close>

text \<open>Of a TLS configuration the program touches the offered protocols.\<close>

record tlsConfig =
  tcNextProtos :: "string list"

type_synonym tlsOption = "tlsConfig \<Rightarrow> tlsConfig"

definition buildTLSOptions :: "bool \<Rightarrow> tlsOption list" where
  "buildTLSOptions enableHTTP2 =
     (if enableHTTP2 then [] else [\<lambda>c. c\<lparr>tcNextProtos := [''http/1.1'']\<rparr>])"

text \<open>The environment is a lookup that returns the empty text for an unset variable.\<close>

definition webhooksEnabled :: "(string \<Rightarrow> string) \<Rightarrow> bool" where
  "webhooksEnabled getenv \<longleftrightarrow> getenv ''ENABLE_WEBHOOKS'' \<noteq> ''false''"

text \<open>A webhook server is known by its options.\<close>

record webhookServer =
  wsTLSOpts :: "tlsOption list"
  wsCertDir :: string
  wsCertName :: string
  wsKeyName :: string

definition newWebhookServer :: "'z managerConfig \<Rightarrow> tlsOption list \<Rightarrow> bool \<Rightarrow> webhookServer option" where
  "newWebhookServer cfg tlsOpts enabled =
     (if \<not> enabled then None
      else let options = \<lparr>wsTLSOpts = tlsOpts, wsCertDir = [], wsCertName = [], wsKeyName = []\<rparr>
           in if mcWebhookCertPath cfg = [] then Some options
              else Some (options\<lparr>wsCertDir := mcWebhookCertPath cfg, wsCertName := mcWebhookCertName cfg,
                wsKeyName := mcWebhookCertKey cfg\<rparr>))"

datatype filterProvider = WithAuthenticationAndAuthorization

record metricsServerOptions =
  msBindAddress :: string
  msSecureServing :: bool
  msTLSOpts :: "tlsOption list"
  msFilterProvider :: "filterProvider option"
  msCertDir :: string
  msCertName :: string
  msKeyName :: string

definition newMetricsServerOptions :: "'z managerConfig \<Rightarrow> tlsOption list \<Rightarrow> metricsServerOptions" where
  "newMetricsServerOptions cfg tlsOpts =
     (let options = \<lparr>msBindAddress = mcMetricsAddr cfg, msSecureServing = mcSecureMetrics cfg, msTLSOpts = tlsOpts,
            msFilterProvider = None, msCertDir = [], msCertName = [], msKeyName = []\<rparr>;
          options = (if mcSecureMetrics cfg then options\<lparr>msFilterProvider := Some WithAuthenticationAndAuthorization\<rparr> else options)
      in if mcMetricsCertPath cfg = [] then options
         else options\<lparr>msCertDir := mcMetricsCertPath cfg, msCertName := mcMetricsCertName cfg, msKeyName := mcMetricsCertKey cfg\<rparr>)"

record managerOptions =
  moMetrics :: metricsServerOptions
  moHealthProbeBindAddress :: string
  moLeaderElection :: bool
  moLeaderElectionID :: string
  moWebhookServer :: "webhookServer option"

definition newManagerOptions ::
  "'z managerConfig \<Rightarrow> metricsServerOptions \<Rightarrow> webhookServer option \<Rightarrow> bool \<Rightarrow> managerOptions" where
  "newManagerOptions cfg metricsOptions server enableWebhooks =
     (let options = \<lparr>moMetrics = metricsOptions, moHealthProbeBindAddress = mcProbeAddr cfg,
            moLeaderElection = mcEnableLeaderElection cfg, moLeaderElectionID = ''73bc4e30.nous.ai'', moWebhookServer = None\<rparr>
      in if enableWebhooks then options\<lparr>moWebhookServer := server\<rparr> else options)"

section \<open>Startup\<close>

text \<open>
  The calls of the program to the controller runtime, in the order of their first use: the cluster
  configuration, the manager, the controller with its watches, the webhooks with their handlers, the
  health checks, and the start.
\<close>

datatype 'w managerCall =
  GetConfigOrDie
| NewManager managerOptions
| CompleteController "'w watch list"
| CompleteWebhook "hermesAgent \<Rightarrow> hermesAgent" "hermesAgent \<Rightarrow> admissionError option"
    "hermesAgent \<Rightarrow> hermesAgent \<Rightarrow> admissionError option" "hermesAgent \<Rightarrow> admissionError option"
| AddHealthzCheck string
| AddReadyzCheck string
| Start

type_synonym ('w, 'm) managerAPI = "'w managerCall \<Rightarrow> 'm \<Rightarrow> goError option \<times> 'm"

definition setupController :: "('w, 'm) managerAPI \<Rightarrow> 'w kubeClient \<Rightarrow> 'm \<Rightarrow> goError option \<times> 'm" where
  "setupController call c mgr = call (CompleteController (SetupWithManager c)) mgr"

definition SetupHermesAgentWebhookWithManager ::
  "('w, 'm) managerAPI \<Rightarrow> admissionLib \<Rightarrow> 'm \<Rightarrow> goError option \<times> 'm" where
  "SetupHermesAgentWebhookWithManager call lib mgr =
     call (CompleteWebhook Default (ValidateCreate lib) (ValidateUpdate lib) (ValidateDelete lib)) mgr"

definition setupWebhooks :: "('w, 'm) managerAPI \<Rightarrow> admissionLib \<Rightarrow> bool \<Rightarrow> 'm \<Rightarrow> goError option \<times> 'm" where
  "setupWebhooks call lib enableWebhooks mgr =
     (if \<not> enableWebhooks then (None, mgr) else SetupHermesAgentWebhookWithManager call lib mgr)"

definition addHealthChecks :: "('w, 'm) managerAPI \<Rightarrow> 'm \<Rightarrow> goError option \<times> 'm" where
  "addHealthChecks call mgr =
     orFail (call (AddHealthzCheck ''healthz'') mgr) (\<lambda>err mgr. (Some err, mgr)) (call (AddReadyzCheck ''readyz''))"

text \<open>The exit code for a command line that does not parse.\<close>

definition flagExit :: "flagError \<Rightarrow> nat" where
  "flagExit err = (if err = HelpRequested then 0 else 2)"

definition main ::
  "('w, 'm) managerAPI \<Rightarrow> 'w kubeClient \<Rightarrow> admissionLib \<Rightarrow> (string \<Rightarrow> string) \<Rightarrow> 'z \<Rightarrow> 'z zapFlag list \<Rightarrow> string list \<Rightarrow> 'm \<Rightarrow>
   nat \<times> 'm" where
  "main call c lib getenv development zapFlags args mgr =
     (case parseManagerConfig development zapFlags args of
        Inl err \<Rightarrow> (flagExit err, mgr)
      | Inr cfg \<Rightarrow>
          (let tlsOpts = buildTLSOptions (mcEnableHTTP2 cfg);
               enableWebhooks = webhooksEnabled getenv;
               server = newWebhookServer cfg tlsOpts enableWebhooks;
               metricsOptions = newMetricsServerOptions cfg tlsOpts;
               options = newManagerOptions cfg metricsOptions server enableWebhooks;
               fail = (\<lambda>err mgr. (1, mgr))
           in orFail (call GetConfigOrDie mgr) fail (\<lambda>mgr.
              orFail (call (NewManager options) mgr) fail (\<lambda>mgr.
              orFail (setupController call c mgr) fail (\<lambda>mgr.
              orFail (setupWebhooks call lib enableWebhooks mgr) fail (\<lambda>mgr.
              orFail (addHealthChecks call mgr) fail (\<lambda>mgr.
              orFail (call Start mgr) fail (\<lambda>mgr. (0, mgr)))))))))"

section \<open>The command line reads back\<close>

text \<open>A configuration as command line arguments.\<close>

definition argument :: "string \<Rightarrow> string \<Rightarrow> string" where
  "argument name value = ''--'' @ name @ ''='' @ value"

definition showBool :: "bool \<Rightarrow> string" where
  "showBool b = (if b then ''true'' else ''false'')"

definition arguments :: "'z managerConfig \<Rightarrow> string list" where
  "arguments cfg =
     [argument ''metrics-bind-address'' (mcMetricsAddr cfg),
      argument ''metrics-cert-path'' (mcMetricsCertPath cfg),
      argument ''metrics-cert-name'' (mcMetricsCertName cfg),
      argument ''metrics-cert-key'' (mcMetricsCertKey cfg),
      argument ''webhook-cert-path'' (mcWebhookCertPath cfg),
      argument ''webhook-cert-name'' (mcWebhookCertName cfg),
      argument ''webhook-cert-key'' (mcWebhookCertKey cfg),
      argument ''leader-elect'' (showBool (mcEnableLeaderElection cfg)),
      argument ''health-probe-bind-address'' (mcProbeAddr cfg),
      argument ''metrics-secure'' (showBool (mcSecureMetrics cfg)),
      argument ''enable-http2'' (showBool (mcEnableHTTP2 cfg))]"

text \<open>What can be the name of a flag.\<close>

definition flagName :: "string \<Rightarrow> bool" where
  "flagName name \<longleftrightarrow> name \<noteq> [] \<and> hd name \<noteq> CHR ''-'' \<and> CHR ''='' \<notin> set name"

lemma parse_argument:
  assumes "flagName name" and "formal name = Some flag"
  shows "parseFlags formal (argument name value # args) cfg =
    (case setFlag name flag value cfg of Inl err \<Rightarrow> Inl err | Inr cfg' \<Rightarrow> parseFlags formal args cfg')"
proof -
  have "takeWhile (\<lambda>ch. ch \<noteq> CHR ''='') (name @ ''='' @ value) = name"
    and "tl (dropWhile (\<lambda>ch. ch \<noteq> CHR ''='') (name @ ''='' @ value)) = value"
    and "hd (name @ ''='' @ value) = hd name" and "hd name \<noteq> CHR ''=''"
    using assms(1) by (auto simp: flagName_def takeWhile_append dropWhile_append neq_Nil_conv)
  with assms show ?thesis by (simp add: argument_def flagName_def Let_def)
qed

lemma set_shown: "setFlag name (BoolFlag store) (showBool b) cfg = Inr (store b cfg)"
  by (simp add: showBool_def parseBool_def)

lemma managerFlags_lookup:
  "map_of (managerFlags zapFlags) ''metrics-bind-address'' = Some (StringFlag (\<lambda>v. mcMetricsAddr_update (\<lambda>_. v)))"
  "map_of (managerFlags zapFlags) ''health-probe-bind-address'' = Some (StringFlag (\<lambda>v. mcProbeAddr_update (\<lambda>_. v)))"
  "map_of (managerFlags zapFlags) ''leader-elect'' = Some (BoolFlag (\<lambda>v. mcEnableLeaderElection_update (\<lambda>_. v)))"
  "map_of (managerFlags zapFlags) ''metrics-secure'' = Some (BoolFlag (\<lambda>v. mcSecureMetrics_update (\<lambda>_. v)))"
  "map_of (managerFlags zapFlags) ''webhook-cert-path'' = Some (StringFlag (\<lambda>v. mcWebhookCertPath_update (\<lambda>_. v)))"
  "map_of (managerFlags zapFlags) ''webhook-cert-name'' = Some (StringFlag (\<lambda>v. mcWebhookCertName_update (\<lambda>_. v)))"
  "map_of (managerFlags zapFlags) ''webhook-cert-key'' = Some (StringFlag (\<lambda>v. mcWebhookCertKey_update (\<lambda>_. v)))"
  "map_of (managerFlags zapFlags) ''metrics-cert-path'' = Some (StringFlag (\<lambda>v. mcMetricsCertPath_update (\<lambda>_. v)))"
  "map_of (managerFlags zapFlags) ''metrics-cert-name'' = Some (StringFlag (\<lambda>v. mcMetricsCertName_update (\<lambda>_. v)))"
  "map_of (managerFlags zapFlags) ''metrics-cert-key'' = Some (StringFlag (\<lambda>v. mcMetricsCertKey_update (\<lambda>_. v)))"
  "map_of (managerFlags zapFlags) ''enable-http2'' = Some (BoolFlag (\<lambda>v. mcEnableHTTP2_update (\<lambda>_. v)))"
  by (simp_all add: managerFlags_def)

lemma own_names:
  "flagName ''metrics-bind-address''" "flagName ''health-probe-bind-address''" "flagName ''leader-elect''"
  "flagName ''metrics-secure''" "flagName ''webhook-cert-path''" "flagName ''webhook-cert-name''" "flagName ''webhook-cert-key''"
  "flagName ''metrics-cert-path''" "flagName ''metrics-cert-name''" "flagName ''metrics-cert-key''" "flagName ''enable-http2''"
  by (simp_all add: flagName_def)

text \<open>\<^bold>\<open>C38.\<close> The command line is read faithfully: the arguments that spell out a configuration are parsed back to
  that configuration, whatever text the values contain.\<close>

theorem flags_roundtrip:
  assumes "mcZapOptions cfg = development"
  shows "parseManagerConfig development zapFlags (arguments cfg) = Inr cfg"
  unfolding parseManagerConfig_def arguments_def
  by (subst parse_argument, (rule own_names managerFlags_lookup)+,
      simp only: setFlag.simps(1) set_shown sum.case)+
    (use assms in \<open>simp add: defaultConfig_def\<close>)

theorem flags_roundtrip_witness:
  "parseManagerConfig () [] (arguments ((defaultConfig ())\<lparr>mcMetricsAddr := '':8443'', mcEnableHTTP2 := True\<rparr>)) =
     Inr ((defaultConfig ())\<lparr>mcMetricsAddr := '':8443'', mcEnableHTTP2 := True\<rparr>)"
  by (rule flags_roundtrip) (simp add: defaultConfig_def)

section \<open>The servers\<close>

text \<open>The protocols that a server offers when its options are applied to a TLS configuration.\<close>

definition offered :: "tlsOption list \<Rightarrow> tlsConfig \<Rightarrow> string list" where
  "offered opts base = tcNextProtos (fold id opts base)"

text \<open>The servers are configured safely: unless HTTP/2 is enabled, the metrics server and the webhook server
  offer HTTP/1.1 alone; metrics are served over TLS exactly when they are protected by authentication and
  authorization; there is a webhook server exactly when webhooks are enabled; and each server takes its
  certificate from the directory it was given, if any.\<close>

theorem servers_configured:
  "let tlsOpts = buildTLSOptions (mcEnableHTTP2 cfg);
       options = newManagerOptions cfg (newMetricsServerOptions cfg tlsOpts) (newWebhookServer cfg tlsOpts enabled) enabled
   in offered (msTLSOpts (moMetrics options)) base = (if mcEnableHTTP2 cfg then tcNextProtos base else [''http/1.1'']) \<and>
      msSecureServing (moMetrics options) = mcSecureMetrics cfg \<and>
      msFilterProvider (moMetrics options) = (if mcSecureMetrics cfg then Some WithAuthenticationAndAuthorization else None) \<and>
      msCertDir (moMetrics options) = mcMetricsCertPath cfg \<and>
      (case moWebhookServer options of
         None \<Rightarrow> \<not> enabled
       | Some server \<Rightarrow> enabled \<and> wsCertDir server = mcWebhookCertPath cfg \<and>
           offered (wsTLSOpts server) base = (if mcEnableHTTP2 cfg then tcNextProtos base else [''http/1.1'']))"
  by (simp add: Let_def newManagerOptions_def newMetricsServerOptions_def newWebhookServer_def buildTLSOptions_def offered_def)

section \<open>The order of the startup\<close>

text \<open>The calls of a startup, and a manager that records them with their answers.\<close>

definition startupCalls :: "'w kubeClient \<Rightarrow> admissionLib \<Rightarrow> bool \<Rightarrow> 'z managerConfig \<Rightarrow> 'w managerCall list" where
  "startupCalls c lib enabled cfg =
     (let tlsOpts = buildTLSOptions (mcEnableHTTP2 cfg)
      in [GetConfigOrDie,
          NewManager (newManagerOptions cfg (newMetricsServerOptions cfg tlsOpts) (newWebhookServer cfg tlsOpts enabled) enabled),
          CompleteController (SetupWithManager c)] @
         (if enabled then [CompleteWebhook Default (ValidateCreate lib) (ValidateUpdate lib) (ValidateDelete lib)] else []) @
         [AddHealthzCheck ''healthz'', AddReadyzCheck ''readyz'', Start])"

fun recorded ::
  "('w, 'm) managerAPI \<Rightarrow> ('w, ('w managerCall \<times> goError option) list \<times> 'm) managerAPI" where
  "recorded call cl (log, mgr) = (case call cl mgr of (err, mgr') \<Rightarrow> (err, log @ [(cl, err)], mgr'))"

text \<open>The reference: one call after the other, up to the first that fails.\<close>

fun runCalls :: "('w, 'm) managerAPI \<Rightarrow> 'w managerCall list \<Rightarrow> 'm \<Rightarrow> nat \<times> 'm" where
  "runCalls call [] mgr = (0, mgr)"
| "runCalls call (cl # cls) mgr = orFail (call cl mgr) (\<lambda>err mgr. (1, mgr)) (runCalls call cls)"

lemma runCalls_eta: "runCalls call [] = Pair 0" "runCalls call (cl # cls) = (\<lambda>mgr. orFail (call cl mgr) (\<lambda>err. Pair 1) (runCalls call cls))"
  by auto

lemma orFail_nested: "orFail (orFail rs (\<lambda>err mgr. (Some err, mgr)) f) h g = orFail rs h (\<lambda>mgr. orFail (f mgr) h g)"
  by (cases rs; cases "fst rs") auto

lemma main_runs:
  assumes "parseManagerConfig development zapFlags args = Inr cfg"
  shows "main call c lib getenv development zapFlags args mgr = runCalls call (startupCalls c lib (webhooksEnabled getenv) cfg) mgr"
  using assms
  by (simp add: main_def startupCalls_def setupController_def setupWebhooks_def SetupHermesAgentWebhookWithManager_def
      addHealthChecks_def orFail_nested runCalls_eta Let_def del: runCalls.simps)

text \<open>
  What a run leaves: all calls answered without an error and code 0, or the calls up to the first one that
  was answered with an error, and code 1.
\<close>

definition startedInOrder :: "'w managerCall list \<Rightarrow> nat \<Rightarrow> ('w managerCall \<times> goError option) list \<Rightarrow> bool" where
  "startedInOrder calls code log \<longleftrightarrow>
     code = 0 \<and> log = map (\<lambda>cl. (cl, None)) calls \<or>
     code = 1 \<and> (\<exists>passed cl err rest. calls = passed @ cl # rest \<and> log = map (\<lambda>cl. (cl, None)) passed @ [(cl, Some err)])"

lemma startedInOrder_stop: "startedInOrder (cl # rest) 1 [(cl, Some err)]"
  unfolding startedInOrder_def by (intro disjI2 conjI exI [of _ "[]"] exI [of _ cl] exI [of _ err] exI [of _ rest]) simp_all

lemma startedInOrder_Cons:
  assumes "startedInOrder cls code log"
  shows "startedInOrder (cl # cls) code ((cl, None) # log)"
  using assms unfolding startedInOrder_def
proof (elim disjE conjE exE, goal_cases)
  case (2 passed cl' err rest)
  then show ?case by (intro disjI2 conjI exI [of _ "cl # passed"] exI [of _ cl'] exI [of _ err] exI [of _ rest]) simp_all
qed simp

lemma runCalls_recorded:
  assumes "runCalls (recorded call) cls (log, mgr) = (code, log', mgr')"
  shows "\<exists>new. log' = log @ new \<and> startedInOrder cls code new"
  using assms
proof (induction cls arbitrary: log mgr)
  case Nil
  then show ?case by (simp add: startedInOrder_def)
next
  case (Cons cl cls)
  obtain err mgr1 where call: "call cl mgr = (err, mgr1)" by force
  show ?case
  proof (cases err)
    case None
    with Cons.prems call have "runCalls (recorded call) cls (log @ [(cl, None)], mgr1) = (code, log', mgr')" by simp
    from Cons.IH [OF this] obtain new where "log' = (log @ [(cl, None)]) @ new" "startedInOrder cls code new" by blast
    then show ?thesis by (intro exI [of _ "(cl, None) # new"]) (simp add: startedInOrder_Cons)
  next
    case (Some e)
    with Cons.prems call have "code = 1 \<and> log' = log @ [(cl, Some e)]" by simp
    then show ?thesis using startedInOrder_stop by blast
  qed
qed

text \<open>\<^bold>\<open>C39.\<close> The manager starts last, and no error is passed over.  A command line that does not parse ends the
  program with the exit code of the flag package and without any call.  Otherwise the calls are those of the
  startup sequence, which registers the controller, the webhooks unless they are disabled, and both health
  checks before the start.  Either all of them are made and answered without an error, and the exit code
  is 0; or the calls before some call are answered without an error, that one is answered with an error and is
  the last one made, and the exit code is 1.\<close>

theorem startup_in_order:
  assumes "main (recorded call) c lib getenv development zapFlags args ([], mgr) = (code, log, mgr')"
  shows "case parseManagerConfig development zapFlags args of
      Inl err \<Rightarrow> code = flagExit err \<and> log = []
    | Inr cfg \<Rightarrow>
        code = 0 \<and> log = map (\<lambda>cl. (cl, None)) (startupCalls c lib (webhooksEnabled getenv) cfg) \<or>
        code = 1 \<and> (\<exists>passed cl err rest. startupCalls c lib (webhooksEnabled getenv) cfg = passed @ cl # rest \<and>
          log = map (\<lambda>cl. (cl, None)) passed @ [(cl, Some err)])"
proof (cases "parseManagerConfig development zapFlags args")
  case (Inl err)
  with assms show ?thesis by (simp add: main_def)
next
  case (Inr cfg)
  from runCalls_recorded [OF assms [unfolded main_runs [OF Inr]]]
  show ?thesis by (simp add: Inr startedInOrder_def)
qed

theorem startup_in_order_witness:
  "\<exists>log passed rest err. main (recorded (\<lambda>cl (mgr :: unit). (if cl = AddReadyzCheck ''readyz'' then Some (TextError ''exists'') else None, mgr)))
      (memoryClient []) sampleLib (\<lambda>_. ''false'') () [] [] ([], ()) = (1, log, ()) \<and>
    startupCalls (memoryClient []) sampleLib False (defaultConfig ()) = passed @ rest \<and>
    log = map (\<lambda>cl. (cl, None)) (butlast passed) @ [(last passed, Some err)]"
proof -
  have parsed: "parseManagerConfig () [] [] = Inr (defaultConfig ())" by (simp add: parseManagerConfig_def)
  obtain log where run: "main (recorded (\<lambda>cl (mgr :: unit). (if cl = AddReadyzCheck ''readyz'' then Some (TextError ''exists'') else None, mgr)))
      (memoryClient []) sampleLib (\<lambda>_. ''false'') () [] [] ([], ()) = (1, log, ())"
    unfolding main_runs [OF parsed] by (simp add: startupCalls_def webhooksEnabled_def Let_def)
  from startup_in_order [OF run] obtain passed cl err rest
    where "startupCalls (memoryClient []) sampleLib False (defaultConfig ()) = passed @ cl # rest"
      "log = map (\<lambda>cl. (cl, None)) passed @ [(cl, Some err)]"
    by (auto simp: parsed webhooksEnabled_def)
  with run show ?thesis by (intro exI [of _ log] exI [of _ "passed @ [cl]"] exI [of _ rest] exI [of _ err]) simp
qed

end
