(* ===== verification/Quiescence.thy ===== *)
theory Quiescence
  imports Watches
begin

text \<open>
  The status as a function of the cluster, and the controller at rest: what a reconcile writes into the
  status is determined by the stored claim and StatefulSet, so a second reconcile finds nothing to patch,
  emits no event and wakes no watch.
\<close>

section \<open>The view as a function of the stored objects\<close>

definition storedPersistenceView :: "hermesAgent \<Rightarrow> 'w cluster \<Rightarrow> bool \<times> statusView" where
  "storedPersistenceView agent s =
     (if persistenceEnabled agent then
        (case csClaims s (agentNamespace agent, persistentVolumeClaimName (agentName agent)) of
           None \<Rightarrow> (False, missingClaimView (persistentVolumeClaimName (agentName agent)))
         | Some claim \<Rightarrow> claimView claim)
      else (True, ephemeralView))"

definition storedView :: "hermesAgent \<Rightarrow> 'w cluster \<Rightarrow> statusView" where
  "storedView agent s =
     (let (goOn, view) = storedPersistenceView agent s
      in if \<not> goOn then view
         else case csStatefulSets s (agentKey agent) of
           None \<Rightarrow> missingStatefulSetView (agentName agent) view
         | Some sts \<Rightarrow> workloadView sts view)"

lemma storedView_managed:
  assumes "managed s' = managed s"
  shows "storedView agent s' = storedView agent s"
proof -
  have stores: "csClaims s' = csClaims s" "csStatefulSets s' = csStatefulSets s" using managed_stores [OF assms] by simp_all
  show ?thesis unfolding storedView_def storedPersistenceView_def stores ..
qed

lemma storedView_status [simp]: "storedView (agent\<lparr>haStatus := status\<rparr>) s = storedView agent s"
  by (simp add: storedView_def storedPersistenceView_def cong: if_cong option.case_cong prod.case_cong)

text \<open>The status says what the view says, for the current generation of the agent.\<close>

definition reports :: "kubeLib \<Rightarrow> hermesAgent \<Rightarrow> string \<Rightarrow> statusView \<Rightarrow> hermesAgentStatus \<Rightarrow> bool" where
  "reports lib agent configHash view status \<longleftrightarrow>
     saObservedGeneration status = omGeneration (haMeta agent) \<and>
     conditionSummary lib status conditionTypeConfigReady =
       Some (''True'', ''ConfigReconciled'', ''Configuration inputs resolved successfully'', omGeneration (haMeta agent)) \<and>
     conditionSummary lib status conditionTypePersistenceReady =
       Some (stvPersistenceConditionStatus view, stvPersistenceReason view, stvPersistenceMessage view, omGeneration (haMeta agent)) \<and>
     conditionSummary lib status conditionTypeWorkloadReady =
       Some (stvWorkloadConditionStatus view, stvWorkloadReason view, stvWorkloadMessage view, omGeneration (haMeta agent)) \<and>
     conditionSummary lib status conditionTypeReady =
       Some (stvReadyConditionStatus view, stvReadyReason view, stvReadyMessage view, omGeneration (haMeta agent)) \<and>
     metadataPopulated agent configHash status \<and> saReadyReplicas status = stvReadyReplicas view \<and>
     saPersistenceBound status = stvPersistenceBound view \<and> saPhase status = stvPhase view"

lemma reports_time [simp]: "reports lib agent h view (status\<lparr>saLastReconcileTime := t\<rparr>) = reports lib agent h view status"
  by (simp add: reports_def conditionSummary_def metadataPopulated_def)

lemma reports_status [simp]: "reports lib (agent\<lparr>haStatus := status'\<rparr>) h view status = reports lib agent h view status"
  by (simp add: reports_def metadataPopulated_def)

context status_conditions
begin

lemma applied_reports:
  assumes "saObservedGeneration (fst sw) = omGeneration (haMeta agent)"
  shows "reports lib agent h view (fst (applyStatusView lib c agent h view sw))"
  unfolding reports_def using applied_status [OF refl, where c = c and agent = agent and h = h and view = view and sw = sw] assms by (intro conjI) simp_all

lemma reported_fix:
  assumes "reports lib agent h view status"
  shows "fst (applyStatusView lib c agent h view (status, w)) = status"
  by (rule applyStatusView_fix) (use assms in \<open>simp_all add: reports_def\<close>)

end

context kube_client
begin

lemma persistence_view_stored:
  assumes "readPersistenceView c agent s = (Inr gv, s')"
  shows "gv = storedPersistenceView agent s"
proof (cases "persistenceEnabled agent")
  case True
  obtain got s1 where read: "onClaims (apiGet (clClaims c) (agentNamespace agent, persistentVolumeClaimName (agentName agent))) s = (got, s1)"
    by force
  with assms True get_claim(2,3) [OF read] show ?thesis
    by (cases got) (auto simp: readPersistenceView_def storedPersistenceView_def Let_def split: if_splits)
qed (use assms in \<open>simp add: readPersistenceView_def storedPersistenceView_def\<close>)

lemma view_stored:
  assumes "readStatusView c agent s = (Inr view, s')"
  shows "view = storedView agent s"
proof -
  obtain goOn v s1 where pv: "readPersistenceView c agent s = (Inr (goOn, v), s1)"
    using assms by (auto simp: readStatusView_def split: prod.splits sum.splits)
  have stored: "storedPersistenceView agent s = (goOn, v)" using persistence_view_stored [OF pv] by simp
  have same: "csStatefulSets s1 = csStatefulSets s" using persistence_view(3) [OF pv] by (simp add: unchanged_stores)
  obtain got s2 where read: "onStatefulSets (apiGet (clStatefulSets c) (agentKey agent)) s1 = (got, s2)" by force
  with assms pv stored same get_statefulSet(2,3) [OF read] show ?thesis
    by (cases got) (auto simp: readStatusView_def storedView_def split: if_splits)
qed

text \<open>After the last step the stored status reports the stored objects.\<close>

lemma status_reported:
  assumes "reconcileStatus lib c hasRecorder agent h s = (None, s')" and "csAgents s (agentKey agent) = Some agent"
  obtains status where "csAgents s' (agentKey agent) = Some (agent\<lparr>haStatus := status\<rparr>)"
    "reports lib agent h (storedView agent s') status"
proof -
  obtain view s1 where read: "readStatusView c agent s = (Inr view, s1)"
    and patch: "patchStatus lib c hasRecorder agent (applyStatusView lib c agent h view) s1 = (None, s')"
    using assms(1) by (auto simp: reconcileStatus_def split: prod.splits sum.splits)
  have same: "unchanged s s1" using read by (rule status_view_unchanged)
  have base: "csAgents s1 (agentKey agent) = Some agent" using same assms(2) by (simp add: unchanged_stores)
  have "managed s' = managed s1" using managed_patchStatus [of lib c hasRecorder agent _ s1] patch by (metis snd_conv)
  then have view: "view = storedView agent s'"
    using view_stored [OF read] storedView_managed managed_unchanged [OF same] by metis
  obtain status w where stored: "csAgents s' (agentKey agent) = Some (agent\<lparr>haStatus := status\<rparr>)"
    and status: "status\<lparr>saLastReconcileTime := None\<rparr> = (fst (applyStatusView lib c agent h view
      ((haStatus agent)\<lparr>saObservedGeneration := omGeneration (haMeta agent)\<rparr>, w)))\<lparr>saLastReconcileTime := None\<rparr>"
    by (rule patched_status [OF patch base])
  have "reports lib agent h view (status\<lparr>saLastReconcileTime := None\<rparr>)"
    unfolding status reports_time by (rule statuses.applied_reports) simp
  with stored view show thesis by (intro that) simp_all
qed

text \<open>A status that reports the stored objects is not patched.\<close>

lemma reported_silent:
  assumes "reconcileStatus lib c hasRecorder agent h s = (None, s')" and "csAgents s (agentKey agent) = Some agent"
    and "reports lib agent h (storedView agent s) (haStatus agent)"
  shows "csAgents s' = csAgents s \<and> csEvents s' = csEvents s"
proof -
  obtain view s1 where read: "readStatusView c agent s = (Inr view, s1)"
    and patch: "patchStatus lib c hasRecorder agent (applyStatusView lib c agent h view) s1 = (None, s')"
    using assms(1) by (auto simp: reconcileStatus_def split: prod.splits sum.splits)
  have same: "unchanged s s1" using read by (rule status_view_unchanged)
  obtain got s2 where got: "onAgents (apiGetAgent (clAgents c) (agentKey agent)) s1 = (got, s2)" by force
  have frames: "csAgents s2 = csAgents s" "csEvents s2 = csEvents s"
    using unchanged_trans [OF same get_agent(1) [OF got]] by (simp_all add: unchanged_frame)
  show ?thesis
  proof (cases got)
    case (Inl e)
    with patch got frames show ?thesis by (auto simp: patchStatus_def split: if_splits)
  next
    case (Inr base)
    have "csAgents s1 (agentKey agent) = Some base" using get_agent(2) [OF got] Inr by blast
    moreover have "csAgents s1 = csAgents s" using unchanged_frame [OF same] by simp
    ultimately have base: "base = agent" using assms(2) by simp
    have "(haStatus agent)\<lparr>saObservedGeneration := omGeneration (haMeta agent)\<rparr> = haStatus agent"
      using assms(3) by (cases "haStatus agent") (simp add: reports_def)
    then have "fst (applyStatusView lib c agent h view ((haStatus agent)\<lparr>saObservedGeneration := omGeneration (haMeta agent)\<rparr>, csHidden s2)) =
        haStatus agent" using statuses.reported_fix assms(3) view_stored [OF read] by simp
    then obtain w where applied: "applyStatusView lib c agent h view
        ((haStatus agent)\<lparr>saObservedGeneration := omGeneration (haMeta agent)\<rparr>, csHidden s2) = (haStatus agent, w)"
      by (metis prod.collapse)
    have "s' = s2\<lparr>csHidden := w\<rparr>" using patch unfolding patchStatus_def got Inr base by (simp add: applied)
    with frames show ?thesis by simp
  qed
qed

section \<open>At rest\<close>

lemma reconcile_reports:
  assumes "Reconcile lib c hasRecorder request s = (None, s')" and "csAgents s request = Some agent"
    and "ri = referencedInputsOf (\<lambda>n. csConfigMaps s (agentNamespace agent, n)) (\<lambda>n. csSecrets s (agentNamespace agent, n)) agent"
    and "missingReferenceMessages ri = []" and "buildConfigPlanWithReferences (jsonMarshal lib) agent ri = Inr plan"
  obtains status where "csAgents s' request = Some (agent\<lparr>haStatus := status\<rparr>)"
    "reports lib agent (cpHash plan) (storedView agent s') status"
proof -
  obtain s1 where s1: "unchanged s s1" "agentKey agent = request" "reconcilePlan lib c hasRecorder agent ri plan s1 = (None, s')"
    by (rule success_runs_plan [OF assms])
  obtain s6 where s6: "reconcileStatus lib c hasRecorder agent (cpHash plan) s6 = (None, s')" "csAgents s6 = csAgents s1"
    using plan_ends [OF s1(3)] by blast
  have "csAgents s6 (agentKey agent) = Some agent" using s6(2) s1(1,2) assms(2) by (simp add: unchanged_stores)
  from status_reported [OF s6(1) this] show thesis using that s1(2) by metis
qed

lemma second_silent:
  assumes "Reconcile lib c hasRecorder request s = (None, s')" and "csAgents s request = Some agent"
    and "ri = referencedInputsOf (\<lambda>n. csConfigMaps s (agentNamespace agent, n)) (\<lambda>n. csSecrets s (agentNamespace agent, n)) agent"
    and "missingReferenceMessages ri = []" and "buildConfigPlanWithReferences (jsonMarshal lib) agent ri = Inr plan"
    and "settlingServer lib ad agent ri plan" and "tidy lib agent plan s'"
    and "referencedInputsOf (\<lambda>n. csConfigMaps s' (agentNamespace agent, n)) (\<lambda>n. csSecrets s' (agentNamespace agent, n)) agent = ri"
    and "Reconcile lib c hasRecorder' request s' = (None, s'')"
  shows "csAgents s'' = csAgents s' \<and> csEvents s'' = csEvents s' \<and> managed s'' = managed s'"
proof -
  obtain status where stored: "csAgents s' request = Some (agent\<lparr>haStatus := status\<rparr>)"
    and report: "reports lib agent (cpHash plan) (storedView agent s') status" by (rule reconcile_reports [OF assms(1-5)])
  let ?agent = "agent\<lparr>haStatus := status\<rparr>"
  have kept: "managed s'' = managed s'" by (rule second_reconcile [OF assms])
  have ri: "ri = referencedInputsOf (\<lambda>n. csConfigMaps s' (agentNamespace ?agent, n)) (\<lambda>n. csSecrets s' (agentNamespace ?agent, n)) ?agent"
    and plan: "buildConfigPlanWithReferences (jsonMarshal lib) ?agent ri = Inr plan" using assms(5,8) by simp_all
  obtain s1 where s1: "unchanged s' s1" "agentKey ?agent = request" "reconcilePlan lib c hasRecorder' ?agent ri plan s1 = (None, s'')"
    by (rule success_runs_plan [OF assms(9) stored ri assms(4) plan])
  obtain s6 where s6: "reconcileStatus lib c hasRecorder' ?agent (cpHash plan) s6 = (None, s'')"
      "csAgents s6 = csAgents s1" "csEvents s6 = csEvents s1"
    using plan_ends [OF s1(3)] by blast
  have "managed s6 = managed s'" using managed_reconcileStatus [of hasRecorder' ?agent "cpHash plan" s6] s6(1) kept by (metis snd_conv)
  then have "reports lib ?agent (cpHash plan) (storedView ?agent s6) (haStatus ?agent)"
    using report storedView_managed by (metis storedView_status reports_status hermesAgent.select_convs(3) hermesAgent.update_convs(3) hermesAgent.surjective)
  moreover have "csAgents s6 (agentKey ?agent) = Some ?agent" using s6(2) s1(1,2) stored by (simp add: unchanged_stores)
  ultimately have "csAgents s'' = csAgents s6 \<and> csEvents s'' = csEvents s6" using reported_silent [OF s6(1)] by blast
  with s6(2,3) s1(1) kept show ?thesis by (simp add: unchanged_frame)
qed

end

section \<open>The in-memory server at rest\<close>

lemma status_no_input_unobstructed: "unobstructed lib (agent\<lparr>haStatus := status\<rparr>) s = unobstructed lib agent s"
  by (simp add: unobstructed_def persistentVolumeClaimImmutableFieldDrift_def cong: sum.case_cong)

lemma memory_unclaimed:
  assumes "ownedMeta memoryLib agent labels m = Inr m'"
  shows "unclaimed (haMeta agent) m"
proof -
  let ?refs = "filter (\<lambda>r. orController r = Some True) (omOwnerReferences m)"
  have "list_all (\<lambda>r. agentReference (haMeta agent) r \<and> orUID r = omUID (haMeta agent)) ?refs"
    using assms by (cases ?refs) (auto simp: ownedMeta_def memoryLib_def memorySetControllerReference_def Let_def split: if_splits)
  then show ?thesis by (auto simp: unclaimed_def list_all_iff)
qed

lemma plain_fixed:
  assumes "fixedBy (\<lambda>old m. m) mutate stored"
  obtains ob where "stored = Some ob" "mutate ob = Inr ob"
  using assms by (auto elim: fixedByE)

lemma memory_claim_unobstructed:
  assumes "settled memoryLib plainAdmission agent ri plan s" and "persistenceEnabled agent"
  shows "case buildPersistentVolumeClaim (quantityOf memoryLib) agent of
       Inl _ \<Rightarrow> False
     | Inr desired \<Rightarrow> pred_option (\<lambda>claim. unclaimed (haMeta agent) (pcMeta claim) \<and>
           persistentVolumeClaimImmutableFieldDrift agent (pcSpec claim) (pcSpec desired) = [])
         (csClaims s (agentNamespace agent, persistentVolumeClaimName (agentName agent)))"
proof -
  note part = assms(1) [unfolded settled_def plainAdmission_def serverAdmission.select_convs, THEN conjunct2, THEN conjunct1]
  show ?thesis
  proof (cases "buildPersistentVolumeClaim (quantityOf memoryLib) agent")
    case (Inr desired)
    have "fixedBy (\<lambda>old m. m) (mutateClaim memoryLib agent desired True)
        (csClaims s (agentNamespace agent, persistentVolumeClaimName (agentName agent)))"
      using part assms(2) Inr by simp
    then show ?thesis by (rule plain_fixed) (auto simp: Inr mutateClaim_Inr dest: memory_unclaimed)
  qed (use part assms(2) in simp)
qed

lemma memory_unobstructed:
  assumes "settled memoryLib plainAdmission agent ri plan s"
    and "list_all (\<lambda>cid. csConfigMaps s (agentNamespace agent, generatedConfigMapName (agentName agent) cid) = None)
      [''config'', ''gateway-config'']"
  shows "unobstructed memoryLib agent s"
proof -
  note parts = assms(1) [unfolded settled_def plainAdmission_def serverAdmission.select_convs]
  have sts: "pred_option (\<lambda>sts. unclaimed (haMeta agent) (sfMeta sts)) (csStatefulSets s (agentKey agent))"
    using parts [THEN conjunct2, THEN conjunct2, THEN conjunct1]
    by (elim plain_fixed) (auto simp: mutateStatefulSet_def Let_def split: sum.splits dest: memory_unclaimed)
  have service: "pred_option (\<lambda>srv. isControlledBy memoryLib (srvMeta srv) (haMeta agent) \<and> unclaimed (haMeta agent) (srvMeta srv))
      (csServices s (agentKey agent))" if on: "serviceEnabled agent"
  proof -
    obtain srv where srv: "csServices s (agentKey agent) = Some srv" "mutateService memoryLib agent (buildService agent) srv = Inr srv"
      by (rule plain_fixed [OF parts [THEN conjunct2, THEN conjunct2, THEN conjunct2, THEN conjunct1, THEN mp, OF on]])
    then have "unclaimed (haMeta agent) ((srvMeta srv)\<lparr>omAnnotations := mergeStringMaps fmempty (omAnnotations (srvMeta (buildService agent)))\<rparr>)"
      by (auto simp: mutateService_def split: sum.splits dest!: memory_unclaimed)
    with srv memoryOwnerLib.serviceMutator.mutated_owned [OF srv(2)] show ?thesis by (simp add: unclaimed_def)
  qed
  have policy: "pred_option (\<lambda>np. isControlledBy memoryLib (nyMeta np) (haMeta agent) \<and> unclaimed (haMeta agent) (nyMeta np))
      (csNetworkPolicies s (agentKey agent))" if on: "networkPolicyEnabled agent"
  proof -
    let ?desired = "buildNetworkPolicy agent (effectiveTerminalBackend (yamlBackend memoryLib) agent ri)"
    obtain np where np: "csNetworkPolicies s (agentKey agent) = Some np" "mutateNetworkPolicy memoryLib agent ?desired np = Inr np"
      by (rule plain_fixed [OF parts [THEN conjunct2, THEN conjunct2, THEN conjunct2, THEN conjunct2, THEN conjunct1, THEN mp, OF on]])
    then have "unclaimed (haMeta agent) (nyMeta np)" by (auto simp: mutateNetworkPolicy_def split: sum.splits dest!: memory_unclaimed)
    with np memoryOwnerLib.networkPolicyMutator.mutated_owned [OF np(2)] show ?thesis by simp
  qed
  have budget: "pred_option (\<lambda>pdb. isControlledBy memoryLib (pdMeta pdb) (haMeta agent) \<and> unclaimed (haMeta agent) (pdMeta pdb))
      (csBudgets s (agentKey agent))" if on: "podDisruptionBudgetEnabled agent"
  proof -
    obtain pdb where pdb: "csBudgets s (agentKey agent) = Some pdb" "mutatePodDisruptionBudget memoryLib agent pdb = Inr pdb"
      by (rule plain_fixed [OF parts [THEN conjunct2, THEN conjunct2, THEN conjunct2, THEN conjunct2, THEN conjunct2, THEN mp, OF on]])
    then have "unclaimed (haMeta agent) (pdMeta pdb)"
      by (auto simp: mutatePodDisruptionBudget_def Let_def split: sum.splits dest!: memory_unclaimed)
    with pdb memoryOwnerLib.budgetMutator.mutated_owned [OF pdb(2)] show ?thesis by simp
  qed
  show ?thesis unfolding unobstructed_def using assms(2) memory_claim_unobstructed [OF assms(1)] sts service policy budget by (intro conjI impI) simp_all
qed

end
