(* ===== verification/GoMemory.thy ===== *)
theory GoMemory
  imports Prelude "HOL-Library.State_Monad" "HOL-Library.Sublist"
begin

text \<open>
  Go's memory, as far as the sharing of cells between two structures depends on it.  A memory is the
  list of its cells, an address an index of it, and \<^verbatim>\<open>new\<close> and \<^verbatim>\<open>make\<close> append a cell; \<open>'c\<close> is the
  type of cells, a datatype with one constructor for each type the program allocates.  A pointer is
  nil or an address; a slice is nil or an array cell with the number of its elements in use; a map
  is a reference to a table and thus a pointer.

  Reading a structure gives its deep value, in which every pointer is replaced by what it points
  to, and the set of cells the value rests on.  The value keeps nil apart from empty.  Two programs
  copy structures: \<open>copyPtr\<close> for a pointer field and \<open>copySlice\<close> for a slice field, both given the
  copying of what is behind.  The locale \<open>deep_copier\<close> states what a deep copy promises: the same
  deep value, on cells that did not exist before.  \<open>copyPtr\<close> and \<open>copySlice\<close> turn one deep copier
  into another (the sublocales of \<open>boxed\<close> and \<open>arrayed\<close>), and a struct whose fields are copied in
  sequence is covered by the rules for \<open>copying\<close>.
\<close>

section \<open>Cells, pointers and slices\<close>

type_synonym address = nat
type_synonym 'c mem = "'c list"
type_synonym ptr = "address option"
type_synonym ('c, 'a) prog = "('c mem, 'a) state"

datatype slice = NilSlice | Slice address nat

text \<open>
  A type of cells is given by its constructor and its selector; an address holds a cell of the
  type when the constructor gives the cell back.
\<close>

definition load :: "('a \<Rightarrow> 'c) \<Rightarrow> ('c \<Rightarrow> 'a) \<Rightarrow> 'c mem \<Rightarrow> address \<Rightarrow> 'a option" where
  "load mk sel m a = (if a < length m \<and> mk (sel (m ! a)) = m ! a then Some (sel (m ! a)) else None)"

definition new :: "'c \<Rightarrow> ('c, address) prog" where
  "new c = State (\<lambda>m. (length m, m @ [c]))"

definition store :: "address \<Rightarrow> 'c \<Rightarrow> ('c, unit) prog" where
  "store a c = State (\<lambda>m. ((), m[a := c]))"

section \<open>Deep values\<close>

datatype deepValue =
    VNil
  | VBool bool
  | VInt int
  | VText string
  | VTable str_map
  | VPointer deepValue
  | VSlice "deepValue list"
  | VStruct "deepValue list"

type_synonym 'c reading = "'c mem \<Rightarrow> (deepValue \<times> address set) option"

definition plain :: "deepValue \<Rightarrow> 'c reading" where
  "plain v m = Some (v, {})"

primrec readAll :: "'c reading list \<Rightarrow> 'c mem \<Rightarrow> (deepValue list \<times> address set) option" where
  "readAll [] m = Some ([], {})"
| "readAll (r # rs) m =
     (case r m of
        None \<Rightarrow> None
      | Some (v, cells) \<Rightarrow>
          (case readAll rs m of
             None \<Rightarrow> None
           | Some (vs, others) \<Rightarrow> Some (v # vs, cells \<union> others)))"

definition structOf :: "'c reading list \<Rightarrow> 'c reading" where
  "structOf rs m = map_option (\<lambda>(vs, cells). (VStruct vs, cells)) (readAll rs m)"

definition pointerTo :: "('a \<Rightarrow> 'c) \<Rightarrow> ('c \<Rightarrow> 'a) \<Rightarrow> ('a \<Rightarrow> 'c reading) \<Rightarrow> ptr \<Rightarrow> 'c reading" where
  "pointerTo mk sel look p m =
     (case p of
        None \<Rightarrow> Some (VNil, {})
      | Some a \<Rightarrow>
          (case load mk sel m a of
             None \<Rightarrow> None
           | Some x \<Rightarrow> map_option (\<lambda>(v, cells). (VPointer v, insert a cells)) (look x m)))"

definition sliceOf ::
  "('a list \<Rightarrow> 'c) \<Rightarrow> ('c \<Rightarrow> 'a list) \<Rightarrow> ('a \<Rightarrow> 'c reading) \<Rightarrow> slice \<Rightarrow> 'c reading" where
  "sliceOf mk sel look s m =
     (case s of
        NilSlice \<Rightarrow> Some (VNil, {})
      | Slice a n \<Rightarrow>
          (case load mk sel m a of
             None \<Rightarrow> None
           | Some xs \<Rightarrow>
               if n \<le> length xs
               then map_option (\<lambda>(vs, cells). (VSlice vs, insert a cells)) (readAll (map look (take n xs)) m)
               else None))"

section \<open>Copying pointers and slices\<close>

text \<open>
  Behind a pointer that is not nil a cell is allocated with the shallow copy \<^verbatim>\<open>*out = *in\<close>, then
  what the struct holds is copied and the cell filled.  Behind a slice that is not nil an array of
  the same length is made and its elements are copied one after the other.  The type system of Go
  excludes an address of another type's cell; there both programs leave everything as it is.
\<close>

definition copyPtr ::
  "('a \<Rightarrow> 'c) \<Rightarrow> ('c \<Rightarrow> 'a) \<Rightarrow> ('a \<Rightarrow> ('c, 'a) prog) \<Rightarrow> ptr \<Rightarrow> ('c, ptr) prog" where
  "copyPtr mk sel copy p =
     (case p of
        None \<Rightarrow> State_Monad.return None
      | Some a \<Rightarrow>
          do { m \<leftarrow> State_Monad.get;
               (case load mk sel m a of
                  None \<Rightarrow> State_Monad.return p
                | Some x \<Rightarrow>
                    do { b \<leftarrow> new (mk x);
                         y \<leftarrow> copy x;
                         _ \<leftarrow> store b (mk y);
                         State_Monad.return (Some b) }) })"

definition copySlice ::
  "('a list \<Rightarrow> 'c) \<Rightarrow> ('c \<Rightarrow> 'a list) \<Rightarrow> ('a \<Rightarrow> ('c, 'a) prog) \<Rightarrow> slice \<Rightarrow> ('c, slice) prog" where
  "copySlice mk sel copy s =
     (case s of
        NilSlice \<Rightarrow> State_Monad.return NilSlice
      | Slice a n \<Rightarrow>
          do { m \<leftarrow> State_Monad.get;
               (case load mk sel m a of
                  None \<Rightarrow> State_Monad.return s
                | Some xs \<Rightarrow>
                    do { b \<leftarrow> new (mk (take n xs));
                         ys \<leftarrow> State_Monad.traverse_list copy (take n xs);
                         _ \<leftarrow> store b (mk ys);
                         State_Monad.return (Slice b n) }) })"

lemma run_bindE:
  assumes "run_state (State_Monad.bind p f) m = (y, m')"
  obtains a m1 where "run_state p m = (a, m1)" and "run_state (f a) m1 = (y, m')"
  using assms by (cases "run_state p m") simp

lemma run_copyPtr:
  assumes "run_state (copyPtr mk sel copy p) m = (q, m')"
  obtains (kept) "q = p" "m' = m" "\<And>a. p = Some a \<Longrightarrow> load mk sel m a = None"
    | (copied) a x y m1 where "p = Some a" "load mk sel m a = Some x"
      "run_state (copy x) (m @ [mk x]) = (y, m1)" "q = Some (length m)" "m' = m1[length m := mk y]"
proof (cases "\<exists>a x. p = Some a \<and> load mk sel m a = Some x")
  case True
  then obtain a x where x: "p = Some a" "load mk sel m a = Some x" by blast
  with assms copied [OF x] show ?thesis
    by (cases "run_state (copy x) (m @ [mk x])") (simp add: copyPtr_def new_def store_def)
next
  case False
  then have "\<And>a. p = Some a \<Longrightarrow> load mk sel m a = None" by (metis not_Some_eq)
  with assms kept show ?thesis by (cases p) (auto simp: copyPtr_def)
qed

lemma run_copySlice:
  assumes "run_state (copySlice mk sel copy s) m = (t, m')"
  obtains (kept) "t = s" "m' = m" "\<And>a n. s = Slice a n \<Longrightarrow> load mk sel m a = None"
    | (copied) a n xs ys m1 where "s = Slice a n" "load mk sel m a = Some xs"
      "run_state (State_Monad.traverse_list copy (take n xs)) (m @ [mk (take n xs)]) = (ys, m1)"
      "t = Slice (length m) n" "m' = m1[length m := mk ys]"
proof (cases "\<exists>a n xs. s = Slice a n \<and> load mk sel m a = Some xs")
  case True
  then obtain a n xs where xs: "s = Slice a n" "load mk sel m a = Some xs" by blast
  with assms copied [OF xs] show ?thesis
    by (cases "run_state (State_Monad.traverse_list copy (take n xs)) (m @ [mk (take n xs)])")
      (simp add: copySlice_def new_def store_def)
next
  case False
  then have "\<And>a n. s = Slice a n \<Longrightarrow> load mk sel m a = None" by (metis not_Some_eq)
  with assms kept show ?thesis by (cases s) (auto simp: copySlice_def)
qed

section \<open>Readings that rest on their cells only\<close>

text \<open>
  A steady reading depends on the cells it reports and on nothing else: it gives the same in every
  memory that has the same contents there.
\<close>

definition agree :: "address set \<Rightarrow> 'c mem \<Rightarrow> 'c mem \<Rightarrow> bool" where
  "agree cells m m' \<longleftrightarrow> (\<forall>a\<in>cells. a < length m' \<and> m' ! a = m ! a)"

definition steadyAs :: "('c mem \<Rightarrow> ('v \<times> address set) option) \<Rightarrow> bool" where
  "steadyAs r \<longleftrightarrow>
     (\<forall>m v cells. r m = Some (v, cells) \<longrightarrow>
        cells \<subseteq> {..<length m} \<and> (\<forall>m'. agree cells m m' \<longrightarrow> r m' = Some (v, cells)))"

abbreviation steady :: "'c reading \<Rightarrow> bool" where
  "steady \<equiv> steadyAs"

lemma steadyI:
  assumes "\<And>m v cells. r m = Some (v, cells) \<Longrightarrow> cells \<subseteq> {..<length m}"
    and "\<And>m v cells m'. r m = Some (v, cells) \<Longrightarrow> agree cells m m' \<Longrightarrow> r m' = Some (v, cells)"
  shows "steadyAs r"
  using assms unfolding steadyAs_def by blast

lemma steady_bound: "steadyAs r \<Longrightarrow> r m = Some (v, cells) \<Longrightarrow> cells \<subseteq> {..<length m}"
  unfolding steadyAs_def by blast

lemma steady_agree: "steadyAs r \<Longrightarrow> r m = Some (v, cells) \<Longrightarrow> agree cells m m' \<Longrightarrow> r m' = Some (v, cells)"
  unfolding steadyAs_def by blast

lemma agree_prefix: "cells \<subseteq> {..<length m} \<Longrightarrow> prefix m m' \<Longrightarrow> agree cells m m'"
  by (auto simp: agree_def prefix_def nth_append)

lemma agree_un [simp]: "agree (A \<union> B) m m' \<longleftrightarrow> agree A m m' \<and> agree B m m'"
  by (auto simp: agree_def)

lemma agree_insert [simp]: "agree (insert a A) m m' \<longleftrightarrow> (a < length m' \<and> m' ! a = m ! a) \<and> agree A m m'"
  by (auto simp: agree_def)

lemma agree_update: "cells \<subseteq> {..<length m} \<Longrightarrow> a \<notin> cells \<Longrightarrow> agree cells m (m[a := c])"
  unfolding agree_def by (metis length_list_update lessThan_iff nth_list_update_neq subsetD)

lemma steady_prefix: "steadyAs r \<Longrightarrow> r m = Some (v, cells) \<Longrightarrow> prefix m m' \<Longrightarrow> r m' = Some (v, cells)"
  by (metis steady_agree agree_prefix steady_bound)

lemma load_bound: "load mk sel m a = Some x \<Longrightarrow> a < length m"
  by (simp add: load_def split: if_splits)

lemma load_agree: "load mk sel m a = Some x \<Longrightarrow> a < length m' \<Longrightarrow> m' ! a = m ! a \<Longrightarrow> load mk sel m' a = Some x"
  by (simp add: load_def split: if_splits)

text \<open>When a reading succeeds.\<close>

lemma plain_Some [simp]: "plain v m = Some (w, cells) \<longleftrightarrow> w = v \<and> cells = {}"
  by (auto simp: plain_def)

lemma readAll_Cons_Some:
  "readAll (r # rs) m = Some (vs, cells) \<longleftrightarrow>
     (\<exists>v here ws there. r m = Some (v, here) \<and> readAll rs m = Some (ws, there) \<and> vs = v # ws \<and> cells = here \<union> there)"
  by (auto split: option.splits)

lemma structOf_Some:
  "structOf rs m = Some (v, cells) \<longleftrightarrow> (\<exists>vs. readAll rs m = Some (vs, cells) \<and> v = VStruct vs)"
  by (auto simp: structOf_def)

lemma pointerTo_None [simp]: "pointerTo mk sel look None m = Some (VNil, {})"
  by (simp add: pointerTo_def)

lemma pointerTo_Some:
  "pointerTo mk sel look (Some a) m = Some (v, cells) \<longleftrightarrow>
     (\<exists>x w there. load mk sel m a = Some x \<and> look x m = Some (w, there) \<and> v = VPointer w \<and> cells = insert a there)"
  by (auto simp: pointerTo_def split: option.splits)

lemma sliceOf_NilSlice [simp]: "sliceOf mk sel look NilSlice m = Some (VNil, {})"
  by (simp add: sliceOf_def)

lemma sliceOf_Some:
  "sliceOf mk sel look (Slice a n) m = Some (v, cells) \<longleftrightarrow>
     (\<exists>xs vs there. load mk sel m a = Some xs \<and> n \<le> length xs \<and>
        readAll (map look (take n xs)) m = Some (vs, there) \<and> v = VSlice vs \<and> cells = insert a there)"
  by (auto simp: sliceOf_def split: option.splits if_splits)

lemmas reading_Some = readAll_Cons_Some structOf_Some pointerTo_Some sliceOf_Some

lemma steady_plain [simp, intro]: "steady (plain v)"
  by (rule steadyI) auto

lemma steady_readAll: "(\<And>r. r \<in> set rs \<Longrightarrow> steady r) \<Longrightarrow> steadyAs (readAll rs)"
proof (induction rs)
  case Nil
  show ?case by (rule steadyI) auto
next
  case (Cons r rs)
  then have r: "steady r" and rs: "steadyAs (readAll rs)" by auto
  show ?case
  proof (rule steadyI, goal_cases)
    case (1 m v cells)
    then show ?case unfolding readAll_Cons_Some using steady_bound [OF r] steady_bound [OF rs] by blast
  next
    case (2 m v cells m')
    then show ?case unfolding readAll_Cons_Some by (metis agree_un steady_agree [OF r] steady_agree [OF rs])
  qed
qed

lemma steady_structOf:
  assumes "\<And>r. r \<in> set rs \<Longrightarrow> steady r"
  shows "steady (structOf rs)"
proof (rule steadyI, unfold structOf_Some, goal_cases)
  case (1 m v cells)
  then show ?case using steady_bound [OF steady_readAll [OF assms]] by blast
next
  case (2 m v cells m')
  then show ?case using steady_agree [OF steady_readAll [OF assms]] by blast
qed

lemma steady_pointerTo:
  assumes look: "\<And>x. steady (look x)"
  shows "steady (pointerTo mk sel look p)"
proof (cases p)
  case None
  then show ?thesis by (auto intro: steadyI)
next
  case (Some a)
  show ?thesis unfolding Some
  proof (rule steadyI, goal_cases)
    case (1 m v cells)
    then show ?case unfolding pointerTo_Some using load_bound steady_bound [OF look] by fast
  next
    case (2 m v cells m')
    then show ?case unfolding pointerTo_Some by (metis agree_insert load_agree steady_agree [OF look])
  qed
qed

lemma steady_sliceOf:
  assumes "\<And>x. steady (look x)"
  shows "steady (sliceOf mk sel look s)"
proof (cases s)
  case NilSlice
  then show ?thesis by (auto intro: steadyI)
next
  case (Slice a n)
  have all: "steadyAs (readAll (map look xs))" for xs by (rule steady_readAll) (auto intro: assms)
  show ?thesis unfolding Slice
  proof (rule steadyI, goal_cases)
    case (1 m v cells)
    then show ?case unfolding sliceOf_Some using load_bound steady_bound [OF all] by fast
  next
    case (2 m v cells m')
    then show ?case unfolding sliceOf_Some by (metis agree_insert load_agree steady_agree [OF all])
  qed
qed

section \<open>Copies\<close>

text \<open>
  \<open>copyOf m r m' r'\<close>: what \<open>r'\<close> reads in the later memory is a deep copy of what \<open>r\<close> reads in the
  earlier one.  Nothing that was there has changed, the value is the same, and all cells it rests on
  are new.
\<close>

definition copyOf :: "'c mem \<Rightarrow> 'c reading \<Rightarrow> 'c mem \<Rightarrow> 'c reading \<Rightarrow> bool" where
  "copyOf m r m' r' \<longleftrightarrow>
     prefix m m' \<and> steady r \<and> steady r' \<and>
     (\<forall>v cells. r m = Some (v, cells) \<longrightarrow>
        (\<exists>cells'. r' m' = Some (v, cells') \<and> cells' \<subseteq> {length m..<length m'}))"

definition copying :: "'c mem \<Rightarrow> 'c reading list \<Rightarrow> 'c mem \<Rightarrow> 'c reading list \<Rightarrow> bool" where
  "copying m rs m' rs' \<longleftrightarrow> prefix m m' \<and> list_all2 (\<lambda>r r'. copyOf m r m' r') rs rs'"

lemma copyOf_prefix: "copyOf m r m' r' \<Longrightarrow> prefix m m'"
  by (simp add: copyOf_def)

lemma copyOf_value:
  assumes "copyOf m r m' r'" and "r m = Some (v, cells)"
  obtains cells' where "r' m' = Some (v, cells')" and "cells' \<subseteq> {length m..<length m'}"
  using assms unfolding copyOf_def by blast

lemma copyOf_steady: "copyOf m r m' r' \<Longrightarrow> steady r" "copyOf m r m' r' \<Longrightarrow> steady r'"
  unfolding copyOf_def by blast+

lemma ivl_upper: "A \<subseteq> {i..<j} \<Longrightarrow> j \<le> k \<Longrightarrow> A \<subseteq> {i..<k}" for i j k :: nat
  by fastforce

lemma ivl_lower: "A \<subseteq> {i..<j} \<Longrightarrow> h \<le> i \<Longrightarrow> A \<subseteq> {h..<j}" for h i j :: nat
  by fastforce

lemma copyOf_later:
  assumes "copyOf m r m1 r'" and "prefix m1 m2"
  shows "copyOf m r m2 r'"
  unfolding copyOf_def
proof (intro conjI allI impI)
  show "prefix m m2" using assms copyOf_prefix prefix_order.trans by metis
  show "steady r" "steady r'" using copyOf_steady [OF assms(1)] .
  fix v cells
  assume "r m = Some (v, cells)"
  then obtain cells' where "r' m1 = Some (v, cells')" "cells' \<subseteq> {length m..<length m1}"
    by (rule copyOf_value [OF assms(1)])
  then show "\<exists>cells'. r' m2 = Some (v, cells') \<and> cells' \<subseteq> {length m..<length m2}"
    using steady_prefix [OF \<open>steady r'\<close> _ assms(2)] ivl_upper prefix_length_le [OF assms(2)] by blast
qed

lemma copyOf_earlier:
  assumes "copyOf m1 r m2 r'" and "prefix m m1"
  shows "copyOf m r m2 r'"
  unfolding copyOf_def
proof (intro conjI allI impI)
  show "prefix m m2" using assms copyOf_prefix prefix_order.trans by metis
  show "steady r" "steady r'" using copyOf_steady [OF assms(1)] .
  fix v cells
  assume "r m = Some (v, cells)"
  then have "r m1 = Some (v, cells)" by (rule steady_prefix [OF \<open>steady r\<close> _ assms(2)])
  then obtain cells' where "r' m2 = Some (v, cells')" "cells' \<subseteq> {length m1..<length m2}"
    by (rule copyOf_value [OF assms(1)])
  then show "\<exists>cells'. r' m2 = Some (v, cells') \<and> cells' \<subseteq> {length m..<length m2}"
    using ivl_lower prefix_length_le [OF assms(2)] by blast
qed

lemma copyOf_plain [simp]: "copyOf m (plain v) m' (plain v) \<longleftrightarrow> prefix m m'"
  by (auto simp: copyOf_def)

lemma copying_Nil: "prefix m m' \<Longrightarrow> copying m [] m' []"
  by (simp add: copying_def)

lemma copying_refl: "copying m [] m []"
  by (simp add: copying_Nil)

lemma copying_plain: "copying m rs m' rs' \<Longrightarrow> copying m (plain v # rs) m' (plain v # rs')"
  by (simp add: copying_def)

lemma copying_Cons:
  assumes "copyOf m r m1 r'" and "copying m1 rs m2 rs'"
  shows "copying m (r # rs) m2 (r' # rs')"
proof -
  have "prefix m m1" "prefix m1 m2" using assms copyOf_prefix by (auto simp: copying_def)
  moreover from this have "list_all2 (\<lambda>r r'. copyOf m r m2 r') rs rs'"
    using assms(2) unfolding copying_def by (blast intro: list_all2_mono copyOf_earlier)
  ultimately show ?thesis
    using copyOf_later [OF assms(1)] unfolding copying_def by (simp add: prefix_order.trans [of m m1 m2])
qed

lemma copying_readAll:
  assumes "copying m rs m' rs'" and "readAll rs m = Some (vs, cells)"
  obtains cells' where "readAll rs' m' = Some (vs, cells')" and "cells' \<subseteq> {length m..<length m'}"
proof -
  have "list_all2 (\<lambda>r r'. copyOf m r m' r') rs rs'" using assms(1) by (simp add: copying_def)
  then have "\<exists>cells'. readAll rs' m' = Some (vs, cells') \<and> cells' \<subseteq> {length m..<length m'}"
    using assms(2)
  proof (induction arbitrary: vs cells rule: list_all2_induct)
    case Nil
    then show ?case by simp
  next
    case (Cons r rs r' rs')
    from Cons.prems obtain v here ws there where r: "r m = Some (v, here)"
      and rs: "readAll rs m = Some (ws, there)" and vs: "vs = v # ws"
      unfolding readAll_Cons_Some by blast
    obtain here' where "r' m' = Some (v, here')" "here' \<subseteq> {length m..<length m'}"
      using r by (rule copyOf_value [OF Cons.hyps(1)])
    moreover obtain there' where "readAll rs' m' = Some (ws, there')" "there' \<subseteq> {length m..<length m'}"
      using Cons.IH [OF rs] by blast
    ultimately show ?case unfolding readAll_Cons_Some vs by blast
  qed
  with that show ?thesis by blast
qed

lemma copying_steady:
  assumes "copying m rs m' rs'"
  shows "(\<forall>r\<in>set rs. steady r) \<and> (\<forall>r\<in>set rs'. steady r)"
proof -
  have "list_all2 (\<lambda>r r'. copyOf m r m' r') rs rs'" using assms by (simp add: copying_def)
  then show ?thesis by (induction rule: list_all2_induct) (auto dest: copyOf_steady)
qed

lemma copyOf_struct:
  assumes "copying m rs m' rs'"
  shows "copyOf m (structOf rs) m' (structOf rs')"
  unfolding copyOf_def
proof (intro conjI allI impI)
  show "prefix m m'" using assms by (simp add: copying_def)
  show "steady (structOf rs)" "steady (structOf rs')"
    using copying_steady [OF assms] by (auto intro!: steady_structOf)
  fix v cells
  assume "structOf rs m = Some (v, cells)"
  then show "\<exists>cells'. structOf rs' m' = Some (v, cells') \<and> cells' \<subseteq> {length m..<length m'}"
    unfolding structOf_Some by (metis copying_readAll [OF assms])
qed

lemmas copying_rules = copyOf_struct copying_plain copying_Cons copying_refl

section \<open>Deep copiers\<close>

locale deep_copier =
  fixes look :: "'a \<Rightarrow> 'c reading" and copy :: "'a \<Rightarrow> ('c, 'a) prog"
  assumes copies: "run_state (copy x) m = (y, m') \<Longrightarrow> copyOf m (look x) m' (look y)"
begin

lemma look_steady: "steady (look x)"
  using copies [of x _ "fst (run_state (copy x) m)" "snd (run_state (copy x) m)" for m]
  by (auto intro: copyOf_steady)

lemma traverse_copies:
  "run_state (State_Monad.traverse_list copy xs) m = (ys, m') \<Longrightarrow> copying m (map look xs) m' (map look ys)"
proof (induction xs arbitrary: m ys)
  case Nil
  then show ?case by (simp add: copying_refl)
next
  case (Cons x xs)
  then obtain y m1 zs where "run_state (copy x) m = (y, m1)"
    and "run_state (State_Monad.traverse_list copy xs) m1 = (zs, m')" and "ys = y # zs"
    by (auto split: prod.splits)
  then show ?case using Cons.IH copies by (auto intro!: copying_Cons)
qed

end

text \<open>Values without pointers are copied by assignment.\<close>

lemma flat_copier: "deep_copier (\<lambda>x. plain (f x)) State_Monad.return"
  by unfold_locales simp

lemma copyOf_filled:
  assumes fresh: "copyOf (m @ [c]) r m1 r'" and read: "r m = Some (v, cells)"
  obtains cells' where "r' (m1[length m := d]) = Some (v, cells')"
    and "length m \<notin> cells'" and "cells' \<subseteq> {length m..<length m1}"
proof -
  have "r (m @ [c]) = Some (v, cells)" by (rule steady_prefix [OF copyOf_steady(1) [OF fresh] read]) simp
  then obtain cells' where later: "r' m1 = Some (v, cells')" "cells' \<subseteq> {length (m @ [c])..<length m1}"
    by (rule copyOf_value [OF fresh])
  have "r' (m1[length m := d]) = Some (v, cells')"
    by (rule steady_agree [OF copyOf_steady(2) [OF fresh] later(1)]) (use later(2) in \<open>auto intro!: agree_update\<close>)
  with later(2) that show ?thesis by fastforce
qed

lemma prefix_filled: "prefix (m @ [c]) m1 \<Longrightarrow> prefix m (m1[length m := d])"
  by (auto simp: prefix_def)

locale boxed = deep_copier look copy
  for look :: "'a \<Rightarrow> 'c reading" and copy :: "'a \<Rightarrow> ('c, 'a) prog" +
  fixes mk :: "'a \<Rightarrow> 'c" and sel :: "'c \<Rightarrow> 'a"
  assumes sel_mk: "sel (mk x) = x"
begin

lemma copyPtr_copies:
  assumes run: "run_state (copyPtr mk sel copy p) m = (q, m')"
  shows "copyOf m (pointerTo mk sel look p) m' (pointerTo mk sel look q)"
  unfolding copyOf_def
proof (intro conjI allI impI)
  show "steady (pointerTo mk sel look p)" "steady (pointerTo mk sel look q)"
    by (auto intro: steady_pointerTo look_steady)
  show "prefix m m'"
    using run by (cases rule: run_copyPtr) (auto intro: prefix_filled copyOf_prefix copies)
  fix v cells
  assume read: "pointerTo mk sel look p m = Some (v, cells)"
  show "\<exists>cells'. pointerTo mk sel look q m' = Some (v, cells') \<and> cells' \<subseteq> {length m..<length m'}"
    using run
  proof (cases rule: run_copyPtr)
    case kept
    then have "p = None" using read by (cases p) (auto simp: pointerTo_Some)
    with kept read show ?thesis by simp
  next
    case (copied a x y m1)
    then obtain w there where w: "look x m = Some (w, there)" "v = VPointer w"
      using read by (auto simp: pointerTo_Some)
    have long: "length m < length m1" using copyOf_prefix [OF copies [OF copied(3)]] prefix_length_le by fastforce
    obtain there' where "look y m' = Some (w, there')" "there' \<subseteq> {length m..<length m1}"
      using copyOf_filled [OF copies [OF copied(3)] w(1)] copied(5) by metis
    then show ?thesis unfolding copied(4) pointerTo_Some using w(2) long copied(5)
      by (intro exI [of _ "insert (length m) there'"]) (auto simp: load_def sel_mk)
  qed
qed

sublocale pointer: deep_copier "pointerTo mk sel look" "copyPtr mk sel copy"
  by unfold_locales (rule copyPtr_copies)

end

locale arrayed = deep_copier look copy
  for look :: "'a \<Rightarrow> 'c reading" and copy :: "'a \<Rightarrow> ('c, 'a) prog" +
  fixes mk :: "'a list \<Rightarrow> 'c" and sel :: "'c \<Rightarrow> 'a list"
  assumes sel_mk: "sel (mk xs) = xs"
begin

lemma copySlice_copies:
  assumes run: "run_state (copySlice mk sel copy s) m = (t, m')"
  shows "copyOf m (sliceOf mk sel look s) m' (sliceOf mk sel look t)"
  unfolding copyOf_def
proof (intro conjI allI impI)
  show "steady (sliceOf mk sel look s)" "steady (sliceOf mk sel look t)"
    by (auto intro: steady_sliceOf look_steady)
  have elems: "copyOf m2 (structOf (map look xs)) m3 (structOf (map look ys))"
    if "run_state (State_Monad.traverse_list copy xs) m2 = (ys, m3)" for xs ys m2 m3
    by (rule copyOf_struct [OF traverse_copies [OF that]])
  show "prefix m m'"
    using run by (cases rule: run_copySlice) (auto intro: prefix_filled copyOf_prefix elems)
  fix v cells
  assume read: "sliceOf mk sel look s m = Some (v, cells)"
  show "\<exists>cells'. sliceOf mk sel look t m' = Some (v, cells') \<and> cells' \<subseteq> {length m..<length m'}"
    using run
  proof (cases rule: run_copySlice)
    case kept
    then have "s = NilSlice" using read by (cases s) (auto simp: sliceOf_Some)
    with kept read show ?thesis by simp
  next
    case (copied a n xs ys m1)
    then obtain vs there where vs: "structOf (map look (take n xs)) m = Some (VStruct vs, there)" "v = VSlice vs"
      and n: "n \<le> length xs" using read by (auto simp: sliceOf_Some structOf_Some)
    have long: "length m < length m1" using copyOf_prefix [OF elems [OF copied(3)]] prefix_length_le by fastforce
    have ys: "length ys = n" using traverse_copies [OF copied(3)] n by (auto simp: copying_def dest!: list_all2_lengthD)
    obtain there' where "structOf (map look ys) m' = Some (VStruct vs, there')" "there' \<subseteq> {length m..<length m1}"
      using copyOf_filled [OF elems [OF copied(3)] vs(1)] copied(5) by metis
    then show ?thesis unfolding copied(4) sliceOf_Some structOf_Some using vs(2) long copied(5) ys
      by (intro exI [of _ "insert (length m) there'"]) (auto simp: load_def sel_mk)
  qed
qed

sublocale slice: deep_copier "sliceOf mk sel look" "copySlice mk sel copy"
  by unfold_locales (rule copySlice_copies)

end

section \<open>What is written to one side\<close>

datatype 'c edit = Write address 'c | Allocate 'c

fun edited :: "'c edit list \<Rightarrow> 'c mem \<Rightarrow> 'c mem" where
  "edited [] m = m"
| "edited (Write a c # es) m = edited es (m[a := c])"
| "edited (Allocate c # es) m = edited es (m @ [c])"

fun writtenCells :: "'c edit list \<Rightarrow> address set" where
  "writtenCells [] = {}"
| "writtenCells (Write a c # es) = insert a (writtenCells es)"
| "writtenCells (Allocate c # es) = writtenCells es"

lemma steady_edited:
  assumes "steady r" and "r m = Some (v, cells)" and "cells \<inter> writtenCells es = {}"
  shows "r (edited es m) = Some (v, cells)"
  using assms(2,3)
proof (induction es m rule: edited.induct)
  case (2 a c es m)
  then have "r (m[a := c]) = Some (v, cells)"
    using steady_agree [OF assms(1)] steady_bound [OF assms(1)] agree_update by (metis Int_iff emptyE insertI1 writtenCells.simps(2))
  with 2 show ?case by simp
next
  case (3 c es m)
  then have "r (m @ [c]) = Some (v, cells)" using steady_prefix [OF assms(1)] by (metis prefixI)
  with 3 show ?case by simp
qed simp

context deep_copier
begin

text \<open>
  The copy has the value of the original and shares no cell with it; so whatever is written
  outside the copy leaves the copy, and whatever is written outside the original leaves the
  original.
\<close>

lemma copy_isolated:
  assumes "look x m = Some (v, cells)" and "run_state (copy x) m = (y, m')"
  obtains cells' where "look x m' = Some (v, cells)" and "look y m' = Some (v, cells')"
    and "cells \<inter> cells' = {}"
    and "\<And>es. cells' \<inter> writtenCells es = {} \<Longrightarrow> look y (edited es m') = Some (v, cells')"
    and "\<And>es. cells \<inter> writtenCells es = {} \<Longrightarrow> look x (edited es m') = Some (v, cells)"
proof -
  note copied = copies [OF assms(2)]
  have old: "look x m' = Some (v, cells)"
    by (rule steady_prefix [OF look_steady assms(1) copyOf_prefix [OF copied]])
  obtain cells' where new: "look y m' = Some (v, cells')" "cells' \<subseteq> {length m..<length m'}"
    using assms(1) by (rule copyOf_value [OF copied])
  moreover have "cells \<inter> cells' = {}" using steady_bound [OF look_steady assms(1)] new(2) by fastforce
  ultimately show ?thesis using that old steady_edited [OF look_steady] by blast
qed

end

end
