(* ===== verification/DeepCopy.thy ===== *)
theory DeepCopy
  imports AgentTypes GoMemory
begin

text \<open>
  The generated deep copies of the API types, \<^verbatim>\<open>src/api/v1/zz_generated.deepcopy.go\<close>.  The records
  of this theory are the structs of \<^verbatim>\<open>hermesagent_types.go\<close> as they lie in memory: a pointer field
  holds an address, a slice field its array and length, a map field the address of its table.  A
  struct without pointers (image, terminal, local object reference) is the record of
  \<open>AgentTypes\<close>.  \<^verbatim>\<open>DeepCopyInto\<close> of a struct is the program that returns what ends up in \<^verbatim>\<open>*out\<close>,
  and \<^verbatim>\<open>DeepCopy\<close> allocates the cell for it.

  The structs of \<^verbatim>\<open>corev1\<close> and \<^verbatim>\<open>metav1\<close> have deep copies of their own, which are not part of the
  repository: \<open>'x\<close> is the type of such values in memory, \<open>kcopy\<close> their \<^verbatim>\<open>DeepCopyInto\<close> and \<open>klook\<close>
  the reading of their deep value.  The locale \<open>kube_copies\<close> states what these promise, and under it
  every copy of this theory is a deep copier.
\<close>

section \<open>The structs in memory\<close>

record typeMeta =
  tyKind :: string
  tyAPIVersion :: string

record memConfigSource =
  mcRaw :: string
  mcConfigMapRef :: ptr
  mcSecretRef :: ptr

record memFileProjectionItem =
  miKey :: string
  miPath :: string
  miMode :: ptr

record memFileMountSpec =
  mfMountPath :: string
  mfConfigMapRef :: ptr
  mfSecretRef :: ptr
  mfItems :: slice
  mfDefaultMode :: ptr

record memPersistenceSpec =
  mvEnabled :: ptr
  mvSize :: string
  mvStorageClassName :: ptr
  mvAccessModes :: slice

record memStorageSpec =
  mtPersistence :: memPersistenceSpec

record memProbeSpec =
  mpEnabled :: ptr
  mpInitialDelaySeconds :: int
  mpPeriodSeconds :: int
  mpTimeoutSeconds :: int
  mpFailureThreshold :: int

record memProbesSpec =
  mbStartup :: memProbeSpec
  mbReadiness :: memProbeSpec
  mbLiveness :: memProbeSpec
  mbRequireConnectedPlatform :: bool

record memRollingUpdateStrategySpec =
  mrPartition :: ptr

record memUpdateStrategySpec =
  muType :: string
  muRollingUpdate :: ptr

record memServiceSpec =
  mwEnabled :: bool
  mwAnnotations :: ptr
  mwType :: string
  mwPort :: int
  mwTargetPort :: int

record memNetworkPolicyPeer =
  meCIDR :: string
  meExcept :: slice
  meNamespaceSelector :: ptr
  mePodSelector :: ptr

record memNetworkPolicySpec =
  mnEnabled :: ptr
  mnDestinations :: slice
  mnAdditionalTCPPorts :: slice
  mnAdditionalUDPPorts :: slice

record 'x memSpec =
  msImage :: hermesAgentImageSpec
  msMode :: string
  msConfig :: memConfigSource
  msGatewayConfig :: memConfigSource
  msEnv :: slice
  msEnvFrom :: slice
  msSecretRefs :: slice
  msFileMounts :: slice
  msImagePullSecrets :: slice
  msPodLabels :: ptr
  msPodAnnotations :: ptr
  msServiceAccountName :: string
  msAutomountServiceAccountToken :: ptr
  msNodeSelector :: ptr
  msTolerations :: slice
  msAffinity :: ptr
  msTopologySpreadConstraints :: slice
  msTerminationGracePeriodSeconds :: ptr
  msReplicas :: int
  msUpdateStrategy :: memUpdateStrategySpec
  msStorage :: memStorageSpec
  msTerminal :: hermesAgentTerminalSpec
  msResources :: 'x
  msProbes :: memProbesSpec
  msService :: memServiceSpec
  msNetworkPolicy :: memNetworkPolicySpec

record memStatus =
  maPhase :: string
  maObservedGeneration :: int
  maImage :: string
  maConfigHash :: string
  maReadyReplicas :: int
  maPersistenceBound :: bool
  maPersistentVolumeClaimName :: string
  maPersistentVolumeClaimDriftedFields :: slice
  maPersistentVolumeClaimRemediation :: string
  maServiceName :: string
  maLastReconcileTime :: ptr
  maConditions :: slice

record 'x memAgent =
  mhTypeMeta :: typeMeta
  mhObjectMeta :: 'x
  mhSpec :: "'x memSpec"
  mhStatus :: memStatus

record 'x memAgentList =
  mlTypeMeta :: typeMeta
  mlListMeta :: 'x
  mlItems :: slice

section \<open>The cells\<close>

text \<open>One constructor for each type of which the program allocates a value, an array or a table.\<close>

datatype 'x cell =
    BoolCell (theBool: bool)
  | IntCell (theInt: int)
  | TextCell (theText: string)
  | TableCell (theTable: str_map)
  | RefCell (theRef: localObjectReference)
  | KubeCell (theKube: 'x)
  | TextArray (theTexts: "string list")
  | IntArray (theInts: "int list")
  | RefArray (theRefs: "localObjectReference list")
  | KubeArray (theKubes: "'x list")
  | ItemArray (theItems: "memFileProjectionItem list")
  | MountArray (theMounts: "memFileMountSpec list")
  | PeerArray (thePeers: "memNetworkPolicyPeer list")
  | AgentArray (theAgents: "'x memAgent list")
  | ImageCell (theImage: hermesAgentImageSpec)
  | ConfigSourceCell (theConfigSource: memConfigSource)
  | ItemCell (theItem: memFileProjectionItem)
  | MountCell (theMount: memFileMountSpec)
  | PersistenceCell (thePersistence: memPersistenceSpec)
  | StorageCell (theStorage: memStorageSpec)
  | TerminalCell (theTerminal: hermesAgentTerminalSpec)
  | ProbeCell (theProbe: memProbeSpec)
  | ProbesCell (theProbes: memProbesSpec)
  | RollingCell (theRolling: memRollingUpdateStrategySpec)
  | UpdateCell (theUpdate: memUpdateStrategySpec)
  | ServiceCell (theService: memServiceSpec)
  | PeerCell (thePeer: memNetworkPolicyPeer)
  | PolicyCell (thePolicy: memNetworkPolicySpec)
  | SpecCell (theSpec: "'x memSpec")
  | StatusCell (theStatus: memStatus)
  | AgentCell (theAgent: "'x memAgent")
  | AgentListCell (theAgentList: "'x memAgentList")

type_synonym ('x, 'a) copyProg = "('x cell, 'a) prog"

section \<open>Fields of built-in type and of Kubernetes type\<close>

text \<open>
  \<^verbatim>\<open>**out = **in\<close> behind a pointer, \<^verbatim>\<open>copy\<close> of an array of plain values, a map copied key by key,
  and the pointers to and arrays of Kubernetes structs.
\<close>

abbreviation copyBool :: "ptr \<Rightarrow> ('x, ptr) copyProg" where
  "copyBool \<equiv> copyPtr BoolCell theBool State_Monad.return"

abbreviation copyInt :: "ptr \<Rightarrow> ('x, ptr) copyProg" where
  "copyInt \<equiv> copyPtr IntCell theInt State_Monad.return"

abbreviation copyText :: "ptr \<Rightarrow> ('x, ptr) copyProg" where
  "copyText \<equiv> copyPtr TextCell theText State_Monad.return"

abbreviation copyRef :: "ptr \<Rightarrow> ('x, ptr) copyProg" where
  "copyRef \<equiv> copyPtr RefCell theRef State_Monad.return"

definition copyEntries :: "str_map \<Rightarrow> ('x, str_map) copyProg" where
  "copyEntries table = State_Monad.return (fmempty ++\<^sub>f table)"

abbreviation copyTable :: "ptr \<Rightarrow> ('x, ptr) copyProg" where
  "copyTable \<equiv> copyPtr TableCell theTable copyEntries"

abbreviation copyTexts :: "slice \<Rightarrow> ('x, slice) copyProg" where
  "copyTexts \<equiv> copySlice TextArray theTexts State_Monad.return"

abbreviation copyInts :: "slice \<Rightarrow> ('x, slice) copyProg" where
  "copyInts \<equiv> copySlice IntArray theInts State_Monad.return"

abbreviation copyRefs :: "slice \<Rightarrow> ('x, slice) copyProg" where
  "copyRefs \<equiv> copySlice RefArray theRefs State_Monad.return"

abbreviation copyKube :: "('x \<Rightarrow> ('x, 'x) copyProg) \<Rightarrow> ptr \<Rightarrow> ('x, ptr) copyProg" where
  "copyKube kcopy \<equiv> copyPtr KubeCell theKube kcopy"

abbreviation copyKubes :: "('x \<Rightarrow> ('x, 'x) copyProg) \<Rightarrow> slice \<Rightarrow> ('x, slice) copyProg" where
  "copyKubes kcopy \<equiv> copySlice KubeArray theKubes kcopy"

section \<open>Copied pointers of the manifest builder\<close>

text \<open>
  \<^verbatim>\<open>src/internal/controller/hermesagent_resources.go\<close> copies the optional scalars of a spec into the pod
  template in the same way.
\<close>

definition copyBoolPtr :: "ptr \<Rightarrow> ('x, ptr) copyProg" where
  "copyBoolPtr p = copyBool p"

definition copyInt32Ptr :: "ptr \<Rightarrow> ('x, ptr) copyProg" where
  "copyInt32Ptr p = copyInt p"

definition copyInt64Ptr :: "ptr \<Rightarrow> ('x, ptr) copyProg" where
  "copyInt64Ptr p = copyInt p"

section \<open>DeepCopyInto\<close>

definition HermesAgentConfigSource_DeepCopyInto ::
  "('x \<Rightarrow> ('x, 'x) copyProg) \<Rightarrow> memConfigSource \<Rightarrow> ('x, memConfigSource) copyProg" where
  "HermesAgentConfigSource_DeepCopyInto kcopy x =
     do { configMapRef \<leftarrow> copyKube kcopy (mcConfigMapRef x);
          secretRef \<leftarrow> copyKube kcopy (mcSecretRef x);
          State_Monad.return (x\<lparr>mcConfigMapRef := configMapRef, mcSecretRef := secretRef\<rparr>) }"

definition HermesAgentFileProjectionItem_DeepCopyInto ::
  "memFileProjectionItem \<Rightarrow> ('x, memFileProjectionItem) copyProg" where
  "HermesAgentFileProjectionItem_DeepCopyInto x =
     do { mode \<leftarrow> copyInt (miMode x);
          State_Monad.return (x\<lparr>miMode := mode\<rparr>) }"

definition HermesAgentFileMountSpec_DeepCopyInto ::
  "memFileMountSpec \<Rightarrow> ('x, memFileMountSpec) copyProg" where
  "HermesAgentFileMountSpec_DeepCopyInto x =
     do { configMapRef \<leftarrow> copyRef (mfConfigMapRef x);
          secretRef \<leftarrow> copyRef (mfSecretRef x);
          items \<leftarrow> copySlice ItemArray theItems HermesAgentFileProjectionItem_DeepCopyInto (mfItems x);
          defaultMode \<leftarrow> copyInt (mfDefaultMode x);
          State_Monad.return (x\<lparr>mfConfigMapRef := configMapRef, mfSecretRef := secretRef, mfItems := items,
            mfDefaultMode := defaultMode\<rparr>) }"

definition HermesAgentImageSpec_DeepCopyInto ::
  "hermesAgentImageSpec \<Rightarrow> ('x, hermesAgentImageSpec) copyProg" where
  "HermesAgentImageSpec_DeepCopyInto x = State_Monad.return x"

definition HermesAgentNetworkPolicyPeer_DeepCopyInto ::
  "('x \<Rightarrow> ('x, 'x) copyProg) \<Rightarrow> memNetworkPolicyPeer \<Rightarrow> ('x, memNetworkPolicyPeer) copyProg" where
  "HermesAgentNetworkPolicyPeer_DeepCopyInto kcopy x =
     do { except \<leftarrow> copyTexts (meExcept x);
          namespaceSelector \<leftarrow> copyKube kcopy (meNamespaceSelector x);
          podSelector \<leftarrow> copyKube kcopy (mePodSelector x);
          State_Monad.return (x\<lparr>meExcept := except, meNamespaceSelector := namespaceSelector,
            mePodSelector := podSelector\<rparr>) }"

definition HermesAgentNetworkPolicySpec_DeepCopyInto ::
  "('x \<Rightarrow> ('x, 'x) copyProg) \<Rightarrow> memNetworkPolicySpec \<Rightarrow> ('x, memNetworkPolicySpec) copyProg" where
  "HermesAgentNetworkPolicySpec_DeepCopyInto kcopy x =
     do { enabled \<leftarrow> copyBool (mnEnabled x);
          destinations \<leftarrow>
            copySlice PeerArray thePeers (HermesAgentNetworkPolicyPeer_DeepCopyInto kcopy) (mnDestinations x);
          tcpPorts \<leftarrow> copyInts (mnAdditionalTCPPorts x);
          udpPorts \<leftarrow> copyInts (mnAdditionalUDPPorts x);
          State_Monad.return (x\<lparr>mnEnabled := enabled, mnDestinations := destinations,
            mnAdditionalTCPPorts := tcpPorts, mnAdditionalUDPPorts := udpPorts\<rparr>) }"

definition HermesAgentPersistenceSpec_DeepCopyInto ::
  "memPersistenceSpec \<Rightarrow> ('x, memPersistenceSpec) copyProg" where
  "HermesAgentPersistenceSpec_DeepCopyInto x =
     do { enabled \<leftarrow> copyBool (mvEnabled x);
          storageClassName \<leftarrow> copyText (mvStorageClassName x);
          accessModes \<leftarrow> copyTexts (mvAccessModes x);
          State_Monad.return (x\<lparr>mvEnabled := enabled, mvStorageClassName := storageClassName,
            mvAccessModes := accessModes\<rparr>) }"

definition HermesAgentProbeSpec_DeepCopyInto :: "memProbeSpec \<Rightarrow> ('x, memProbeSpec) copyProg" where
  "HermesAgentProbeSpec_DeepCopyInto x =
     do { enabled \<leftarrow> copyBool (mpEnabled x);
          State_Monad.return (x\<lparr>mpEnabled := enabled\<rparr>) }"

definition HermesAgentProbesSpec_DeepCopyInto :: "memProbesSpec \<Rightarrow> ('x, memProbesSpec) copyProg" where
  "HermesAgentProbesSpec_DeepCopyInto x =
     do { startup \<leftarrow> HermesAgentProbeSpec_DeepCopyInto (mbStartup x);
          readiness \<leftarrow> HermesAgentProbeSpec_DeepCopyInto (mbReadiness x);
          liveness \<leftarrow> HermesAgentProbeSpec_DeepCopyInto (mbLiveness x);
          State_Monad.return (x\<lparr>mbStartup := startup, mbReadiness := readiness, mbLiveness := liveness\<rparr>) }"

definition HermesAgentRollingUpdateStrategySpec_DeepCopyInto ::
  "memRollingUpdateStrategySpec \<Rightarrow> ('x, memRollingUpdateStrategySpec) copyProg" where
  "HermesAgentRollingUpdateStrategySpec_DeepCopyInto x =
     do { partition \<leftarrow> copyInt (mrPartition x);
          State_Monad.return (x\<lparr>mrPartition := partition\<rparr>) }"

definition HermesAgentServiceSpec_DeepCopyInto :: "memServiceSpec \<Rightarrow> ('x, memServiceSpec) copyProg" where
  "HermesAgentServiceSpec_DeepCopyInto x =
     do { annotations \<leftarrow> copyTable (mwAnnotations x);
          State_Monad.return (x\<lparr>mwAnnotations := annotations\<rparr>) }"

definition HermesAgentStorageSpec_DeepCopyInto :: "memStorageSpec \<Rightarrow> ('x, memStorageSpec) copyProg" where
  "HermesAgentStorageSpec_DeepCopyInto x =
     do { persistence \<leftarrow> HermesAgentPersistenceSpec_DeepCopyInto (mtPersistence x);
          State_Monad.return (x\<lparr>mtPersistence := persistence\<rparr>) }"

definition HermesAgentTerminalSpec_DeepCopyInto ::
  "hermesAgentTerminalSpec \<Rightarrow> ('x, hermesAgentTerminalSpec) copyProg" where
  "HermesAgentTerminalSpec_DeepCopyInto x = State_Monad.return x"

definition HermesAgentUpdateStrategySpec_DeepCopyInto ::
  "memUpdateStrategySpec \<Rightarrow> ('x, memUpdateStrategySpec) copyProg" where
  "HermesAgentUpdateStrategySpec_DeepCopyInto x =
     do { rollingUpdate \<leftarrow>
            copyPtr RollingCell theRolling HermesAgentRollingUpdateStrategySpec_DeepCopyInto (muRollingUpdate x);
          State_Monad.return (x\<lparr>muRollingUpdate := rollingUpdate\<rparr>) }"

definition HermesAgentSpec_DeepCopyInto ::
  "('x \<Rightarrow> ('x, 'x) copyProg) \<Rightarrow> 'x memSpec \<Rightarrow> ('x, 'x memSpec) copyProg" where
  "HermesAgentSpec_DeepCopyInto kcopy x =
     do { config \<leftarrow> HermesAgentConfigSource_DeepCopyInto kcopy (msConfig x);
          gatewayConfig \<leftarrow> HermesAgentConfigSource_DeepCopyInto kcopy (msGatewayConfig x);
          env \<leftarrow> copyKubes kcopy (msEnv x);
          envFrom \<leftarrow> copyKubes kcopy (msEnvFrom x);
          secretRefs \<leftarrow> copyRefs (msSecretRefs x);
          fileMounts \<leftarrow> copySlice MountArray theMounts HermesAgentFileMountSpec_DeepCopyInto (msFileMounts x);
          imagePullSecrets \<leftarrow> copyRefs (msImagePullSecrets x);
          podLabels \<leftarrow> copyTable (msPodLabels x);
          podAnnotations \<leftarrow> copyTable (msPodAnnotations x);
          automount \<leftarrow> copyBool (msAutomountServiceAccountToken x);
          nodeSelector \<leftarrow> copyTable (msNodeSelector x);
          tolerations \<leftarrow> copyKubes kcopy (msTolerations x);
          affinity \<leftarrow> copyKube kcopy (msAffinity x);
          topologySpreadConstraints \<leftarrow> copyKubes kcopy (msTopologySpreadConstraints x);
          gracePeriod \<leftarrow> copyInt (msTerminationGracePeriodSeconds x);
          updateStrategy \<leftarrow> HermesAgentUpdateStrategySpec_DeepCopyInto (msUpdateStrategy x);
          storage \<leftarrow> HermesAgentStorageSpec_DeepCopyInto (msStorage x);
          resources \<leftarrow> kcopy (msResources x);
          probes \<leftarrow> HermesAgentProbesSpec_DeepCopyInto (msProbes x);
          service \<leftarrow> HermesAgentServiceSpec_DeepCopyInto (msService x);
          networkPolicy \<leftarrow> HermesAgentNetworkPolicySpec_DeepCopyInto kcopy (msNetworkPolicy x);
          State_Monad.return (x\<lparr>msConfig := config, msGatewayConfig := gatewayConfig, msEnv := env,
            msEnvFrom := envFrom, msSecretRefs := secretRefs, msFileMounts := fileMounts,
            msImagePullSecrets := imagePullSecrets, msPodLabels := podLabels,
            msPodAnnotations := podAnnotations, msAutomountServiceAccountToken := automount,
            msNodeSelector := nodeSelector, msTolerations := tolerations, msAffinity := affinity,
            msTopologySpreadConstraints := topologySpreadConstraints,
            msTerminationGracePeriodSeconds := gracePeriod, msUpdateStrategy := updateStrategy,
            msStorage := storage, msResources := resources, msProbes := probes, msService := service,
            msNetworkPolicy := networkPolicy\<rparr>) }"

definition HermesAgentStatus_DeepCopyInto ::
  "('x \<Rightarrow> ('x, 'x) copyProg) \<Rightarrow> memStatus \<Rightarrow> ('x, memStatus) copyProg" where
  "HermesAgentStatus_DeepCopyInto kcopy x =
     do { driftedFields \<leftarrow> copyTexts (maPersistentVolumeClaimDriftedFields x);
          lastReconcileTime \<leftarrow> copyKube kcopy (maLastReconcileTime x);
          conditions \<leftarrow> copyKubes kcopy (maConditions x);
          State_Monad.return (x\<lparr>maPersistentVolumeClaimDriftedFields := driftedFields,
            maLastReconcileTime := lastReconcileTime, maConditions := conditions\<rparr>) }"

definition HermesAgent_DeepCopyInto ::
  "('x \<Rightarrow> ('x, 'x) copyProg) \<Rightarrow> 'x memAgent \<Rightarrow> ('x, 'x memAgent) copyProg" where
  "HermesAgent_DeepCopyInto kcopy x =
     do { objectMeta \<leftarrow> kcopy (mhObjectMeta x);
          spec \<leftarrow> HermesAgentSpec_DeepCopyInto kcopy (mhSpec x);
          status \<leftarrow> HermesAgentStatus_DeepCopyInto kcopy (mhStatus x);
          State_Monad.return (x\<lparr>mhObjectMeta := objectMeta, mhSpec := spec, mhStatus := status\<rparr>) }"

definition HermesAgentList_DeepCopyInto ::
  "('x \<Rightarrow> ('x, 'x) copyProg) \<Rightarrow> 'x memAgentList \<Rightarrow> ('x, 'x memAgentList) copyProg" where
  "HermesAgentList_DeepCopyInto kcopy x =
     do { listMeta \<leftarrow> kcopy (mlListMeta x);
          items \<leftarrow> copySlice AgentArray theAgents (HermesAgent_DeepCopyInto kcopy) (mlItems x);
          State_Monad.return (x\<lparr>mlListMeta := listMeta, mlItems := items\<rparr>) }"

section \<open>DeepCopy and DeepCopyObject\<close>

definition HermesAgent_DeepCopy :: "('x \<Rightarrow> ('x, 'x) copyProg) \<Rightarrow> ptr \<Rightarrow> ('x, ptr) copyProg" where
  "HermesAgent_DeepCopy kcopy = copyPtr AgentCell theAgent (HermesAgent_DeepCopyInto kcopy)"

definition HermesAgentConfigSource_DeepCopy :: "('x \<Rightarrow> ('x, 'x) copyProg) \<Rightarrow> ptr \<Rightarrow> ('x, ptr) copyProg" where
  "HermesAgentConfigSource_DeepCopy kcopy =
     copyPtr ConfigSourceCell theConfigSource (HermesAgentConfigSource_DeepCopyInto kcopy)"

definition HermesAgentFileMountSpec_DeepCopy :: "ptr \<Rightarrow> ('x, ptr) copyProg" where
  "HermesAgentFileMountSpec_DeepCopy = copyPtr MountCell theMount HermesAgentFileMountSpec_DeepCopyInto"

definition HermesAgentFileProjectionItem_DeepCopy :: "ptr \<Rightarrow> ('x, ptr) copyProg" where
  "HermesAgentFileProjectionItem_DeepCopy = copyPtr ItemCell theItem HermesAgentFileProjectionItem_DeepCopyInto"

definition HermesAgentImageSpec_DeepCopy :: "ptr \<Rightarrow> ('x, ptr) copyProg" where
  "HermesAgentImageSpec_DeepCopy = copyPtr ImageCell theImage HermesAgentImageSpec_DeepCopyInto"

definition HermesAgentList_DeepCopy :: "('x \<Rightarrow> ('x, 'x) copyProg) \<Rightarrow> ptr \<Rightarrow> ('x, ptr) copyProg" where
  "HermesAgentList_DeepCopy kcopy = copyPtr AgentListCell theAgentList (HermesAgentList_DeepCopyInto kcopy)"

definition HermesAgentNetworkPolicyPeer_DeepCopy ::
  "('x \<Rightarrow> ('x, 'x) copyProg) \<Rightarrow> ptr \<Rightarrow> ('x, ptr) copyProg" where
  "HermesAgentNetworkPolicyPeer_DeepCopy kcopy =
     copyPtr PeerCell thePeer (HermesAgentNetworkPolicyPeer_DeepCopyInto kcopy)"

definition HermesAgentNetworkPolicySpec_DeepCopy ::
  "('x \<Rightarrow> ('x, 'x) copyProg) \<Rightarrow> ptr \<Rightarrow> ('x, ptr) copyProg" where
  "HermesAgentNetworkPolicySpec_DeepCopy kcopy =
     copyPtr PolicyCell thePolicy (HermesAgentNetworkPolicySpec_DeepCopyInto kcopy)"

definition HermesAgentPersistenceSpec_DeepCopy :: "ptr \<Rightarrow> ('x, ptr) copyProg" where
  "HermesAgentPersistenceSpec_DeepCopy =
     copyPtr PersistenceCell thePersistence HermesAgentPersistenceSpec_DeepCopyInto"

definition HermesAgentProbeSpec_DeepCopy :: "ptr \<Rightarrow> ('x, ptr) copyProg" where
  "HermesAgentProbeSpec_DeepCopy = copyPtr ProbeCell theProbe HermesAgentProbeSpec_DeepCopyInto"

definition HermesAgentProbesSpec_DeepCopy :: "ptr \<Rightarrow> ('x, ptr) copyProg" where
  "HermesAgentProbesSpec_DeepCopy = copyPtr ProbesCell theProbes HermesAgentProbesSpec_DeepCopyInto"

definition HermesAgentRollingUpdateStrategySpec_DeepCopy :: "ptr \<Rightarrow> ('x, ptr) copyProg" where
  "HermesAgentRollingUpdateStrategySpec_DeepCopy =
     copyPtr RollingCell theRolling HermesAgentRollingUpdateStrategySpec_DeepCopyInto"

definition HermesAgentServiceSpec_DeepCopy :: "ptr \<Rightarrow> ('x, ptr) copyProg" where
  "HermesAgentServiceSpec_DeepCopy = copyPtr ServiceCell theService HermesAgentServiceSpec_DeepCopyInto"

definition HermesAgentSpec_DeepCopy :: "('x \<Rightarrow> ('x, 'x) copyProg) \<Rightarrow> ptr \<Rightarrow> ('x, ptr) copyProg" where
  "HermesAgentSpec_DeepCopy kcopy = copyPtr SpecCell theSpec (HermesAgentSpec_DeepCopyInto kcopy)"

definition HermesAgentStatus_DeepCopy :: "('x \<Rightarrow> ('x, 'x) copyProg) \<Rightarrow> ptr \<Rightarrow> ('x, ptr) copyProg" where
  "HermesAgentStatus_DeepCopy kcopy = copyPtr StatusCell theStatus (HermesAgentStatus_DeepCopyInto kcopy)"

definition HermesAgentStorageSpec_DeepCopy :: "ptr \<Rightarrow> ('x, ptr) copyProg" where
  "HermesAgentStorageSpec_DeepCopy = copyPtr StorageCell theStorage HermesAgentStorageSpec_DeepCopyInto"

definition HermesAgentTerminalSpec_DeepCopy :: "ptr \<Rightarrow> ('x, ptr) copyProg" where
  "HermesAgentTerminalSpec_DeepCopy = copyPtr TerminalCell theTerminal HermesAgentTerminalSpec_DeepCopyInto"

definition HermesAgentUpdateStrategySpec_DeepCopy :: "ptr \<Rightarrow> ('x, ptr) copyProg" where
  "HermesAgentUpdateStrategySpec_DeepCopy = copyPtr UpdateCell theUpdate HermesAgentUpdateStrategySpec_DeepCopyInto"

text \<open>
  A \<^verbatim>\<open>runtime.Object\<close> is an interface: nil, or a pointer with its type.  A nil pointer is returned
  as the nil interface.
\<close>

datatype runtimeObject = AgentObject address | AgentListObject address

definition HermesAgent_DeepCopyObject ::
  "('x \<Rightarrow> ('x, 'x) copyProg) \<Rightarrow> ptr \<Rightarrow> ('x, runtimeObject option) copyProg" where
  "HermesAgent_DeepCopyObject kcopy p =
     do { c \<leftarrow> HermesAgent_DeepCopy kcopy p;
          State_Monad.return (case c of Some a \<Rightarrow> Some (AgentObject a) | None \<Rightarrow> None) }"

definition HermesAgentList_DeepCopyObject ::
  "('x \<Rightarrow> ('x, 'x) copyProg) \<Rightarrow> ptr \<Rightarrow> ('x, runtimeObject option) copyProg" where
  "HermesAgentList_DeepCopyObject kcopy p =
     do { c \<leftarrow> HermesAgentList_DeepCopy kcopy p;
          State_Monad.return (case c of Some a \<Rightarrow> Some (AgentListObject a) | None \<Rightarrow> None) }"

end
