(* ===== verification/CopyLaws.thy ===== *)
theory CopyLaws
  imports DeepCopy
begin

text \<open>
  That the generated deep copies are deep.  For each struct of \<open>DeepCopy\<close> a reading of its deep
  value, over all fields in the order of the Go struct, and the proof that its \<^verbatim>\<open>DeepCopyInto\<close> is a
  \<open>deep_copier\<close> for that reading: as an interpretation where the struct has no Kubernetes part, as a
  sublocale of \<open>kube_copies\<close> where it has one.  The reconciler depends on this in \<^verbatim>\<open>patchStatus\<close>: the
  status is changed in place, conditions included, and compared with a copy taken before.
\<close>

section \<open>Rules for the copy of a struct\<close>

named_theorems deep_copies \<open>what each copy of a field achieves\<close>

lemmas struct_rules = copyOf_struct copying_plain copying_refl

lemma run_returnD: "run_state (State_Monad.return x) m = (y, m') \<Longrightarrow> y = x \<and> m' = m"
  by simp

section \<open>Readings of the fields\<close>

abbreviation boolAt :: "ptr \<Rightarrow> 'x cell reading" where
  "boolAt \<equiv> pointerTo BoolCell theBool (\<lambda>b. plain (VBool b))"

abbreviation intAt :: "ptr \<Rightarrow> 'x cell reading" where
  "intAt \<equiv> pointerTo IntCell theInt (\<lambda>i. plain (VInt i))"

abbreviation textAt :: "ptr \<Rightarrow> 'x cell reading" where
  "textAt \<equiv> pointerTo TextCell theText (\<lambda>s. plain (VText s))"

definition refValue :: "localObjectReference \<Rightarrow> deepValue" where
  "refValue r = VStruct [VText (lorName r)]"

abbreviation refAt :: "ptr \<Rightarrow> 'x cell reading" where
  "refAt \<equiv> pointerTo RefCell theRef (\<lambda>r. plain (refValue r))"

abbreviation tableAt :: "ptr \<Rightarrow> 'x cell reading" where
  "tableAt \<equiv> pointerTo TableCell theTable (\<lambda>t. plain (VTable t))"

abbreviation textsIn :: "slice \<Rightarrow> 'x cell reading" where
  "textsIn \<equiv> sliceOf TextArray theTexts (\<lambda>s. plain (VText s))"

abbreviation intsIn :: "slice \<Rightarrow> 'x cell reading" where
  "intsIn \<equiv> sliceOf IntArray theInts (\<lambda>i. plain (VInt i))"

abbreviation refsIn :: "slice \<Rightarrow> 'x cell reading" where
  "refsIn \<equiv> sliceOf RefArray theRefs (\<lambda>r. plain (refValue r))"

abbreviation kubeAt :: "('x \<Rightarrow> 'x cell reading) \<Rightarrow> ptr \<Rightarrow> 'x cell reading" where
  "kubeAt klook \<equiv> pointerTo KubeCell theKube klook"

abbreviation kubesIn :: "('x \<Rightarrow> 'x cell reading) \<Rightarrow> slice \<Rightarrow> 'x cell reading" where
  "kubesIn klook \<equiv> sliceOf KubeArray theKubes klook"

section \<open>Readings of the structs\<close>

definition readConfigSource :: "('x \<Rightarrow> 'x cell reading) \<Rightarrow> memConfigSource \<Rightarrow> 'x cell reading" where
  "readConfigSource klook x =
     structOf [plain (VText (mcRaw x)), kubeAt klook (mcConfigMapRef x), kubeAt klook (mcSecretRef x)]"

definition readItem :: "memFileProjectionItem \<Rightarrow> 'x cell reading" where
  "readItem x = structOf [plain (VText (miKey x)), plain (VText (miPath x)), intAt (miMode x)]"

definition readMount :: "memFileMountSpec \<Rightarrow> 'x cell reading" where
  "readMount x =
     structOf [plain (VText (mfMountPath x)), refAt (mfConfigMapRef x), refAt (mfSecretRef x),
       sliceOf ItemArray theItems readItem (mfItems x), intAt (mfDefaultMode x)]"

definition imageValue :: "hermesAgentImageSpec \<Rightarrow> deepValue" where
  "imageValue x = VStruct [VText (imRepository x), VText (imTag x), VText (imPullPolicy x)]"

definition readPeer :: "('x \<Rightarrow> 'x cell reading) \<Rightarrow> memNetworkPolicyPeer \<Rightarrow> 'x cell reading" where
  "readPeer klook x =
     structOf [plain (VText (meCIDR x)), textsIn (meExcept x), kubeAt klook (meNamespaceSelector x),
       kubeAt klook (mePodSelector x)]"

definition readPolicy :: "('x \<Rightarrow> 'x cell reading) \<Rightarrow> memNetworkPolicySpec \<Rightarrow> 'x cell reading" where
  "readPolicy klook x =
     structOf [boolAt (mnEnabled x), sliceOf PeerArray thePeers (readPeer klook) (mnDestinations x),
       intsIn (mnAdditionalTCPPorts x), intsIn (mnAdditionalUDPPorts x)]"

definition readPersistence :: "memPersistenceSpec \<Rightarrow> 'x cell reading" where
  "readPersistence x =
     structOf [boolAt (mvEnabled x), plain (VText (mvSize x)), textAt (mvStorageClassName x),
       textsIn (mvAccessModes x)]"

definition readStorage :: "memStorageSpec \<Rightarrow> 'x cell reading" where
  "readStorage x = structOf [readPersistence (mtPersistence x)]"

definition terminalValue :: "hermesAgentTerminalSpec \<Rightarrow> deepValue" where
  "terminalValue x = VStruct [VText (tmBackend x)]"

definition readProbe :: "memProbeSpec \<Rightarrow> 'x cell reading" where
  "readProbe x =
     structOf [boolAt (mpEnabled x), plain (VInt (mpInitialDelaySeconds x)), plain (VInt (mpPeriodSeconds x)),
       plain (VInt (mpTimeoutSeconds x)), plain (VInt (mpFailureThreshold x))]"

definition readProbes :: "memProbesSpec \<Rightarrow> 'x cell reading" where
  "readProbes x =
     structOf [readProbe (mbStartup x), readProbe (mbReadiness x), readProbe (mbLiveness x),
       plain (VBool (mbRequireConnectedPlatform x))]"

definition readRolling :: "memRollingUpdateStrategySpec \<Rightarrow> 'x cell reading" where
  "readRolling x = structOf [intAt (mrPartition x)]"

definition readUpdate :: "memUpdateStrategySpec \<Rightarrow> 'x cell reading" where
  "readUpdate x = structOf [plain (VText (muType x)), pointerTo RollingCell theRolling readRolling (muRollingUpdate x)]"

definition readService :: "memServiceSpec \<Rightarrow> 'x cell reading" where
  "readService x =
     structOf [plain (VBool (mwEnabled x)), tableAt (mwAnnotations x), plain (VText (mwType x)),
       plain (VInt (mwPort x)), plain (VInt (mwTargetPort x))]"

definition readSpec :: "('x \<Rightarrow> 'x cell reading) \<Rightarrow> 'x memSpec \<Rightarrow> 'x cell reading" where
  "readSpec klook x =
     structOf [plain (imageValue (msImage x)), plain (VText (msMode x)), readConfigSource klook (msConfig x),
       readConfigSource klook (msGatewayConfig x), kubesIn klook (msEnv x), kubesIn klook (msEnvFrom x),
       refsIn (msSecretRefs x), sliceOf MountArray theMounts readMount (msFileMounts x),
       refsIn (msImagePullSecrets x), tableAt (msPodLabels x), tableAt (msPodAnnotations x),
       plain (VText (msServiceAccountName x)), boolAt (msAutomountServiceAccountToken x),
       tableAt (msNodeSelector x), kubesIn klook (msTolerations x), kubeAt klook (msAffinity x),
       kubesIn klook (msTopologySpreadConstraints x), intAt (msTerminationGracePeriodSeconds x),
       plain (VInt (msReplicas x)), readUpdate (msUpdateStrategy x), readStorage (msStorage x),
       plain (terminalValue (msTerminal x)), klook (msResources x), readProbes (msProbes x),
       readService (msService x), readPolicy klook (msNetworkPolicy x)]"

definition readStatus :: "('x \<Rightarrow> 'x cell reading) \<Rightarrow> memStatus \<Rightarrow> 'x cell reading" where
  "readStatus klook x =
     structOf [plain (VText (maPhase x)), plain (VInt (maObservedGeneration x)), plain (VText (maImage x)),
       plain (VText (maConfigHash x)), plain (VInt (maReadyReplicas x)), plain (VBool (maPersistenceBound x)),
       plain (VText (maPersistentVolumeClaimName x)), textsIn (maPersistentVolumeClaimDriftedFields x),
       plain (VText (maPersistentVolumeClaimRemediation x)), plain (VText (maServiceName x)),
       kubeAt klook (maLastReconcileTime x), kubesIn klook (maConditions x)]"

definition typeMetaValue :: "typeMeta \<Rightarrow> deepValue" where
  "typeMetaValue x = VStruct [VText (tyKind x), VText (tyAPIVersion x)]"

definition readAgent :: "('x \<Rightarrow> 'x cell reading) \<Rightarrow> 'x memAgent \<Rightarrow> 'x cell reading" where
  "readAgent klook x =
     structOf [plain (typeMetaValue (mhTypeMeta x)), klook (mhObjectMeta x), readSpec klook (mhSpec x),
       readStatus klook (mhStatus x)]"

definition readAgentList :: "('x \<Rightarrow> 'x cell reading) \<Rightarrow> 'x memAgentList \<Rightarrow> 'x cell reading" where
  "readAgentList klook x =
     structOf [plain (typeMetaValue (mlTypeMeta x)), klook (mlListMeta x),
       sliceOf AgentArray theAgents (readAgent klook) (mlItems x)]"

section \<open>The copies of plain values and of structs without Kubernetes parts\<close>

lemma table_copier: "deep_copier (\<lambda>t. plain (VTable t)) copyEntries"
  by unfold_locales (simp add: copyEntries_def)

interpretation bools: boxed "\<lambda>b. plain (VBool b)" State_Monad.return BoolCell theBool
  by (intro boxed.intro flat_copier boxed_axioms.intro) simp

interpretation ints: boxed "\<lambda>i. plain (VInt i)" State_Monad.return IntCell theInt
  by (intro boxed.intro flat_copier boxed_axioms.intro) simp

interpretation texts: boxed "\<lambda>s. plain (VText s)" State_Monad.return TextCell theText
  by (intro boxed.intro flat_copier boxed_axioms.intro) simp

interpretation refs: boxed "\<lambda>r. plain (refValue r)" State_Monad.return RefCell theRef
  by (intro boxed.intro flat_copier boxed_axioms.intro) simp

interpretation tables: boxed "\<lambda>t. plain (VTable t)" copyEntries TableCell theTable
  by (intro boxed.intro table_copier boxed_axioms.intro) simp

interpretation textArrays: arrayed "\<lambda>s. plain (VText s)" State_Monad.return TextArray theTexts
  by (intro arrayed.intro flat_copier arrayed_axioms.intro) simp

interpretation intArrays: arrayed "\<lambda>i. plain (VInt i)" State_Monad.return IntArray theInts
  by (intro arrayed.intro flat_copier arrayed_axioms.intro) simp

interpretation refArrays: arrayed "\<lambda>r. plain (refValue r)" State_Monad.return RefArray theRefs
  by (intro arrayed.intro flat_copier arrayed_axioms.intro) simp

text \<open>
  The copy of a struct is proved field by field: every copied field is a deep copier (collected in
  \<open>deep_copies\<close>), the others keep their value.
\<close>

declare
  bools.pointer.copies [deep_copies] ints.pointer.copies [deep_copies] texts.pointer.copies [deep_copies]
  refs.pointer.copies [deep_copies] tables.pointer.copies [deep_copies]
  textArrays.slice.copies [deep_copies] intArrays.slice.copies [deep_copies] refArrays.slice.copies [deep_copies]

interpretation items: deep_copier readItem HermesAgentFileProjectionItem_DeepCopyInto
  unfolding readItem_def HermesAgentFileProjectionItem_DeepCopyInto_def
  by unfold_locales (elim run_bindE; drule run_returnD; (drule deep_copies)+; clarsimp; (rule struct_rules | erule copying_Cons)+)

declare items.copies [deep_copies]

interpretation itemArrays: arrayed readItem HermesAgentFileProjectionItem_DeepCopyInto ItemArray theItems
  by unfold_locales simp

declare itemArrays.slice.copies [deep_copies]

interpretation mounts: deep_copier readMount HermesAgentFileMountSpec_DeepCopyInto
  unfolding readMount_def HermesAgentFileMountSpec_DeepCopyInto_def
  by unfold_locales (elim run_bindE; drule run_returnD; (drule deep_copies)+; clarsimp; (rule struct_rules | erule copying_Cons)+)

declare mounts.copies [deep_copies]

interpretation mountArrays: arrayed readMount HermesAgentFileMountSpec_DeepCopyInto MountArray theMounts
  by unfold_locales simp

declare mountArrays.slice.copies [deep_copies]

interpretation persistences: deep_copier readPersistence HermesAgentPersistenceSpec_DeepCopyInto
  unfolding readPersistence_def HermesAgentPersistenceSpec_DeepCopyInto_def
  by unfold_locales (elim run_bindE; drule run_returnD; (drule deep_copies)+; clarsimp; (rule struct_rules | erule copying_Cons)+)

declare persistences.copies [deep_copies]

interpretation storages: deep_copier readStorage HermesAgentStorageSpec_DeepCopyInto
  unfolding readStorage_def HermesAgentStorageSpec_DeepCopyInto_def
  by unfold_locales (elim run_bindE; drule run_returnD; (drule deep_copies)+; clarsimp; (rule struct_rules | erule copying_Cons)+)

declare storages.copies [deep_copies]

interpretation probe: deep_copier readProbe HermesAgentProbeSpec_DeepCopyInto
  unfolding readProbe_def HermesAgentProbeSpec_DeepCopyInto_def
  by unfold_locales (elim run_bindE; drule run_returnD; (drule deep_copies)+; clarsimp; (rule struct_rules | erule copying_Cons)+)

declare probe.copies [deep_copies]

interpretation probes: deep_copier readProbes HermesAgentProbesSpec_DeepCopyInto
  unfolding readProbes_def HermesAgentProbesSpec_DeepCopyInto_def
  by unfold_locales (elim run_bindE; drule run_returnD; (drule deep_copies)+; clarsimp; (rule struct_rules | erule copying_Cons)+)

declare probes.copies [deep_copies]

interpretation rollings: deep_copier readRolling HermesAgentRollingUpdateStrategySpec_DeepCopyInto
  unfolding readRolling_def HermesAgentRollingUpdateStrategySpec_DeepCopyInto_def
  by unfold_locales (elim run_bindE; drule run_returnD; (drule deep_copies)+; clarsimp; (rule struct_rules | erule copying_Cons)+)

declare rollings.copies [deep_copies]

interpretation rollingCells: boxed readRolling HermesAgentRollingUpdateStrategySpec_DeepCopyInto RollingCell theRolling
  by unfold_locales simp

declare rollingCells.pointer.copies [deep_copies]

interpretation updates: deep_copier readUpdate HermesAgentUpdateStrategySpec_DeepCopyInto
  unfolding readUpdate_def HermesAgentUpdateStrategySpec_DeepCopyInto_def
  by unfold_locales (elim run_bindE; drule run_returnD; (drule deep_copies)+; clarsimp; (rule struct_rules | erule copying_Cons)+)

declare updates.copies [deep_copies]

interpretation services: deep_copier readService HermesAgentServiceSpec_DeepCopyInto
  unfolding readService_def HermesAgentServiceSpec_DeepCopyInto_def
  by unfold_locales (elim run_bindE; drule run_returnD; (drule deep_copies)+; clarsimp; (rule struct_rules | erule copying_Cons)+)

declare services.copies [deep_copies]

text \<open>So a pod template never shares a pointer with the spec it was built from.\<close>

lemma template_pointers_fresh:
  assumes "run_state (copyBoolPtr p) m = (q, m1)" and "run_state (copyInt32Ptr p') m1 = (q', m2)"
    and "run_state (copyInt64Ptr p'') m2 = (q'', m3)"
  shows "copying m [boolAt p, intAt p', intAt p''] m3 [boolAt q, intAt q', intAt q'']"
  by (rule copying_Cons [OF bools.pointer.copies [OF assms(1) [unfolded copyBoolPtr_def]]]
      copying_Cons [OF ints.pointer.copies [OF assms(2) [unfolded copyInt32Ptr_def]]]
      copying_Cons [OF ints.pointer.copies [OF assms(3) [unfolded copyInt64Ptr_def]]] copying_refl)+

section \<open>The copies of structs with Kubernetes parts\<close>

text \<open>
  What the operator relies on for \<^verbatim>\<open>corev1\<close> and \<^verbatim>\<open>metav1\<close> structs: their \<^verbatim>\<open>DeepCopyInto\<close> is deep.
\<close>

locale kube_copies = deep_copier klook kcopy
  for klook :: "'x \<Rightarrow> 'x cell reading" and kcopy :: "'x \<Rightarrow> ('x, 'x) copyProg"
begin

declare copies [deep_copies]

sublocale kubes: boxed klook kcopy KubeCell theKube
  by unfold_locales simp

declare kubes.pointer.copies [deep_copies]

sublocale kubeArrays: arrayed klook kcopy KubeArray theKubes
  by unfold_locales simp

declare kubeArrays.slice.copies [deep_copies]

sublocale configSources: deep_copier "readConfigSource klook" "HermesAgentConfigSource_DeepCopyInto kcopy"
  unfolding readConfigSource_def HermesAgentConfigSource_DeepCopyInto_def
  by unfold_locales (elim run_bindE; drule run_returnD; (drule deep_copies)+; clarsimp; (rule struct_rules | erule copying_Cons)+)

declare configSources.copies [deep_copies]

sublocale peers: deep_copier "readPeer klook" "HermesAgentNetworkPolicyPeer_DeepCopyInto kcopy"
  unfolding readPeer_def HermesAgentNetworkPolicyPeer_DeepCopyInto_def
  by unfold_locales (elim run_bindE; drule run_returnD; (drule deep_copies)+; clarsimp; (rule struct_rules | erule copying_Cons)+)

declare peers.copies [deep_copies]

sublocale peerArrays: arrayed "readPeer klook" "HermesAgentNetworkPolicyPeer_DeepCopyInto kcopy" PeerArray thePeers
  by unfold_locales simp

declare peerArrays.slice.copies [deep_copies]

sublocale policies: deep_copier "readPolicy klook" "HermesAgentNetworkPolicySpec_DeepCopyInto kcopy"
  unfolding readPolicy_def HermesAgentNetworkPolicySpec_DeepCopyInto_def
  by unfold_locales (elim run_bindE; drule run_returnD; (drule deep_copies)+; clarsimp; (rule struct_rules | erule copying_Cons)+)

declare policies.copies [deep_copies]

sublocale specs: deep_copier "readSpec klook" "HermesAgentSpec_DeepCopyInto kcopy"
  unfolding readSpec_def HermesAgentSpec_DeepCopyInto_def
  by unfold_locales (elim run_bindE; drule run_returnD; (drule deep_copies)+; clarsimp; (rule struct_rules | erule copying_Cons)+)

declare specs.copies [deep_copies]

sublocale statuses: deep_copier "readStatus klook" "HermesAgentStatus_DeepCopyInto kcopy"
  unfolding readStatus_def HermesAgentStatus_DeepCopyInto_def
  by unfold_locales (elim run_bindE; drule run_returnD; (drule deep_copies)+; clarsimp; (rule struct_rules | erule copying_Cons)+)

declare statuses.copies [deep_copies]

sublocale agents: deep_copier "readAgent klook" "HermesAgent_DeepCopyInto kcopy"
  unfolding readAgent_def HermesAgent_DeepCopyInto_def
  by unfold_locales (elim run_bindE; drule run_returnD; (drule deep_copies)+; clarsimp; (rule struct_rules | erule copying_Cons)+)

declare agents.copies [deep_copies]

sublocale agentArrays: arrayed "readAgent klook" "HermesAgent_DeepCopyInto kcopy" AgentArray theAgents
  by unfold_locales simp

declare agentArrays.slice.copies [deep_copies]

sublocale agentCells: boxed "readAgent klook" "HermesAgent_DeepCopyInto kcopy" AgentCell theAgent
  by unfold_locales simp

declare agentCells.pointer.copies [deep_copies]

sublocale agentLists: deep_copier "readAgentList klook" "HermesAgentList_DeepCopyInto kcopy"
  unfolding readAgentList_def HermesAgentList_DeepCopyInto_def
  by unfold_locales (elim run_bindE; drule run_returnD; (drule deep_copies)+; clarsimp; (rule struct_rules | erule copying_Cons)+)

declare agentLists.copies [deep_copies]

sublocale agentListCells: boxed "readAgentList klook" "HermesAgentList_DeepCopyInto kcopy" AgentListCell theAgentList
  by unfold_locales simp

declare agentListCells.pointer.copies [deep_copies]

end

section \<open>Copied agents\<close>

abbreviation agentAt :: "('x \<Rightarrow> 'x cell reading) \<Rightarrow> ptr \<Rightarrow> 'x cell reading" where
  "agentAt klook \<equiv> pointerTo AgentCell theAgent (readAgent klook)"

abbreviation agentListAt :: "('x \<Rightarrow> 'x cell reading) \<Rightarrow> ptr \<Rightarrow> 'x cell reading" where
  "agentListAt klook \<equiv> pointerTo AgentListCell theAgentList (readAgentList klook)"

context kube_copies
begin

lemma agent_isolated:
  assumes "agentAt klook p m = Some (v, cells)" and "run_state (HermesAgent_DeepCopy kcopy p) m = (q, m')"
  shows "\<exists>cells'. agentAt klook p m' = Some (v, cells) \<and> agentAt klook q m' = Some (v, cells') \<and>
    cells \<inter> cells' = {} \<and>
    (\<forall>es. cells' \<inter> writtenCells es = {} \<longrightarrow> agentAt klook q (edited es m') = Some (v, cells')) \<and>
    (\<forall>es. cells \<inter> writtenCells es = {} \<longrightarrow> agentAt klook p (edited es m') = Some (v, cells))"
  using agentCells.pointer.copy_isolated [OF assms(1) assms(2) [unfolded HermesAgent_DeepCopy_def]] by metis

lemma agentList_isolated:
  assumes "agentListAt klook p m = Some (v, cells)" and "run_state (HermesAgentList_DeepCopy kcopy p) m = (q, m')"
  shows "\<exists>cells'. agentListAt klook p m' = Some (v, cells) \<and> agentListAt klook q m' = Some (v, cells') \<and>
    cells \<inter> cells' = {}"
  using agentListCells.pointer.copy_isolated [OF assms(1) assms(2) [unfolded HermesAgentList_DeepCopy_def]] by metis

text \<open>
  \<^verbatim>\<open>DeepCopyObject\<close> gives the nil interface for the nil pointer, and otherwise an object at a new
  address with the same value.
\<close>

lemma agentObject_copied:
  assumes "run_state (HermesAgent_DeepCopyObject kcopy p) m = (obj, m')" and "agentAt klook p m = Some (v, cells)"
  shows "if p = None then obj = None \<and> m' = m
    else \<exists>a cells'. obj = Some (AgentObject a) \<and> length m \<le> a \<and> agentAt klook (Some a) m' = Some (v, cells')"
proof -
  obtain q where q: "run_state (HermesAgent_DeepCopy kcopy p) m = (q, m')"
    "obj = (case q of Some a \<Rightarrow> Some (AgentObject a) | None \<Rightarrow> None)"
    using assms(1) unfolding HermesAgent_DeepCopyObject_def by (auto split: prod.splits)
  have "copyOf m (agentAt klook p) m' (agentAt klook q)"
    using q(1) unfolding HermesAgent_DeepCopy_def by (rule agentCells.pointer.copies)
  then obtain cells' where val: "agentAt klook q m' = Some (v, cells')" using assms(2) by (rule copyOf_value)
  from q(1) show ?thesis unfolding HermesAgent_DeepCopy_def
  proof (cases rule: run_copyPtr)
    case kept
    then show ?thesis using assms(2) q(2) by (cases p) (auto simp: pointerTo_Some)
  next
    case (copied a x y m1)
    then show ?thesis using q(2) val by auto
  qed
qed

end

section \<open>A Kubernetes struct in memory\<close>

text \<open>
  A key selector of \<^verbatim>\<open>corev1\<close>, with the pointer \<^verbatim>\<open>Optional\<close>, as an example of such a struct.
\<close>

record memKeySelector =
  mkName :: string
  mkKey :: string
  mkOptional :: ptr

definition readKeySelector :: "memKeySelector \<Rightarrow> 'x cell reading" where
  "readKeySelector x = structOf [plain (VText (mkName x)), plain (VText (mkKey x)), boolAt (mkOptional x)]"

definition copyKeySelector :: "memKeySelector \<Rightarrow> ('x, memKeySelector) copyProg" where
  "copyKeySelector x =
     do { optional \<leftarrow> copyBool (mkOptional x);
          State_Monad.return (x\<lparr>mkOptional := optional\<rparr>) }"

interpretation selectors: deep_copier readKeySelector copyKeySelector
  unfolding readKeySelector_def copyKeySelector_def
  by unfold_locales (elim run_bindE; drule run_returnD; (drule deep_copies)+; clarsimp; (rule struct_rules | erule copying_Cons)+)

interpretation selectorCopies: kube_copies readKeySelector copyKeySelector
  by unfold_locales

text \<open>
  \<^bold>\<open>C17.\<close> A deep copy of a HermesAgent has the value of the original and shares no cell of memory with
  it, provided the Kubernetes structs inside are copied deeply.  Whatever is then written or
  allocated, the copy keeps the value as long as none of its own cells is written, and so does the
  original.  In \<^verbatim>\<open>patchStatus\<close> this keeps the status to compare with intact while conditions are
  replaced in place.
\<close>

theorem deep_copy_isolated:
  assumes "kube_copies klook kcopy"
    and "agentAt klook latest m = Some (v, cells)"
    and "run_state (HermesAgent_DeepCopy kcopy latest) m = (base, m')"
  shows "\<exists>cells'. agentAt klook latest m' = Some (v, cells) \<and> agentAt klook base m' = Some (v, cells') \<and>
    cells \<inter> cells' = {} \<and>
    (\<forall>es. cells' \<inter> writtenCells es = {} \<longrightarrow> agentAt klook base (edited es m') = Some (v, cells')) \<and>
    (\<forall>es. cells \<inter> writtenCells es = {} \<longrightarrow> agentAt klook latest (edited es m') = Some (v, cells))"
  by (rule kube_copies.agent_isolated [OF assms])

text \<open>An agent whose status has one condition, here in the shape of the example struct.\<close>

definition exampleMemory :: "memKeySelector cell mem" where
  "exampleMemory =
     (let condition = \<lparr>mkName = ''Ready'', mkKey = ''True'', mkOptional = None\<rparr>;
          noSource = \<lparr>mcRaw = [], mcConfigMapRef = None, mcSecretRef = None\<rparr>;
          noProbe = \<lparr>mpEnabled = None, mpInitialDelaySeconds = 0, mpPeriodSeconds = 0,
            mpTimeoutSeconds = 0, mpFailureThreshold = 0\<rparr>;
          spec = \<lparr>msImage = \<lparr>imRepository = [], imTag = [], imPullPolicy = []\<rparr>, msMode = [],
            msConfig = noSource, msGatewayConfig = noSource, msEnv = NilSlice, msEnvFrom = NilSlice,
            msSecretRefs = NilSlice, msFileMounts = NilSlice, msImagePullSecrets = NilSlice,
            msPodLabels = Some 2, msPodAnnotations = None, msServiceAccountName = [],
            msAutomountServiceAccountToken = None, msNodeSelector = None, msTolerations = NilSlice,
            msAffinity = None, msTopologySpreadConstraints = NilSlice,
            msTerminationGracePeriodSeconds = Some 3, msReplicas = 1,
            msUpdateStrategy = \<lparr>muType = [], muRollingUpdate = None\<rparr>,
            msStorage = \<lparr>mtPersistence = \<lparr>mvEnabled = None, mvSize = [], mvStorageClassName = None,
              mvAccessModes = NilSlice\<rparr>\<rparr>,
            msTerminal = \<lparr>tmBackend = []\<rparr>, msResources = condition,
            msProbes = \<lparr>mbStartup = noProbe, mbReadiness = noProbe, mbLiveness = noProbe,
              mbRequireConnectedPlatform = False\<rparr>,
            msService = \<lparr>mwEnabled = False, mwAnnotations = None, mwType = [], mwPort = 0, mwTargetPort = 0\<rparr>,
            msNetworkPolicy = \<lparr>mnEnabled = None, mnDestinations = NilSlice,
              mnAdditionalTCPPorts = NilSlice, mnAdditionalUDPPorts = NilSlice\<rparr>\<rparr>;
          status = \<lparr>maPhase = ''Ready'', maObservedGeneration = 1, maImage = [], maConfigHash = [],
            maReadyReplicas = 1, maPersistenceBound = False, maPersistentVolumeClaimName = [],
            maPersistentVolumeClaimDriftedFields = NilSlice, maPersistentVolumeClaimRemediation = [],
            maServiceName = [], maLastReconcileTime = None, maConditions = Slice 1 1\<rparr>
      in [AgentCell \<lparr>mhTypeMeta = \<lparr>tyKind = ''HermesAgent'', tyAPIVersion = ''v1''\<rparr>,
            mhObjectMeta = condition, mhSpec = spec, mhStatus = status\<rparr>,
          KubeArray [condition], TableCell (fmap_of_list [(''team'', ''a'')]), IntCell 30])"

definition conditionReplaced :: "memKeySelector cell edit list" where
  "conditionReplaced = [Write 1 (KubeArray [\<lparr>mkName = ''Ready'', mkKey = ''False'', mkOptional = None\<rparr>])]"

lemmas read_defs = readAgent_def readSpec_def readStatus_def readConfigSource_def readUpdate_def readStorage_def
  readPersistence_def readProbes_def readProbe_def readService_def readPolicy_def readKeySelector_def

lemma example_reads:
  "\<exists>v. agentAt readKeySelector (Some 0) exampleMemory = Some (v, {0, 1, 2, 3})"
  unfolding exampleMemory_def Let_def
  by (simp add: pointerTo_def load_def sliceOf_def structOf_def plain_def read_defs) blast

theorem deep_copy_isolated_witness:
  "\<exists>v cells base m' cells'.
     agentAt readKeySelector (Some 0) exampleMemory = Some (v, cells) \<and>
     run_state (HermesAgent_DeepCopy copyKeySelector (Some 0)) exampleMemory = (base, m') \<and>
     agentAt readKeySelector base (edited conditionReplaced m') = Some (v, cells')"
proof -
  obtain v where v: "agentAt readKeySelector (Some 0) exampleMemory = Some (v, {0, 1, 2, 3})"
    using example_reads by blast
  obtain base m' where run: "run_state (HermesAgent_DeepCopy copyKeySelector (Some 0)) exampleMemory = (base, m')"
    by fastforce
  obtain cells' where "{0, 1, 2, 3} \<inter> cells' = {}"
    and kept: "\<And>es. cells' \<inter> writtenCells es = {} \<Longrightarrow> agentAt readKeySelector base (edited es m') = Some (v, cells')"
    using deep_copy_isolated [OF selectorCopies.kube_copies_axioms v run] by blast
  then have "agentAt readKeySelector base (edited conditionReplaced m') = Some (v, cells')"
    by (intro kept) (auto simp: conditionReplaced_def)
  with v run show ?thesis by blast
qed

end
