(* ===== verification/Defaults.thy ===== *)
theory Defaults
  imports Admission Exposure
begin

text \<open>
  The defaulting webhook (\<^verbatim>\<open>src/internal/webhook/v1/hermesagent_webhook.go\<close>) and the manifest builders
  of the controller (\<^verbatim>\<open>src/internal/controller/hermesagent_resources.go\<close>) fill in missing values
  independently of each other: the webhooks can be switched off, and objects stored before they were
  installed have no defaults.  This theory shows that the two sets of defaults are the same.
\<close>

section \<open>The fields that the webhook fills in\<close>

text \<open>
  The image is the exception: the controller deploys the repository and tag as they are.
\<close>

definition withImage :: "hermesAgent \<Rightarrow> hermesAgent" where
  "withImage agent = agent\<lparr>haSpec := (haSpec agent)\<lparr>spImage := defaultImage (spImage (haSpec agent))\<rparr>\<rparr>"

lemma default_meta [simp]: "haMeta (Default agent) = haMeta agent" "haMeta (withImage agent) = haMeta agent"
  by (simp_all add: Default_def withImage_def)

lemma default_unset:
  fixes sp :: hermesAgentSpec
  shows "spPodLabels (defaultSpec sp) = spPodLabels sp"
    "spPodAnnotations (defaultSpec sp) = spPodAnnotations sp"
    "spServiceAccountName (defaultSpec sp) = spServiceAccountName sp"
    "spNodeSelector (defaultSpec sp) = spNodeSelector sp" "spTolerations (defaultSpec sp) = spTolerations sp"
    "spAffinity (defaultSpec sp) = spAffinity sp"
    "spTopologySpreadConstraints (defaultSpec sp) = spTopologySpreadConstraints sp"
    "spTerminationGracePeriodSeconds (defaultSpec sp) = spTerminationGracePeriodSeconds sp"
    "spTerminal (defaultSpec sp) = spTerminal sp" "spResources (defaultSpec sp) = spResources sp"
  by (simp_all add: defaultSpec_def)

lemmas default_simps = Default_def withImage_def default_fields default_unset

text \<open>Each reading of a defaulted field by the controller, before and after.\<close>

lemma default_replicas [simp]: "desiredReplicas (Default agent) = desiredReplicas agent"
  by (simp add: desiredReplicas_def Default_def defaultSpec_def)

lemma default_persistence [simp]: "persistenceEnabled (Default agent) = persistenceEnabled agent"
  by (cases "pvEnabled (stPersistence (spStorage (haSpec agent)))")
    (simp_all add: persistenceEnabled_def Default_def defaultSpec_def defaultPersistence_def)

lemma default_network [simp]: "networkPolicyEnabled (Default agent) = networkPolicyEnabled agent"
  by (cases "nwEnabled (spNetworkPolicy (haSpec agent))")
    (simp_all add: networkPolicyEnabled_def Default_def defaultSpec_def)

lemma default_switches [simp]:
  "serviceEnabled (Default agent) = serviceEnabled agent"
  "podDisruptionBudgetEnabled (Default agent) = podDisruptionBudgetEnabled agent"
  by (simp_all add: serviceEnabled_def podDisruptionBudgetEnabled_def) (simp add: Default_def defaultSpec_def defaultService_def)

lemma default_storage_fields [simp]:
  "persistenceSize (Default agent) = persistenceSize agent"
  "persistenceAccessModes (Default agent) = persistenceAccessModes agent"
  "pvStorageClassName (stPersistence (spStorage (haSpec (Default agent)))) =
     pvStorageClassName (stPersistence (spStorage (haSpec agent)))"
  by (simp_all add: persistenceSize_def persistenceAccessModes_def Default_def defaultSpec_def
      defaultPersistence_def Let_def)

lemma default_service_fields [simp]:
  "servicePortOf (Default agent) = servicePortOf agent"
  "serviceTargetPort (Default agent) = serviceTargetPort agent"
  "serviceType (Default agent) = serviceType agent"
  "svAnnotations (spService (haSpec (Default agent))) = svAnnotations (spService (haSpec agent))"
  by (simp_all add: servicePortOf_def serviceTargetPort_def serviceType_def Default_def defaultSpec_def defaultService_def)

lemma default_rollout_fields [simp]:
  "updateStrategyOf (Default agent) = updateStrategyOf agent"
  "hermesArgs (Default agent) = hermesArgs agent"
  by (simp_all add: updateStrategyOf_def hermesArgs_def Default_def defaultSpec_def Let_def)

lemma default_automount [simp]: "automountServiceAccountToken (Default agent) = automountServiceAccountToken agent"
  by (cases "spAutomountServiceAccountToken (haSpec agent)")
    (simp_all add: automountServiceAccountToken_def Default_def defaultSpec_def)

text \<open>
  The probes: the webhook replaces zero by its default, the controller everything that is not positive.
\<close>

lemma default_probe_resolved:
  assumes "pgEnabled c" and "dfInitialDelaySeconds d = pgInitialDelaySeconds c" and "dfPeriodSeconds d = pgPeriodSeconds c"
    and "dfTimeoutSeconds d = pgTimeoutSeconds c" and "dfFailureThreshold d = pgFailureThreshold c"
  shows "resolveProbeConfig (defaultProbe p d) c = resolveProbeConfig p c"
  using assms by (auto simp: resolveProbeConfig_def defaultProbe_def)

lemma default_probes [simp]:
  "hermesStartupProbe (Default agent) = hermesStartupProbe agent"
  "hermesReadinessProbe (Default agent) = hermesReadinessProbe agent"
  "hermesLivenessProbe (Default agent) = hermesLivenessProbe agent"
  by (simp_all add: hermesStartupProbe_def hermesReadinessProbe_def hermesLivenessProbe_def Default_def
      defaultSpec_def defaultProbes_def default_probe_resolved startupProbeDefaults_def
      readinessProbeDefaults_def livenessProbeDefaults_def)

section \<open>The manifests\<close>

text \<open>Completing the image changes nothing that the controller reads besides the image.\<close>

lemma image_fields [simp]:
  "desiredReplicas (withImage agent) = desiredReplicas agent"
  "persistenceEnabled (withImage agent) = persistenceEnabled agent"
  "updateStrategyOf (withImage agent) = updateStrategyOf agent"
  "automountServiceAccountToken (withImage agent) = automountServiceAccountToken agent"
  "hermesArgs (withImage agent) = hermesArgs agent" "containerPorts (withImage agent) = containerPorts agent"
  "hermesStartupProbe (withImage agent) = hermesStartupProbe agent"
  "hermesReadinessProbe (withImage agent) = hermesReadinessProbe agent"
  "hermesLivenessProbe (withImage agent) = hermesLivenessProbe agent"
  unfolding withImage_def
  by (simp_all add: desiredReplicas_def persistenceEnabled_def updateStrategyOf_def automountServiceAccountToken_def
      hermesArgs_def containerPorts_def serviceEnabled_def serviceTargetPort_def servicePortOf_def
      hermesStartupProbe_def hermesReadinessProbe_def hermesLivenessProbe_def)

lemma default_ports [simp]: "containerPorts (Default agent) = containerPorts agent"
  by (simp add: containerPorts_def)

lemma default_labels [simp]:
  "resourceLabels (Default agent) = resourceLabels agent" "resourceLabels (withImage agent) = resourceLabels agent"
  "namedMeta (Default agent) = namedMeta agent" "namedMeta (withImage agent) = namedMeta agent"
  by (simp_all add: resourceLabels_def namedMeta_def fun_eq_iff)

lemma default_container: "hermesContainer (Default agent) ti = hermesContainer (withImage agent) ti"
  by (simp add: hermesContainer_def) (simp add: default_simps defaultSpec_def)

lemma default_pod: "hermesPodSpec (Default agent) ti = hermesPodSpec (withImage agent) ti"
  by (simp add: hermesPodSpec_def default_container hermesDataVolume_def) (simp add: default_simps)

lemma default_statefulSet: "buildStatefulSet (Default agent) ti = buildStatefulSet (withImage agent) ti"
  by (simp add: buildStatefulSet_def default_pod managedPodLabels_def managedPodAnnotations_def) (simp add: default_simps)

lemma default_inputs: "buildPodTemplateInputs (Default agent) plan = buildPodTemplateInputs agent plan"
  by (simp add: buildPodTemplateInputs_def default_simps)

lemma default_resolve: "resolveConfigFile (Default agent) cid name source = resolveConfigFile agent cid name source"
  unfolding resolveConfigFile_def default_meta ..

lemma default_plan_parts:
  "computeConfigHash marshal (Default agent) files ri = computeConfigHash marshal agent files ri"
  "spFileMounts (haSpec (Default agent)) = spFileMounts (haSpec agent)"
  "spConfig (haSpec (Default agent)) = spConfig (haSpec agent)"
  "spGatewayConfig (haSpec (Default agent)) = spGatewayConfig (haSpec agent)"
  "spTerminal (haSpec (Default agent)) = spTerminal (haSpec agent)"
  by (simp_all add: computeConfigHash_def configHashPayload_def default_simps)

lemma default_plan:
  "buildConfigPlanWithReferences marshal (Default agent) ri = buildConfigPlanWithReferences marshal agent ri"
  unfolding buildConfigPlanWithReferences_def default_resolve default_plan_parts ..

lemma default_policy_fields:
  "nwDestinations (spNetworkPolicy (haSpec (Default agent))) = nwDestinations (spNetworkPolicy (haSpec agent))"
  "nwAdditionalTCPPorts (spNetworkPolicy (haSpec (Default agent))) = nwAdditionalTCPPorts (spNetworkPolicy (haSpec agent))"
  "nwAdditionalUDPPorts (spNetworkPolicy (haSpec (Default agent))) = nwAdditionalUDPPorts (spNetworkPolicy (haSpec agent))"
  by (simp_all add: Default_def defaultSpec_def)

lemma default_policy: "buildNetworkPolicy (Default agent) backend = buildNetworkPolicy agent backend"
  unfolding buildNetworkPolicy_def Let_def default_policy_fields default_labels default_meta ..

lemma default_backend: "effectiveTerminalBackend yaml (Default agent) ri = effectiveTerminalBackend yaml agent ri"
  unfolding effectiveTerminalBackend_def default_plan_parts ..

lemma default_claim: "buildPersistentVolumeClaim parse (Default agent) = buildPersistentVolumeClaim parse agent"
  unfolding buildPersistentVolumeClaim_def default_labels default_meta default_storage_fields ..

text \<open>
  \<^bold>\<open>C19.\<close> The defaults of the webhook and of the controller are the same: for every agent the configuration
  plan, the claim, the StatefulSet, the Service, the disruption budget and the network policy built after
  defaulting are those built from the agent as it was written with its image completed, and the same
  objects are switched on.
\<close>

theorem defaults_change_no_manifest:
  "buildConfigPlanWithReferences marshal (Default agent) ri = buildConfigPlanWithReferences marshal agent ri \<and>
   buildStatefulSet (Default agent) (buildPodTemplateInputs (Default agent) plan) =
     buildStatefulSet (withImage agent) (buildPodTemplateInputs agent plan) \<and>
   persistenceEnabled (Default agent) = persistenceEnabled agent \<and>
   buildPersistentVolumeClaim parse (Default agent) = buildPersistentVolumeClaim parse agent \<and>
   serviceEnabled (Default agent) = serviceEnabled agent \<and>
   buildService (Default agent) = buildService agent \<and>
   podDisruptionBudgetEnabled (Default agent) = podDisruptionBudgetEnabled agent \<and>
   buildPodDisruptionBudget (Default agent) = buildPodDisruptionBudget agent \<and>
   networkPolicyEnabled (Default agent) = networkPolicyEnabled agent \<and>
   buildNetworkPolicy (Default agent) (effectiveTerminalBackend yaml (Default agent) ri) =
     buildNetworkPolicy agent (effectiveTerminalBackend yaml agent ri)"
  by (simp add: default_plan default_statefulSet default_inputs default_policy default_backend default_claim
      buildService_def buildPodDisruptionBudget_def)

end
