(* ===== verification/Sha256Answers.thy ===== *)
theory Sha256Answers
  imports Sha256
begin

text \<open>
  Known answers for the model of \<^verbatim>\<open>sha256.Sum256\<close>: the digests of \<open>abc\<close> and of the empty message given
  in FIPS 180-4 and its validation suite, evaluated in the kernel.  The compression of the single padded
  block is the costly part and is evaluated on words; the bytes and the hexadecimal digits follow from it.
\<close>

section \<open>From words to digits\<close>

lemma bigEndian_word:
  "bigEndian 4 n = [char_of (n div 16777216 mod 256), char_of (n div 65536 mod 256), char_of (n div 256 mod 256), char_of (n mod 256)]"
proof -
  have four: "4 = Suc (Suc (Suc (Suc 0)))" by simp
  show ?thesis unfolding four by (simp flip: div_mult2_eq)
qed

lemma sha256_one_block:
  assumes "blocksOf 15 (wordsOfBytes (padMessage m)) = [block]" and "compressBlock initialState block = ws"
  shows "sha256Sum256 m = concat (map (\<lambda>w. bigEndian 4 (unat w)) ws)"
  using assms by (simp add: sha256Sum256_def)

lemma hex_bytes:
  "hexEncodeToString [] = []"
  "hexEncodeToString (char_of n # bs) = hexDigit (n mod 256 div 16) # hexDigit (n mod 16) # hexEncodeToString bs"
  for n :: nat
  by (simp_all add: hexEncodeToString_def mod_mod_cancel)

section \<open>The padded blocks and their compression\<close>

lemma block_abc:
  "blocksOf 15 (wordsOfBytes (padMessage ''abc'')) =
    [[0x61626380, 0, 0, 0, 0, 0, 0, 0, 0, 0, 0, 0, 0, 0, 0, 0x18]]"
  by code_simp

lemma block_empty:
  "blocksOf 15 (wordsOfBytes (padMessage [])) =
    [[0x80000000, 0, 0, 0, 0, 0, 0, 0, 0, 0, 0, 0, 0, 0, 0, 0]]"
  by code_simp

lemma compress_abc:
  "compressBlock initialState [0x61626380, 0, 0, 0, 0, 0, 0, 0, 0, 0, 0, 0, 0, 0, 0, 0x18] =
    [0xBA7816BF, 0x8F01CFEA, 0x414140DE, 0x5DAE2223,
     0xB00361A3, 0x96177A9C, 0xB410FF61, 0xF20015AD]"
  by code_simp

lemma compress_empty:
  "compressBlock initialState [0x80000000, 0, 0, 0, 0, 0, 0, 0, 0, 0, 0, 0, 0, 0, 0, 0] =
    [0xE3B0C442, 0x98FC1C14, 0x9AFBF4C8, 0x996FB924,
     0x27AE41E4, 0x649B934C, 0xA495991B, 0x7852B855]"
  by code_simp

section \<open>The digests\<close>

lemma sha256_abc:
  "hexEncodeToString (sha256Sum256 ''abc'') = ''ba7816bf8f01cfea414140de5dae2223b00361a396177a9cb410ff61f20015ad''"
  unfolding sha256_one_block [OF block_abc compress_abc]
  by (simp add: bigEndian_word hex_bytes) code_simp

lemma sha256_empty:
  "hexEncodeToString (sha256Sum256 []) = ''e3b0c44298fc1c149afbf4c8996fb92427ae41e4649b934ca495991b7852b855''"
  unfolding sha256_one_block [OF block_empty compress_empty]
  by (simp add: bigEndian_word hex_bytes) code_simp

lemma digests_differ: "sha256Sum256 ''abc'' \<noteq> sha256Sum256 []"
  using sha256_abc sha256_empty by force

end
