(* ===== verification/Rollout.thy ===== *)
theory Rollout
  imports References Sha256Answers
begin

text \<open>
  Why pods restart.  The controller puts the configuration hash of the plan on the pod template
  (\<^verbatim>\<open>buildPodTemplateInputs\<close>, \<^verbatim>\<open>computeConfigHash\<close> in \<^verbatim>\<open>src/internal/controller/hermesagent_resources.go\<close>), and
  Kubernetes replaces the pods of a StatefulSet when its template changes.  This theory shows that the
  template changes with everything the payload records, through the whole chain: the payload, its JSON
  text, the SHA-256 digest, the hexadecimal annotation, the merge with the annotations of the user.  What
  the payload records of a referenced object is its snapshot, not the object: a snapshot of a mounted Secret is
  as fine as the files in the pod (\<^verbatim>\<open>secret_projection_exact\<close> in \<^verbatim>\<open>Snapshots\<close>), one of a ConfigMap does not
  tell text from binary data (\<^verbatim>\<open>text_and_binary_collide\<close> there).
\<close>

section \<open>The hash determines the payload\<close>







section \<open>The template determines the inputs\<close>







section \<open>A Secret that appears\<close>





end
