(* ===== verification/TestUtils.thy ===== *)
theory TestUtils
  imports GoErrors
begin

text \<open>
  The helpers of the end-to-end tests, \<^verbatim>\<open>src/test/utils/utils.go\<close>: running commands from the project
  directory, installing cert-manager, loading an image into a kind cluster, and editing configuration
  files by removing comment prefixes.  The operating system is a parameter (\<^verbatim>\<open>os\<close> and \<^verbatim>\<open>exec\<close> calls on a
  state of any type), as is the rendering of \<^verbatim>\<open>%q\<close>; messages to the test log are left out.  The parts of
  \<^verbatim>\<open>strings\<close> and \<^verbatim>\<open>bufio\<close> that the helpers compute with are modelled.
\<close>

section \<open>Strings and lines\<close>

abbreviation newline :: char where "newline \<equiv> CHR 0x0A"
abbreviation carriageReturn :: char where "carriageReturn \<equiv> CHR 0x0D"

text \<open>\<^verbatim>\<open>strings.TrimPrefix\<close>, \<^verbatim>\<open>strings.Index\<close>, \<^verbatim>\<open>strings.Contains\<close>, and \<^verbatim>\<open>strings.ReplaceAll\<close> of a text that is not empty.\<close>

definition trimPrefix :: "string \<Rightarrow> string \<Rightarrow> string" where
  "trimPrefix s p = (if hasPrefix s p then drop (length p) s else s)"

fun stringsIndex :: "string \<Rightarrow> string \<Rightarrow> nat option" where
  "stringsIndex s t =
     (if hasPrefix s t then Some 0
      else case s of [] \<Rightarrow> None | c # cs \<Rightarrow> map_option Suc (stringsIndex cs t))"

declare stringsIndex.simps [simp del]

definition stringsContains :: "string \<Rightarrow> string \<Rightarrow> bool" where
  "stringsContains s t \<longleftrightarrow> stringsIndex s t \<noteq> None"

fun replaceAll :: "string \<Rightarrow> char \<Rightarrow> string \<Rightarrow> string \<Rightarrow> string" where
  "replaceAll [] o1 os new = []"
| "replaceAll (c # cs) o1 os new =
     (if c = o1 \<and> hasPrefix cs os then new @ replaceAll (drop (length os) cs) o1 os new
      else c # replaceAll cs o1 os new)"

text \<open>\<^verbatim>\<open>strings.SplitSeq\<close> at line feeds: there is always at least one, possibly empty, element.\<close>

fun splitLines :: "string \<Rightarrow> string list" where
  "splitLines [] = [[]]"
| "splitLines (c # cs) =
     (if c = newline then [] # splitLines cs
      else case splitLines cs of [] \<Rightarrow> [[c]] | l # ls \<Rightarrow> (c # l) # ls)"

text \<open>
  The lines that a \<^verbatim>\<open>bufio.Scanner\<close> with \<^verbatim>\<open>ScanLines\<close> produces: a line feed ends a line, what follows the
  last one is a line unless it is empty, and one carriage return at the end of a line is dropped.  A line
  that does not fit into the buffer of 65536 bytes stops the scan.
\<close>

definition dropCR :: "string \<Rightarrow> string" where
  "dropCR l = (if l \<noteq> [] \<and> last l = carriageReturn then butlast l else l)"

definition rawLines :: "string \<Rightarrow> string list" where
  "rawLines s = (let ls = splitLines s in if last ls = [] then butlast ls else ls)"

definition scannedLines :: "string \<Rightarrow> string list" where
  "scannedLines s = map dropCR (takeWhile (\<lambda>l. length l < 65536) (rawLines s))"

section \<open>Commands\<close>

record command =
  cmdArgs :: "string list"
  cmdDir :: string
  cmdEnv :: "string list"

record 'w osAPI =
  osGetwd :: "'w \<Rightarrow> (goError + string) \<times> 'w"
  osEnviron :: "'w \<Rightarrow> string list"
  osLookupEnv :: "'w \<Rightarrow> string \<Rightarrow> string option"
  osCombinedOutput :: "command \<Rightarrow> 'w \<Rightarrow> (string \<times> goError option) \<times> 'w"
  osReadFile :: "string \<Rightarrow> 'w \<Rightarrow> (goError + bytes) \<times> 'w"
  osWriteFile :: "string \<Rightarrow> bytes \<Rightarrow> 'w \<Rightarrow> goError option \<times> 'w"

definition execCommand :: "string \<Rightarrow> string list \<Rightarrow> command" where
  "execCommand name args = \<lparr>cmdArgs = name # args, cmdDir = [], cmdEnv = []\<rparr>"

definition GetProjectDir :: "'w osAPI \<Rightarrow> 'w \<Rightarrow> (goError + string) \<times> 'w" where
  "GetProjectDir api w =
     (case osGetwd api w of
        (Inl err, w) \<Rightarrow> (Inl (WrapError (''failed to get current working directory: '' @ errorText err) err), w)
      | (Inr wd, w) \<Rightarrow> (Inr (replaceAll wd CHR ''/'' ''test/e2e'' []), w))"

definition Run ::
  "'w osAPI \<Rightarrow> (string \<Rightarrow> string) \<Rightarrow> command \<Rightarrow> 'w \<Rightarrow> (string \<times> goError option) \<times> 'w" where
  "Run api quote cmd w =
     (case GetProjectDir api w of
        (Inl err, w) \<Rightarrow> (([], Some err), w)
      | (Inr dir, w) \<Rightarrow>
          (let cmd = cmd\<lparr>cmdDir := dir, cmdEnv := osEnviron api w @ [''GO111MODULE=on'']\<rparr>;
               text = stringsJoin (cmdArgs cmd) '' ''
           in case osCombinedOutput api cmd w of
                ((out, Some err), w) \<Rightarrow>
                  ((out, Some (WrapError (quote text @ '' failed with error '' @ quote out @ '': '' @ errorText err) err)), w)
              | ((out, None), w) \<Rightarrow> ((out, None), w)))"

definition certmanagerURL :: string where
  "certmanagerURL = ''https://github.com/cert-manager/cert-manager/releases/download/v1.19.4/cert-manager.yaml''"

fun deleteLeases :: "'w osAPI \<Rightarrow> (string \<Rightarrow> string) \<Rightarrow> string list \<Rightarrow> 'w \<Rightarrow> 'w" where
  "deleteLeases api quote [] w = w"
| "deleteLeases api quote (lease # leases) w =
     (let (_, w) = Run api quote (execCommand ''kubectl''
            [''delete'', ''lease'', lease, ''-n'', ''kube-system'', ''--ignore-not-found'', ''--force'', ''--grace-period=0'']) w
      in deleteLeases api quote leases w)"

definition UninstallCertManager :: "'w osAPI \<Rightarrow> (string \<Rightarrow> string) \<Rightarrow> 'w \<Rightarrow> 'w" where
  "UninstallCertManager api quote w =
     (let (_, w) = Run api quote (execCommand ''kubectl'' [''delete'', ''-f'', certmanagerURL]) w
      in deleteLeases api quote [''cert-manager-cainjector-leader-election'', ''cert-manager-controller''] w)"

definition InstallCertManager :: "'w osAPI \<Rightarrow> (string \<Rightarrow> string) \<Rightarrow> 'w \<Rightarrow> goError option \<times> 'w" where
  "InstallCertManager api quote w =
     (case Run api quote (execCommand ''kubectl'' [''apply'', ''-f'', certmanagerURL]) w of
        ((_, Some err), w) \<Rightarrow> (Some err, w)
      | ((_, None), w) \<Rightarrow>
          (let ((_, err), w) = Run api quote (execCommand ''kubectl''
                 [''wait'', ''deployment.apps/cert-manager-webhook'', ''--for'', ''condition=Available'',
                  ''--namespace'', ''cert-manager'', ''--timeout'', ''5m'']) w
           in (err, w)))"

definition GetNonEmptyLines :: "string \<Rightarrow> string list" where
  "GetNonEmptyLines out = filter (\<lambda>l. l \<noteq> []) (splitLines out)"

definition certManagerCRDs :: "string list" where
  "certManagerCRDs =
     [''certificates.cert-manager.io'', ''issuers.cert-manager.io'', ''clusterissuers.cert-manager.io'',
      ''certificaterequests.cert-manager.io'', ''orders.acme.cert-manager.io'', ''challenges.acme.cert-manager.io'']"

definition IsCertManagerCRDsInstalled :: "'w osAPI \<Rightarrow> (string \<Rightarrow> string) \<Rightarrow> 'w \<Rightarrow> bool \<times> 'w" where
  "IsCertManagerCRDsInstalled api quote w =
     (case Run api quote (execCommand ''kubectl'' [''get'', ''crds'']) w of
        ((_, Some _), w) \<Rightarrow> (False, w)
      | ((out, None), w) \<Rightarrow>
          (list_ex (\<lambda>crd. list_ex (\<lambda>line. stringsContains line crd) (GetNonEmptyLines out)) certManagerCRDs, w))"

definition LoadImageToKindClusterWithName ::
  "'w osAPI \<Rightarrow> (string \<Rightarrow> string) \<Rightarrow> string \<Rightarrow> 'w \<Rightarrow> goError option \<times> 'w" where
  "LoadImageToKindClusterWithName api quote name w =
     (let cluster = (case osLookupEnv api w ''KIND_CLUSTER'' of Some v \<Rightarrow> v | None \<Rightarrow> ''kind'');
          kindBinary = (case osLookupEnv api w ''KIND'' of Some v \<Rightarrow> v | None \<Rightarrow> ''kind'');
          ((_, err), w) = Run api quote (execCommand kindBinary [''load'', ''docker-image'', name, ''--name'', cluster]) w
      in (err, w))"

section \<open>Removing comment prefixes\<close>

text \<open>
  The loop of \<^verbatim>\<open>UncommentCode\<close> over the lines of the target: each is written without the prefix, and a line
  feed follows when there is another line.  Writing into a \<^verbatim>\<open>bytes.Buffer\<close> never fails.
\<close>

fun uncommentLoop :: "string \<Rightarrow> string list \<Rightarrow> string" where
  "uncommentLoop p [] = []"
| "uncommentLoop p [l] = trimPrefix l p"
| "uncommentLoop p (l # l' # ls) = trimPrefix l p @ newline # uncommentLoop p (l' # ls)"


section \<open>Lines and their text\<close>

lemma splitLines_not_Nil [simp]: "splitLines s \<noteq> []"
  by (cases s) (simp_all split: list.split)

lemma splitLines_join: "stringsJoin (splitLines s) [newline] = s"
proof (induction s)
  case (Cons c cs)
  then show ?case by (cases "splitLines cs" rule: remdups_adj.cases) auto
qed simp

lemma splitLines_no_newline: "l \<in> set (splitLines s) \<Longrightarrow> newline \<notin> set l"
  by (induction s arbitrary: l) (auto split: list.splits if_splits)

lemma splitLines_append:
  "newline \<notin> set l \<Longrightarrow> splitLines (l @ newline # s) = l # splitLines s"
  "newline \<notin> set l \<Longrightarrow> splitLines l = [l]"
  by (induction l) auto



lemma trimPrefix_append [simp]: "trimPrefix (p @ l) p = l"
  by (simp add: trimPrefix_def hasPrefix_def)

section \<open>Searching\<close>

lemma index_contains: "stringsIndex s t \<noteq> None \<longleftrightarrow> (\<exists>a b. s = a @ t @ b)"
proof (induction s)
  case Nil
  then show ?case by (subst stringsIndex.simps) (simp add: hasPrefix_iff)
next
  case (Cons c cs)
  have "(\<exists>a b. c # cs = a @ t @ b) \<longleftrightarrow> hasPrefix (c # cs) t \<or> (\<exists>a b. cs = a @ t @ b)"
    unfolding hasPrefix_iff by (metis append_Cons append_Nil list.exhaust list.inject)
  with Cons show ?case by (subst stringsIndex.simps) simp
qed

lemma contains_iff: "stringsContains s t \<longleftrightarrow> (\<exists>a b. s = a @ t @ b)"
  unfolding stringsContains_def by (rule index_contains)

text \<open>A text without line feed occurs in some line exactly when it occurs in the whole.\<close>

lemma contains_append_line:
  assumes "newline \<notin> set t" and "t \<noteq> []"
  shows "stringsContains (l @ newline # s) t \<longleftrightarrow> stringsContains l t \<or> stringsContains s t"
proof
  assume "stringsContains (l @ newline # s) t"
  then obtain a b where ab: "l @ newline # s = a @ t @ b" by (auto simp: contains_iff)
  show "stringsContains l t \<or> stringsContains s t"
  proof (cases "length a \<le> length l")
    case True
    have "take (length a) l = a" using arg_cong [OF ab, of "take (length a)"] True by simp
    then obtain u where u: "l = a @ u" by (metis append_take_drop_id)
    with ab have rest: "u @ newline # s = t @ b" by simp
    from rest consider v where "u = t @ v" | v where "t = u @ v" "newline # s = v @ b"
      unfolding append_eq_append_conv2 by blast
    then show ?thesis
    proof cases
      case 1
      with u show ?thesis by (auto simp: contains_iff)
    next
      case (2 v)
      then have "v = []" using assms(1) by (cases v) auto
      with 2 u show ?thesis by (auto simp: contains_iff intro: exI [of _ "[]"])
    qed
  next
    case False
    then obtain u where "a = l @ newline # u" "s = u @ t @ b"
      using ab by (auto simp: append_eq_append_conv2 append_eq_Cons_conv Cons_eq_append_conv)
    then show ?thesis by (auto simp: contains_iff)
  qed
next
  assume "stringsContains l t \<or> stringsContains s t"
  then show "stringsContains (l @ newline # s) t" unfolding contains_iff
    by (metis (no_types, lifting) append.assoc append_Cons)
qed

lemma contains_some_line:
  assumes "newline \<notin> set t" and "t \<noteq> []"
  shows "list_ex (\<lambda>l. stringsContains l t) (GetNonEmptyLines s) \<longleftrightarrow> stringsContains s t"
proof -
  have "list_ex (\<lambda>l. stringsContains l t) ls \<longleftrightarrow> stringsContains (stringsJoin ls [newline]) t" if "ls \<noteq> []" for ls
    using that by (induction ls "[newline]" rule: stringsJoin.induct) (simp_all add: contains_append_line [OF assms])
  from this [of "splitLines s"] have "list_ex (\<lambda>l. stringsContains l t) (splitLines s) \<longleftrightarrow> stringsContains s t"
    by (simp add: splitLines_join)
  moreover have "\<not> stringsContains [] t" using assms(2) by (simp add: contains_iff)
  ultimately show ?thesis by (auto simp: GetNonEmptyLines_def list_ex_iff)
qed

text \<open>
  cert-manager counts as installed when the listing of the resource definitions mentions one of its names.
\<close>

lemma crds_installed_iff:
  assumes "Run api quote (execCommand ''kubectl'' [''get'', ''crds'']) w = ((out, None), w')"
  shows "fst (IsCertManagerCRDsInstalled api quote w) \<longleftrightarrow> (\<exists>crd\<in>set certManagerCRDs. stringsContains out crd)"
proof -
  have "newline \<notin> set crd \<and> crd \<noteq> []" if "crd \<in> set certManagerCRDs" for crd
    using that by (auto simp: certManagerCRDs_def)
  then show ?thesis
    using assms contains_some_line [of _ out] by (auto simp: IsCertManagerCRDsInstalled_def list_ex_iff)
qed

section \<open>What uncommenting does\<close>

definition scannable :: "string \<Rightarrow> bool" where
  "scannable l \<longleftrightarrow> newline \<notin> set l \<and> (l \<noteq> [] \<longrightarrow> last l \<noteq> carriageReturn) \<and> length l < 65536"






text \<open>
  A line feed at the end of the target is lost, because the scanner does not report an empty last line: the
  line after the target is joined to its last line.
\<close>

lemma final_newline_lost:
  assumes "scannable l" and "l \<noteq> []"
  shows "uncommentLoop p (scannedLines (l @ [newline])) = uncommentLoop p (scannedLines l)"
  using assms splitLines_append(1) [of l "[]"]
  by (simp add: scannedLines_def rawLines_def scannable_def splitLines_append(2))

text \<open>A line that is too long ends the scan, and all that follows it is dropped.\<close>

lemma long_line_drops_rest:
  assumes "newline \<notin> set l" and "65536 \<le> length l" and "scannable k"
  shows "scannedLines (k @ newline # l @ newline # s) = [k]"
  using assms splitLines_append(1) [of k "l @ newline # s"] splitLines_append(1) [of l s]
  by (auto simp: scannedLines_def rawLines_def scannable_def dropCR_def Let_def)

end
