(* ===== verification/Spec2Isabelle.thy ===== *)
theory Spec2Isabelle
  imports Manager Quiescence CopyLaws Defaults Rollout TestUtils
begin

text \<open>
  A verification development for the Hermes agent operator, a Kubernetes operator written in Go.

  \<^bold>\<open>The program.\<close>  A user writes a \<^verbatim>\<open>HermesAgent\<close> custom resource.  The admission webhooks
  (\<^verbatim>\<open>src/internal/webhook/v1/hermesagent_webhook.go\<close>) fill in defaults and reject invalid specs.  The
  controller (\<^verbatim>\<open>src/internal/controller/hermesagent_controller.go\<close>) reads the agent and the ConfigMaps and
  Secrets it refers to, resolves a configuration plan with a hash over all inputs
  (\<^verbatim>\<open>src/internal/controller/hermesagent_resources.go\<close>), and brings ConfigMaps, a claim, a StatefulSet, a
  Service, a network policy and a disruption budget to the state the plan asks for.  It reports through
  the status of the custom resource and through events.

  \<^bold>\<open>The theories.\<close>
  \<^item> \<^verbatim>\<open>Prelude\<close>: lists, finite maps, decimal text, error results and their sequencing.
  \<^item> \<^verbatim>\<open>AgentTypes\<close>: the structs of \<^verbatim>\<open>src/api/v1/hermesagent_types.go\<close> as records.
  \<^item> \<^verbatim>\<open>GoPath\<close>, \<^verbatim>\<open>Base64\<close>, \<^verbatim>\<open>Sha256\<close>: the parts of the Go standard library that the program computes with,
    \<^verbatim>\<open>path.Clean\<close> and \<^verbatim>\<open>path.Join\<close>, base64 and SHA-256 on 32-bit words.
  \<^item> \<^verbatim>\<open>GoNetip\<close>: \<^verbatim>\<open>netip.ParsePrefix\<close> of the Go standard library, by which the webhook judges CIDR blocks.
  \<^item> \<^verbatim>\<open>GoErrors\<close>: error values with their texts and what \<^verbatim>\<open>errors.As\<close> and \<^verbatim>\<open>IsNotFound\<close> see of them.
  \<^item> \<^verbatim>\<open>KubeObjects\<close>: the Kubernetes objects that the operator reads and writes.
  \<^item> \<^verbatim>\<open>Snapshots\<close>: snapshots of referenced ConfigMaps and Secrets and the messages for missing ones.
  \<^item> \<^verbatim>\<open>ConfigPlan\<close>: file mount validation, resolution of the configuration files, the plan and its hash.
  \<^item> \<^verbatim>\<open>Workload\<close>, \<^verbatim>\<open>Exposure\<close>: the pod template and the StatefulSet; claim, Service, budget, network policy.
  \<^item> \<^verbatim>\<open>Admission\<close>: the defaulting and the validating webhook.
  \<^item> \<^verbatim>\<open>Cluster\<close>: the cluster state, the client as a parameter with its laws, and an in-memory server with
    injected failures on which every law is discharged.
  \<^item> \<^verbatim>\<open>References\<close>: reading referenced objects, and the map functions of the two watches.
  \<^item> \<^verbatim>\<open>Managed\<close>: one mutate function and one reconcile function per managed object.
  \<^item> \<^verbatim>\<open>Status\<close>: conditions, failure marks, the status view, events.
  \<^item> \<^verbatim>\<open>Reconciler\<close>: \<^verbatim>\<open>Reconcile\<close>, the status patch, frames and the safety lemmas over the client's laws.
  \<^item> \<^verbatim>\<open>Progress\<close>: what a successful reconcile has achieved, and when a reconcile succeeds.
  \<^item> \<^verbatim>\<open>Convergence\<close>: settled clusters are left alone, a successful reconcile settles the cluster, and nothing
    depends on the status that the controller itself has written.
  \<^item> \<^verbatim>\<open>Watches\<close>: \<^verbatim>\<open>SetupWithManager\<close> and the work queue as a state machine with its invariant.
  \<^item> \<^verbatim>\<open>Quiescence\<close>: the status as a function of the stored objects, and the controller at rest.
  \<^item> \<^verbatim>\<open>Manager\<close>: \<^verbatim>\<open>src/cmd/main.go\<close>, flags, server options and the order of the startup.
  \<^item> \<^verbatim>\<open>GoMemory\<close>: cells, pointers, slices and maps of Go, the deep value of a structure and what a deep copy
    promises, as a locale with rules for pointers, slices and structs.
  \<^item> \<^verbatim>\<open>DeepCopy\<close>: \<^verbatim>\<open>src/api/v1/zz_generated.deepcopy.go\<close>, every generated copy as a program on that memory;
    \<^verbatim>\<open>CopyLaws\<close>: all of them are deep, so a copied agent shares no memory with its original.
  \<^item> \<^verbatim>\<open>Sha256Answers\<close>: known digests, evaluated on the model of SHA-256.
  \<^item> \<^verbatim>\<open>Defaults\<close>: the defaults of the webhook against those of the manifest builders.
  \<^item> \<^verbatim>\<open>Rollout\<close>: from the inputs of an agent to its pod template through the configuration hash.
  \<^item> \<^verbatim>\<open>TestUtils\<close>: \<^verbatim>\<open>src/test/utils/utils.go\<close>, the helpers of the end-to-end tests.

  \<^bold>\<open>How the model corresponds to the code.\<close>  A Go struct is a record, a Go map a finite map, a pointer an
  option, an error a value of \<^verbatim>\<open>goError\<close>; a function returning \<^verbatim>\<open>(T, error)\<close> returns a sum.  Definitions have
  the names of the Go functions.  Code that talks to the API server maps a cluster (one store per kind,
  the recorded events, a hidden state of the server with its clock) to a result and a cluster.  The
  mutate closures passed to \<^verbatim>\<open>CreateOrUpdate\<close> are definitions of their own.  All functions are total: the
  loops of the program run over lists.

  \<^bold>\<open>What is assumed.\<close>  Third-party code is a parameter: the controller-runtime client, owner references,
  status conditions, quantity and YAML parsing, JSON marshalling, selector validation.  The locales
  \<^verbatim>\<open>kube_api\<close>, \<^verbatim>\<open>agent_api\<close>, \<^verbatim>\<open>owner_api\<close>, \<^verbatim>\<open>condition_api\<close> and, for progress, \<^verbatim>\<open>calm_client\<close> hold the laws
  relied on; \<^verbatim>\<open>controller_runtime\<close> holds the lower bounds on the requests that the runtime delivers
  (an owner of another kind or group wakes no agent); the manager answers calls without any law; \<^verbatim>\<open>kube_copies\<close> says that Kubernetes structs are copied deeply.
  Every locale is interpreted on a concrete server, runtime or struct.  Reads see the store as it is and
  nobody else writes while one reconcile runs; a call may fail at any point, and a failed write may or may
  not have happened.

  \<^bold>\<open>What is shown.\<close>  Admission: admitted specs always have a plan, both file mount validators agree,
  defaulting is idempotent and keeps admissible specs admissible.  Reading: the stateful resolution of
  references is a pure function of the stored objects, and the watches enqueue every agent whose inputs
  may change.  Safety of a reconcile: foreign Services, policies and budgets, all Secrets and all specs
  stay untouched, claims survive with their immutable fields, configuration errors and drift write
  nothing they should not.  Truth of the status: readiness is only reported when it holds.  Progress: on
  an answering server a reconcile of a valid, unobstructed agent succeeds, and success means that
  everything the plan asks for is deployed, with labels, owner and annotations.  Convergence: the next
  reconcile of unchanged inputs changes nothing, emits no event and wakes no watch, on a server whose
  admission settles the updates and once deletions have taken effect.  The controller as a whole: in every
  reachable state, every agent that is not queued has been reconciled on its current spec and inputs, and
  what it asks for is deployed in that state; a change of one of its objects queues it.  Excepted are agents
  whose wake-up was lost because the list of agents failed in the map function of a watch, which the state
  machine records.  Workload and network: pods are well-formed, mount every file, carry the hash and
  the selector; the egress policy opens exactly the intended ports; the pod template changes exactly with
  the recorded snapshots of the inputs, which are exact for mounted Secrets; an agent gets the same manifests with and without the defaulting webhook, its image apart.  The entry point: flags read back, HTTP/2
  and metrics are closed unless asked for, the manager starts after everything is registered, and the first
  failing call ends the program with exit code 1.
  Memory: a deep copy keeps the value and shares nothing, which justifies that the other theories treat
  the objects of the program as values.

  \<^bold>\<open>Bounds and fuel.\<close>  No definition needs fuel.  A reconcile is one atomic step of the state machine; the
  environment may do anything between two steps that keeps objects under their keys, gives a changed spec a
  new generation, and does not replace an agent by another of the same name in a single step.

  \<^bold>\<open>Not modelled.\<close>  Logging; scheme registration in \<^verbatim>\<open>init\<close>; the v1alpha1 types and their
  generated deep copies, a copy of v1 under another package name; charts and manifests, which are data.
\<close>

section \<open>A sample cluster\<close>

text \<open>
  An agent with a Service and ephemeral storage switched off, a Service of the same name that belongs
  to nobody, and a claim with another access mode than the agent asks for.
\<close>

definition demoAgent :: hermesAgent where
  "demoAgent = zeroAgent\<lparr>haMeta := zeroMeta\<lparr>omName := ''demo'', omNamespace := ''default'', omUID := ''uid-1''\<rparr>,
     haSpec := zeroSpec\<lparr>spService := \<lparr>svEnabled = True, svAnnotations = fmempty, svType = [], svPort = 0, svTargetPort = 0\<rparr>\<rparr>\<rparr>"

abbreviation demoKey :: objectKey where
  "demoKey \<equiv> (''default'', ''demo'')"

definition sharedClaim :: persistentVolumeClaim where
  "sharedClaim = (newClaim ''default'' ''demo-data'')\<lparr>pcSpec := \<lparr>pcAccessModes = [''ReadWriteMany''],
     pcRequests = fmempty, pcStorageClassName = None\<rparr>, pcPhase := ''Bound''\<rparr>"

definition demoCluster :: "memoryWorld cluster" where
  "demoCluster = emptyCluster\<lparr>csAgents := Map.empty(demoKey \<mapsto> demoAgent),
     csServices := Map.empty(demoKey \<mapsto> newService ''default'' ''demo''),
     csNetworkPolicies := Map.empty(demoKey \<mapsto> newNetworkPolicy ''default'' ''demo''),
     csBudgets := Map.empty(demoKey \<mapsto> newPodDisruptionBudget ''default'' ''demo''),
     csClaims := Map.empty((''default'', ''demo-data'') \<mapsto> sharedClaim)\<rparr>"

abbreviation demoReconcile :: "goError option \<times> memoryWorld cluster" where
  "demoReconcile \<equiv> Reconcile memoryLib (memoryClient [demoKey]) True demoKey demoCluster"

lemma demo_client: "kube_client memoryLib (memoryClient [demoKey]) (set [demoKey]) plainAdmission"
  by (rule memory_kube_client)

lemma demo_stores [simp]:
  "csAgents demoCluster demoKey = Some demoAgent" "csServices demoCluster demoKey = Some (newService ''default'' ''demo'')"
  "csNetworkPolicies demoCluster demoKey = Some (newNetworkPolicy ''default'' ''demo'')"
  "csBudgets demoCluster demoKey = Some (newPodDisruptionBudget ''default'' ''demo'')"
  "csClaims demoCluster (''default'', ''demo-data'') = Some sharedClaim"
  by (simp_all add: demoCluster_def)

lemma nobody_owns_new: "\<not> isControlledBy memoryLib (newMeta ns n) owner"
  by (simp add: memoryLib_def memoryIsControlledBy_def newMeta_def zeroMeta_def)

section \<open>Safety of a reconcile\<close>

text \<open>\<^bold>\<open>C16.\<close> A reconcile never touches a Service, network policy or disruption budget that it does not own: an
  object under another key than the request, or one whose controller is not the requested agent, is the
  same object afterwards, whatever fails on the way.\<close>

theorem foreign_objects_untouched:
  assumes "kube_client lib c known ad" and "csAgents s request = Some agent"
    and "s' = snd (Reconcile lib c hasRecorder request s)"
  shows "(csServices s k = Some srv \<and> (k \<noteq> request \<or> \<not> isControlledBy lib (srvMeta srv) (haMeta agent)) \<longrightarrow>
      csServices s' k = Some srv) \<and>
    (csNetworkPolicies s k = Some np \<and> (k \<noteq> request \<or> \<not> isControlledBy lib (nyMeta np) (haMeta agent)) \<longrightarrow>
      csNetworkPolicies s' k = Some np) \<and>
    (csBudgets s k = Some pdb \<and> (k \<noteq> request \<or> \<not> isControlledBy lib (pdMeta pdb) (haMeta agent)) \<longrightarrow>
      csBudgets s' k = Some pdb)"
  unfolding assms(3)
  by (intro conjI impI; elim conjE)
    (rule kube_client.reconcile_services [OF assms(1) surjective_pairing _ assms(2)]
       kube_client.reconcile_networkPolicies [OF assms(1) surjective_pairing _ assms(2)]
       kube_client.reconcile_budgets [OF assms(1) surjective_pairing _ assms(2)]; assumption)+

theorem foreign_objects_untouched_witness:
  "csServices (snd demoReconcile) demoKey = Some (newService ''default'' ''demo'') \<and>
   csNetworkPolicies (snd demoReconcile) demoKey = Some (newNetworkPolicy ''default'' ''demo'') \<and>
   csBudgets (snd demoReconcile) demoKey = Some (newPodDisruptionBudget ''default'' ''demo'')"
  using foreign_objects_untouched [OF demo_client demo_stores(1) refl, where k = demoKey and hasRecorder = True
      and srv = "newService ''default'' ''demo''" and np = "newNetworkPolicy ''default'' ''demo''"
      and pdb = "newPodDisruptionBudget ''default'' ''demo''"]
  by (simp add: newService_def newNetworkPolicy_def newPodDisruptionBudget_def nobody_owns_new)

text \<open>\<^bold>\<open>C11.\<close> A reconcile never deletes a claim and never changes its immutable fields: every claim is
  afterwards the same object, or what the server makes of an update whose spec differs from the
  stored one in nothing but the requested size.\<close>

theorem claims_survive:
  assumes "kube_client lib c known ad" and "csClaims s k = Some claim"
  shows "csClaims (snd (Reconcile lib c hasRecorder request s)) k = Some claim \<or>
    (\<exists>m q. csClaims (snd (Reconcile lib c hasRecorder request s)) k = Some (adClaim ad (Some claim) m) \<and>
       pcSpec m = (pcSpec claim)\<lparr>pcRequests := q\<rparr>)"
  by (rule kube_client.reconcile_claims [OF assms(1) surjective_pairing assms(2)])

theorem claims_survive_witness:
  "csClaims (snd demoReconcile) (''default'', ''demo-data'') = Some sharedClaim \<or>
    (\<exists>m q. csClaims (snd demoReconcile) (''default'', ''demo-data'') = Some (adClaim plainAdmission (Some sharedClaim) m) \<and>
       pcSpec m = (pcSpec sharedClaim)\<lparr>pcRequests := q\<rparr>)"
  by (rule claims_survive [OF demo_client demo_stores(5)])

text \<open>\<^bold>\<open>C12.\<close> A claim whose immutable fields have drifted from the spec blocks the workload: neither the
  claim nor the StatefulSet, the Service, the network policy or the disruption budget is changed.\<close>

theorem drift_changes_nothing:
  assumes "kube_client lib c known ad" and "csAgents s request = Some agent" and "persistenceEnabled agent"
    and "buildPersistentVolumeClaim (quantityOf lib) agent = Inr desired"
    and "csClaims s (agentNamespace agent, persistentVolumeClaimName (agentName agent)) = Some claim"
    and "persistentVolumeClaimImmutableFieldDrift agent (pcSpec claim) (pcSpec desired) \<noteq> []"
    and "s' = snd (Reconcile lib c hasRecorder request s)"
  shows "csClaims s' = csClaims s \<and> csStatefulSets s' = csStatefulSets s \<and> csServices s' = csServices s \<and>
    csNetworkPolicies s' = csNetworkPolicies s \<and> csBudgets s' = csBudgets s"
  unfolding assms(7) by (rule kube_client.drift_blocks_workload [OF assms(1-6) surjective_pairing])

theorem drift_changes_nothing_witness:
  "csStatefulSets (snd demoReconcile) = csStatefulSets demoCluster"
proof -
  obtain desired where desired: "buildPersistentVolumeClaim (quantityOf memoryLib) demoAgent = Inr desired"
    and modes: "pcAccessModes (pcSpec desired) = [''ReadWriteOnce'']"
    by (simp add: buildPersistentVolumeClaim_def memoryLib_def persistenceSize_def persistenceAccessModes_def
        demoAgent_def zero_defs Let_def)
  have "persistentVolumeClaimImmutableFieldDrift demoAgent (pcSpec sharedClaim) (pcSpec desired) \<noteq> []"
    using modes by (simp add: no_drift_iff sharedClaim_def newClaim_def)
  then show ?thesis
    using drift_changes_nothing [OF demo_client demo_stores(1) _ desired, of sharedClaim "snd demoReconcile" True]
    by (simp add: persistenceEnabled_def persistentVolumeClaimName_def demoAgent_def zero_defs)
qed

text \<open>\<^bold>\<open>C13.\<close> A configuration error writes nothing: when the plan cannot be built or a required reference
  is missing, every ConfigMap, Secret, claim, StatefulSet, Service, network policy and disruption budget
  is as before.\<close>

theorem config_error_writes_nothing:
  assumes "kube_client lib c known ad" and "csAgents s request = Some agent"
    and "buildConfigPlan (jsonMarshal lib) agent = Inl err \<or>
      missingReferenceMessages (referencedInputsOf (\<lambda>n. csConfigMaps s (agentNamespace agent, n))
        (\<lambda>n. csSecrets s (agentNamespace agent, n)) agent) \<noteq> []"
  shows "managed (snd (Reconcile lib c hasRecorder request s)) = managed s"
  by (rule kube_client.config_failure_writes_nothing [OF assms surjective_pairing])

text \<open>The sample agent with a file mount that has no source.\<close>

definition invalidAgent :: hermesAgent where
  "invalidAgent = demoAgent\<lparr>haSpec := (haSpec demoAgent)\<lparr>spFileMounts :=
     [\<lparr>fmMountPath = ''/etc/x'', fmConfigMapRef = None, fmSecretRef = None, fmItems = [], fmDefaultMode = None\<rparr>]\<rparr>\<rparr>"

definition invalidCluster :: "memoryWorld cluster" where
  "invalidCluster = demoCluster\<lparr>csAgents := Map.empty(demoKey \<mapsto> invalidAgent)\<rparr>"

lemma invalid_plan: "\<exists>err. buildConfigPlan m invalidAgent = Inl err"
proof -
  have "\<not> wfFileMounts (spFileMounts (haSpec invalidAgent))"
    by (simp add: invalidAgent_def wfFileMounts_def wfFileMount_def namedRef_def)
  then have "\<not> isOk (buildConfigPlan m invalidAgent)" by (simp add: buildConfigPlan_def buildConfigPlan_ok)
  then show ?thesis by (cases "buildConfigPlan m invalidAgent") (simp_all add: isOk_iff)
qed

theorem config_error_writes_nothing_witness:
  "managed (snd (Reconcile memoryLib (memoryClient [demoKey]) True demoKey invalidCluster)) = managed invalidCluster"
proof -
  obtain err where "buildConfigPlan (jsonMarshal memoryLib) invalidAgent = Inl err" using invalid_plan by blast
  then show ?thesis
    by (intro config_error_writes_nothing [OF demo_client, where agent = invalidAgent and err = err])
      (simp_all add: invalidCluster_def)
qed

text \<open>\<^bold>\<open>C15.\<close> A reconcile never writes a Secret and changes nothing of a custom resource but its status.\<close>

theorem secrets_and_specs_untouched:
  assumes "kube_client lib c known ad" and "csAgents s k = Some agent"
  shows "csSecrets (snd (Reconcile lib c hasRecorder request s)) = csSecrets s \<and>
    (\<exists>status. csAgents (snd (Reconcile lib c hasRecorder request s)) k = Some (agent\<lparr>haStatus := status\<rparr>))"
  using kube_client.reconcile_secrets [OF assms(1) surjective_pairing]
    statusOnly_lookup [OF kube_client.reconcile_statusOnly [OF assms(1) surjective_pairing] assms(2)] by blast

theorem secrets_and_specs_untouched_witness:
  "csSecrets (snd demoReconcile) = csSecrets demoCluster \<and>
    (\<exists>status. csAgents (snd demoReconcile) demoKey = Some (demoAgent\<lparr>haStatus := status\<rparr>))"
  by (rule secrets_and_specs_untouched [OF demo_client demo_stores(1)])

text \<open>\<^bold>\<open>C6.\<close> The status tells the truth: after a reconcile that returns no error, a stored status that
  reports readiness, in its phase or in its Ready condition, belongs to an agent whose claim is bound,
  unless its storage is ephemeral, and whose StatefulSet has all replicas ready in the latest generation.\<close>

theorem ready_status_is_true:
  assumes "kube_client lib c known ad" and "csAgents s request = Some agent"
    and "Reconcile lib c hasRecorder request s = (None, s')"
  shows "truthful lib agent s'"
  by (rule kube_client.reconcile_truthful [OF assms(1,3,2)])

text \<open>A cluster that holds nothing but the sample agent, or its invalid variant.\<close>

definition freshCluster :: "hermesAgent \<Rightarrow> memoryWorld cluster" where
  "freshCluster agent = emptyCluster\<lparr>csAgents := Map.empty(demoKey \<mapsto> agent)\<rparr>"

abbreviation freshReconcile :: "hermesAgent \<Rightarrow> goError option \<times> memoryWorld cluster" where
  "freshReconcile agent \<equiv> Reconcile memoryLib (memoryClient [demoKey]) True demoKey (freshCluster agent)"

lemma fresh_agent [simp]: "csAgents (freshCluster agent) demoKey = Some agent"
  by (simp add: freshCluster_def)

lemma demo_calm: "calm_client memoryLib (memoryClient [demoKey]) (set [demoKey]) plainAdmission (\<lambda>w. fst w = [])"
  by (rule memory_calm_client)

lemma fresh_healthy: "agentKey agent = demoKey \<Longrightarrow> healthy (\<lambda>w. fst w = []) (freshCluster agent)"
  by (simp add: healthy_def keyed_def freshCluster_def emptyCluster_def keyOf_def)

lemma demo_key [simp]: "agentNamespace demoAgent = ''default''" "agentName demoAgent = ''demo''"
  by (simp_all add: demoAgent_def zero_defs)

lemma fresh_unobstructed: "unobstructed memoryLib demoAgent (freshCluster demoAgent)"
  by (simp add: unobstructed_def freshCluster_def emptyCluster_def buildPersistentVolumeClaim_def memoryLib_def
      persistenceSize_def demoAgent_def zero_defs Let_def)

abbreviation noInputs :: referencedInputState where
  "noInputs \<equiv> referencedInputsOf (\<lambda>n. csConfigMaps (freshCluster demoAgent) (agentNamespace demoAgent, n))
     (\<lambda>n. csSecrets (freshCluster demoAgent) (agentNamespace demoAgent, n)) demoAgent"

lemma fresh_references: "missingReferenceMessages noInputs = []"
  by (simp add: referencedInputsOf_def configFileSnapshots_def snapshotOf_def named_def missingReferenceMessages_def
      demoAgent_def zero_defs Let_def)

lemma fresh_plan: "isOk (buildConfigPlanWithReferences (jsonMarshal memoryLib) demoAgent noInputs)"
  by (simp add: buildConfigPlan_ok wfFileMounts_def wfConfigSource_def sourceCount_cases demoAgent_def zero_defs)

lemma fresh_succeeds: "fst (freshReconcile demoAgent) = None"
proof -
  obtain plan where "buildConfigPlanWithReferences (jsonMarshal memoryLib) demoAgent noInputs = Inr plan"
    using fresh_plan by (auto simp: isOk_iff)
  from calm_client.reconcile_goes_well [OF demo_calm fresh_healthy fresh_agent fresh_unobstructed refl fresh_references this]
  show ?thesis by (simp add: passes_def)
qed

theorem ready_status_is_true_witness: "truthful memoryLib demoAgent (snd (freshReconcile demoAgent))"
  by (rule ready_status_is_true [OF demo_client fresh_agent prod_eqI]) (simp_all add: fresh_succeeds)

text \<open>\<^bold>\<open>C25.\<close> A reconcile touches no ConfigMap but the two that hold the generated configuration files of its agent.\<close>

theorem foreign_configMap_untouched:
  assumes "kube_client lib c known ad" and "csAgents s request = Some agent" and "csConfigMaps s k = Some cm"
    and "k \<notin> {(agentNamespace agent, generatedConfigMapName (agentName agent) ''config''),
      (agentNamespace agent, generatedConfigMapName (agentName agent) ''gateway-config'')}"
  shows "csConfigMaps (snd (Reconcile lib c hasRecorder request s)) k = Some cm"
  by (rule kube_client.reconcile_configMaps [OF assms(1) surjective_pairing assms(3,2,4)])

theorem foreign_configMap_untouched_witness:
  "csConfigMaps (snd (Reconcile memoryLib (memoryClient [demoKey]) True demoKey
     (demoCluster\<lparr>csConfigMaps := Map.empty((''default'', ''settings'') \<mapsto> newConfigMap ''default'' ''settings'')\<rparr>)))
       (''default'', ''settings'') = Some (newConfigMap ''default'' ''settings'')"
  by (rule foreign_configMap_untouched [OF demo_client, where agent = demoAgent])
    (simp_all add: generatedConfigMapName_def demoCluster_def demoAgent_def zero_defs)

section \<open>What a reconcile achieves\<close>

text \<open>\<^bold>\<open>C1.\<close> Success means deployed: when a reconcile of an agent with a valid configuration and all its
  references returns no error, everything the plan asks for is stored: a ConfigMap with the content of every
  generated configuration file, the claim with the requested size, access modes and storage class, the
  StatefulSet with the whole spec built from the plan, and the enabled Service (type, selector, ports,
  annotations), network policy and disruption budget.  Each object carries the agent's labels, is controlled
  by the agent, and names it as its controller.  Stored means as sent, or as the server has admitted it.\<close>

theorem success_means_deployed:
  assumes "kube_client lib c known ad" and "csAgents s request = Some agent"
    and "ri = referencedInputsOf (\<lambda>n. csConfigMaps s (agentNamespace agent, n)) (\<lambda>n. csSecrets s (agentNamespace agent, n)) agent"
    and "missingReferenceMessages ri = []" and "buildConfigPlanWithReferences (jsonMarshal lib) agent ri = Inr plan"
    and "Reconcile lib c hasRecorder request s = (None, s')"
  shows "deployed lib ad agent ri plan s'"
  by (rule kube_client.reconcile_deploys [OF assms(1,6,2-5)])

theorem success_means_deployed_witness:
  "\<exists>plan. deployed memoryLib plainAdmission demoAgent noInputs plan (snd (freshReconcile demoAgent))"
proof -
  obtain plan where plan: "buildConfigPlanWithReferences (jsonMarshal memoryLib) demoAgent noInputs = Inr plan"
    using fresh_plan by (auto simp: isOk_iff)
  have "deployed memoryLib plainAdmission demoAgent noInputs plan (snd (freshReconcile demoAgent))"
    by (rule success_means_deployed [OF demo_client fresh_agent refl fresh_references plan prod_eqI])
      (simp_all add: fresh_succeeds)
  then show ?thesis by (rule exI [where x = plan])
qed

text \<open>\<^bold>\<open>C2.\<close> Progress: when the API server answers, the configuration is valid, all references exist and no
  object of another owner, no drifted claim and no unparsable size is in the way, the reconcile
  returns no error.\<close>

theorem calm_reconcile_succeeds:
  assumes "calm_client lib c known ad calm" and "healthy calm s" and "csAgents s request = Some agent"
    and "unobstructed lib agent s"
    and "ri = referencedInputsOf (\<lambda>n. csConfigMaps s (agentNamespace agent, n)) (\<lambda>n. csSecrets s (agentNamespace agent, n)) agent"
    and "missingReferenceMessages ri = []" and "buildConfigPlanWithReferences (jsonMarshal lib) agent ri = Inr plan"
  shows "fst (Reconcile lib c hasRecorder request s) = None"
  using calm_client.reconcile_goes_well [OF assms] by (simp add: passes_def)

theorem calm_reconcile_succeeds_witness: "fst (freshReconcile demoAgent) = None"
proof -
  obtain plan where plan: "buildConfigPlanWithReferences (jsonMarshal memoryLib) demoAgent noInputs = Inr plan"
    using fresh_plan by (auto simp: isOk_iff)
  show ?thesis
    by (rule calm_reconcile_succeeds [OF demo_calm fresh_healthy fresh_agent fresh_unobstructed refl fresh_references plan]) simp
qed

text \<open>\<^bold>\<open>C14.\<close> An invalid configuration is not retried: on a calm server the reconcile records it in the
  status, with the phase \<^verbatim>\<open>ConfigError\<close> and a false Ready condition, and returns no error.\<close>

theorem invalid_config_not_retried:
  assumes "calm_client lib c known ad calm" and "healthy calm s" and "csAgents s request = Some agent"
    and "buildConfigPlan (jsonMarshal lib) agent = Inl err"
  shows "fst (Reconcile lib c hasRecorder request s) = None \<and>
    (\<exists>status. csAgents (snd (Reconcile lib c hasRecorder request s)) request = Some (agent\<lparr>haStatus := status\<rparr>) \<and>
       saPhase status = phaseConfigError \<and> \<not> reportsReady lib status)"
  using calm_client.invalid_goes_well [OF assms] calm_client.invalid_recorded [OF assms] by (simp add: passes_def)

theorem invalid_config_not_retried_witness:
  "fst (freshReconcile invalidAgent) = None \<and>
    (\<exists>status. csAgents (snd (freshReconcile invalidAgent)) demoKey = Some (invalidAgent\<lparr>haStatus := status\<rparr>) \<and>
       saPhase status = phaseConfigError \<and> \<not> reportsReady memoryLib status)"
proof -
  obtain err where err: "buildConfigPlan (jsonMarshal memoryLib) invalidAgent = Inl err" using invalid_plan by blast
  show ?thesis
    by (rule invalid_config_not_retried [OF demo_calm fresh_healthy fresh_agent err]) (simp add: invalidAgent_def)
qed

section \<open>Convergence\<close>

text \<open>\<^bold>\<open>C24.\<close> A settled cluster is left alone: when every object that the plan asks for is a fixed point of
  its update and nothing is left to delete, a reconcile changes no ConfigMap, Secret, claim, StatefulSet,
  Service, network policy or disruption budget, whatever calls fail on the way.\<close>

theorem settled_cluster_untouched:
  assumes "kube_client lib c known ad" and "csAgents s request = Some agent"
    and "ri = referencedInputsOf (\<lambda>n. csConfigMaps s (agentNamespace agent, n)) (\<lambda>n. csSecrets s (agentNamespace agent, n)) agent"
    and "buildConfigPlanWithReferences (jsonMarshal lib) agent ri = Inr plan"
    and "settled lib ad agent ri plan s" and "tidy lib agent plan s"
  shows "managed (snd (Reconcile lib c hasRecorder request s)) = managed s"
  by (rule kube_client.settled_reconcile [OF assms surjective_pairing])

lemma fresh_run: "freshReconcile demoAgent = (None, snd (freshReconcile demoAgent))"
  by (simp add: prod_eqI fresh_succeeds)

lemma no_inputs: "referencedInputsOf cms ses demoAgent = noInputs"
  by (simp add: referencedInputsOf_def configFileSnapshots_def snapshotOf_def named_def demoAgent_def zero_defs)

lemma fresh_tidy:
  assumes "buildConfigPlanWithReferences (jsonMarshal memoryLib) demoAgent noInputs = Inr plan"
  shows "tidy memoryLib demoAgent plan (snd (freshReconcile demoAgent))"
  by (rule kube_client.reconcile_tidy [OF demo_client fresh_run fresh_agent refl fresh_references assms])
    (simp add: tidy_def freshCluster_def emptyCluster_def)

text \<open>The cluster after the first reconcile of the sample agent, on a server whose third call will fail.\<close>

definition flakyCluster :: "memoryWorld cluster" where
  "flakyCluster = (snd (freshReconcile demoAgent))\<lparr>csHidden := ([False, False, True], 7)\<rparr>"

theorem settled_cluster_untouched_witness:
  "managed (snd (Reconcile memoryLib (memoryClient [demoKey]) True demoKey flakyCluster)) = managed flakyCluster"
proof -
  obtain plan where plan: "buildConfigPlanWithReferences (jsonMarshal memoryLib) demoAgent noInputs = Inr plan"
    using fresh_plan by (auto simp: isOk_iff)
  obtain status where agent: "csAgents flakyCluster demoKey = Some (demoAgent\<lparr>haStatus := status\<rparr>)"
    using statusOnly_lookup [OF kube_client.reconcile_statusOnly [OF demo_client fresh_run] fresh_agent]
    by (auto simp: flakyCluster_def)
  have same: "managed flakyCluster = managed (snd (freshReconcile demoAgent))" by (simp add: flakyCluster_def managed_def)
  have "settled memoryLib plainAdmission demoAgent noInputs plan (snd (freshReconcile demoAgent))"
    by (rule kube_client.reconcile_settles [OF demo_client fresh_run fresh_agent refl fresh_references plan plain_settles])
  then have settled: "settled memoryLib plainAdmission (demoAgent\<lparr>haStatus := status\<rparr>) noInputs plan flakyCluster"
    and tidy: "tidy memoryLib (demoAgent\<lparr>haStatus := status\<rparr>) plan flakyCluster"
    using fresh_tidy [OF plan] by (simp_all only: settled_managed [OF same] status_no_input_settled)
  show ?thesis
    by (rule settled_cluster_untouched [OF demo_client agent _ _ settled tidy])
      (simp_all only: status_no_input_plan no_inputs [symmetric] plan)
qed



section \<open>The controller at rest\<close>

text \<open>\<^bold>\<open>C7.\<close> The status is a function of the cluster: after a reconcile of a valid agent that returned no error,
  the stored status has the current generation, the configuration hash of the plan, and phase, conditions,
  ready replicas and binding exactly as the stored claim and StatefulSet determine them.\<close>

theorem status_reports_cluster:
  assumes "kube_client lib c known ad" and "csAgents s request = Some agent"
    and "ri = referencedInputsOf (\<lambda>n. csConfigMaps s (agentNamespace agent, n)) (\<lambda>n. csSecrets s (agentNamespace agent, n)) agent"
    and "missingReferenceMessages ri = []" and "buildConfigPlanWithReferences (jsonMarshal lib) agent ri = Inr plan"
    and "Reconcile lib c hasRecorder request s = (None, s')"
  shows "\<exists>status. csAgents s' request = Some (agent\<lparr>haStatus := status\<rparr>) \<and>
    reports lib agent (cpHash plan) (storedView agent s') status"
  using kube_client.reconcile_reports [OF assms(1,6,2-5)] by blast

theorem status_reports_cluster_witness:
  "\<exists>(plan :: configPlan) status. csAgents (snd (freshReconcile demoAgent)) demoKey = Some (demoAgent\<lparr>haStatus := status\<rparr>) \<and>
    reports memoryLib demoAgent (cpHash plan) (storedView demoAgent (snd (freshReconcile demoAgent))) status"
proof -
  obtain plan where plan: "buildConfigPlanWithReferences (jsonMarshal memoryLib) demoAgent noInputs = Inr plan"
    using fresh_plan by (auto simp: isOk_iff)
  show ?thesis
    by (rule exI [where x = plan], rule status_reports_cluster [OF demo_client fresh_agent refl fresh_references plan fresh_run])
qed


lemma demo_plan_files:
  assumes "buildConfigPlanWithReferences (jsonMarshal memoryLib) demoAgent noInputs = Inr plan"
  shows "cpFiles plan = []"
proof -
  have "resolveConfigFile demoAgent cid fileName (spConfig (haSpec demoAgent)) = Inr None"
    and "resolveConfigFile demoAgent cid fileName (spGatewayConfig (haSpec demoAgent)) = Inr None" for cid fileName
    by (simp_all add: resolveConfigFile_def sourceCount_cases demoAgent_def zero_defs Let_def)
  with assms show ?thesis by (auto simp: buildConfigPlanWithReferences_def Let_def split: option.splits)
qed

abbreviation onceCluster :: "memoryWorld cluster" where
  "onceCluster \<equiv> snd (freshReconcile demoAgent)"

abbreviation againReconcile :: "goError option \<times> memoryWorld cluster" where
  "againReconcile \<equiv> Reconcile memoryLib (memoryClient [demoKey]) True demoKey onceCluster"

lemma fresh_again: "passes (\<lambda>w. fst w = []) againReconcile"
proof -
  let ?s = "snd (freshReconcile demoAgent)"
  obtain plan where plan: "buildConfigPlanWithReferences (jsonMarshal memoryLib) demoAgent noInputs = Inr plan"
    using fresh_plan by (auto simp: isOk_iff)
  have healthy: "healthy (\<lambda>w. fst w = []) ?s"
    using calm_client.reconcile_goes_well [OF demo_calm fresh_healthy fresh_agent fresh_unobstructed refl fresh_references plan, of True]
    by (simp add: passes_def)
  obtain status where agent: "csAgents ?s demoKey = Some (demoAgent\<lparr>haStatus := status\<rparr>)"
    using statusOnly_lookup [OF kube_client.reconcile_statusOnly [OF demo_client fresh_run] fresh_agent] by blast
  obtain s1 where s1: "unchanged (freshCluster demoAgent) s1"
      "reconcilePlan memoryLib (memoryClient [demoKey]) True demoAgent noInputs plan s1 = (None, ?s)"
    by (rule kube_client.success_runs_plan [OF demo_client fresh_run fresh_agent refl fresh_references plan])
  obtain e s2 where gen: "reconcileGeneratedConfigMaps memoryLib (memoryClient [demoKey]) demoAgent plan s1 = (e, s2)"
      and same: "csConfigMaps ?s = csConfigMaps s2"
    by (rule kube_client.plan_configMaps [OF demo_client s1(2)])
  have "csConfigMaps s1 = Map.empty" using unchanged_frame [OF s1(1)] by (simp add: freshCluster_def emptyCluster_def)
  then have "csConfigMaps ?s k = None" for k
    using kube_client.generated_touches [OF demo_client gen, of k] demo_plan_files [OF plan] unfolding same by simp
  then have "unobstructed memoryLib demoAgent ?s"
    using kube_client.reconcile_settles [OF demo_client fresh_run fresh_agent refl fresh_references plan plain_settles]
    by (intro memory_unobstructed) simp_all
  then have free: "unobstructed memoryLib (demoAgent\<lparr>haStatus := status\<rparr>) ?s" by (simp only: status_no_input_unobstructed)
  show ?thesis
  proof (rule calm_client.reconcile_goes_well [OF demo_calm healthy agent free _ fresh_references])
    show "noInputs = referencedInputsOf (\<lambda>n. csConfigMaps ?s (agentNamespace (demoAgent\<lparr>haStatus := status\<rparr>), n))
        (\<lambda>n. csSecrets ?s (agentNamespace (demoAgent\<lparr>haStatus := status\<rparr>), n)) (demoAgent\<lparr>haStatus := status\<rparr>)"
      unfolding status_no_input_plan by (rule no_inputs [symmetric])
    show "buildConfigPlanWithReferences (jsonMarshal memoryLib) (demoAgent\<lparr>haStatus := status\<rparr>) noInputs = Inr plan"
      unfolding status_no_input_plan by (rule plan)
  qed
qed

lemma again_run: "againReconcile = (None, snd againReconcile)"
  using fresh_again by (simp add: passes_def prod_eqI)


section \<open>The controller as a state machine\<close>

text \<open>\<^bold>\<open>C5.\<close> No update is lost: in every reachable state of the controller, every agent that is neither queued nor
  has an unheard change has had a run of \<^verbatim>\<open>Reconcile\<close> without an error on exactly the spec it has now and on the
  inputs that the stored ConfigMaps and Secrets give now; and if its configuration is valid and no reference
  is missing, what it asks for is deployed in the cluster as it stands in this state, whatever anybody has
  done since that run.  An unheard change is one of a referenced ConfigMap or Secret for which the list of
  the agents failed: \<^verbatim>\<open>findReferencingAgents\<close> then returns no request, and the agent is excepted here until its
  next run without an error.\<close>

theorem no_update_lost:
  assumes "kube_client lib c known ad" and "controller_runtime deliver" and "reachable lib c known deliver hasRecorder ct"
    and "csAgents (ctCluster ct) k = Some agent" and "k \<notin> ctQueue ct" and "k \<notin> ctUnheard ct"
    and "ri = inputsOf (ctCluster ct) agent"
  shows "(\<exists>s0 s1 old. ctRuns ct k = Some (s0, s1) \<and> Reconcile lib c hasRecorder k s0 = (None, s1) \<and>
      csAgents s0 k = Some old \<and> sameAgent old agent \<and> inputsOf s0 old = ri) \<and>
    (\<forall>plan. missingReferenceMessages ri = [] \<longrightarrow> buildConfigPlanWithReferences (jsonMarshal lib) agent ri = Inr plan \<longrightarrow>
      deployed lib ad agent ri plan (ctCluster ct))"
  using upToDate_current [OF kube_client.reachable_upToDate [OF assms(1-3), THEN conjunct2] assms(4-6)]
  unfolding assms(7) ranOn_def inPlace_def .

text \<open>
  The controller starts on the cluster that the first reconcile of the sample agent has left, runs once, and
  is at rest; then somebody deletes the StatefulSet.
\<close>

definition startState :: "memoryWorld controllerState" where
  "startState = \<lparr>ctCluster = onceCluster, ctQueue = {demoKey}, ctUnheard = {}, ctRuns = Map.empty\<rparr>"

definition restState :: "memoryWorld controllerState" where
  "restState = \<lparr>ctCluster = snd againReconcile,
     ctQueue = {demoKey} - {demoKey} \<union> leastDeliver (SetupWithManager (memoryClient [demoKey])) onceCluster (snd againReconcile),
     ctUnheard = {} - {demoKey} \<union> unheard (memoryClient [demoKey]) onceCluster (snd againReconcile),
     ctRuns = Map.empty(demoKey \<mapsto> (onceCluster, snd againReconcile))\<rparr>"

definition deletedState :: "memoryWorld controllerState" where
  "deletedState = (let s' = (ctCluster restState)\<lparr>csStatefulSets := Map.empty\<rparr>
     in restState\<lparr>ctCluster := s',
          ctQueue := ctQueue restState \<union> leastDeliver (SetupWithManager (memoryClient [demoKey])) (ctCluster restState) s',
          ctUnheard := ctUnheard restState \<union> unheard (memoryClient [demoKey]) (ctCluster restState) s'\<rparr>)"

lemma memory_valid:
  assumes "passes (\<lambda>w. fst w = []) rs" and "statusOnly (freshCluster agent) (snd rs)"
  shows "validCluster {demoKey} (snd rs)"
proof -
  have "dom (csAgents (snd rs)) \<subseteq> {demoKey}"
    using assms(2) by (auto elim: statusOnly_agents simp: freshCluster_def emptyCluster_def split: if_splits)
  with assms(1) show ?thesis by (simp add: passes_def validCluster_def healthy_def)
qed

lemma once_statusOnly: "statusOnly (freshCluster demoAgent) onceCluster"
  by (rule kube_client.reconcile_statusOnly [OF demo_client fresh_run])

lemma once_valid: "validCluster {demoKey} onceCluster"
  by (rule memory_valid [OF _ once_statusOnly])
    (use calm_client.reconcile_goes_well [OF demo_calm fresh_healthy fresh_agent fresh_unobstructed refl fresh_references]
      fresh_plan in \<open>auto simp: isOk_iff\<close>)

lemma again_silent: "csAgents (snd againReconcile) = csAgents onceCluster \<and> managed (snd againReconcile) = managed onceCluster"
proof -
  obtain plan where plan: "buildConfigPlanWithReferences (jsonMarshal memoryLib) demoAgent noInputs = Inr plan"
    using fresh_plan by (auto simp: isOk_iff)
  show ?thesis
    using kube_client.second_silent [OF demo_client fresh_run fresh_agent refl fresh_references plan plain_settles
        fresh_tidy [OF plan] no_inputs again_run] by simp
qed

lemma rest_reachable: "reachable memoryLib (memoryClient [demoKey]) (set [demoKey]) leastDeliver True restState"
proof -
  have "dom (csAgents onceCluster) \<subseteq> {demoKey}" using once_valid by (simp add: validCluster_def)
  then have "reachable memoryLib (memoryClient [demoKey]) (set [demoKey]) leastDeliver True startState"
    using once_valid by (intro reachable.start) (simp add: initialController_def startState_def)
  moreover have "statusOnly (freshCluster demoAgent) (snd againReconcile)"
    using once_statusOnly again_silent by (simp add: statusOnly_def)
  from memory_valid [OF fresh_again this]
  have "controllerStep memoryLib (memoryClient [demoKey]) (set [demoKey]) leastDeliver True startState restState"
    using controllerStep.succeeded [of demoKey startState memoryLib "memoryClient [demoKey]" True _ "set [demoKey]" leastDeliver]
      again_run by (simp add: startState_def restState_def)
  ultimately show ?thesis by (rule reachable.step)
qed

lemma rest_state:
  obtains status plan where "csAgents (ctCluster restState) demoKey = Some (demoAgent\<lparr>haStatus := status\<rparr>)"
    "demoKey \<notin> ctQueue restState" "demoKey \<notin> ctUnheard restState"
    "inputsOf (ctCluster restState) (demoAgent\<lparr>haStatus := status\<rparr>) = noInputs"
    "buildConfigPlanWithReferences (jsonMarshal memoryLib) (demoAgent\<lparr>haStatus := status\<rparr>) noInputs = Inr plan"
proof -
  obtain plan where plan: "buildConfigPlanWithReferences (jsonMarshal memoryLib) demoAgent noInputs = Inr plan"
    using fresh_plan by (auto simp: isOk_iff)
  obtain status where agent: "csAgents onceCluster demoKey = Some (demoAgent\<lparr>haStatus := status\<rparr>)"
    using statusOnly_lookup [OF once_statusOnly fresh_agent] by blast
  note stores = managed_stores [OF again_silent [THEN conjunct2]]
  have quiet: "leastDeliver (SetupWithManager (memoryClient [demoKey])) onceCluster (snd againReconcile) = {}"
    by (rule status_change_silent) (simp_all add: again_silent statusOnly_same)
  have "inputsOf (ctCluster restState) (demoAgent\<lparr>haStatus := status\<rparr>) = noInputs"
    unfolding inputsOf_def status_no_input_plan by (rule no_inputs)
  moreover have "buildConfigPlanWithReferences (jsonMarshal memoryLib) (demoAgent\<lparr>haStatus := status\<rparr>) noInputs = Inr plan"
    unfolding status_no_input_plan by (rule plan)
  moreover have "csAgents (ctCluster restState) demoKey = Some (demoAgent\<lparr>haStatus := status\<rparr>)" "demoKey \<notin> ctQueue restState"
    by (simp_all add: restState_def agent again_silent quiet)
  moreover have "demoKey \<notin> ctUnheard restState" by (simp add: restState_def unheard_def stores)
  ultimately show thesis by (intro that [of status plan])
qed

theorem no_update_lost_witness:
  "\<exists>agent plan. csAgents (ctCluster restState) demoKey = Some agent \<and> ctRuns restState demoKey \<noteq> None \<and>
     deployed memoryLib plainAdmission agent noInputs plan (ctCluster restState)"
proof -
  obtain status plan where rest: "csAgents (ctCluster restState) demoKey = Some (demoAgent\<lparr>haStatus := status\<rparr>)"
    "demoKey \<notin> ctQueue restState" "demoKey \<notin> ctUnheard restState"
    "inputsOf (ctCluster restState) (demoAgent\<lparr>haStatus := status\<rparr>) = noInputs"
    "buildConfigPlanWithReferences (jsonMarshal memoryLib) (demoAgent\<lparr>haStatus := status\<rparr>) noInputs = Inr plan"
    by (rule rest_state)
  from no_update_lost [OF demo_client leastRuntime.controller_runtime_axioms rest_reachable rest(1-3) rest(4) [symmetric]]
  show ?thesis using rest(1,5) fresh_references by blast
qed

text \<open>\<^bold>\<open>C37.\<close> Drift is noticed: take a reachable state with an agent that is neither queued nor has an unheard change,
  whose configuration is valid and whose references are found.  Whatever step changes or deletes one of its
  generated ConfigMaps, its claim, its StatefulSet, or its enabled Service, network policy or disruption
  budget, the agent is queued after the step.  For this the mutate functions must have put the right owner on
  every object, and every kind must be watched.\<close>

theorem drift_queues_agent:
  assumes "kube_client lib c known ad" and "controller_runtime deliver" and "reachable lib c known deliver hasRecorder ct"
    and "controllerStep lib c known deliver hasRecorder ct ct'"
    and "csAgents (ctCluster ct) k = Some agent" and "k \<notin> ctQueue ct" and "k \<notin> ctUnheard ct"
    and "ri = inputsOf (ctCluster ct) agent" and "missingReferenceMessages ri = []"
    and "buildConfigPlanWithReferences (jsonMarshal lib) agent ri = Inr plan"
    and "agentObjects agent plan (ctCluster ct') \<noteq> agentObjects agent plan (ctCluster ct)"
  shows "k \<in> ctQueue ct'"
  by (rule kube_client.step_queues_agent [OF assms(1-7) assms(9,10) [unfolded assms(8)] assms(11)])

theorem drift_queues_agent_witness: "demoKey \<in> ctQueue deletedState"
proof -
  obtain status plan where rest: "csAgents (ctCluster restState) demoKey = Some (demoAgent\<lparr>haStatus := status\<rparr>)"
    "demoKey \<notin> ctQueue restState" "demoKey \<notin> ctUnheard restState"
    "inputsOf (ctCluster restState) (demoAgent\<lparr>haStatus := status\<rparr>) = noInputs"
    "buildConfigPlanWithReferences (jsonMarshal memoryLib) (demoAgent\<lparr>haStatus := status\<rparr>) noInputs = Inr plan"
    by (rule rest_state)
  let ?agent = "demoAgent\<lparr>haStatus := status\<rparr>"
  note inv = kube_client.reachable_upToDate [OF demo_client leastRuntime.controller_runtime_axioms rest_reachable]
  have key: "agentKey ?agent = demoKey" by (rule valid_key [OF conjunct1 [OF inv] rest(1)])
  have "deployed memoryLib plainAdmission ?agent noInputs plan (ctCluster restState)"
    using upToDate_current [OF conjunct2 [OF inv] rest(1-3)] rest(4,5) fresh_references unfolding inPlace_def by simp
  then obtain sts where "csStatefulSets (ctCluster restState) demoKey = Some sts"
    unfolding deployed_def key holds_def by blast
  then have "agentObjects ?agent plan (ctCluster deletedState) \<noteq> agentObjects ?agent plan (ctCluster restState)"
    using key by (simp add: agentObjects_def deletedState_def Let_def)
  moreover have "controllerStep memoryLib (memoryClient [demoKey]) (set [demoKey]) leastDeliver True restState deletedState"
    unfolding deletedState_def Let_def
    by (rule controllerStep.environment) (use inv in \<open>simp_all add: validCluster_def keyed_def generationsKept_def\<close>)
  ultimately show ?thesis
    using drift_queues_agent [OF demo_client leastRuntime.controller_runtime_axioms rest_reachable _ rest(1-3)
        rest(4) [symmetric] fresh_references rest(5)] by blast
qed

end
